(* ===== verification/QEM_Prelude.thy ===== *)
theory QEM_Prelude
  imports Main "HOL-Library.Word"
begin

text \<open>
  Shared vocabulary of the development: machine-integer types, little-endian byte
  encodings, C memory blocks, the result type of a C function that may terminate the
  process, block or touch memory out of bounds, and the conversions of \<open>printf\<close> that
  the sources use.
\<close>

unbundle bit_operations_syntax

section \<open>Machine integers and bytes\<close>

type_synonym u8 = "8 word"
type_synonym u16 = "16 word"
type_synonym u32 = "32 word"
type_synonym u64 = "64 word"
type_synonym bytes = "u8 list"

named_theorems bytes_simps \<open>lengths and splittings of byte encodings\<close>
named_theorems run_simps \<open>symbolic execution of the result type\<close>

text \<open>An unsigned 32-bit expression kept as a natural number wraps at \<open>2 ^ 32\<close>.\<close>

definition c_u32 :: "nat \<Rightarrow> nat" where
  "c_u32 n = n mod 2 ^ 32"

lemma c_u32_small [simp]: "n < 2 ^ 32 \<Longrightarrow> c_u32 n = n"
  by (simp add: c_u32_def)

lemma c_u32_bound: "c_u32 n < 2 ^ 32"
  by (simp add: c_u32_def)

text \<open>The bytes of a word, least significant first, as \<open>memcpy\<close> sees them on the host.\<close>

primrec le_bytes :: "nat \<Rightarrow> 'a::len word \<Rightarrow> bytes" where
  "le_bytes 0 w = []"
| "le_bytes (Suc n) w = ucast w # le_bytes n (drop_bit 8 w)"

primrec le_word :: "bytes \<Rightarrow> 'a::len word" where
  "le_word [] = 0"
| "le_word (b # bs) = ucast b OR push_bit 8 (le_word bs)"

lemma length_le_bytes [simp]: "length (le_bytes n w) = n"
  by (induction n arbitrary: w) auto

lemma bit_le_word_bytes:
  "bit (le_word (le_bytes n (w :: 'a::len word)) :: 'a word) i \<longleftrightarrow> i < 8 * n \<and> bit w i"
proof (induction n arbitrary: w i)
  case 0
  then show ?case by simp
next
  case (Suc n)
  show ?case
  proof (cases "i < 8")
    case True
    then show ?thesis
      by (auto simp: bit_or_iff bit_ucast_iff bit_push_bit_iff dest: bit_imp_le_length)
  next
    case False
    then have "bit (ucast (ucast w :: u8) :: 'a word) i = False"
      by (auto simp: bit_ucast_iff)
    moreover have "8 + (i - 8) = i" using False by simp
    ultimately show ?thesis using False
      by (auto simp: bit_or_iff bit_push_bit_iff bit_drop_bit_eq Suc.IH dest: bit_imp_le_length)
  qed
qed

lemma le_word_bytes [simp]:
  fixes w :: "'a::len word"
  assumes "LENGTH('a) \<le> 8 * n"
  shows "le_word (le_bytes n w) = w"
proof (rule bit_word_eqI)
  fix i
  assume "i < LENGTH('a)"
  with assms show "bit (le_word (le_bytes n w) :: 'a word) i = bit w i"
    by (simp add: bit_le_word_bytes)
qed

lemma le_bytes_0 [simp]: "le_bytes n 0 = replicate n 0"
  by (induction n) auto


section \<open>Blocks of C memory\<close>

text \<open>
  \<open>mem_write m off bs\<close> is \<open>memcpy (m + off, bs, length bs)\<close> into the block \<open>m\<close>;
  \<open>mem_read m off n\<close> reads \<open>n\<close> bytes. An access that leaves the block is \<open>None\<close>.
\<close>

definition mem_write :: "'a list \<Rightarrow> nat \<Rightarrow> 'a list \<Rightarrow> 'a list option" where
  "mem_write m off bs =
     (if off + length bs \<le> length m
      then Some (take off m @ bs @ drop (off + length bs) m) else None)"

definition mem_read :: "'a list \<Rightarrow> nat \<Rightarrow> nat \<Rightarrow> 'a list option" where
  "mem_read m off n = (if off + n \<le> length m then Some (take n (drop off m)) else None)"

lemma mem_write_length: "mem_write m off bs = Some m' \<Longrightarrow> length m' = length m"
  by (auto simp: mem_write_def split: if_splits)

lemma mem_write_ok: "off + length bs \<le> length m \<Longrightarrow> \<exists>m'. mem_write m off bs = Some m'"
  by (simp add: mem_write_def)

lemma mem_write_nth:
  assumes "mem_write m off bs = Some m'" and "i < length m"
  shows "m' ! i = (if off \<le> i \<and> i < off + length bs then bs ! (i - off) else m ! i)"
  using assms by (auto simp: mem_write_def nth_append split: if_splits)

lemma mem_read_write_same:
  assumes "mem_write m off bs = Some m'"
  shows "mem_read m' off (length bs) = Some bs"
  using assms by (auto simp: mem_write_def mem_read_def split: if_splits)

text \<open>A write leaves every range it does not meet as it was.\<close>

lemma mem_read_write_other:
  assumes w: "mem_write m off bs = Some m'" and dis: "o' + n \<le> off \<or> off + length bs \<le> o'"
  shows "mem_read m' o' n = mem_read m o' n"
proof (cases "o' + n \<le> length m")
  case True
  have "take n (drop o' m') = take n (drop o' m)"
    using True dis w mem_write_length [OF w]
    by (intro nth_equalityI) (auto simp: mem_write_nth [OF w])
  then show ?thesis using mem_write_length [OF w] by (simp add: mem_read_def)
next
  case False
  then show ?thesis using mem_write_length [OF w] by (simp add: mem_read_def)
qed

section \<open>The result of a C function\<close>

text \<open>
  A call returns a value (\<open>Done\<close>), ends the process through \<open>exit\<close> (\<open>Exited\<close>),
  waits on a semaphore or a condition variable that nobody has signalled yet
  (\<open>Blocked\<close>), leaves the bounds of an object (\<open>Fault\<close>), or runs in a loop that does not
  end (\<open>Hangs\<close>). Every case carries the state of the program at that point.
\<close>

datatype ('a, 's) run = Done 'a 's | Exited int 's | Blocked 's | Fault 's | Hangs 's

fun bind_run :: "('a, 's) run \<Rightarrow> ('a \<Rightarrow> 's \<Rightarrow> ('b, 's) run) \<Rightarrow> ('b, 's) run" where
  "bind_run (Done a s) f = f a s"
| "bind_run (Exited c s) f = Exited c s"
| "bind_run (Blocked s) f = Blocked s"
| "bind_run (Fault s) f = Fault s"
| "bind_run (Hangs s) f = Hangs s"

fun run_state :: "('a, 's) run \<Rightarrow> 's" where
  "run_state (Done a s) = s"
| "run_state (Exited c s) = s"
| "run_state (Blocked s) = s"
| "run_state (Fault s) = s"
| "run_state (Hangs s) = s"

fun is_fault :: "('a, 's) run \<Rightarrow> bool" where
  "is_fault (Fault s) = True"
| "is_fault (Done a s) = False"
| "is_fault (Exited c s) = False"
| "is_fault (Blocked s) = False"
| "is_fault (Hangs s) = False"

lemma bind_run_assoc:
  "bind_run (bind_run m f) g = bind_run m (\<lambda>a s. bind_run (f a s) g)"
  by (cases m) auto

lemma bind_run_Done_iff:
  "bind_run m f = Done b t \<longleftrightarrow> (\<exists>a s. m = Done a s \<and> f a s = Done b t)"
  by (cases m) auto

lemma is_fault_bind:
  "is_fault (bind_run m f) \<longleftrightarrow> is_fault m \<or> (\<exists>a s. m = Done a s \<and> is_fault (f a s))"
  by (cases m) auto

text \<open>Sequencing preserves what both parts preserve, whatever way they end.\<close>

lemma bind_run_state_inv:
  assumes "I (run_state m)" and "\<And>a s. m = Done a s \<Longrightarrow> I (run_state (f a s))"
  shows "I (run_state (bind_run m f))"
  using assms by (cases m) auto

section \<open>Number formatting of printf\<close>

definition hex_char :: "nat \<Rightarrow> char" where
  "hex_char d = ''0123456789abcdef'' ! (d mod 16)"

text \<open>\<open>%u\<close>, \<open>%d\<close> (two's complement already read as an integer) and \<open>%0nx\<close>.\<close>

fun dec_nat :: "nat \<Rightarrow> string" where
  "dec_nat n = (if n < 10 then [hex_char n] else dec_nat (n div 10) @ [hex_char (n mod 10)])"

declare dec_nat.simps [simp del]

definition dec_int :: "int \<Rightarrow> string" where
  "dec_int i = (if i < 0 then CHR ''-'' # dec_nat (nat (- i)) else dec_nat (nat i))"

fun hex_nat :: "nat \<Rightarrow> string" where
  "hex_nat n = (if n < 16 then [hex_char n] else hex_nat (n div 16) @ [hex_char (n mod 16)])"

declare hex_nat.simps [simp del]

definition pad0 :: "nat \<Rightarrow> string \<Rightarrow> string" where
  "pad0 w s = replicate (w - length s) (CHR ''0'') @ s"

lemma length_pad0 [simp]: "length (pad0 w s) = max w (length s)"
  by (simp add: pad0_def)

lemma length_dec_nat: "0 < k \<Longrightarrow> n < 10 ^ k \<Longrightarrow> length (dec_nat n) \<le> k"
proof (induction n arbitrary: k rule: dec_nat.induct)
  case (1 n)
  show ?case
  proof (cases "n < 10")
    case True
    then show ?thesis using "1.prems" by (subst dec_nat.simps) simp
  next
    case False
    then obtain j where k: "k = Suc j" "0 < j"
      using "1.prems" by (cases k; cases "k - 1") auto
    then have "n div 10 < 10 ^ j" using "1.prems" by auto
    then have "length (dec_nat (n div 10)) \<le> j" using False "1.IH" k by simp
    then show ?thesis using False k by (subst dec_nat.simps) simp
  qed
qed

end
