(* ===== verification/QEM_Trace_Def.thy ===== *)
theory QEM_Trace_Def
  imports QEM_Prelude
begin

text \<open>
  The trace format: the build options of \<^verbatim>\<open>qem_trace_config.h\<close>, the flag fields of
  \<^verbatim>\<open>qem_trace_def.h\<close> in the two variants that \<open>QEM_TRACE_GATHER_META\<close> selects, and the
  packed structures of \<^verbatim>\<open>qem_trace_engine.h\<close> with their byte layout on the little-endian
  host. The enumerators are the constructors of one datatype per enumeration; the function
  \<open><name>_val\<close> gives their numeric value in the selected variant.
\<close>

section \<open>Build configuration\<close>

text \<open>
  The preprocessor options that select code: \<open>QEM_TRACE_TARGET_64\<close>,
  \<open>QEM_TRACE_PHYSICAL_ADDRESS\<close>, \<open>QEM_TRACE_GATHER_META\<close> and \<open>QEM_TRACE_BUFFER_SIZE\<close>.
\<close>

record qem_config =
  QEM_TRACE_TARGET_64 :: bool
  QEM_TRACE_PHYSICAL_ADDRESS :: bool
  QEM_TRACE_GATHER_META :: bool
  QEM_TRACE_BUFFER_SIZE :: nat

text \<open>The configuration as it is checked in.\<close>

definition default_config :: qem_config where
  "default_config = \<lparr>QEM_TRACE_TARGET_64 = False, QEM_TRACE_PHYSICAL_ADDRESS = True,
     QEM_TRACE_GATHER_META = True, QEM_TRACE_BUFFER_SIZE = 10000\<rparr>"

text \<open>The opcodes the guest executes to drive the tracer.\<close>

definition QEM_TRACE_START_OP :: u32 where "QEM_TRACE_START_OP = 0xFFFFFFF0"
definition QEM_TRACE_STOP_OP :: u32 where "QEM_TRACE_STOP_OP = 0xFFFFFFF1"
definition QEM_TRACE_DSTART_OP :: u32 where "QEM_TRACE_DSTART_OP = 0xFFFFFFF2"
definition QEM_TRACE_DSTOP_OP :: u32 where "QEM_TRACE_DSTOP_OP = 0xFFFFFFF3"
definition QEM_TRACE_ISTART_OP :: u32 where "QEM_TRACE_ISTART_OP = 0xFFFFFFF4"
definition QEM_TRACE_ISTOP_OP :: u32 where "QEM_TRACE_ISTOP_OP = 0xFFFFFFF5"
definition QEM_TRACE_START_TIMER_OP :: u32 where "QEM_TRACE_START_TIMER_OP = 0xFFFFFFF6"
definition QEM_TRACE_GET_TIMER_OP :: u32 where "QEM_TRACE_GET_TIMER_OP = 0xFFFFFFF7"
definition QEM_TRACE_FLASH_INV_INST_OP :: u32 where "QEM_TRACE_FLASH_INV_INST_OP = 0xFFFFFFF8"
definition QEM_TRACE_FLASH_INV_DATA_OP :: u32 where "QEM_TRACE_FLASH_INV_DATA_OP = 0xFFFFFFF9"

section \<open>Tracing types\<close>

datatype QEM_TRACE_TTYPE_E = QEM_TRACE_DTRACE | QEM_TRACE_ITRACE | QEM_TRACE_ALLTRACE

fun ttype_val :: "QEM_TRACE_TTYPE_E \<Rightarrow> u8" where
  "ttype_val QEM_TRACE_DTRACE = 0x01"
| "ttype_val QEM_TRACE_ITRACE = 0x02"
| "ttype_val QEM_TRACE_ALLTRACE = 0x03"

section \<open>Flag fields\<close>

datatype QEM_TRACE_ACCESS_TYPE_E =
    QEM_TRACE_ACCESS_TYPE_READ
  | QEM_TRACE_ACCESS_TYPE_WRITE

fun access_type_meta :: "QEM_TRACE_ACCESS_TYPE_E \<Rightarrow> u32" where
  "access_type_meta QEM_TRACE_ACCESS_TYPE_READ = 0x00000000"
| "access_type_meta QEM_TRACE_ACCESS_TYPE_WRITE = 0x00000100"

fun access_type_bare :: "QEM_TRACE_ACCESS_TYPE_E \<Rightarrow> u32" where
  "access_type_bare QEM_TRACE_ACCESS_TYPE_READ = 0x00000000"
| "access_type_bare QEM_TRACE_ACCESS_TYPE_WRITE = 0x00000001"

definition access_type_val :: "bool \<Rightarrow> QEM_TRACE_ACCESS_TYPE_E \<Rightarrow> u32" where
  "access_type_val meta x = (if meta then access_type_meta x else access_type_bare x)"

definition QEM_TRACE_ACCESS_TYPE_MASK :: "bool \<Rightarrow> u32" where
  "QEM_TRACE_ACCESS_TYPE_MASK meta = (if meta then 0x00000100 else 0x00000001)"

datatype QEM_TRACE_DATA_TYPE_E =
    QEM_TRACE_DATA_TYPE_DATA
  | QEM_TRACE_DATA_TYPE_INST

fun data_type_meta :: "QEM_TRACE_DATA_TYPE_E \<Rightarrow> u32" where
  "data_type_meta QEM_TRACE_DATA_TYPE_DATA = 0x00000000"
| "data_type_meta QEM_TRACE_DATA_TYPE_INST = 0x00000200"

fun data_type_bare :: "QEM_TRACE_DATA_TYPE_E \<Rightarrow> u32" where
  "data_type_bare QEM_TRACE_DATA_TYPE_DATA = 0x00000000"
| "data_type_bare QEM_TRACE_DATA_TYPE_INST = 0x00000002"

definition data_type_val :: "bool \<Rightarrow> QEM_TRACE_DATA_TYPE_E \<Rightarrow> u32" where
  "data_type_val meta x = (if meta then data_type_meta x else data_type_bare x)"

definition QEM_TRACE_DATA_TYPE_MASK :: "bool \<Rightarrow> u32" where
  "QEM_TRACE_DATA_TYPE_MASK meta = (if meta then 0x00000200 else 0x00000002)"

datatype QEM_TRACE_PL_E =
    QEM_TRACE_PL_KERNEL
  | QEM_TRACE_PL_USER

fun pl_meta :: "QEM_TRACE_PL_E \<Rightarrow> u32" where
  "pl_meta QEM_TRACE_PL_KERNEL = 0x00000000"
| "pl_meta QEM_TRACE_PL_USER = 0x00000400"

fun pl_bare :: "QEM_TRACE_PL_E \<Rightarrow> u32" where
  "pl_bare QEM_TRACE_PL_KERNEL = 0x00000000"
| "pl_bare QEM_TRACE_PL_USER = 0x00000000"

definition pl_val :: "bool \<Rightarrow> QEM_TRACE_PL_E \<Rightarrow> u32" where
  "pl_val meta x = (if meta then pl_meta x else pl_bare x)"

definition QEM_TRACE_PL_E_MASK :: "bool \<Rightarrow> u32" where
  "QEM_TRACE_PL_E_MASK meta = (if meta then 0x00000400 else 0x00000000)"

datatype QEM_TRACE_EVENT_E =
    QEM_TRACE_EVENT_ACCESS
  | QEM_TRACE_EVENT_FLUSH
  | QEM_TRACE_EVENT_INVALIDATE
  | QEM_TRACE_EVENT_LOCK
  | QEM_TRACE_EVENT_UNLOCK
  | QEM_TRACE_EVENT_PREFETCH
  | QEM_TRACE_EVENT_DCBZ

fun event_meta :: "QEM_TRACE_EVENT_E \<Rightarrow> u32" where
  "event_meta QEM_TRACE_EVENT_ACCESS = 0x00000000"
| "event_meta QEM_TRACE_EVENT_FLUSH = 0x00000800"
| "event_meta QEM_TRACE_EVENT_INVALIDATE = 0x00001000"
| "event_meta QEM_TRACE_EVENT_LOCK = 0x00002000"
| "event_meta QEM_TRACE_EVENT_UNLOCK = 0x00002800"
| "event_meta QEM_TRACE_EVENT_PREFETCH = 0x00003000"
| "event_meta QEM_TRACE_EVENT_DCBZ = 0x00003800"

fun event_bare :: "QEM_TRACE_EVENT_E \<Rightarrow> u32" where
  "event_bare QEM_TRACE_EVENT_ACCESS = 0x00000000"
| "event_bare QEM_TRACE_EVENT_FLUSH = 0x00000004"
| "event_bare QEM_TRACE_EVENT_INVALIDATE = 0x00000008"
| "event_bare QEM_TRACE_EVENT_LOCK = 0x0000000C"
| "event_bare QEM_TRACE_EVENT_UNLOCK = 0x00000010"
| "event_bare QEM_TRACE_EVENT_PREFETCH = 0x00000014"
| "event_bare QEM_TRACE_EVENT_DCBZ = 0x00000018"

definition event_val :: "bool \<Rightarrow> QEM_TRACE_EVENT_E \<Rightarrow> u32" where
  "event_val meta x = (if meta then event_meta x else event_bare x)"

definition QEM_TRACE_EVENT_MASK :: "bool \<Rightarrow> u32" where
  "QEM_TRACE_EVENT_MASK meta = (if meta then 0x00003800 else 0x0000001C)"

datatype QEM_TRACE_GRANULARITY_E =
    QEM_TRACE_GRANULARITY_LINE
  | QEM_TRACE_GRANULARITY_SET
  | QEM_TRACE_GRANULARITY_WAY
  | QEM_TRACE_GRANULARITY_GLOBAL
  | QEM_TRACE_GRANULARITY_NONE

fun granularity_meta :: "QEM_TRACE_GRANULARITY_E \<Rightarrow> u32" where
  "granularity_meta QEM_TRACE_GRANULARITY_LINE = 0x00000000"
| "granularity_meta QEM_TRACE_GRANULARITY_SET = 0x00004000"
| "granularity_meta QEM_TRACE_GRANULARITY_WAY = 0x00008000"
| "granularity_meta QEM_TRACE_GRANULARITY_GLOBAL = 0x0000C000"
| "granularity_meta QEM_TRACE_GRANULARITY_NONE = 0x00000000"

fun granularity_bare :: "QEM_TRACE_GRANULARITY_E \<Rightarrow> u32" where
  "granularity_bare QEM_TRACE_GRANULARITY_LINE = 0x00000000"
| "granularity_bare QEM_TRACE_GRANULARITY_SET = 0x00000000"
| "granularity_bare QEM_TRACE_GRANULARITY_WAY = 0x00000000"
| "granularity_bare QEM_TRACE_GRANULARITY_GLOBAL = 0x00000000"
| "granularity_bare QEM_TRACE_GRANULARITY_NONE = 0x00000000"

definition granularity_val :: "bool \<Rightarrow> QEM_TRACE_GRANULARITY_E \<Rightarrow> u32" where
  "granularity_val meta x = (if meta then granularity_meta x else granularity_bare x)"

definition QEM_TRACE_GRANULARITY_MASK :: "bool \<Rightarrow> u32" where
  "QEM_TRACE_GRANULARITY_MASK meta = (if meta then 0x0000C000 else 0x00000000)"

datatype QEM_TRACE_DATA_SIZE_E =
    QEM_TRACE_DATA_SIZE_8_BITS
  | QEM_TRACE_DATA_SIZE_16_BITS
  | QEM_TRACE_DATA_SIZE_32_BITS
  | QEM_TRACE_DATA_SIZE_64_BITS

fun data_size_meta :: "QEM_TRACE_DATA_SIZE_E \<Rightarrow> u32" where
  "data_size_meta QEM_TRACE_DATA_SIZE_8_BITS = 0x00000000"
| "data_size_meta QEM_TRACE_DATA_SIZE_16_BITS = 0x00010000"
| "data_size_meta QEM_TRACE_DATA_SIZE_32_BITS = 0x00020000"
| "data_size_meta QEM_TRACE_DATA_SIZE_64_BITS = 0x00030000"

fun data_size_bare :: "QEM_TRACE_DATA_SIZE_E \<Rightarrow> u32" where
  "data_size_bare QEM_TRACE_DATA_SIZE_8_BITS = 0x00000000"
| "data_size_bare QEM_TRACE_DATA_SIZE_16_BITS = 0x00000000"
| "data_size_bare QEM_TRACE_DATA_SIZE_32_BITS = 0x00000000"
| "data_size_bare QEM_TRACE_DATA_SIZE_64_BITS = 0x00000000"

definition data_size_val :: "bool \<Rightarrow> QEM_TRACE_DATA_SIZE_E \<Rightarrow> u32" where
  "data_size_val meta x = (if meta then data_size_meta x else data_size_bare x)"

definition QEM_TRACE_DATA_SIZE_MASK :: "bool \<Rightarrow> u32" where
  "QEM_TRACE_DATA_SIZE_MASK meta = (if meta then 0x00030000 else 0x00000000)"

datatype QEM_TRACE_COHERENCY_E =
    QEM_TRACE_COHERENCY_NON_REQ
  | QEM_TRACE_COHERENCY_REQ

fun coherency_meta :: "QEM_TRACE_COHERENCY_E \<Rightarrow> u32" where
  "coherency_meta QEM_TRACE_COHERENCY_NON_REQ = 0x00000000"
| "coherency_meta QEM_TRACE_COHERENCY_REQ = 0x00040000"

fun coherency_bare :: "QEM_TRACE_COHERENCY_E \<Rightarrow> u32" where
  "coherency_bare QEM_TRACE_COHERENCY_NON_REQ = 0x00000000"
| "coherency_bare QEM_TRACE_COHERENCY_REQ = 0x00000000"

definition coherency_val :: "bool \<Rightarrow> QEM_TRACE_COHERENCY_E \<Rightarrow> u32" where
  "coherency_val meta x = (if meta then coherency_meta x else coherency_bare x)"

definition QEM_TRACE_COHERENCY_MASK :: "bool \<Rightarrow> u32" where
  "QEM_TRACE_COHERENCY_MASK meta = (if meta then 0x00040000 else 0x00000000)"

datatype QEM_TRACE_CACHE_LEVEL_E =
    QEM_TRACE_CACHE_LEVEL_1
  | QEM_TRACE_CACHE_LEVEL_2
  | QEM_TRACE_CACHE_LEVEL_3
  | QEM_TRACE_CACHE_LEVEL_ALL

fun cache_level_meta :: "QEM_TRACE_CACHE_LEVEL_E \<Rightarrow> u32" where
  "cache_level_meta QEM_TRACE_CACHE_LEVEL_1 = 0x00000000"
| "cache_level_meta QEM_TRACE_CACHE_LEVEL_2 = 0x00080000"
| "cache_level_meta QEM_TRACE_CACHE_LEVEL_3 = 0x00100000"
| "cache_level_meta QEM_TRACE_CACHE_LEVEL_ALL = 0x00180000"

fun cache_level_bare :: "QEM_TRACE_CACHE_LEVEL_E \<Rightarrow> u32" where
  "cache_level_bare QEM_TRACE_CACHE_LEVEL_1 = 0x00000000"
| "cache_level_bare QEM_TRACE_CACHE_LEVEL_2 = 0x00000000"
| "cache_level_bare QEM_TRACE_CACHE_LEVEL_3 = 0x00000000"
| "cache_level_bare QEM_TRACE_CACHE_LEVEL_ALL = 0x00000000"

definition cache_level_val :: "bool \<Rightarrow> QEM_TRACE_CACHE_LEVEL_E \<Rightarrow> u32" where
  "cache_level_val meta x = (if meta then cache_level_meta x else cache_level_bare x)"

definition QEM_TRACE_CACHE_LEVEL_MASK :: "bool \<Rightarrow> u32" where
  "QEM_TRACE_CACHE_LEVEL_MASK meta = (if meta then 0x00180000 else 0x00000000)"

datatype QEM_TRACE_CACHE_INHIBIT_E =
    QEM_TRACE_CACHE_INHIBIT_OFF
  | QEM_TRACE_CACHE_INHIBIT_ON

fun cache_inhibit_meta :: "QEM_TRACE_CACHE_INHIBIT_E \<Rightarrow> u32" where
  "cache_inhibit_meta QEM_TRACE_CACHE_INHIBIT_OFF = 0x00000000"
| "cache_inhibit_meta QEM_TRACE_CACHE_INHIBIT_ON = 0x00200000"

fun cache_inhibit_bare :: "QEM_TRACE_CACHE_INHIBIT_E \<Rightarrow> u32" where
  "cache_inhibit_bare QEM_TRACE_CACHE_INHIBIT_OFF = 0x00000000"
| "cache_inhibit_bare QEM_TRACE_CACHE_INHIBIT_ON = 0x00000000"

definition cache_inhibit_val :: "bool \<Rightarrow> QEM_TRACE_CACHE_INHIBIT_E \<Rightarrow> u32" where
  "cache_inhibit_val meta x = (if meta then cache_inhibit_meta x else cache_inhibit_bare x)"

definition QEM_TRACE_CACHE_INHIBIT_MASK :: "bool \<Rightarrow> u32" where
  "QEM_TRACE_CACHE_INHIBIT_MASK meta = (if meta then 0x00200000 else 0x00000000)"

datatype QEM_TRACE_CACHE_WT_E =
    QEM_TRACE_CACHE_WT_OFF
  | QEM_TRACE_CACHE_WT_ON

fun cache_wt_meta :: "QEM_TRACE_CACHE_WT_E \<Rightarrow> u32" where
  "cache_wt_meta QEM_TRACE_CACHE_WT_OFF = 0x00000000"
| "cache_wt_meta QEM_TRACE_CACHE_WT_ON = 0x00400000"

fun cache_wt_bare :: "QEM_TRACE_CACHE_WT_E \<Rightarrow> u32" where
  "cache_wt_bare QEM_TRACE_CACHE_WT_OFF = 0x00000000"
| "cache_wt_bare QEM_TRACE_CACHE_WT_ON = 0x00000000"

definition cache_wt_val :: "bool \<Rightarrow> QEM_TRACE_CACHE_WT_E \<Rightarrow> u32" where
  "cache_wt_val meta x = (if meta then cache_wt_meta x else cache_wt_bare x)"

definition QEM_TRACE_CACHE_WT_MASK :: "bool \<Rightarrow> u32" where
  "QEM_TRACE_CACHE_WT_MASK meta = (if meta then 0x00400000 else 0x00000000)"

datatype QEM_TRACE_EVENT_EXCLUSIVE_E =
    QEM_TRACE_EVENT_NON_EXCLUSIVE
  | QEM_TRACE_EVENT_EXCLUSIVE

fun exclusive_meta :: "QEM_TRACE_EVENT_EXCLUSIVE_E \<Rightarrow> u32" where
  "exclusive_meta QEM_TRACE_EVENT_NON_EXCLUSIVE = 0x00000000"
| "exclusive_meta QEM_TRACE_EVENT_EXCLUSIVE = 0x00800000"

fun exclusive_bare :: "QEM_TRACE_EVENT_EXCLUSIVE_E \<Rightarrow> u32" where
  "exclusive_bare QEM_TRACE_EVENT_NON_EXCLUSIVE = 0x00000000"
| "exclusive_bare QEM_TRACE_EVENT_EXCLUSIVE = 0x00000000"

definition exclusive_val :: "bool \<Rightarrow> QEM_TRACE_EVENT_EXCLUSIVE_E \<Rightarrow> u32" where
  "exclusive_val meta x = (if meta then exclusive_meta x else exclusive_bare x)"

definition QEM_TRACE_EVENT_EXCLUSIVE_MASK :: "bool \<Rightarrow> u32" where
  "QEM_TRACE_EVENT_EXCLUSIVE_MASK meta = (if meta then 0x00800000 else 0x00000000)"

lemmas flag_val_defs =
  access_type_val_def
  data_type_val_def
  pl_val_def
  event_val_def
  granularity_val_def
  data_size_val_def
  coherency_val_def
  cache_level_val_def
  cache_inhibit_val_def
  cache_wt_val_def
  exclusive_val_def

lemmas flag_mask_defs =
  QEM_TRACE_ACCESS_TYPE_MASK_def
  QEM_TRACE_DATA_TYPE_MASK_def
  QEM_TRACE_PL_E_MASK_def
  QEM_TRACE_EVENT_MASK_def
  QEM_TRACE_GRANULARITY_MASK_def
  QEM_TRACE_DATA_SIZE_MASK_def
  QEM_TRACE_COHERENCY_MASK_def
  QEM_TRACE_CACHE_LEVEL_MASK_def
  QEM_TRACE_CACHE_INHIBIT_MASK_def
  QEM_TRACE_CACHE_WT_MASK_def
  QEM_TRACE_EVENT_EXCLUSIVE_MASK_def


text \<open>
  A field value keeps within the bits of its mask, so that any set of bits disjoint from
  the mask is clear in it.
\<close>

lemma word_and_off:
  fixes a m k :: u32
  assumes "a AND m = a" and "m AND k = 0"
  shows "a AND k = 0"
proof -
  have "a AND k = (a AND m) AND k" using assms(1) by simp
  also have "\<dots> = a AND (m AND k)" by (simp add: and.assoc)
  finally show ?thesis using assms(2) by simp
qed

named_theorems field_bits \<open>field values against field masks\<close>

lemma access_type_in_mask [field_bits]: "access_type_val meta x AND QEM_TRACE_ACCESS_TYPE_MASK meta = access_type_val meta x"
  by (cases x) (simp_all add: flag_val_defs flag_mask_defs)

lemma access_type_off_mask [field_bits]: "QEM_TRACE_ACCESS_TYPE_MASK meta AND k = 0 \<Longrightarrow> access_type_val meta x AND k = 0"
  by (rule word_and_off [OF access_type_in_mask])

lemma data_type_in_mask [field_bits]: "data_type_val meta x AND QEM_TRACE_DATA_TYPE_MASK meta = data_type_val meta x"
  by (cases x) (simp_all add: flag_val_defs flag_mask_defs)

lemma data_type_off_mask [field_bits]: "QEM_TRACE_DATA_TYPE_MASK meta AND k = 0 \<Longrightarrow> data_type_val meta x AND k = 0"
  by (rule word_and_off [OF data_type_in_mask])

lemma pl_in_mask [field_bits]: "pl_val meta x AND QEM_TRACE_PL_E_MASK meta = pl_val meta x"
  by (cases x) (simp_all add: flag_val_defs flag_mask_defs)

lemma pl_off_mask [field_bits]: "QEM_TRACE_PL_E_MASK meta AND k = 0 \<Longrightarrow> pl_val meta x AND k = 0"
  by (rule word_and_off [OF pl_in_mask])

lemma event_in_mask [field_bits]: "event_val meta x AND QEM_TRACE_EVENT_MASK meta = event_val meta x"
  by (cases x) (simp_all add: flag_val_defs flag_mask_defs)

lemma event_off_mask [field_bits]: "QEM_TRACE_EVENT_MASK meta AND k = 0 \<Longrightarrow> event_val meta x AND k = 0"
  by (rule word_and_off [OF event_in_mask])

lemma granularity_in_mask [field_bits]: "granularity_val meta x AND QEM_TRACE_GRANULARITY_MASK meta = granularity_val meta x"
  by (cases x) (simp_all add: flag_val_defs flag_mask_defs)

lemma granularity_off_mask [field_bits]: "QEM_TRACE_GRANULARITY_MASK meta AND k = 0 \<Longrightarrow> granularity_val meta x AND k = 0"
  by (rule word_and_off [OF granularity_in_mask])

lemma data_size_in_mask [field_bits]: "data_size_val meta x AND QEM_TRACE_DATA_SIZE_MASK meta = data_size_val meta x"
  by (cases x) (simp_all add: flag_val_defs flag_mask_defs)

lemma data_size_off_mask [field_bits]: "QEM_TRACE_DATA_SIZE_MASK meta AND k = 0 \<Longrightarrow> data_size_val meta x AND k = 0"
  by (rule word_and_off [OF data_size_in_mask])

lemma coherency_in_mask [field_bits]: "coherency_val meta x AND QEM_TRACE_COHERENCY_MASK meta = coherency_val meta x"
  by (cases x) (simp_all add: flag_val_defs flag_mask_defs)

lemma coherency_off_mask [field_bits]: "QEM_TRACE_COHERENCY_MASK meta AND k = 0 \<Longrightarrow> coherency_val meta x AND k = 0"
  by (rule word_and_off [OF coherency_in_mask])

lemma cache_level_in_mask [field_bits]: "cache_level_val meta x AND QEM_TRACE_CACHE_LEVEL_MASK meta = cache_level_val meta x"
  by (cases x) (simp_all add: flag_val_defs flag_mask_defs)

lemma cache_level_off_mask [field_bits]: "QEM_TRACE_CACHE_LEVEL_MASK meta AND k = 0 \<Longrightarrow> cache_level_val meta x AND k = 0"
  by (rule word_and_off [OF cache_level_in_mask])

lemma cache_inhibit_in_mask [field_bits]: "cache_inhibit_val meta x AND QEM_TRACE_CACHE_INHIBIT_MASK meta = cache_inhibit_val meta x"
  by (cases x) (simp_all add: flag_val_defs flag_mask_defs)

lemma cache_inhibit_off_mask [field_bits]: "QEM_TRACE_CACHE_INHIBIT_MASK meta AND k = 0 \<Longrightarrow> cache_inhibit_val meta x AND k = 0"
  by (rule word_and_off [OF cache_inhibit_in_mask])

lemma cache_wt_in_mask [field_bits]: "cache_wt_val meta x AND QEM_TRACE_CACHE_WT_MASK meta = cache_wt_val meta x"
  by (cases x) (simp_all add: flag_val_defs flag_mask_defs)

lemma cache_wt_off_mask [field_bits]: "QEM_TRACE_CACHE_WT_MASK meta AND k = 0 \<Longrightarrow> cache_wt_val meta x AND k = 0"
  by (rule word_and_off [OF cache_wt_in_mask])

lemma exclusive_in_mask [field_bits]: "exclusive_val meta x AND QEM_TRACE_EVENT_EXCLUSIVE_MASK meta = exclusive_val meta x"
  by (cases x) (simp_all add: flag_val_defs flag_mask_defs)

lemma exclusive_off_mask [field_bits]: "QEM_TRACE_EVENT_EXCLUSIVE_MASK meta AND k = 0 \<Longrightarrow> exclusive_val meta x AND k = 0"
  by (rule word_and_off [OF exclusive_in_mask])


section \<open>What a flag word means\<close>

text \<open>
  The classification of a memory event that the flag word carries. The event kinds include
  the combination of \<open>FLUSH\<close> and \<open>INVALIDATE\<close> that the header names in a comment.
\<close>

datatype trace_event =
    Ev_Access | Ev_Flush | Ev_Invalidate | Ev_FlushInval | Ev_Lock | Ev_Unlock
  | Ev_Prefetch | Ev_Dcbz

fun trace_event_val :: "bool \<Rightarrow> trace_event \<Rightarrow> u32" where
  "trace_event_val meta Ev_Access = event_val meta QEM_TRACE_EVENT_ACCESS"
| "trace_event_val meta Ev_Flush = event_val meta QEM_TRACE_EVENT_FLUSH"
| "trace_event_val meta Ev_Invalidate = event_val meta QEM_TRACE_EVENT_INVALIDATE"
| "trace_event_val meta Ev_FlushInval =
     event_val meta QEM_TRACE_EVENT_FLUSH OR event_val meta QEM_TRACE_EVENT_INVALIDATE"
| "trace_event_val meta Ev_Lock = event_val meta QEM_TRACE_EVENT_LOCK"
| "trace_event_val meta Ev_Unlock = event_val meta QEM_TRACE_EVENT_UNLOCK"
| "trace_event_val meta Ev_Prefetch = event_val meta QEM_TRACE_EVENT_PREFETCH"
| "trace_event_val meta Ev_Dcbz = event_val meta QEM_TRACE_EVENT_DCBZ"

lemma trace_event_in_mask [field_bits]:
  "trace_event_val meta e AND QEM_TRACE_EVENT_MASK meta = trace_event_val meta e"
  by (cases e) (simp_all add: flag_val_defs flag_mask_defs)

lemma trace_event_off_mask [field_bits]:
  "QEM_TRACE_EVENT_MASK meta AND k = 0 \<Longrightarrow> trace_event_val meta e AND k = 0"
  by (rule word_and_off [OF trace_event_in_mask])

record trace_meta =
  tm_access :: QEM_TRACE_ACCESS_TYPE_E
  tm_data :: QEM_TRACE_DATA_TYPE_E
  tm_pl :: QEM_TRACE_PL_E
  tm_event :: trace_event
  tm_gran :: QEM_TRACE_GRANULARITY_E
  tm_size :: QEM_TRACE_DATA_SIZE_E
  tm_coh :: QEM_TRACE_COHERENCY_E
  tm_level :: QEM_TRACE_CACHE_LEVEL_E
  tm_inhib :: QEM_TRACE_CACHE_INHIBIT_E
  tm_wt :: QEM_TRACE_CACHE_WT_E
  tm_excl :: QEM_TRACE_EVENT_EXCLUSIVE_E

text \<open>The flag word of a classification: the bitwise or of its fields.\<close>

definition flags_of :: "bool \<Rightarrow> trace_meta \<Rightarrow> u32" where
  "flags_of meta t =
     access_type_val meta (tm_access t) OR data_type_val meta (tm_data t) OR
     pl_val meta (tm_pl t) OR trace_event_val meta (tm_event t) OR
     granularity_val meta (tm_gran t) OR data_size_val meta (tm_size t) OR
     coherency_val meta (tm_coh t) OR cache_level_val meta (tm_level t) OR
     cache_inhibit_val meta (tm_inhib t) OR cache_wt_val meta (tm_wt t) OR
     exclusive_val meta (tm_excl t)"

lemmas field_in_mask_lit =
  access_type_in_mask [of True, unfolded flag_mask_defs if_True]
  data_type_in_mask [of True, unfolded flag_mask_defs if_True]
  pl_in_mask [of True, unfolded flag_mask_defs if_True]
  trace_event_in_mask [of True, unfolded flag_mask_defs if_True]
  granularity_in_mask [of True, unfolded flag_mask_defs if_True]
  data_size_in_mask [of True, unfolded flag_mask_defs if_True]
  coherency_in_mask [of True, unfolded flag_mask_defs if_True]
  cache_level_in_mask [of True, unfolded flag_mask_defs if_True]
  cache_inhibit_in_mask [of True, unfolded flag_mask_defs if_True]
  cache_wt_in_mask [of True, unfolded flag_mask_defs if_True]
  exclusive_in_mask [of True, unfolded flag_mask_defs if_True]

lemma flags_of_fields [field_bits]:
  "flags_of True t AND QEM_TRACE_ACCESS_TYPE_MASK True = access_type_val True (tm_access t)"
  "flags_of True t AND QEM_TRACE_DATA_TYPE_MASK True = data_type_val True (tm_data t)"
  "flags_of True t AND QEM_TRACE_PL_E_MASK True = pl_val True (tm_pl t)"
  "flags_of True t AND QEM_TRACE_EVENT_MASK True = trace_event_val True (tm_event t)"
  "flags_of True t AND QEM_TRACE_GRANULARITY_MASK True = granularity_val True (tm_gran t)"
  "flags_of True t AND QEM_TRACE_DATA_SIZE_MASK True = data_size_val True (tm_size t)"
  "flags_of True t AND QEM_TRACE_COHERENCY_MASK True = coherency_val True (tm_coh t)"
  "flags_of True t AND QEM_TRACE_CACHE_LEVEL_MASK True = cache_level_val True (tm_level t)"
  "flags_of True t AND QEM_TRACE_CACHE_INHIBIT_MASK True = cache_inhibit_val True (tm_inhib t)"
  "flags_of True t AND QEM_TRACE_CACHE_WT_MASK True = cache_wt_val True (tm_wt t)"
  "flags_of True t AND QEM_TRACE_EVENT_EXCLUSIVE_MASK True = exclusive_val True (tm_excl t)"
  by (simp_all add: flags_of_def bit.conj_disj_distrib2 field_bits field_in_mask_lit
      flag_mask_defs)


section \<open>Packed structures\<close>

text \<open>
  The four layouts of \<open>qem_trace_t\<close>: with metadata for 64-bit and 32-bit targets, then
  without metadata for 64-bit and 32-bit targets. The fields are address, timestamp (only
  with metadata) and flags.
\<close>

datatype qem_trace_t =
    TraceMeta64 u64 u64 u32
  | TraceMeta32 u32 u64 u32
  | TraceBare64 u64 u8
  | TraceBare32 u32 u8

definition sizeof_qem_trace :: "qem_config \<Rightarrow> nat" where
  "sizeof_qem_trace cfg =
     (if QEM_TRACE_GATHER_META cfg
      then (if QEM_TRACE_TARGET_64 cfg then 20 else 16)
      else (if QEM_TRACE_TARGET_64 cfg then 9 else 5))"

fun trace_bytes :: "qem_trace_t \<Rightarrow> bytes" where
  "trace_bytes (TraceMeta64 a t f) = le_bytes 8 a @ le_bytes 8 t @ le_bytes 4 f"
| "trace_bytes (TraceMeta32 a t f) = le_bytes 4 a @ le_bytes 8 t @ le_bytes 4 f"
| "trace_bytes (TraceBare64 a f) = le_bytes 8 a @ le_bytes 1 f"
| "trace_bytes (TraceBare32 a f) = le_bytes 4 a @ le_bytes 1 f"

text \<open>Reading a structure back from raw bytes, as a client of the format does.\<close>

definition trace_of_bytes :: "qem_config \<Rightarrow> bytes \<Rightarrow> qem_trace_t option" where
  "trace_of_bytes cfg bs =
     (if length bs \<noteq> sizeof_qem_trace cfg then None
      else if QEM_TRACE_GATHER_META cfg then
        (if QEM_TRACE_TARGET_64 cfg
         then Some (TraceMeta64 (le_word (take 8 bs)) (le_word (take 8 (drop 8 bs)))
                      (le_word (drop 16 bs)))
         else Some (TraceMeta32 (le_word (take 4 bs)) (le_word (take 8 (drop 4 bs)))
                      (le_word (drop 12 bs))))
      else
        (if QEM_TRACE_TARGET_64 cfg
         then Some (TraceBare64 (le_word (take 8 bs)) (le_word (drop 8 bs)))
         else Some (TraceBare32 (le_word (take 4 bs)) (le_word (drop 4 bs)))))"

text \<open>
  The record \<open>qem_trace_output\<close> builds from its arguments, the same in the file, the
  two-buffer and the shared-memory back end. The parameters \<open>virt_addr\<close> and \<open>phys_addr\<close>
  have the width of the target, so a wider value is truncated at the call.
\<close>

definition new_trace :: "qem_config \<Rightarrow> u64 \<Rightarrow> u32 \<Rightarrow> u64 \<Rightarrow> u32 \<Rightarrow> qem_trace_t" where
  "new_trace cfg phys_addr core time flags =
     (if QEM_TRACE_GATHER_META cfg then
        (if QEM_TRACE_TARGET_64 cfg
         then TraceMeta64 phys_addr time ((core AND 0xFF) OR (flags AND 0xFFFFFF00))
         else TraceMeta32 (ucast phys_addr) time ((core AND 0xFF) OR (flags AND 0xFFFFFF00)))
      else
        (if QEM_TRACE_TARGET_64 cfg
         then TraceBare64 phys_addr (ucast flags)
         else TraceBare32 (ucast phys_addr) (ucast flags)))"

fun trace_fits :: "qem_config \<Rightarrow> qem_trace_t \<Rightarrow> bool" where
  "trace_fits cfg (TraceMeta64 a t f) = (QEM_TRACE_GATHER_META cfg \<and> QEM_TRACE_TARGET_64 cfg)"
| "trace_fits cfg (TraceMeta32 a t f) = (QEM_TRACE_GATHER_META cfg \<and> \<not> QEM_TRACE_TARGET_64 cfg)"
| "trace_fits cfg (TraceBare64 a f) = (\<not> QEM_TRACE_GATHER_META cfg \<and> QEM_TRACE_TARGET_64 cfg)"
| "trace_fits cfg (TraceBare32 a f) = (\<not> QEM_TRACE_GATHER_META cfg \<and> \<not> QEM_TRACE_TARGET_64 cfg)"

lemma new_trace_fits [simp]: "trace_fits cfg (new_trace cfg p c t f)"
  by (simp add: new_trace_def)

lemma length_trace_bytes [bytes_simps]:
  "trace_fits cfg t \<Longrightarrow> length (trace_bytes t) = sizeof_qem_trace cfg"
  by (cases t) (auto simp: sizeof_qem_trace_def)

lemma length_new_trace_bytes [simp]:
  "length (trace_bytes (new_trace cfg p c t f)) = sizeof_qem_trace cfg"
  by (rule length_trace_bytes) simp

lemma sizeof_qem_trace_pos [simp]: "0 < sizeof_qem_trace cfg"
  by (simp add: sizeof_qem_trace_def)

lemma sizeof_qem_trace_le: "sizeof_qem_trace cfg \<le> 20"
  by (simp add: sizeof_qem_trace_def)

lemma trace_of_trace_bytes:
  "trace_fits cfg t \<Longrightarrow> trace_of_bytes cfg (trace_bytes t) = Some t"
  by (cases t) (auto simp: trace_of_bytes_def length_trace_bytes sizeof_qem_trace_def)

fun trace_flags :: "qem_trace_t \<Rightarrow> u32" where
  "trace_flags (TraceMeta64 a t f) = f"
| "trace_flags (TraceMeta32 a t f) = f"
| "trace_flags (TraceBare64 a f) = ucast f"
| "trace_flags (TraceBare32 a f) = ucast f"

fun trace_address :: "qem_trace_t \<Rightarrow> u64" where
  "trace_address (TraceMeta64 a t f) = a"
| "trace_address (TraceMeta32 a t f) = ucast a"
| "trace_address (TraceBare64 a f) = a"
| "trace_address (TraceBare32 a f) = ucast a"

fun trace_timestamp :: "qem_trace_t \<Rightarrow> u64" where
  "trace_timestamp (TraceMeta64 a t f) = t"
| "trace_timestamp (TraceMeta32 a t f) = t"
| "trace_timestamp (TraceBare64 a f) = 0"
| "trace_timestamp (TraceBare32 a f) = 0"

text \<open>The file header.\<close>

record qem_trace_header_t =
  hdr_size :: u64
  hdr_struct_size :: u16
  hdr_version :: u8
  hdr_reserved :: bytes

definition sizeof_qem_trace_header :: nat where
  "sizeof_qem_trace_header = 16"

definition header_bytes :: "qem_trace_header_t \<Rightarrow> bytes" where
  "header_bytes h = le_bytes 8 (hdr_size h) @ le_bytes 2 (hdr_struct_size h) @
     le_bytes 1 (hdr_version h) @ hdr_reserved h"

definition header_of_bytes :: "bytes \<Rightarrow> qem_trace_header_t" where
  "header_of_bytes bs =
     \<lparr>hdr_size = le_word (take 8 bs), hdr_struct_size = le_word (take 2 (drop 8 bs)),
      hdr_version = le_word (take 1 (drop 10 bs)), hdr_reserved = take 5 (drop 11 bs)\<rparr>"

lemma length_header_bytes [bytes_simps]:
  "length (hdr_reserved h) = 5 \<Longrightarrow> length (header_bytes h) = sizeof_qem_trace_header"
  by (simp add: header_bytes_def sizeof_qem_trace_header_def)

lemma header_of_header_bytes:
  "length (hdr_reserved h) = 5 \<Longrightarrow> header_of_bytes (header_bytes h @ rest) = h"
  by (simp add: header_bytes_def header_of_bytes_def)

section \<open>Properties\<close>

text \<open>Every flag of the metadata build lies above the byte that holds the core number.\<close>

lemma flags_of_high: "flags_of True t AND 0xFFFFFF00 = flags_of True t"
proof -
  have k: "x AND m = x \<Longrightarrow> m AND 0xFFFFFF00 = m \<Longrightarrow> x AND 0xFFFFFF00 = x" for x m :: u32
    by (metis and.assoc)
  note masks = access_type_in_mask [of True] data_type_in_mask [of True] pl_in_mask [of True]
    trace_event_in_mask [of True] granularity_in_mask [of True] data_size_in_mask [of True]
    coherency_in_mask [of True] cache_level_in_mask [of True] cache_inhibit_in_mask [of True]
    cache_wt_in_mask [of True] exclusive_in_mask [of True]
  show ?thesis
    unfolding flags_of_def bit.conj_disj_distrib2
    by (simp add: masks [THEN k] flag_mask_defs)
qed

lemma field_values_inject:
  "access_type_val True x1 = access_type_val True y1 \<longleftrightarrow> x1 = y1"
  "data_type_val True x2 = data_type_val True y2 \<longleftrightarrow> x2 = y2"
  "pl_val True x3 = pl_val True y3 \<longleftrightarrow> x3 = y3"
  "trace_event_val True x4 = trace_event_val True y4 \<longleftrightarrow> x4 = y4"
  "data_size_val True x5 = data_size_val True y5 \<longleftrightarrow> x5 = y5"
  "coherency_val True x6 = coherency_val True y6 \<longleftrightarrow> x6 = y6"
  "cache_level_val True x7 = cache_level_val True y7 \<longleftrightarrow> x7 = y7"
  "cache_inhibit_val True x8 = cache_inhibit_val True y8 \<longleftrightarrow> x8 = y8"
  "cache_wt_val True x9 = cache_wt_val True y9 \<longleftrightarrow> x9 = y9"
  "exclusive_val True x10 = exclusive_val True y10 \<longleftrightarrow> x10 = y10"
  subgoal by (cases x1; cases y1; simp add: flag_val_defs)
  subgoal by (cases x2; cases y2; simp add: flag_val_defs)
  subgoal by (cases x3; cases y3; simp add: flag_val_defs)
  subgoal by (cases x4; cases y4; simp add: flag_val_defs)
  subgoal by (cases x5; cases y5; simp add: flag_val_defs)
  subgoal by (cases x6; cases y6; simp add: flag_val_defs)
  subgoal by (cases x7; cases y7; simp add: flag_val_defs)
  subgoal by (cases x8; cases y8; simp add: flag_val_defs)
  subgoal by (cases x9; cases y9; simp add: flag_val_defs)
  subgoal by (cases x10; cases y10; simp add: flag_val_defs)
  done

text \<open>
  C9. The record that \<open>qem_trace_output\<close> builds survives its trip through packed bytes in
  every build configuration, and the record read back holds the physical address at the
  width of the target; with metadata it also holds the time stamp, the low byte of the core
  number and the flag bits 8 to 31, and without metadata the low byte of the flags.
\<close>

theorem trace_record_roundtrip:
  "\<exists>r. trace_of_bytes cfg (trace_bytes (new_trace cfg phys core time flags)) = Some r \<and>
     trace_address r = (if QEM_TRACE_TARGET_64 cfg then phys else phys AND 0xFFFFFFFF) \<and>
     (if QEM_TRACE_GATHER_META cfg
      then trace_timestamp r = time \<and> trace_flags r AND 0xFF = core AND 0xFF \<and>
        trace_flags r AND 0xFFFFFF00 = flags AND 0xFFFFFF00
      else trace_flags r = flags AND 0xFF)"
proof (intro exI conjI)
  show "trace_of_bytes cfg (trace_bytes (new_trace cfg phys core time flags)) =
      Some (new_trace cfg phys core time flags)"
    by (rule trace_of_trace_bytes) simp
  have w: "ucast (ucast phys :: u32) = phys AND 0xFFFFFFFF" "ucast (ucast flags :: u8) = flags AND 0xFF"
  proof -
    have m: "(0xFFFFFFFF :: u64) = mask 32" "(0xFF :: u32) = mask 8"
      by (simp_all add: mask_eq_exp_minus_1)
    show "ucast (ucast phys :: u32) = phys AND 0xFFFFFFFF" "ucast (ucast flags :: u8) = flags AND 0xFF"
      unfolding m by (rule bit_word_eqI; auto simp: bit_unsigned_iff bit_and_iff bit_mask_iff)+
  qed
  show "trace_address (new_trace cfg phys core time flags) =
      (if QEM_TRACE_TARGET_64 cfg then phys else phys AND 0xFFFFFFFF)"
    by (simp add: new_trace_def w)
  show "if QEM_TRACE_GATHER_META cfg
      then trace_timestamp (new_trace cfg phys core time flags) = time \<and>
        trace_flags (new_trace cfg phys core time flags) AND 0xFF = core AND 0xFF \<and>
        trace_flags (new_trace cfg phys core time flags) AND 0xFFFFFF00 = flags AND 0xFFFFFF00
      else trace_flags (new_trace cfg phys core time flags) = flags AND 0xFF"
    by (simp add: new_trace_def w bit.conj_disj_distrib2 and.assoc)
qed

text \<open>
  C30. With metadata the flag word determines the classification of an access: two
  classifications have the same flag word exactly when they agree in every field, the
  granularities LINE and NONE (which share the value 0) being one, and the core number in the
  low byte of the record never touches a field.
\<close>

theorem meta_flags_injective:
  "flags_of True t AND 0xFFFFFF00 = flags_of True u AND 0xFFFFFF00 \<longleftrightarrow>
     tm_access t = tm_access u \<and> tm_data t = tm_data u \<and> tm_pl t = tm_pl u \<and>
     tm_event t = tm_event u \<and> granularity_val True (tm_gran t) = granularity_val True (tm_gran u) \<and>
     tm_size t = tm_size u \<and> tm_coh t = tm_coh u \<and> tm_level t = tm_level u \<and>
     tm_inhib t = tm_inhib u \<and> tm_wt t = tm_wt u \<and> tm_excl t = tm_excl u"
proof
  assume "flags_of True t AND 0xFFFFFF00 = flags_of True u AND 0xFFFFFF00"
  then have "flags_of True t = flags_of True u" by (simp only: flags_of_high)
  then show "tm_access t = tm_access u \<and> tm_data t = tm_data u \<and> tm_pl t = tm_pl u \<and>
     tm_event t = tm_event u \<and> granularity_val True (tm_gran t) = granularity_val True (tm_gran u) \<and>
     tm_size t = tm_size u \<and> tm_coh t = tm_coh u \<and> tm_level t = tm_level u \<and>
     tm_inhib t = tm_inhib u \<and> tm_wt t = tm_wt u \<and> tm_excl t = tm_excl u"
    using flags_of_fields [of t] flags_of_fields [of u] by (simp add: field_values_inject)
qed (simp add: flags_of_def)

text \<open>
  Without metadata a cache lock and a combined flush and invalidate have the same flag
  byte whatever else they are: the value of \<open>QEM_TRACE_EVENT_LOCK\<close> is the union of the
  values of \<open>QEM_TRACE_EVENT_FLUSH\<close> and \<open>QEM_TRACE_EVENT_INVALIDATE\<close>.
\<close>

theorem bare_lock_is_flush_inval:
  "flags_of False (t\<lparr>tm_event := Ev_Lock\<rparr>) = flags_of False (t\<lparr>tm_event := Ev_FlushInval\<rparr>)"
  by (simp add: flags_of_def event_val_def)

end
