(* ===== verification/QEM_Logger.thy ===== *)
theory QEM_Logger
  imports QEM_Trace_Def
begin

text \<open>
  The logging macros of \<^verbatim>\<open>qem_trace_logger.h\<close> and the globals that every back end
  declares. The console is the text written to the standard output so far. The record is
  extensible: each back end adds its own static variables.
\<close>

record tracer =
  console :: string
  qem_tracing_state :: u8
  qem_time_start :: u64

abbreviation newline :: string where
  "newline \<equiv> [CHR 0x0A]"

definition c_printf :: "string \<Rightarrow> 'z tracer_scheme \<Rightarrow> 'z tracer_scheme" where
  "c_printf txt s = s\<lparr>console := console s @ txt\<rparr>"

definition log_tail :: "int \<Rightarrow> string" where
  "log_tail code = (if code \<noteq> 0 then '' | Code '' @ dec_int code @ newline else newline)"

definition QEM_TRACE_INFO :: "string \<Rightarrow> int \<Rightarrow> 'z tracer_scheme \<Rightarrow> 'z tracer_scheme" where
  "QEM_TRACE_INFO msg code s = c_printf (''[QEMINFO] '' @ msg @ log_tail code) s"

definition QEM_TRACE_WARNING :: "string \<Rightarrow> int \<Rightarrow> 'z tracer_scheme \<Rightarrow> 'z tracer_scheme" where
  "QEM_TRACE_WARNING msg code s = c_printf (''[QEMWARN] '' @ msg @ log_tail code) s"

definition QEM_TRACE_ERROR ::
    "string \<Rightarrow> int \<Rightarrow> int \<Rightarrow> 'z tracer_scheme \<Rightarrow> (unit, 'z tracer_scheme) run" where
  "QEM_TRACE_ERROR msg code critical s =
     (let s' = c_printf (''[QEMERROR] '' @ msg @ log_tail code) s
      in if critical \<noteq> 0 then Exited code s' else Done () s')"

text \<open>The pattern \<open>if (bad) QEM_TRACE_ERROR (msg, code, 1);\<close> that guards most calls.\<close>

definition exit_if ::
    "bool \<Rightarrow> string \<Rightarrow> int \<Rightarrow> 'z tracer_scheme \<Rightarrow> (unit, 'z tracer_scheme) run" where
  "exit_if bad msg code s = (if bad then QEM_TRACE_ERROR msg code 1 s else Done () s)"

lemma QEM_TRACE_ERROR_critical [run_simps]:
  "QEM_TRACE_ERROR msg code 1 s =
     Exited code (s\<lparr>console := console s @ ''[QEMERROR] '' @ msg @ log_tail code\<rparr>)"
  by (simp add: QEM_TRACE_ERROR_def c_printf_def)

lemma QEM_TRACE_ERROR_benign [run_simps]:
  "QEM_TRACE_ERROR msg code 0 s =
     Done () (s\<lparr>console := console s @ ''[QEMERROR] '' @ msg @ log_tail code\<rparr>)"
  by (simp add: QEM_TRACE_ERROR_def c_printf_def)

lemma exit_if_simps [run_simps]:
  "exit_if False msg code s = Done () s"
  "exit_if True msg code s =
     Exited code (s\<lparr>console := console s @ ''[QEMERROR] '' @ msg @ log_tail code\<rparr>)"
  by (simp_all add: exit_if_def QEM_TRACE_ERROR_critical)

lemma exit_if_Done [simp]: "exit_if bad msg code s = Done u t \<longleftrightarrow> \<not> bad \<and> t = s"
  by (auto simp: exit_if_def QEM_TRACE_ERROR_critical)

lemma exit_if_safe [simp]: "\<not> is_fault (exit_if bad msg code s)"
  by (simp add: exit_if_def QEM_TRACE_ERROR_critical)

lemma c_printf_simps [simp]:
  "qem_tracing_state (c_printf t s) = qem_tracing_state s"
  "qem_time_start (c_printf t s) = qem_time_start s"
  "console (c_printf t s) = console s @ t"
  by (simp_all add: c_printf_def)

lemma QEM_TRACE_INFO_simps [simp]:
  "qem_tracing_state (QEM_TRACE_INFO m c s) = qem_tracing_state s"
  "qem_time_start (QEM_TRACE_INFO m c s) = qem_time_start s"
  by (simp_all add: QEM_TRACE_INFO_def)

text \<open>
  The arguments of \<open>qem_trace_output\<close>, the one entry point through which the
  architecture helpers reach a back end.
\<close>

record out_args =
  oa_virt_addr :: u64
  oa_phys_addr :: u64
  oa_core :: u32
  oa_time :: u64
  oa_flags :: u32

text \<open>The record of one call of \<open>qem_trace_output\<close>, as bytes.\<close>

definition record_bytes :: "qem_config \<Rightarrow> out_args \<Rightarrow> bytes" where
  "record_bytes cfg a =
     trace_bytes (new_trace cfg (oa_phys_addr a) (oa_core a) (oa_time a) (oa_flags a))"

lemma length_record_bytes [simp]: "length (record_bytes cfg a) = sizeof_qem_trace cfg"
  by (simp add: record_bytes_def)

lemma length_records [simp]:
  "length (concat (map (record_bytes cfg) as)) = length as * sizeof_qem_trace cfg"
  by (induction as) auto

end
