(* ===== verification/QEM_Backend.thy ===== *)
theory QEM_Backend
  imports QEM_Logger "HOL-Library.Sublist"
begin

text \<open>
  The interface of \<^verbatim>\<open>qem_trace_engine.h\<close> between the architecture helpers and a trace
  back end. A helper tests a class bit of \<open>qem_tracing_state\<close> and, when it is set, calls
  \<open>qem_trace_output\<close> once. The locale states what every back end promises about the
  tracing state, the bytes or text it has accepted so far (\<open>log\<close>) and memory safety;
  the lemmas about guests are proved once from these laws.
\<close>

section \<open>Guests\<close>

text \<open>
  What the code generated for a guest instruction does to the tracer: a memory event of a
  class (\<open>DTRACE\<close> or \<open>ITRACE\<close>), which every helper guards with
  \<open>(qem_tracing_state & class) != 0\<close>, or one of the start and stop opcodes.
\<close>

fun guest_event ::
    "('s \<Rightarrow> u8) \<Rightarrow> (out_args \<Rightarrow> 's \<Rightarrow> (unit, 's) run) \<Rightarrow> u8 \<times> out_args \<Rightarrow> 's \<Rightarrow> (unit, 's) run" where
  "guest_event tstate emit (k, a) s = (if tstate s AND k \<noteq> 0 then emit a s else Done () s)"

fun guest_events ::
    "('s \<Rightarrow> u8) \<Rightarrow> (out_args \<Rightarrow> 's \<Rightarrow> (unit, 's) run) \<Rightarrow> (u8 \<times> out_args) list \<Rightarrow> 's \<Rightarrow> (unit, 's) run" where
  "guest_events tstate emit [] s = Done () s"
| "guest_events tstate emit (e # es) s =
     bind_run (guest_event tstate emit e s) (\<lambda>_. guest_events tstate emit es)"

text \<open>The events of the classes that a tracing state enables.\<close>

definition enabled_events :: "u8 \<Rightarrow> (u8 \<times> out_args) list \<Rightarrow> out_args list" where
  "enabled_events st es = map snd (filter (\<lambda>e. st AND fst e \<noteq> 0) es)"

text \<open>A session, from a start command to a stop command.\<close>

definition session ::
    "(u8 \<Rightarrow> 's \<Rightarrow> (unit, 's) run) \<Rightarrow> (u8 \<Rightarrow> 's \<Rightarrow> (unit, 's) run) \<Rightarrow> ('s \<Rightarrow> u8) \<Rightarrow>
     (out_args \<Rightarrow> 's \<Rightarrow> (unit, 's) run) \<Rightarrow> u8 \<Rightarrow> (u8 \<times> out_args) list \<Rightarrow> u8 \<Rightarrow> 's \<Rightarrow> (unit, 's) run" where
  "session enable disable tstate emit t es t' s =
     bind_run (enable t s) (\<lambda>_ s1.
     bind_run (guest_events tstate emit es s1) (\<lambda>_ s2. disable t' s2))"

text \<open>Any sequence of start and stop commands and memory events.\<close>

datatype command = Cmd_Start u8 | Cmd_Stop u8 | Cmd_Event "u8 \<times> out_args"

fun run_command ::
    "(u8 \<Rightarrow> 's \<Rightarrow> (unit, 's) run) \<Rightarrow> (u8 \<Rightarrow> 's \<Rightarrow> (unit, 's) run) \<Rightarrow> ('s \<Rightarrow> u8) \<Rightarrow>
     (out_args \<Rightarrow> 's \<Rightarrow> (unit, 's) run) \<Rightarrow> command \<Rightarrow> 's \<Rightarrow> (unit, 's) run" where
  "run_command enable disable tstate emit (Cmd_Start t) s = enable t s"
| "run_command enable disable tstate emit (Cmd_Stop t) s = disable t s"
| "run_command enable disable tstate emit (Cmd_Event e) s = guest_event tstate emit e s"

fun run_commands ::
    "(u8 \<Rightarrow> 's \<Rightarrow> (unit, 's) run) \<Rightarrow> (u8 \<Rightarrow> 's \<Rightarrow> (unit, 's) run) \<Rightarrow> ('s \<Rightarrow> u8) \<Rightarrow>
     (out_args \<Rightarrow> 's \<Rightarrow> (unit, 's) run) \<Rightarrow> command list \<Rightarrow> 's \<Rightarrow> (unit, 's) run" where
  "run_commands enable disable tstate emit [] s = Done () s"
| "run_commands enable disable tstate emit (c # cs) s =
     bind_run (run_command enable disable tstate emit c s) (\<lambda>_. run_commands enable disable tstate emit cs)"

text \<open>
  What such a sequence should do: the tracing state after it, and the events that are accepted,
  those whose class is enabled at that moment.
\<close>

fun command_state :: "command \<Rightarrow> u8 \<Rightarrow> u8" where
  "command_state (Cmd_Start t) st = t"
| "command_state (Cmd_Stop t) st = st AND NOT t"
| "command_state (Cmd_Event e) st = st"

fun commands_state :: "command list \<Rightarrow> u8 \<Rightarrow> u8" where
  "commands_state [] st = st"
| "commands_state (c # cs) st = commands_state cs (command_state c st)"

fun accepted :: "command list \<Rightarrow> u8 \<Rightarrow> out_args list" where
  "accepted [] st = []"
| "accepted (c # cs) st =
     (case c of Cmd_Event (k, a) \<Rightarrow> if st AND k \<noteq> 0 then [a] else [] | _ \<Rightarrow> []) @ accepted cs (command_state c st)"

section \<open>The contract of a back end\<close>

locale trace_backend =
  fixes enable :: "u8 \<Rightarrow> 's \<Rightarrow> (unit, 's) run"
    and disable :: "u8 \<Rightarrow> 's \<Rightarrow> (unit, 's) run"
    and emit :: "out_args \<Rightarrow> 's \<Rightarrow> (unit, 's) run"
    and tstate :: "'s \<Rightarrow> u8"
    and inv :: "'s \<Rightarrow> bool"
    and log :: "'s \<Rightarrow> 'r list"
    and entry :: "out_args \<Rightarrow> 'r list"
  assumes enable_inv: "\<lbrakk>inv s; t \<noteq> 0; enable t s = Done () s'\<rbrakk> \<Longrightarrow> inv s'"
    and enable_tstate: "\<lbrakk>inv s; t \<noteq> 0; enable t s = Done () s'\<rbrakk> \<Longrightarrow> tstate s' = t"
    and enable_log: "\<lbrakk>inv s; t \<noteq> 0; enable t s = Done () s'\<rbrakk> \<Longrightarrow> prefix (log s) (log s')"
    and disable_inv: "\<lbrakk>inv s; disable t s = Done () s'\<rbrakk> \<Longrightarrow> inv s'"
    and disable_tstate: "\<lbrakk>inv s; disable t s = Done () s'\<rbrakk> \<Longrightarrow> tstate s' = tstate s AND NOT t"
    and disable_log: "\<lbrakk>inv s; disable t s = Done () s'\<rbrakk> \<Longrightarrow> prefix (log s) (log s')"
    and disable_safe: "inv s \<Longrightarrow> \<not> is_fault (disable t s)"
    and emit_inv: "\<lbrakk>inv s; tstate s \<noteq> 0; emit a s = Done () s'\<rbrakk> \<Longrightarrow> inv s'"
    and emit_tstate: "\<lbrakk>inv s; tstate s \<noteq> 0; emit a s = Done () s'\<rbrakk> \<Longrightarrow> tstate s' = tstate s"
    and emit_log: "\<lbrakk>inv s; tstate s \<noteq> 0; emit a s = Done () s'\<rbrakk> \<Longrightarrow> log s' = log s @ entry a"
    and emit_safe: "\<lbrakk>inv s; tstate s \<noteq> 0\<rbrakk> \<Longrightarrow> \<not> is_fault (emit a s)"
begin

lemma guest_event_Done:
  assumes "inv s" and "guest_event tstate emit e s = Done () s'"
  shows "inv s' \<and> tstate s' = tstate s \<and>
    log s' = log s @ (if tstate s AND fst e \<noteq> 0 then entry (snd e) else [])"
proof (cases e)
  case (Pair k a)
  show ?thesis
  proof (cases "tstate s AND k \<noteq> 0")
    case True
    then have "tstate s \<noteq> 0" by auto
    with True assms Pair show ?thesis
      by (auto dest: emit_inv emit_tstate emit_log)
  next
    case False
    with assms Pair show ?thesis by auto
  qed
qed

text \<open>
  Between two start or stop commands exactly the events of the enabled classes are
  accepted, in order, and the tracing state does not move.
\<close>

lemma guest_events_log:
  assumes "inv s" and "guest_events tstate emit es s = Done () s'"
  shows "inv s' \<and> tstate s' = tstate s \<and>
    log s' = log s @ concat (map entry (enabled_events (tstate s) es))"
  using assms
proof (induction es arbitrary: s)
  case Nil
  then show ?case by (simp add: enabled_events_def)
next
  case (Cons e es)
  then obtain s1 where s1: "guest_event tstate emit e s = Done () s1" "guest_events tstate emit es s1 = Done () s'"
    by (auto simp: bind_run_Done_iff)
  from guest_event_Done [OF Cons.prems(1) s1(1)] Cons.IH [OF _ s1(2)]
  show ?case by (auto simp: enabled_events_def)
qed

text \<open>No sequence of guest events makes the back end leave the bounds of its buffers.\<close>

lemma guest_event_safe:
  assumes "inv s"
  shows "\<not> is_fault (guest_event tstate emit e s)"
proof (cases e)
  case (Pair k a)
  have "tstate s AND k \<noteq> 0 \<Longrightarrow> tstate s \<noteq> 0" by auto
  with Pair emit_safe [OF assms, of a] show ?thesis by auto
qed

lemma guest_events_safe: "inv s \<Longrightarrow> \<not> is_fault (guest_events tstate emit es s)"
proof (induction es arbitrary: s)
  case Nil
  then show ?case by simp
next
  case (Cons e es)
  show ?case
    using guest_event_safe [OF Cons.prems, of e] Cons.IH guest_event_Done [OF Cons.prems, of e]
    by (auto simp: is_fault_bind)
qed

lemma session_Done:
  assumes "inv s" and "session enable disable tstate emit t es t' s = Done () s'" and "t \<noteq> 0"
  shows "inv s'" and "tstate s' = t AND NOT t'"
    and "\<exists>pre post. log s' = log s @ pre @
      concat (map entry (enabled_events t es)) @ post"
proof -
  from assms(2) obtain s1 s2 where r: "enable t s = Done () s1" "guest_events tstate emit es s1 = Done () s2"
    "disable t' s2 = Done () s'"
    by (auto simp: session_def bind_run_Done_iff)
  from r(1) assms(1,3) have 1: "inv s1" "tstate s1 = t" "prefix (log s) (log s1)"
    by (auto dest: enable_inv enable_tstate enable_log)
  from guest_events_log [OF 1(1) r(2)] 1(2) have 2: "inv s2" "tstate s2 = t"
    "log s2 = log s1 @ concat (map entry (enabled_events t es))"
    by auto
  show "inv s'" "tstate s' = t AND NOT t'"
    using 2(1,2) r(3) by (auto dest: disable_inv disable_tstate)
  obtain post where "log s' = log s2 @ post"
    using disable_log [OF 2(1) r(3)] by (auto simp: prefix_def)
  moreover obtain pre where "log s1 = log s @ pre"
    using 1(3) by (auto simp: prefix_def)
  ultimately show "\<exists>pre post. log s' = log s @ pre @
      concat (map entry (enabled_events t es)) @ post"
    using 2(3) by auto
qed

end

text \<open>A back end whose start and stop commands leave no entry of their own.\<close>

locale quiet_backend = trace_backend +
  assumes enable_quiet: "\<lbrakk>inv s; t \<noteq> 0; enable t s = Done () s'\<rbrakk> \<Longrightarrow> log s' = log s"
    and disable_quiet: "\<lbrakk>inv s; disable t s = Done () s'\<rbrakk> \<Longrightarrow> log s' = log s"
begin

lemma command_exact:
  assumes "inv s" and "c \<noteq> Cmd_Start 0" and "run_command enable disable tstate emit c s = Done () s'"
  shows "inv s' \<and> tstate s' = command_state c (tstate s) \<and>
    log s' = log s @ concat (map entry (accepted [c] (tstate s)))"
proof (cases c)
  case (Cmd_Start t)
  then show ?thesis
    using assms enable_inv [of s t s'] enable_tstate [of s t s'] enable_quiet [of s t s'] by simp
next
  case (Cmd_Stop t)
  then show ?thesis
    using assms disable_inv [of s t s'] disable_tstate [of s t s'] disable_quiet [of s t s'] by simp
next
  case (Cmd_Event e)
  then show ?thesis
    using guest_event_Done [OF assms(1), of e s'] assms(3) by (cases e) simp
qed

lemma commands_exact:
  assumes "inv s" and "Cmd_Start 0 \<notin> set cs" and "run_commands enable disable tstate emit cs s = Done () s'"
  shows "inv s' \<and> tstate s' = commands_state cs (tstate s) \<and>
    log s' = log s @ concat (map entry (accepted cs (tstate s)))"
  using assms
proof (induction cs arbitrary: s)
  case Nil
  then show ?case by simp
next
  case (Cons c cs)
  then obtain s1 where s1: "run_command enable disable tstate emit c s = Done () s1"
    "run_commands enable disable tstate emit cs s1 = Done () s'"
    by (auto simp: bind_run_Done_iff)
  from command_exact [OF Cons.prems(1) _ s1(1)] Cons.IH [OF _ _ s1(2)] Cons.prems(2)
  show ?case by auto
qed

end

end
