(* ===== verification/QEM_Trace_Print.thy ===== *)
theory QEM_Trace_Print
  imports QEM_Backend
begin

text \<open>
  The printing back end, \<^verbatim>\<open>qem_trace_print.c\<close>: it keeps no state of its own beyond the
  tracer globals and writes one line per event to the standard output.
\<close>

section \<open>Operations\<close>

type_synonym printer = tracer

definition print_qem_trace_enable :: "u8 \<Rightarrow> printer \<Rightarrow> (unit, printer) run" where
  "print_qem_trace_enable type s = Done () (s\<lparr>qem_tracing_state := type\<rparr>)"

definition print_qem_trace_disable :: "u8 \<Rightarrow> printer \<Rightarrow> (unit, printer) run" where
  "print_qem_trace_disable type s =
     Done () (s\<lparr>qem_tracing_state := qem_tracing_state s AND NOT type\<rparr>)"

text \<open>The clock value is what \<open>qemu_clock_get_ns\<close> returns at the call.\<close>

definition print_qem_trace_start_timer :: "u64 \<Rightarrow> printer \<Rightarrow> (unit, printer) run" where
  "print_qem_trace_start_timer now s = Done () (s\<lparr>qem_time_start := now\<rparr>)"

definition print_qem_trace_get_timer :: "u64 \<Rightarrow> printer \<Rightarrow> (unit, printer) run" where
  "print_qem_trace_get_timer now s =
     Done () (c_printf (''[QEMU] Elapsed time = '' @ dec_nat (unat (now - qem_time_start s)) @
       newline) s)"

text \<open>The first column: the tests are by inclusion of bits, in the order of the source.\<close>

definition print_event_prefix :: "bool \<Rightarrow> u32 \<Rightarrow> string" where
  "print_event_prefix meta flags =
     (let has = (\<lambda>v. flags AND v = v); ev = event_val meta
      in if has (ev QEM_TRACE_EVENT_DCBZ) then ''D ''
         else if has (ev QEM_TRACE_EVENT_PREFETCH) then ''P ''
         else if has (ev QEM_TRACE_EVENT_UNLOCK) then ''U ''
         else if has (ev QEM_TRACE_EVENT_LOCK) then ''L ''
         else if has (ev QEM_TRACE_EVENT_INVALIDATE OR ev QEM_TRACE_EVENT_FLUSH) then ''FL/INV ''
         else if has (ev QEM_TRACE_EVENT_INVALIDATE) then ''INV ''
         else if has (ev QEM_TRACE_EVENT_FLUSH) then ''FL ''
         else if flags AND data_type_val meta QEM_TRACE_DATA_TYPE_INST \<noteq> 0 then ''I '' else ''D '')"

text \<open>The column \<open>E\<close>: the tests are by equality under the event mask.\<close>

definition print_event_char :: "bool \<Rightarrow> u32 \<Rightarrow> char" where
  "print_event_char meta flags =
     (let f = flags AND QEM_TRACE_EVENT_MASK meta; ev = event_val meta
      in if f = ev QEM_TRACE_EVENT_DCBZ then CHR ''D''
         else if f = ev QEM_TRACE_EVENT_PREFETCH then CHR ''P''
         else if f = ev QEM_TRACE_EVENT_UNLOCK then CHR ''U''
         else if f = ev QEM_TRACE_EVENT_LOCK then CHR ''L''
         else if f = ev QEM_TRACE_EVENT_INVALIDATE OR ev QEM_TRACE_EVENT_FLUSH then CHR ''B''
         else if f = ev QEM_TRACE_EVENT_INVALIDATE then CHR ''I''
         else if f = ev QEM_TRACE_EVENT_FLUSH then CHR ''F'' else CHR ''A'')"

definition print_gran_char :: "bool \<Rightarrow> u32 \<Rightarrow> char" where
  "print_gran_char meta flags =
     (let f = flags AND QEM_TRACE_GRANULARITY_MASK meta
      in if f = granularity_val meta QEM_TRACE_GRANULARITY_SET then CHR ''S''
         else if f = granularity_val meta QEM_TRACE_GRANULARITY_WAY then CHR ''W''
         else if f = granularity_val meta QEM_TRACE_GRANULARITY_GLOBAL then CHR ''G'' else CHR ''L'')"

definition print_size_char :: "bool \<Rightarrow> u32 \<Rightarrow> char" where
  "print_size_char meta flags =
     (let f = flags AND QEM_TRACE_DATA_SIZE_MASK meta
      in if f = data_size_val meta QEM_TRACE_DATA_SIZE_16_BITS then CHR ''H''
         else if f = data_size_val meta QEM_TRACE_DATA_SIZE_32_BITS then CHR ''W''
         else if f = data_size_val meta QEM_TRACE_DATA_SIZE_64_BITS then CHR ''D'' else CHR ''B'')"

definition print_level_char :: "bool \<Rightarrow> u32 \<Rightarrow> char" where
  "print_level_char meta flags =
     (let f = flags AND QEM_TRACE_CACHE_LEVEL_MASK meta
      in if f = cache_level_val meta QEM_TRACE_CACHE_LEVEL_ALL then CHR ''A''
         else if f = cache_level_val meta QEM_TRACE_CACHE_LEVEL_3 then CHR ''3''
         else if f = cache_level_val meta QEM_TRACE_CACHE_LEVEL_2 then CHR ''2'' else CHR ''1'')"

definition flag_char :: "u32 \<Rightarrow> u32 \<Rightarrow> char \<Rightarrow> char \<Rightarrow> char" where
  "flag_char flags v y n = (if flags AND v \<noteq> 0 then y else n)"

text \<open>
  The conversion \<open>%08x\<close> reads an \<open>unsigned int\<close>: on a 64-bit target the low half of the
  address is printed. \<open>%d\<close> reads the core number as a signed integer.
\<close>

definition print_trace_line :: "bool \<Rightarrow> out_args \<Rightarrow> string" where
  "print_trace_line meta a =
     (let flags = oa_flags a
      in print_event_prefix meta flags @
         (if flags AND access_type_val meta QEM_TRACE_ACCESS_TYPE_WRITE \<noteq> 0
          then ''ST '' else ''LD '') @
         ''| V 0x'' @ pad0 8 (hex_nat (unat (ucast (oa_virt_addr a) :: u32))) @
         '' | P 0x'' @ pad0 8 (hex_nat (unat (ucast (oa_phys_addr a) :: u32))) @
         '' | Core '' @ dec_int (sint (oa_core a)) @
         '' | Time '' @ dec_nat (unat (oa_time a)) @
         '' | RW: '' @ [flag_char flags (access_type_val meta QEM_TRACE_ACCESS_TYPE_WRITE)
                          CHR ''W'' CHR ''R''] @
         '' | ID: '' @ [flag_char flags (data_type_val meta QEM_TRACE_DATA_TYPE_INST)
                          CHR ''I'' CHR ''D''] @
         '' | PL: '' @ [flag_char flags (pl_val meta QEM_TRACE_PL_USER) CHR ''U'' CHR ''K''] @
         '' | E: '' @ [print_event_char meta flags] @
         '' | G: '' @ [print_gran_char meta flags] @
         '' | S: '' @ [print_size_char meta flags] @
         '' | CR: '' @ [flag_char flags (coherency_val meta QEM_TRACE_COHERENCY_REQ)
                          CHR ''Y'' CHR ''N''] @
         '' | CL: '' @ [print_level_char meta flags] @
         '' | CI: '' @ [flag_char flags (cache_inhibit_val meta QEM_TRACE_CACHE_INHIBIT_ON)
                          CHR ''Y'' CHR ''N''] @
         '' | WT: '' @ [flag_char flags (cache_wt_val meta QEM_TRACE_CACHE_WT_ON)
                          CHR ''E'' CHR ''D''] @
         '' | EX: '' @ [flag_char flags (exclusive_val meta QEM_TRACE_EVENT_EXCLUSIVE)
                          CHR ''Y'' CHR ''N''] @ newline)"

definition print_qem_trace_output ::
    "qem_config \<Rightarrow> out_args \<Rightarrow> printer \<Rightarrow> (unit, printer) run" where
  "print_qem_trace_output cfg a s =
     Done () (c_printf (print_trace_line (QEM_TRACE_GATHER_META cfg) a) s)"

section \<open>The printed columns show the fields of the flag word\<close>

text \<open>The letter of each class in the columns of the output.\<close>

fun event_letter :: "trace_event \<Rightarrow> char" where
  "event_letter Ev_Access = CHR ''A''"
| "event_letter Ev_Flush = CHR ''F''"
| "event_letter Ev_Invalidate = CHR ''I''"
| "event_letter Ev_FlushInval = CHR ''B''"
| "event_letter Ev_Lock = CHR ''L''"
| "event_letter Ev_Unlock = CHR ''U''"
| "event_letter Ev_Prefetch = CHR ''P''"
| "event_letter Ev_Dcbz = CHR ''D''"

fun event_word :: "trace_event \<Rightarrow> QEM_TRACE_DATA_TYPE_E \<Rightarrow> string" where
  "event_word Ev_Access d = (if d = QEM_TRACE_DATA_TYPE_INST then ''I '' else ''D '')"
| "event_word Ev_Flush d = ''FL ''"
| "event_word Ev_Invalidate d = ''INV ''"
| "event_word Ev_FlushInval d = ''FL/INV ''"
| "event_word Ev_Lock d = ''L ''"
| "event_word Ev_Unlock d = ''U ''"
| "event_word Ev_Prefetch d = ''P ''"
| "event_word Ev_Dcbz d = ''D ''"

lemma print_event_char_flags: "print_event_char True (flags_of True t) = event_letter (tm_event t)"
  unfolding print_event_char_def Let_def flags_of_fields
  by (cases "tm_event t") (simp_all add: event_val_def)

text \<open>
  Inclusion of an event code in the flag word is inclusion in its event field, and the
  order of the tests makes the chain decode the field exactly.
\<close>

lemma has_event_iff:
  assumes "v AND QEM_TRACE_EVENT_MASK True = v"
  shows "flags_of True t AND v = v \<longleftrightarrow> trace_event_val True (tm_event t) AND v = v"
proof -
  have "flags_of True t AND v = (flags_of True t AND QEM_TRACE_EVENT_MASK True) AND v"
    using assms by (metis and.assoc and.commute)
  then show ?thesis by (simp add: flags_of_fields)
qed

lemma flags_of_data_inst:
  "flags_of True t AND data_type_val True QEM_TRACE_DATA_TYPE_INST \<noteq> 0 \<longleftrightarrow>
     tm_data t = QEM_TRACE_DATA_TYPE_INST"
proof -
  have "data_type_val True QEM_TRACE_DATA_TYPE_INST = QEM_TRACE_DATA_TYPE_MASK True"
    by (simp add: data_type_val_def QEM_TRACE_DATA_TYPE_MASK_def)
  then show ?thesis
    by (simp add: flags_of_fields) (cases "tm_data t"; simp add: data_type_val_def
        QEM_TRACE_DATA_TYPE_MASK_def)
qed

lemma print_event_prefix_flags:
  "print_event_prefix True (flags_of True t) = event_word (tm_event t) (tm_data t)"
  unfolding print_event_prefix_def Let_def
  by (cases "tm_event t")
    (simp_all add: has_event_iff flags_of_data_inst event_val_def QEM_TRACE_EVENT_MASK_def)


section \<open>The printing back end meets the interface\<close>

interpretation print_backend: trace_backend
  print_qem_trace_enable print_qem_trace_disable "print_qem_trace_output cfg"
  qem_tracing_state "\<lambda>s. True" console "print_trace_line (QEM_TRACE_GATHER_META cfg)"
  by unfold_locales
    (auto simp: print_qem_trace_enable_def print_qem_trace_disable_def print_qem_trace_output_def)

interpretation print_quiet: quiet_backend
  print_qem_trace_enable print_qem_trace_disable "print_qem_trace_output cfg"
  qem_tracing_state "\<lambda>s. True" console "print_trace_line (QEM_TRACE_GATHER_META cfg)"
  by unfold_locales (auto simp: print_qem_trace_enable_def print_qem_trace_disable_def)

text \<open>Printing always returns.\<close>

lemma print_commands_return:
  "\<exists>s'. run_commands print_qem_trace_enable print_qem_trace_disable qem_tracing_state (print_qem_trace_output cfg) cs s = Done () s'"
proof (induction cs arbitrary: s)
  case Nil
  then show ?case by simp
next
  case (Cons c cs)
  have "\<exists>s1. run_command print_qem_trace_enable print_qem_trace_disable qem_tracing_state (print_qem_trace_output cfg) c s = Done () s1"
    by (cases c) (auto simp: print_qem_trace_enable_def print_qem_trace_disable_def print_qem_trace_output_def)
  with Cons show ?case by auto
qed

end
