(* ===== verification/QEM_Stdio.thy ===== *)
theory QEM_Stdio
  imports QEM_Backend
begin

text \<open>
  The part of the C library the file back ends rely on: named files with their bytes, one
  open stream with its position, and the results of the library calls. The library is not
  part of the sources, so what a call returns is a parameter: \<open>libc_io\<close> gives, for the
  number of the call, whether \<open>fopen\<close> succeeds (0 or the error number), what \<open>fseek\<close>
  and \<open>fclose\<close> return and how many items \<open>fwrite\<close> writes. The buffer of a stream is not
  modelled: what is written is in the file at once, so that what a failing \<open>fclose\<close> may lose is
  not seen, and the results about the contents of files assume that it succeeds.
\<close>

record libc_io =
  io_fopen :: "nat \<Rightarrow> int"
  io_fseek :: "nat \<Rightarrow> int"
  io_fwrite :: "nat \<Rightarrow> nat \<Rightarrow> nat"
  io_fclose :: "nat \<Rightarrow> int"
  io_errno :: "nat \<Rightarrow> int"

text \<open>A library whose calls all succeed, and the documented bound of \<open>fwrite\<close>.\<close>

definition io_reliable :: "libc_io \<Rightarrow> bool" where
  "io_reliable io \<longleftrightarrow> (\<forall>n. io_fopen io n = 0) \<and> (\<forall>n. io_fseek io n = 0) \<and>
     (\<forall>n k. io_fwrite io n k = k) \<and> (\<forall>n. io_fclose io n = 0)"

definition good_io :: libc_io where
  "good_io = \<lparr>io_fopen = (\<lambda>_. 0), io_fseek = (\<lambda>_. 0), io_fwrite = (\<lambda>_ k. k),
     io_fclose = (\<lambda>_. 0), io_errno = (\<lambda>_. 0)\<rparr>"

lemma io_reliable_good_io [simp]: "io_reliable good_io"
  by (simp add: io_reliable_def good_io_def)

lemma io_reliable_simps:
  assumes "io_reliable io"
  shows "io_fopen io n = 0" "io_fseek io n = 0" "io_fwrite io n k = k" "io_fclose io n = 0"
  using assms by (simp_all add: io_reliable_def)

text \<open>
  The state: the files of the working directory, the open stream (file name and position)
  and the number of library calls made.
\<close>

record stdio = tracer +
  fs :: "string \<Rightarrow> bytes option"
  qem_trace_file_fd :: "(string \<times> nat) option"
  io_calls :: nat

text \<open>Writing at a position overwrites what is there and extends the file; a gap reads as zero.\<close>

definition file_overwrite :: "bytes \<Rightarrow> nat \<Rightarrow> bytes \<Rightarrow> bytes" where
  "file_overwrite d pos bs =
     take pos (d @ replicate (pos - length d) 0) @ bs @ drop (pos + length bs) d"

lemma file_overwrite_end [simp]: "file_overwrite d (length d) bs = d @ bs"
  by (simp add: file_overwrite_def)

lemma file_overwrite_start: "file_overwrite d 0 bs = bs @ drop (length bs) d"
  by (simp add: file_overwrite_def)

definition c_remove :: "string \<Rightarrow> 'z stdio_scheme \<Rightarrow> 'z stdio_scheme" where
  "c_remove name s = s\<lparr>fs := (fs s)(name := None)\<rparr>"

text \<open>\<open>fopen (name, "wb+")\<close>: 0 when a stream was opened, the error number otherwise.\<close>

definition c_fopen_wb :: "libc_io \<Rightarrow> string \<Rightarrow> 'z stdio_scheme \<Rightarrow> (int, 'z stdio_scheme) run" where
  "c_fopen_wb io name s =
     (if io_fopen io (io_calls s) = 0
      then Done 0 (s\<lparr>fs := (fs s)(name := Some []), qem_trace_file_fd := Some (name, 0),
             io_calls := Suc (io_calls s)\<rparr>)
      else Done (io_fopen io (io_calls s)) (s\<lparr>qem_trace_file_fd := None, io_calls := Suc (io_calls s)\<rparr>))"

definition c_fseek_set :: "libc_io \<Rightarrow> nat \<Rightarrow> 'z stdio_scheme \<Rightarrow> (int, 'z stdio_scheme) run" where
  "c_fseek_set io off s =
     (case qem_trace_file_fd s of
        None \<Rightarrow> Fault s
      | Some (name, pos) \<Rightarrow>
          let r = io_fseek io (io_calls s)
          in Done r (s\<lparr>qem_trace_file_fd := Some (name, if r = 0 then off else pos),
                       io_calls := Suc (io_calls s)\<rparr>))"

text \<open>
  \<open>fwrite (buf, size, n, fd)\<close>: reading past the end of \<open>buf\<close> or using a stream that is
  not open is a fault; otherwise the library writes some items and returns their number.
\<close>

definition c_fwrite ::
    "libc_io \<Rightarrow> bytes \<Rightarrow> nat \<Rightarrow> nat \<Rightarrow> 'z stdio_scheme \<Rightarrow> (nat, 'z stdio_scheme) run" where
  "c_fwrite io buf sz n s =
     (case qem_trace_file_fd s of
        None \<Rightarrow> Fault s
      | Some (name, pos) \<Rightarrow>
          (case fs s name of
             None \<Rightarrow> Fault s
           | Some d \<Rightarrow>
               if length buf < n * sz then Fault s
               else let k = io_fwrite io (io_calls s) n; bs = take (k * sz) buf
                    in Done k (s\<lparr>fs := (fs s)(name := Some (file_overwrite d pos bs)),
                                 qem_trace_file_fd := Some (name, pos + length bs),
                                 io_calls := Suc (io_calls s)\<rparr>)))"

text \<open>\<open>fclose\<close> ends the stream whatever it returns.\<close>

definition c_fclose :: "libc_io \<Rightarrow> 'z stdio_scheme \<Rightarrow> (int, 'z stdio_scheme) run" where
  "c_fclose io s =
     (case qem_trace_file_fd s of
        None \<Rightarrow> Fault s
      | Some _ \<Rightarrow> Done (io_fclose io (io_calls s))
          (s\<lparr>qem_trace_file_fd := None, io_calls := Suc (io_calls s)\<rparr>))"

section \<open>Names of the trace files\<close>

text \<open>\<open>%08d\<close> of an \<open>int\<close>; the sign counts in the width.\<close>

definition fmt_08d :: "int \<Rightarrow> string" where
  "fmt_08d i = (if i < 0 then CHR ''-'' # pad0 7 (dec_nat (nat (- i))) else pad0 8 (dec_nat (nat i)))"

definition trace_file_name :: "u32 \<Rightarrow> string" where
  "trace_file_name index = ''qem_trace_'' @ fmt_08d (sint index) @ ''.out''"

lemma sint_small_index:
  assumes "unat (i :: u32) < 2 ^ 31"
  shows "sint i = int (unat i)"
proof -
  have "uint i < 2 ^ 31" using assms by (metis of_nat_less_iff of_nat_numeral of_nat_power uint_nat)
  then have "signed_take_bit 31 (uint i) = uint i"
    using uint_ge_0 [of i] by (intro signed_take_bit_int_eq_self) linarith+
  then show ?thesis by (simp add: sint_uint)
qed

lemma trace_file_name_length:
  assumes "unat index < 10 ^ 8"
  shows "length (trace_file_name index) = 22"
proof -
  have "length (dec_nat (unat index)) \<le> 8"
    using assms by (intro length_dec_nat) auto
  moreover have "sint index = int (unat index)"
    using assms by (intro sint_small_index) simp
  ultimately show ?thesis by (simp add: trace_file_name_def fmt_08d_def)
qed


text \<open>Reading the number back out of the name: two indices never share a file.\<close>

definition dec_val :: "string \<Rightarrow> nat" where
  "dec_val s = foldl (\<lambda>a c. 10 * a + (of_char c - 48)) 0 s"

lemma dec_val_snoc: "dec_val (s @ [c]) = 10 * dec_val s + (of_char c - 48)"
  by (simp add: dec_val_def)

lemma of_char_hex_char: "d < 10 \<Longrightarrow> of_char (hex_char d) = (48 + d :: nat)"
proof -
  assume "d < 10"
  then have "d \<in> {0, 1, 2, 3, 4, 5, 6, 7, 8, 9}" by auto
  then show ?thesis by (auto simp: hex_char_def)
qed

lemma dec_val_dec_nat: "dec_val (dec_nat n) = n"
proof (induction n rule: dec_nat.induct)
  case (1 n)
  show ?case
  proof (cases "n < 10")
    case True
    then show ?thesis by (subst dec_nat.simps) (simp add: dec_val_def of_char_hex_char)
  next
    case False
    then show ?thesis
      by (subst dec_nat.simps) (simp add: dec_val_snoc of_char_hex_char "1.IH")
  qed
qed

lemma dec_val_pad0: "dec_val (pad0 w s) = dec_val s"
proof -
  have "foldl (\<lambda>a c. 10 * a + (of_char c - 48)) 0 (replicate k (CHR ''0'')) = (0::nat)" for k
    by (induction k) auto
  then show ?thesis by (simp add: dec_val_def pad0_def)
qed

lemma trace_file_name_inj:
  assumes "trace_file_name i = trace_file_name j" and "unat i < 2 ^ 31" and "unat j < 2 ^ 31"
  shows "i = j"
proof -
  from assms have "pad0 8 (dec_nat (unat i)) = pad0 8 (dec_nat (unat j))"
    by (simp add: trace_file_name_def fmt_08d_def sint_small_index)
  then have "unat i = unat j" by (metis dec_val_pad0 dec_val_dec_nat)
  then show ?thesis by (rule word_unat_eq_iff [THEN iffD2])
qed

text \<open>The first index whose name no longer fits the 23 bytes of the local array.\<close>

lemma trace_file_name_too_long: "length (trace_file_name 100000000) = 23"
  by (simp add: trace_file_name_def fmt_08d_def sint_small_index dec_nat.simps)

section \<open>Effect of the calls on an open stream\<close>

lemma c_fwrite_open:
  assumes "qem_trace_file_fd s = Some (name, pos)" and "fs s name = Some d"
    and "n * sz \<le> length buf" and "k = io_fwrite io (io_calls s) n"
  shows "c_fwrite io buf sz n s =
    Done k (s\<lparr>fs := (fs s)(name := Some (file_overwrite d pos (take (k * sz) buf))),
              qem_trace_file_fd := Some (name, pos + length (take (k * sz) buf)),
              io_calls := Suc (io_calls s)\<rparr>)"
  using assms by (simp add: c_fwrite_def Let_def)

lemma c_fseek_set_open:
  assumes "qem_trace_file_fd s = Some (name, pos)"
  shows "c_fseek_set io off s = Done (io_fseek io (io_calls s))
    (s\<lparr>qem_trace_file_fd := Some (name, if io_fseek io (io_calls s) = 0 then off else pos),
       io_calls := Suc (io_calls s)\<rparr>)"
  using assms by (simp add: c_fseek_set_def Let_def)

lemma c_fclose_open:
  assumes "qem_trace_file_fd s = Some f"
  shows "c_fclose io s = Done (io_fclose io (io_calls s))
    (s\<lparr>qem_trace_file_fd := None, io_calls := Suc (io_calls s)\<rparr>)"
  using assms by (simp add: c_fclose_def)

lemma c_fopen_wb_never_fault [simp]: "\<not> is_fault (c_fopen_wb io name s)"
  by (simp add: c_fopen_wb_def)

end
