(* ===== verification/QEM_Trace_File.thy ===== *)
theory QEM_Trace_File
  imports QEM_Stdio
begin

text \<open>
  The file back end with one buffer, \<^verbatim>\<open>qem_trace_file.c\<close>. Records are collected in a
  static array of \<open>QEM_TRACE_BUFFER_SIZE\<close> entries and written when it is full or when
  tracing stops; a header at the start of the file is rewritten at the end.
\<close>

section \<open>State and operations\<close>

record file_tracer = stdio +
  qem_trace_buffer_size :: nat
  qem_file_size :: u64
  qem_trace_buffer :: bytes
  qem_file_index :: u32

definition file_qem_write_header ::
    "libc_io \<Rightarrow> u64 \<Rightarrow> u32 \<Rightarrow> u32 \<Rightarrow> file_tracer \<Rightarrow> (unit, file_tracer) run" where
  "file_qem_write_header io fsize trace_size trace_version s =
     (let header = \<lparr>hdr_size = fsize, hdr_struct_size = ucast trace_size,
                    hdr_version = ucast trace_version, hdr_reserved = replicate 5 0\<rparr>
      in bind_run (c_fseek_set io 0 s) (\<lambda>error s.
         bind_run (exit_if (error \<noteq> 0) ''Could not set the header marker'' error s) (\<lambda>_ s.
         bind_run (c_fwrite io (header_bytes header) sizeof_qem_trace_header 1 s) (\<lambda>error s.
         bind_run (exit_if (error \<noteq> 1) ''Could not write the header'' (int error) s) (\<lambda>_ s.
         Done () (s\<lparr>qem_trace_buffer_size := 0\<rparr>))))))"

text \<open>
  The name is printed into \<open>char filename[23]\<close>: a name of more than 22 characters writes
  past the array.
\<close>

definition file_qem_init_tracing ::
    "qem_config \<Rightarrow> libc_io \<Rightarrow> file_tracer \<Rightarrow> (unit, file_tracer) run" where
  "file_qem_init_tracing cfg io s =
     (let filename = trace_file_name (qem_file_index s);
          s = s\<lparr>qem_file_index := qem_file_index s + 1\<rparr>
      in if 23 < length filename + 1 then Fault s
         else
           bind_run (c_fopen_wb io filename (c_remove filename s)) (\<lambda>error s.
           bind_run (exit_if (error \<noteq> 0) ''Could not create or open the trace file'' error s) (\<lambda>_ s.
           bind_run (file_qem_write_header io 0 (of_nat (sizeof_qem_trace cfg)) 1 s) (\<lambda>_ s.
           Done () (QEM_TRACE_INFO filename 0 (QEM_TRACE_INFO ''==== Trace file name'' 0
             (s\<lparr>qem_file_size := of_nat (sizeof_qem_trace cfg)\<rparr>)))))))"

text \<open>Writing the first \<open>n\<close> records of the buffer, as both callers below do.\<close>

definition file_flush_buffer ::
    "qem_config \<Rightarrow> libc_io \<Rightarrow> nat \<Rightarrow> file_tracer \<Rightarrow> (unit, file_tracer) run" where
  "file_flush_buffer cfg io n s =
     bind_run (c_fwrite io (qem_trace_buffer s) (sizeof_qem_trace cfg) n s) (\<lambda>error s.
     bind_run (exit_if (error \<noteq> n) ''Could not flush trace buffer'' (int error) s) (\<lambda>_ s.
     Done () (s\<lparr>qem_file_size := qem_file_size s + of_nat (n * sizeof_qem_trace cfg),
                qem_trace_buffer_size := 0\<rparr>)))"

definition file_qem_close_tracing ::
    "qem_config \<Rightarrow> libc_io \<Rightarrow> file_tracer \<Rightarrow> (unit, file_tracer) run" where
  "file_qem_close_tracing cfg io s =
     bind_run
       (if qem_trace_buffer_size s \<noteq> 0 then
          file_flush_buffer cfg io (qem_trace_buffer_size s) s
        else Done () s) (\<lambda>_ s.
     bind_run (file_qem_write_header io (qem_file_size s) (of_nat (sizeof_qem_trace cfg)) 1 s) (\<lambda>_ s.
     bind_run (c_fclose io s) (\<lambda>r t.
     if r < 0 then QEM_TRACE_ERROR ''Error while closing the trace file'' (io_errno io (io_calls s)) 0 t
     else Done () (QEM_TRACE_INFO ''Trace file saved'' 0 t))))"

definition file_qem_trace_enable ::
    "qem_config \<Rightarrow> libc_io \<Rightarrow> u8 \<Rightarrow> file_tracer \<Rightarrow> (unit, file_tracer) run" where
  "file_qem_trace_enable cfg io type s =
     (if qem_tracing_state s = type then Done () s
      else bind_run (if qem_tracing_state s = 0 then file_qem_init_tracing cfg io s else Done () s)
             (\<lambda>_ s. Done () (s\<lparr>qem_tracing_state := type\<rparr>)))"

definition file_qem_trace_disable ::
    "qem_config \<Rightarrow> libc_io \<Rightarrow> u8 \<Rightarrow> file_tracer \<Rightarrow> (unit, file_tracer) run" where
  "file_qem_trace_disable cfg io type s =
     (if qem_tracing_state s = 0 then Done () s
      else let s = s\<lparr>qem_tracing_state := qem_tracing_state s AND NOT type\<rparr>
           in if qem_tracing_state s = 0 then file_qem_close_tracing cfg io s else Done () s)"

definition file_qem_trace_start_timer :: "u64 \<Rightarrow> file_tracer \<Rightarrow> (unit, file_tracer) run" where
  "file_qem_trace_start_timer now s = Done () (s\<lparr>qem_time_start := now\<rparr>)"

definition file_qem_trace_get_timer :: "u64 \<Rightarrow> file_tracer \<Rightarrow> (unit, file_tracer) run" where
  "file_qem_trace_get_timer now s =
     Done () (c_printf (''[QEMU] Elapsed time = '' @ dec_nat (unat (now - qem_time_start s)) @
       newline) s)"

definition file_qem_trace_output ::
    "qem_config \<Rightarrow> libc_io \<Rightarrow> out_args \<Rightarrow> file_tracer \<Rightarrow> (unit, file_tracer) run" where
  "file_qem_trace_output cfg io a s =
     bind_run
       (if qem_trace_buffer_size s = QEM_TRACE_BUFFER_SIZE cfg then
          file_flush_buffer cfg io (QEM_TRACE_BUFFER_SIZE cfg) s
        else Done () s) (\<lambda>_ s.
     let offset = qem_trace_buffer_size s * sizeof_qem_trace cfg
     in case mem_write (qem_trace_buffer s) offset (record_bytes cfg a) of
          None \<Rightarrow> Fault s
        | Some b \<Rightarrow> Done () (s\<lparr>qem_trace_buffer := b,
                                qem_trace_buffer_size := c_u32 (qem_trace_buffer_size s + 1)\<rparr>))"

text \<open>The state at program start: the statics are zero and no file is open.\<close>

definition file_start :: "qem_config \<Rightarrow> (string \<Rightarrow> bytes option) \<Rightarrow> file_tracer" where
  "file_start cfg files =
     \<lparr>console = [], qem_tracing_state = 0, qem_time_start = 0, fs = files,
      qem_trace_file_fd = None, io_calls = 0, qem_trace_buffer_size = 0, qem_file_size = 0,
      qem_trace_buffer = replicate (QEM_TRACE_BUFFER_SIZE cfg * sizeof_qem_trace cfg) 0,
      qem_file_index = 0\<rparr>"

section \<open>Invariant\<close>

text \<open>
  The name of the file of session \<open>i\<close>, the bytes behind its header, and the recorded bytes
  of the first \<open>n\<close> sessions in order.
\<close>

definition session_name :: "nat \<Rightarrow> string" where
  "session_name i = trace_file_name (of_nat i)"

definition last_name :: "nat \<Rightarrow> string" where
  "last_name n = session_name (n - 1)"

definition payload :: "bytes \<Rightarrow> bytes" where
  "payload d = drop sizeof_qem_trace_header d"

definition files_payload :: "(string \<Rightarrow> bytes option) \<Rightarrow> nat \<Rightarrow> bytes" where
  "files_payload files n = concat (map (\<lambda>i. payload (the (files (session_name i)))) [0..<n])"

definition has_header :: "bytes option \<Rightarrow> bool" where
  "has_header f = (case f of None \<Rightarrow> False | Some d \<Rightarrow> sizeof_qem_trace_header \<le> length d)"

definition file_buffered :: "qem_config \<Rightarrow> file_tracer \<Rightarrow> bytes" where
  "file_buffered cfg s = take (qem_trace_buffer_size s * sizeof_qem_trace cfg) (qem_trace_buffer s)"

text \<open>Everything recorded so far: the sessions' files in order, then the buffer.\<close>

definition file_log :: "qem_config \<Rightarrow> file_tracer \<Rightarrow> bytes" where
  "file_log cfg s = files_payload (fs s) (unat (qem_file_index s)) @ file_buffered cfg s"

text \<open>The open stream is that of the last session and stands at the end of its file.\<close>

definition file_open_ok :: "'z stdio_scheme \<Rightarrow> nat \<Rightarrow> bool" where
  "file_open_ok s n \<longleftrightarrow> 0 < n \<and>
     qem_trace_file_fd s = Some (last_name n, length (the (fs s (last_name n))))"

definition cur_payload :: "file_tracer \<Rightarrow> bytes" where
  "cur_payload s = payload (the (fs s (last_name (unat (qem_file_index s)))))"

text \<open>The records of the current session, written or still in the buffer.\<close>

definition file_content :: "qem_config \<Rightarrow> file_tracer \<Rightarrow> bytes" where
  "file_content cfg s = cur_payload s @ file_buffered cfg s"

definition file_core :: "qem_config \<Rightarrow> file_tracer \<Rightarrow> bool" where
  "file_core cfg s \<longleftrightarrow>
     0 < QEM_TRACE_BUFFER_SIZE cfg \<and> QEM_TRACE_BUFFER_SIZE cfg < 2 ^ 31 \<and>
     length (qem_trace_buffer s) = QEM_TRACE_BUFFER_SIZE cfg * sizeof_qem_trace cfg \<and>
     qem_trace_buffer_size s \<le> QEM_TRACE_BUFFER_SIZE cfg \<and>
     unat (qem_file_index s) \<le> 10 ^ 8 \<and>
     (\<forall>i < unat (qem_file_index s). has_header (fs s (session_name i)))"

definition file_inv :: "qem_config \<Rightarrow> file_tracer \<Rightarrow> bool" where
  "file_inv cfg s \<longleftrightarrow> file_core cfg s \<and>
     (qem_tracing_state s = 0 \<longrightarrow> qem_trace_buffer_size s = 0) \<and>
     (qem_tracing_state s \<noteq> 0 \<longrightarrow> file_open_ok s (unat (qem_file_index s)) \<and>
        qem_file_size s = of_nat (sizeof_qem_trace cfg + length (cur_payload s)))"

lemma file_inv_start:
  "0 < QEM_TRACE_BUFFER_SIZE cfg \<Longrightarrow> QEM_TRACE_BUFFER_SIZE cfg < 2 ^ 31 \<Longrightarrow>
   file_inv cfg (file_start cfg files)"
  by (simp add: file_inv_def file_core_def file_start_def)

section \<open>The files of the sessions\<close>

lemma session_name_inj:
  assumes "session_name i = session_name j" and "i < 2 ^ 31" and "j < 2 ^ 31"
  shows "i = j"
proof -
  have u: "unat (of_nat i :: u32) = i" "unat (of_nat j :: u32) = j"
    using assms(2,3) by (simp_all add: unat_of_nat)
  have "(of_nat i :: u32) = of_nat j"
    by (rule trace_file_name_inj) (use assms u in \<open>simp_all add: session_name_def\<close>)
  then show ?thesis using u by metis
qed

lemma files_payload_Suc:
  "files_payload files (Suc n) = files_payload files n @ payload (the (files (session_name n)))"
  by (simp add: files_payload_def)

lemma files_payload_other:
  assumes "n \<le> m" and "m < 2 ^ 31"
  shows "files_payload (files(session_name m := d)) n = files_payload files n"
proof -
  have "session_name i \<noteq> session_name m" if "i < n" for i
    using session_name_inj [of i m] that assms by auto
  then show ?thesis
    by (auto simp: files_payload_def intro!: arg_cong [of _ _ concat] map_cong)
qed

text \<open>The last session's file is the only one a session changes.\<close>

lemma files_payload_last:
  assumes "0 < n" and "n \<le> 2 ^ 31"
  shows "files_payload (files(last_name n := Some d)) n =
    files_payload files (n - 1) @ payload d"
  using assms files_payload_Suc [of "files(session_name (n - 1) := Some d)" "n - 1"]
    files_payload_other [of "n - 1" "n - 1"] by (simp add: last_name_def)


section \<open>Effect of the operations\<close>

definition file_header :: "u64 \<Rightarrow> u32 \<Rightarrow> u32 \<Rightarrow> bytes" where
  "file_header fsize trace_size trace_version =
     header_bytes \<lparr>hdr_size = fsize, hdr_struct_size = ucast trace_size,
       hdr_version = ucast trace_version, hdr_reserved = replicate 5 0\<rparr>"

lemma length_file_header [simp]: "length (file_header a b c) = sizeof_qem_trace_header"
  by (simp add: file_header_def length_header_bytes)

lemma file_flush_eq:
  assumes "qem_trace_file_fd s = Some (name, length d)" and "fs s name = Some d"
    and "n * sizeof_qem_trace cfg \<le> length (qem_trace_buffer s)"
  shows "file_flush_buffer cfg io n s =
    (let k = io_fwrite io (io_calls s) n;
         bs = take (k * sizeof_qem_trace cfg) (qem_trace_buffer s);
         t = s\<lparr>fs := (fs s)(name := Some (d @ bs)),
               qem_trace_file_fd := Some (name, length d + length bs),
               io_calls := Suc (io_calls s)\<rparr>
     in if k \<noteq> n then QEM_TRACE_ERROR ''Could not flush trace buffer'' (int k) 1 t
        else Done () (t\<lparr>qem_file_size := qem_file_size s + of_nat (n * sizeof_qem_trace cfg),
                        qem_trace_buffer_size := 0\<rparr>))"
  using assms by (simp add: file_flush_buffer_def c_fwrite_open Let_def run_simps exit_if_def)

lemma file_write_header_eq:
  assumes "qem_trace_file_fd s = Some (name, pos)" and "fs s name = Some d"
    and "io_fseek io (io_calls s) = 0" and "io_fwrite io (Suc (io_calls s)) 1 = 1"
  shows "file_qem_write_header io fsize tsz ver s =
    Done () (s\<lparr>fs := (fs s)(name := Some (file_header fsize tsz ver @
                   drop sizeof_qem_trace_header d)),
               qem_trace_file_fd := Some (name, sizeof_qem_trace_header),
               io_calls := Suc (Suc (io_calls s)), qem_trace_buffer_size := 0\<rparr>)"
  using assms
  by (simp add: file_qem_write_header_def c_fseek_set_open c_fwrite_open run_simps
      file_overwrite_start length_header_bytes file_header_def)

lemma file_write_header_Done:
  assumes "qem_trace_file_fd s = Some (name, pos)" and "fs s name = Some d"
    and run: "file_qem_write_header io fsize tsz ver s = Done () s'"
  shows "io_fseek io (io_calls s) = 0 \<and> io_fwrite io (Suc (io_calls s)) 1 = 1"
  using assms
  by (auto simp: file_qem_write_header_def c_fseek_set_open bind_run_Done_iff c_fwrite_open
      length_header_bytes)

lemma file_write_header_safe:
  assumes "qem_trace_file_fd s = Some (name, pos)" and "fs s name = Some d"
  shows "\<not> is_fault (file_qem_write_header io fsize tsz ver s)"
  using assms
  by (auto simp: file_qem_write_header_def c_fseek_set_open is_fault_bind c_fwrite_open
      length_header_bytes)

text \<open>The buffer after one more record.\<close>

lemma file_store_record:
  assumes "length (qem_trace_buffer s) = QEM_TRACE_BUFFER_SIZE cfg * sizeof_qem_trace cfg"
    and "qem_trace_buffer_size s < QEM_TRACE_BUFFER_SIZE cfg"
    and "length bs = sizeof_qem_trace cfg"
  obtains b where
    "mem_write (qem_trace_buffer s) (qem_trace_buffer_size s * sizeof_qem_trace cfg) bs = Some b"
    and "length b = QEM_TRACE_BUFFER_SIZE cfg * sizeof_qem_trace cfg"
    and "take (Suc (qem_trace_buffer_size s) * sizeof_qem_trace cfg) b =
      take (qem_trace_buffer_size s * sizeof_qem_trace cfg) (qem_trace_buffer s) @ bs"
proof -
  let ?sz = "sizeof_qem_trace cfg" and ?n = "qem_trace_buffer_size s"
  have "Suc ?n * ?sz \<le> QEM_TRACE_BUFFER_SIZE cfg * ?sz"
    using assms(2) by (intro mult_le_mono1) simp
  then have "?n * ?sz + length bs \<le> length (qem_trace_buffer s)"
    using assms(1,3) by simp
  then show ?thesis
    using that assms by (auto simp: mem_write_def)
qed


lemma file_core_open:
  assumes "file_core cfg s" and "file_open_ok s (unat (qem_file_index s))"
  obtains d where "fs s (last_name (unat (qem_file_index s))) = Some d"
    and "qem_trace_file_fd s = Some (last_name (unat (qem_file_index s)), length d)"
    and "sizeof_qem_trace_header \<le> length d" and "0 < unat (qem_file_index s)"
proof -
  have "0 < unat (qem_file_index s)" using assms(2) by (simp add: file_open_ok_def)
  then have "has_header (fs s (last_name (unat (qem_file_index s))))"
    using assms(1) by (simp add: file_core_def last_name_def)
  then show ?thesis
    using that assms(2) by (auto simp: has_header_def file_open_ok_def split: option.splits)
qed

text \<open>
  Replacing the last session's file by one that still has room for a header keeps every
  session readable and changes the recorded bytes only at the end.
\<close>

lemma file_core_update_last:
  assumes "file_core cfg s" and "0 < unat (qem_file_index s)"
    and "sizeof_qem_trace_header \<le> length d"
  shows "\<forall>i < unat (qem_file_index s). has_header
    (((fs s)(last_name (unat (qem_file_index s)) := Some d)) (session_name i))"
  using assms by (auto simp: file_core_def has_header_def)

lemma files_payload_split:
  assumes "files (last_name n) = Some d" and "0 < n"
  shows "files_payload files n = files_payload files (n - 1) @ payload d"
  using files_payload_Suc [of files "n - 1"] assms by (simp add: last_name_def)

lemma files_payload_append_last:
  assumes "files (last_name n) = Some d" and "0 < n" and "n \<le> 2 ^ 31"
    and "sizeof_qem_trace_header \<le> length d"
  shows "files_payload (files(last_name n := Some (d @ bs))) n = files_payload files n @ bs"
  using assms files_payload_split [of files n d] by (simp add: files_payload_last payload_def)

lemma file_flush_Done:
  assumes core: "file_core cfg s" and opn: "file_open_ok s (unat (qem_file_index s))"
    and run: "file_flush_buffer cfg io (qem_trace_buffer_size s) s = Done () s'"
  shows "file_core cfg s' \<and> file_open_ok s' (unat (qem_file_index s')) \<and>
    qem_trace_buffer_size s' = 0 \<and> qem_tracing_state s' = qem_tracing_state s \<and>
    file_log cfg s' = file_log cfg s \<and>
    qem_file_size s' = qem_file_size s + of_nat (length (file_buffered cfg s)) \<and>
    cur_payload s' = cur_payload s @ file_buffered cfg s \<and>
    qem_file_index s' = qem_file_index s"
proof -
  let ?n = "unat (qem_file_index s)"
  obtain d where d: "fs s (last_name ?n) = Some d"
    "qem_trace_file_fd s = Some (last_name ?n, length d)"
    "sizeof_qem_trace_header \<le> length d" "0 < ?n"
    by (rule file_core_open [OF core opn])
  let ?bs = "take (qem_trace_buffer_size s * sizeof_qem_trace cfg) (qem_trace_buffer s)"
  have fit: "qem_trace_buffer_size s * sizeof_qem_trace cfg \<le> length (qem_trace_buffer s)"
    using core by (auto simp: file_core_def intro: mult_le_mono1)
  have s': "s' = s\<lparr>fs := (fs s)(last_name ?n := Some (d @ ?bs)),
       qem_trace_file_fd := Some (last_name ?n, length d + length ?bs),
       io_calls := Suc (io_calls s),
       qem_file_size := qem_file_size s + of_nat (qem_trace_buffer_size s * sizeof_qem_trace cfg),
       qem_trace_buffer_size := 0\<rparr>"
    using run by (auto simp: file_flush_eq [OF d(2,1) fit] Let_def run_simps split: if_splits)
  have "?n \<le> 2 ^ 31" using core by (simp add: file_core_def)
  with d core show ?thesis
    using file_core_update_last [OF core d(4), of "d @ ?bs"]
    by (simp add: s' file_core_def file_open_ok_def file_log_def file_buffered_def
        files_payload_append_last cur_payload_def payload_def min_absorb2 fit)
qed

lemma file_flush_safe:
  assumes core: "file_core cfg s" and opn: "file_open_ok s (unat (qem_file_index s))"
  shows "\<not> is_fault (file_flush_buffer cfg io (qem_trace_buffer_size s) s)"
proof -
  have fit: "qem_trace_buffer_size s * sizeof_qem_trace cfg \<le> length (qem_trace_buffer s)"
    using core by (auto simp: file_core_def intro: mult_le_mono1)
  show ?thesis
    by (rule file_core_open [OF core opn]) (simp add: file_flush_eq fit Let_def run_simps)
qed

lemma file_output_Done:
  assumes inv: "file_inv cfg s" and st: "qem_tracing_state s \<noteq> 0"
    and run: "file_qem_trace_output cfg io a s = Done () s'"
  shows "file_inv cfg s' \<and> qem_tracing_state s' = qem_tracing_state s \<and>
    file_log cfg s' = file_log cfg s @
      record_bytes cfg a \<and>
    qem_file_index s' = qem_file_index s \<and>
    file_content cfg s' = file_content cfg s @ record_bytes cfg a"
proof -
  let ?bs = "record_bytes cfg a"
  from inv st have core: "file_core cfg s" and opn: "file_open_ok s (unat (qem_file_index s))"
    and fsz: "qem_file_size s = of_nat (sizeof_qem_trace cfg + length (cur_payload s))"
    by (simp_all add: file_inv_def)
  obtain s1 where s1: "(if qem_trace_buffer_size s = QEM_TRACE_BUFFER_SIZE cfg
      then file_flush_buffer cfg io (QEM_TRACE_BUFFER_SIZE cfg) s else Done () s) = Done () s1"
    using run by (auto simp: file_qem_trace_output_def bind_run_Done_iff)
  have 1: "file_core cfg s1" "file_open_ok s1 (unat (qem_file_index s1))"
    "qem_trace_buffer_size s1 < QEM_TRACE_BUFFER_SIZE cfg"
    "qem_tracing_state s1 = qem_tracing_state s" "file_log cfg s1 = file_log cfg s"
    "qem_file_size s1 = of_nat (sizeof_qem_trace cfg + length (cur_payload s1))"
    "qem_file_index s1 = qem_file_index s"
    "file_content cfg s1 = file_content cfg s"
    using s1 file_flush_Done [OF core opn, of io s1] core opn fsz
    by (auto simp: file_core_def file_buffered_def file_content_def split: if_splits)
  obtain b where b: "mem_write (qem_trace_buffer s1)
      (qem_trace_buffer_size s1 * sizeof_qem_trace cfg) ?bs = Some b"
    "length b = QEM_TRACE_BUFFER_SIZE cfg * sizeof_qem_trace cfg"
    "take (Suc (qem_trace_buffer_size s1) * sizeof_qem_trace cfg) b =
       take (qem_trace_buffer_size s1 * sizeof_qem_trace cfg) (qem_trace_buffer s1) @ ?bs"
    by (rule file_store_record [of s1 cfg ?bs]) (use 1 in \<open>simp_all add: file_core_def\<close>)
  have s': "s' = s1\<lparr>qem_trace_buffer := b, qem_trace_buffer_size := Suc (qem_trace_buffer_size s1)\<rparr>"
    using run s1 b(1) 1(1,3)
    by (auto simp: file_qem_trace_output_def bind_run_Done_iff Let_def file_core_def)
  then show ?thesis
    using 1 b st
    by (simp add: file_inv_def file_core_def file_open_ok_def file_log_def file_buffered_def
        cur_payload_def file_content_def)
qed

lemma file_output_safe:
  assumes inv: "file_inv cfg s" and st: "qem_tracing_state s \<noteq> 0"
  shows "\<not> is_fault (file_qem_trace_output cfg io a s)"
proof -
  let ?bs = "record_bytes cfg a"
  let ?flush = "if qem_trace_buffer_size s = QEM_TRACE_BUFFER_SIZE cfg
      then file_flush_buffer cfg io (QEM_TRACE_BUFFER_SIZE cfg) s else Done () s"
  from inv st have core: "file_core cfg s" and opn: "file_open_ok s (unat (qem_file_index s))"
    by (simp_all add: file_inv_def)
  have "\<not> is_fault ?flush" using file_flush_safe [OF core opn, of io] by auto
  moreover have "\<not> is_fault (case mem_write (qem_trace_buffer s1)
      (qem_trace_buffer_size s1 * sizeof_qem_trace cfg) ?bs of None \<Rightarrow> Fault s1
        | Some b \<Rightarrow> Done () (s1\<lparr>qem_trace_buffer := b,
                                qem_trace_buffer_size := c_u32 (qem_trace_buffer_size s1 + 1)\<rparr>))"
    if "?flush = Done u s1" for u s1
  proof -
    have c1: "file_core cfg s1" "qem_trace_buffer_size s1 < QEM_TRACE_BUFFER_SIZE cfg"
      using that file_flush_Done [OF core opn, of io s1] core
      by (auto simp: file_core_def split: if_splits)
    obtain b where "mem_write (qem_trace_buffer s1)
        (qem_trace_buffer_size s1 * sizeof_qem_trace cfg) ?bs = Some b"
      by (rule file_store_record [of s1 cfg ?bs]) (use c1 in \<open>simp_all add: file_core_def\<close>)
    then show ?thesis by simp
  qed
  ultimately show ?thesis
    unfolding file_qem_trace_output_def is_fault_bind Let_def by blast
qed


text \<open>Opening a session: a fresh file that holds an empty header.\<close>

lemma file_index_room:
  assumes "unat i \<le> 10 ^ 8" and "length (trace_file_name i) \<le> 22"
  shows "unat i < 10 ^ 8"
proof (rule ccontr)
  assume "\<not> unat i < 10 ^ 8"
  then have "unat i = unat (100000000 :: u32)" using assms(1) by simp
  then have "i = 100000000" by (rule word_unat_eq_iff [THEN iffD2])
  then show False using assms(2) trace_file_name_too_long by simp
qed

lemma file_init_Done:
  assumes core: "file_core cfg s" and run: "file_qem_init_tracing cfg io s = Done () s'"
    and empty: "qem_trace_buffer_size s = 0"
  shows "file_core cfg s' \<and> file_open_ok s' (unat (qem_file_index s')) \<and>
    qem_trace_buffer_size s' = 0 \<and> cur_payload s' = [] \<and>
    qem_tracing_state s' = qem_tracing_state s \<and> file_log cfg s' = file_log cfg s \<and>
    qem_file_size s' = of_nat (sizeof_qem_trace cfg) \<and>
    unat (qem_file_index s') = Suc (unat (qem_file_index s))"
proof -
  let ?n = "unat (qem_file_index s)"
  let ?name = "session_name ?n"
  let ?h = "file_header 0 (of_nat (sizeof_qem_trace cfg)) 1"
  have name: "trace_file_name (qem_file_index s) = ?name" by (simp add: session_name_def)
  let ?s1 = "s\<lparr>qem_file_index := qem_file_index s + 1, fs := (fs s)(?name := Some []),
      qem_trace_file_fd := Some (?name, 0), io_calls := Suc (io_calls s)\<rparr>"
  from run have short: "length ?name \<le> 22"
    and whdr: "\<exists>s2. file_qem_write_header io 0 (of_nat (sizeof_qem_trace cfg)) 1 ?s1 = Done () s2 \<and>
      s' = QEM_TRACE_INFO ?name 0 (QEM_TRACE_INFO ''==== Trace file name'' 0
             (s2\<lparr>qem_file_size := of_nat (sizeof_qem_trace cfg)\<rparr>))"
    by (auto simp: file_qem_init_tracing_def Let_def name bind_run_Done_iff c_fopen_wb_def
        c_remove_def split: if_splits)
  from whdr obtain s2 where s2: "file_qem_write_header io 0 (of_nat (sizeof_qem_trace cfg)) 1 ?s1 = Done () s2"
    and s': "s' = QEM_TRACE_INFO ?name 0 (QEM_TRACE_INFO ''==== Trace file name'' 0
             (s2\<lparr>qem_file_size := of_nat (sizeof_qem_trace cfg)\<rparr>))" by blast
  have io: "io_fseek io (io_calls ?s1) = 0 \<and> io_fwrite io (Suc (io_calls ?s1)) 1 = 1"
    by (rule file_write_header_Done [where d = "[]" and pos = 0 and name = ?name, OF _ _ s2]) simp_all
  have s2': "s2 = ?s1\<lparr>fs := (fs s)(?name := Some ?h),
      qem_trace_file_fd := Some (?name, sizeof_qem_trace_header),
      io_calls := Suc (Suc (io_calls ?s1)), qem_trace_buffer_size := 0\<rparr>"
    using s2 io file_write_header_eq [of ?s1 ?name 0 "[]" io 0 "of_nat (sizeof_qem_trace cfg)" 1]
    by simp
  have room: "?n < 10 ^ 8"
    using core short name by (intro file_index_room) (simp_all add: file_core_def)
  then have idx: "unat (qem_file_index s + 1) = Suc ?n"
    by (simp add: unat_word_ariths)
  have fsn: "files_payload ((fs s)(?name := Some ?h)) (Suc ?n) = files_payload (fs s) ?n"
    using files_payload_Suc [of "(fs s)(?name := Some ?h)" ?n] files_payload_other [of ?n ?n] room
    by (simp add: payload_def)
  have "\<forall>i < Suc ?n. has_header (((fs s)(?name := Some ?h)) (session_name i))"
    using core by (auto simp: file_core_def has_header_def less_Suc_eq)
  then show ?thesis
    using core room fsn empty
    by (simp add: s' s2' QEM_TRACE_INFO_def c_printf_def file_core_def file_open_ok_def idx
        last_name_def cur_payload_def payload_def file_log_def file_buffered_def)
qed


text \<open>Closing a session: the rest of the buffer, the final header, the end of the stream.\<close>

lemma file_close_Done:
  assumes core: "file_core cfg s" and opn: "file_open_ok s (unat (qem_file_index s))"
    and run: "file_qem_close_tracing cfg io s = Done () s'"
  shows "file_core cfg s' \<and> qem_trace_buffer_size s' = 0 \<and>
    qem_tracing_state s' = qem_tracing_state s \<and> file_log cfg s' = file_log cfg s \<and>
    qem_file_index s' = qem_file_index s \<and>
    fs s' (last_name (unat (qem_file_index s))) =
      Some (file_header (qem_file_size s + of_nat (length (file_buffered cfg s)))
              (of_nat (sizeof_qem_trace cfg)) 1 @ cur_payload s @ file_buffered cfg s)"
proof -
  let ?n = "unat (qem_file_index s)"
  obtain s1 s2 where
    fl: "(if qem_trace_buffer_size s \<noteq> 0 then file_flush_buffer cfg io (qem_trace_buffer_size s) s
          else Done () s) = Done () s1" and
    hd: "file_qem_write_header io (qem_file_size s1) (of_nat (sizeof_qem_trace cfg)) 1 s1 = Done () s2" and
    cl: "bind_run (c_fclose io s2) (\<lambda>r t. if r < 0
       then QEM_TRACE_ERROR ''Error while closing the trace file'' (io_errno io (io_calls s2)) 0 t
       else Done () (QEM_TRACE_INFO ''Trace file saved'' 0 t)) = Done () s'"
    using run by (auto simp: file_qem_close_tracing_def bind_run_Done_iff [of "if _ then _ else _"]
        bind_run_Done_iff [of "file_qem_write_header _ _ _ _ _"])
  have 1: "file_core cfg s1" "file_open_ok s1 (unat (qem_file_index s1))"
    "qem_trace_buffer_size s1 = 0" "qem_tracing_state s1 = qem_tracing_state s"
    "file_log cfg s1 = file_log cfg s" "qem_file_index s1 = qem_file_index s"
    "qem_file_size s1 = qem_file_size s + of_nat (length (file_buffered cfg s))"
    "cur_payload s1 = cur_payload s @ file_buffered cfg s"
    using fl file_flush_Done [OF core opn, of io s1] core opn
    by (auto simp: file_buffered_def split: if_splits)
  obtain d where d: "fs s1 (last_name ?n) = Some d"
    "qem_trace_file_fd s1 = Some (last_name ?n, length d)"
    "sizeof_qem_trace_header \<le> length d" "0 < ?n"
    using file_core_open [OF 1(1,2)] 1(6) by metis
  let ?h = "file_header (qem_file_size s1) (of_nat (sizeof_qem_trace cfg)) 1"
  have s2: "s2 = s1\<lparr>fs := (fs s1)(last_name ?n := Some (?h @ payload d)),
      qem_trace_file_fd := Some (last_name ?n, sizeof_qem_trace_header),
      io_calls := Suc (Suc (io_calls s1)), qem_trace_buffer_size := 0\<rparr>"
    using hd file_write_header_eq [OF d(2,1)] file_write_header_Done [OF d(2,1) hd]
    by (simp add: payload_def)
  have s': "fs s' = fs s2 \<and> qem_trace_buffer s' = qem_trace_buffer s2 \<and>
      qem_trace_buffer_size s' = qem_trace_buffer_size s2 \<and>
      qem_tracing_state s' = qem_tracing_state s2 \<and> qem_file_index s' = qem_file_index s2"
    using cl by (auto simp: s2 c_fclose_def run_simps QEM_TRACE_INFO_def c_printf_def
        split: if_splits)
  have n: "?n \<le> 2 ^ 31" using core by (simp add: file_core_def)
  have "files_payload (fs s2) ?n = files_payload (fs s1) ?n"
    using files_payload_split [of "fs s1" ?n d] d n by (simp add: s2 files_payload_last payload_def)
  with s' 1 file_core_update_last [OF 1(1), of "?h @ payload d"] d(1,3,4)
  show ?thesis
    by (auto simp: s2 file_core_def file_log_def file_buffered_def cur_payload_def payload_def)
qed

lemma file_close_safe:
  assumes core: "file_core cfg s" and opn: "file_open_ok s (unat (qem_file_index s))"
  shows "\<not> is_fault (file_qem_close_tracing cfg io s)"
proof -
  let ?flush = "if qem_trace_buffer_size s \<noteq> 0
      then file_flush_buffer cfg io (qem_trace_buffer_size s) s else Done () s"
  have a: "\<not> is_fault ?flush" using file_flush_safe [OF core opn] by simp
  have b: "\<exists>nm pos d. qem_trace_file_fd s1 = Some (nm, pos) \<and> fs s1 nm = Some d"
    if "?flush = Done u s1" for u s1
  proof -
    have "file_core cfg s1" "file_open_ok s1 (unat (qem_file_index s1))"
      using that file_flush_Done [OF core opn, of io s1] core opn by (auto split: if_splits)
    then show ?thesis by (rule file_core_open) blast
  qed
  have c: "\<not> is_fault (bind_run (file_qem_write_header io x y z s1) (\<lambda>_ s.
     bind_run (c_fclose io s) (\<lambda>r t.
     if r < 0 then QEM_TRACE_ERROR ''Error while closing the trace file'' (io_errno io (io_calls s)) 0 t
     else Done () (QEM_TRACE_INFO ''Trace file saved'' 0 t))))"
    if fl: "?flush = Done u s1" for u s1 x y z
  proof -
    obtain nm pos d where o: "qem_trace_file_fd s1 = Some (nm, pos)" "fs s1 nm = Some d"
      using b [OF fl] by blast
    have "qem_trace_file_fd s2 \<noteq> None" if "file_qem_write_header io x y z s1 = Done v s2" for v s2
      using that file_write_header_eq [OF o] file_write_header_Done [OF o, of io x y z s2] by auto
    then show ?thesis
      using file_write_header_safe [OF o, of io x y z]
      by (auto simp: is_fault_bind c_fclose_open run_simps)
  qed
  show ?thesis
    unfolding file_qem_close_tracing_def is_fault_bind [of ?flush] using a c by blast
qed


section \<open>The file back end meets the interface\<close>

text \<open>The tracing state is not part of what the invariant says about buffer and files.\<close>

lemma file_frame_tstate [simp]:
  "file_core cfg (s\<lparr>qem_tracing_state := t\<rparr>) = file_core cfg s"
  "file_open_ok (s\<lparr>qem_tracing_state := t\<rparr>) n = file_open_ok s n"
  "file_log cfg (s\<lparr>qem_tracing_state := t\<rparr>) = file_log cfg s"
  "cur_payload (s\<lparr>qem_tracing_state := t\<rparr>) = cur_payload s"
  "file_buffered cfg (s\<lparr>qem_tracing_state := t\<rparr>) = file_buffered cfg s"
  by (simp_all add: file_core_def file_open_ok_def file_log_def file_buffered_def cur_payload_def)

lemma file_enable_Done:
  assumes inv: "file_inv cfg s" and t: "t \<noteq> 0"
    and run: "file_qem_trace_enable cfg io t s = Done () s'"
  shows "file_inv cfg s' \<and> qem_tracing_state s' = t \<and> file_log cfg s' = file_log cfg s"
proof (cases "qem_tracing_state s = 0")
  case True
  with run t obtain s1 where ini: "file_qem_init_tracing cfg io s = Done () s1"
    and s': "s' = s1\<lparr>qem_tracing_state := t\<rparr>"
    by (auto simp: file_qem_trace_enable_def bind_run_Done_iff)
  have "file_core cfg s" "qem_trace_buffer_size s = 0"
    using inv True by (simp_all add: file_inv_def)
  from file_init_Done [OF this(1) ini this(2)] t show ?thesis
    by (auto simp: s' file_inv_def)
next
  case False
  with run have "s' = s\<lparr>qem_tracing_state := t\<rparr>"
    by (auto simp: file_qem_trace_enable_def split: if_splits)
  with inv t False show ?thesis by (simp add: file_inv_def)
qed

lemma file_disable_Done:
  assumes inv: "file_inv cfg s" and run: "file_qem_trace_disable cfg io t s = Done () s'"
  shows "file_inv cfg s' \<and> qem_tracing_state s' = qem_tracing_state s AND NOT t \<and>
    file_log cfg s' = file_log cfg s"
proof (cases "qem_tracing_state s = 0")
  case True
  with run inv show ?thesis by (auto simp: file_qem_trace_disable_def)
next
  case False
  let ?s1 = "s\<lparr>qem_tracing_state := qem_tracing_state s AND NOT t\<rparr>"
  from inv False have 1: "file_core cfg ?s1" "file_open_ok ?s1 (unat (qem_file_index ?s1))"
    "qem_file_size ?s1 = of_nat (sizeof_qem_trace cfg + length (cur_payload ?s1))"
    "file_log cfg ?s1 = file_log cfg s"
    by (simp_all add: file_inv_def)
  show ?thesis
  proof (cases "qem_tracing_state s AND NOT t = 0")
    case True
    with run False have "file_qem_close_tracing cfg io ?s1 = Done () s'"
      by (simp add: file_qem_trace_disable_def)
    from file_close_Done [OF 1(1,2) this] True 1(4) show ?thesis by (simp add: file_inv_def)
  next
    case nz: False
    with run False have "s' = ?s1" by (simp add: file_qem_trace_disable_def)
    with nz 1 show ?thesis by (simp add: file_inv_def)
  qed
qed

lemma file_disable_safe: "file_inv cfg s \<Longrightarrow> \<not> is_fault (file_qem_trace_disable cfg io t s)"
  using file_close_safe [of cfg "s\<lparr>qem_tracing_state := qem_tracing_state s AND NOT t\<rparr>" io]
  by (auto simp: file_qem_trace_disable_def file_inv_def Let_def)

interpretation file_backend: trace_backend
  "file_qem_trace_enable cfg io" "file_qem_trace_disable cfg io" "file_qem_trace_output cfg io"
  qem_tracing_state "file_inv cfg" "file_log cfg"
  "record_bytes cfg"
proof unfold_locales
  fix s s' :: file_tracer and t a
  show "file_inv cfg s'" "qem_tracing_state s' = t" "prefix (file_log cfg s) (file_log cfg s')"
    if "file_inv cfg s" "t \<noteq> 0" "file_qem_trace_enable cfg io t s = Done () s'"
    using file_enable_Done [OF that] by simp_all
  show "file_inv cfg s'" "qem_tracing_state s' = qem_tracing_state s AND NOT t"
    "prefix (file_log cfg s) (file_log cfg s')"
    if "file_inv cfg s" "file_qem_trace_disable cfg io t s = Done () s'"
    using file_disable_Done [OF that] by simp_all
  show "file_inv cfg s'" "qem_tracing_state s' = qem_tracing_state s"
    "file_log cfg s' = file_log cfg s @
       record_bytes cfg a"
    if "file_inv cfg s" "qem_tracing_state s \<noteq> 0" "file_qem_trace_output cfg io a s = Done () s'"
    using file_output_Done [OF that] by simp_all
qed (simp_all add: file_disable_safe file_output_safe)

interpretation file_quiet: quiet_backend
  "file_qem_trace_enable cfg io" "file_qem_trace_disable cfg io" "file_qem_trace_output cfg io"
  qem_tracing_state "file_inv cfg" "file_log cfg" "record_bytes cfg"
  by unfold_locales (auto dest: file_enable_Done file_disable_Done)

section \<open>Reliable storage\<close>

text \<open>When the library calls succeed every operation returns.\<close>

lemma file_flush_reliable:
  assumes "io_reliable io" and "file_core cfg s" and "file_open_ok s (unat (qem_file_index s))"
  shows "\<exists>s'. file_flush_buffer cfg io (qem_trace_buffer_size s) s = Done () s'"
proof -
  have fit: "qem_trace_buffer_size s * sizeof_qem_trace cfg \<le> length (qem_trace_buffer s)"
    using assms(2) by (auto simp: file_core_def intro: mult_le_mono1)
  show ?thesis
    by (rule file_core_open [OF assms(2,3)])
      (simp add: file_flush_eq fit Let_def io_reliable_simps [OF assms(1)])
qed

lemma file_output_reliable:
  assumes io: "io_reliable io" and inv: "file_inv cfg s" and st: "qem_tracing_state s \<noteq> 0"
  shows "\<exists>s'. file_qem_trace_output cfg io a s = Done () s'"
proof -
  let ?r = "file_qem_trace_output cfg io a s"
  have "\<exists>s1. (if qem_trace_buffer_size s = QEM_TRACE_BUFFER_SIZE cfg
      then file_flush_buffer cfg io (QEM_TRACE_BUFFER_SIZE cfg) s else Done () s) = Done () s1"
    using file_flush_reliable [OF io, of cfg s] inv st by (auto simp: file_inv_def)
  then obtain s1 where s1: "(if qem_trace_buffer_size s = QEM_TRACE_BUFFER_SIZE cfg
      then file_flush_buffer cfg io (QEM_TRACE_BUFFER_SIZE cfg) s else Done () s) = Done () s1" ..
  have "is_fault ?r \<or> (\<exists>s'. ?r = Done () s')"
    by (simp add: file_qem_trace_output_def s1 Let_def split: option.splits)
  with file_output_safe [OF inv st] show ?thesis by blast
qed

lemma file_enable_reliable:
  assumes io: "io_reliable io" and inv: "file_inv cfg s" and room: "unat (qem_file_index s) < 10 ^ 8"
  shows "\<exists>s'. file_qem_trace_enable cfg io t s = Done () s'"
  using trace_file_name_length [OF room]
  by (simp add: file_qem_trace_enable_def file_qem_init_tracing_def Let_def c_fopen_wb_def
      c_remove_def io_reliable_simps [OF io] run_simps file_write_header_eq)

lemma file_close_reliable:
  assumes io: "io_reliable io" and core: "file_core cfg s"
    and opn: "file_open_ok s (unat (qem_file_index s))"
  shows "\<exists>s'. file_qem_close_tracing cfg io s = Done () s'"
proof -
  obtain s1 where s1: "(if qem_trace_buffer_size s \<noteq> 0
      then file_flush_buffer cfg io (qem_trace_buffer_size s) s else Done () s) = Done () s1"
    using file_flush_reliable [OF io core opn] by (cases "qem_trace_buffer_size s = 0") auto
  then have c1: "file_core cfg s1" "file_open_ok s1 (unat (qem_file_index s1))"
    using file_flush_Done [OF core opn, of io s1] core opn by (auto split: if_splits)
  obtain d where "fs s1 (last_name (unat (qem_file_index s1))) = Some d"
    "qem_trace_file_fd s1 = Some (last_name (unat (qem_file_index s1)), length d)"
    by (rule file_core_open [OF c1])
  then show ?thesis
    unfolding file_qem_close_tracing_def s1
    by (simp add: file_write_header_eq io_reliable_simps [OF io] c_fclose_open)
qed


lemma file_events_reliable:
  assumes io: "io_reliable io" and "file_inv cfg s" and "qem_tracing_state s \<noteq> 0"
  shows "\<exists>s'. guest_events qem_tracing_state (file_qem_trace_output cfg io) es s = Done () s' \<and>
    file_inv cfg s' \<and> qem_tracing_state s' = qem_tracing_state s \<and>
    qem_file_index s' = qem_file_index s \<and>
    file_content cfg s' = file_content cfg s @
      concat (map (record_bytes cfg) (enabled_events (qem_tracing_state s) es))"
  using assms(2,3)
proof (induction es arbitrary: s)
  case Nil
  then show ?case by (simp add: enabled_events_def)
next
  case (Cons e es)
  obtain k a where e: "e = (k, a)" by (cases e)
  show ?case
  proof (cases "qem_tracing_state s AND k = 0")
    case True
    then show ?thesis
      using Cons.IH [OF Cons.prems] by (simp add: e enabled_events_def)
  next
    case False
    obtain s1 where run: "file_qem_trace_output cfg io a s = Done () s1"
      using file_output_reliable [OF io Cons.prems] by blast
    note s1 = file_output_Done [OF Cons.prems run]
    obtain s' where "guest_events qem_tracing_state (file_qem_trace_output cfg io) es s1 = Done () s'"
      "file_inv cfg s'" "qem_tracing_state s' = qem_tracing_state s1"
      "qem_file_index s' = qem_file_index s1"
      "file_content cfg s' = file_content cfg s1 @
        concat (map (record_bytes cfg) (enabled_events (qem_tracing_state s1) es))"
      using Cons.IH [of s1] s1 Cons.prems by auto
    with s1 False show ?thesis
      by (auto simp: e run enabled_events_def)
  qed
qed

text \<open>Any sequence of commands returns, as long as there are names for the files it opens.\<close>

lemma file_disable_index:
  "file_qem_trace_disable cfg io t s = Done () s' \<Longrightarrow> qem_file_index s' = qem_file_index s"
  by (auto simp: file_qem_trace_disable_def file_qem_close_tracing_def file_flush_buffer_def file_qem_write_header_def
      c_fwrite_def c_fseek_set_def c_fclose_def run_simps bind_run_Done_iff Let_def QEM_TRACE_INFO_def c_printf_def
      split: if_splits option.splits)

lemma file_disable_reliable:
  assumes "io_reliable io" and "file_inv cfg s"
  shows "\<exists>s'. file_qem_trace_disable cfg io t s = Done () s'"
proof (cases "qem_tracing_state s = 0")
  case False
  let ?s = "s\<lparr>qem_tracing_state := qem_tracing_state s AND NOT t\<rparr>"
  have "file_core cfg ?s" "file_open_ok ?s (unat (qem_file_index ?s))"
    using assms(2) False by (simp_all add: file_inv_def file_core_def file_open_ok_def)
  from file_close_reliable [OF assms(1) this] show ?thesis
    using False by (cases "qem_tracing_state s AND NOT t = 0") (simp_all add: file_qem_trace_disable_def Let_def)
qed (simp add: file_qem_trace_disable_def)

lemma file_enable_index:
  assumes "file_inv cfg s" and "file_qem_trace_enable cfg io t s = Done () s'"
  shows "unat (qem_file_index s') \<le> Suc (unat (qem_file_index s))"
proof (cases "qem_tracing_state s = 0 \<and> t \<noteq> 0")
  case True
  then obtain s1 where s1: "file_qem_init_tracing cfg io s = Done () s1" "s' = s1\<lparr>qem_tracing_state := t\<rparr>"
    using assms(2) by (auto simp: file_qem_trace_enable_def bind_run_Done_iff)
  have "file_core cfg s" "qem_trace_buffer_size s = 0" using assms(1) True by (simp_all add: file_inv_def)
  from file_init_Done [OF this(1) s1(1) this(2)] s1(2) show ?thesis by simp
next
  case False
  then show ?thesis using assms(2) by (auto simp: file_qem_trace_enable_def split: if_splits)
qed

lemma file_command_returns:
  assumes io: "io_reliable io" and inv: "file_inv cfg s" and room: "unat (qem_file_index s) < 10 ^ 8"
  shows "\<exists>s'. run_command (file_qem_trace_enable cfg io) (file_qem_trace_disable cfg io) qem_tracing_state
      (file_qem_trace_output cfg io) c s = Done () s' \<and> unat (qem_file_index s') \<le> Suc (unat (qem_file_index s))"
proof (cases c)
  case (Cmd_Start t)
  then show ?thesis
    using file_enable_reliable [OF io inv room, of t] file_enable_index [OF inv, of io t] by fastforce
next
  case (Cmd_Stop t)
  then show ?thesis
    using file_disable_reliable [OF io inv, of t] file_disable_index [of cfg io t s] by fastforce
next
  case (Cmd_Event e)
  obtain k a where e: "e = (k, a)" by force
  show ?thesis
  proof (cases "qem_tracing_state s AND k = 0")
    case False
    then have st: "qem_tracing_state s \<noteq> 0" by auto
    obtain s1 where "file_qem_trace_output cfg io a s = Done () s1"
      using file_output_reliable [OF io inv st] by blast
    with file_output_Done [OF inv st this] False Cmd_Event e show ?thesis by auto
  qed (simp add: Cmd_Event e)
qed

lemma file_commands_return:
  assumes "io_reliable io" and "file_inv cfg s" and "Cmd_Start 0 \<notin> set cs"
    and "unat (qem_file_index s) + length cs \<le> 10 ^ 8"
  shows "\<exists>s'. run_commands (file_qem_trace_enable cfg io) (file_qem_trace_disable cfg io) qem_tracing_state
      (file_qem_trace_output cfg io) cs s = Done () s'"
  using assms(2-4)
proof (induction cs arbitrary: s)
  case Nil
  then show ?case by simp
next
  case (Cons c cs)
  then obtain s1 where s1: "run_command (file_qem_trace_enable cfg io) (file_qem_trace_disable cfg io) qem_tracing_state
      (file_qem_trace_output cfg io) c s = Done () s1" "unat (qem_file_index s1) \<le> Suc (unat (qem_file_index s))"
    using file_command_returns [OF assms(1), of cfg s c] by auto
  have "file_inv cfg s1" using file_quiet.command_exact [OF Cons.prems(1) _ s1(1)] Cons.prems(2) by auto
  then show ?case using Cons.IH [of s1] Cons.prems(2,3) s1 by auto
qed

lemma file_session_result:
  assumes io: "io_reliable io" and inv: "file_inv cfg s" and idle: "qem_tracing_state s = 0"
    and room: "unat (qem_file_index s) < 10 ^ 8" and t: "t \<noteq> 0" and stop: "t AND NOT t' = 0"
  shows "\<exists>s'. session (file_qem_trace_enable cfg io) (file_qem_trace_disable cfg io)
      qem_tracing_state (file_qem_trace_output cfg io) t es t' s = Done () s' \<and>
    fs s' (trace_file_name (qem_file_index s)) =
      Some (file_header
              (of_nat (sizeof_qem_trace cfg + length (enabled_events t es) * sizeof_qem_trace cfg))
              (of_nat (sizeof_qem_trace cfg)) 1 @
            concat (map (record_bytes cfg) (enabled_events t es)))"
proof -
  obtain s0 where ini: "file_qem_init_tracing cfg io s = Done () s0"
    and en: "file_qem_trace_enable cfg io t s = Done () (s0\<lparr>qem_tracing_state := t\<rparr>)"
    using file_enable_reliable [OF io inv room, of t] idle t
    by (auto simp: file_qem_trace_enable_def bind_run_Done_iff)
  let ?s1 = "s0\<lparr>qem_tracing_state := t\<rparr>"
  have core: "file_core cfg s" "qem_trace_buffer_size s = 0"
    using inv idle by (simp_all add: file_inv_def)
  note i = file_init_Done [OF core(1) ini core(2)]
  have 1: "file_inv cfg ?s1" "file_content cfg ?s1 = []"
    using file_enable_Done [OF inv t en] i by (auto simp: file_buffered_def file_content_def)
  obtain s2 where 2: "guest_events qem_tracing_state (file_qem_trace_output cfg io) es ?s1 = Done () s2"
    "file_inv cfg s2" "qem_tracing_state s2 = t" "qem_file_index s2 = qem_file_index s0"
    "file_content cfg s2 = concat (map (record_bytes cfg) (enabled_events t es))"
    using file_events_reliable [OF io 1(1), of es] t 1(2) by auto
  let ?s3 = "s2\<lparr>qem_tracing_state := qem_tracing_state s2 AND NOT t'\<rparr>"
  have c3: "file_core cfg ?s3" "file_open_ok ?s3 (unat (qem_file_index ?s3))"
    and sz: "qem_file_size s2 = of_nat (sizeof_qem_trace cfg + length (cur_payload s2))"
    using 2(2,3) t by (simp_all add: file_inv_def)
  obtain s' where cl: "file_qem_close_tracing cfg io ?s3 = Done () s'"
    using file_close_reliable [OF io c3] by blast
  have dis: "file_qem_trace_disable cfg io t' s2 = Done () s'"
    using cl 2(3) t stop by (simp add: file_qem_trace_disable_def Let_def)
  have last: "last_name (unat (qem_file_index s2)) = trace_file_name (qem_file_index s)"
    using i 2(4) by (simp add: last_name_def session_name_def)
  have len: "length (cur_payload s2) + length (file_buffered cfg s2) =
      length (enabled_events t es) * sizeof_qem_trace cfg"
    using arg_cong [OF 2(5), of length] by (simp add: file_content_def)
  have "qem_file_size s2 + of_nat (length (file_buffered cfg s2)) =
      of_nat (sizeof_qem_trace cfg + length (enabled_events t es) * sizeof_qem_trace cfg)"
    by (simp add: sz flip: len)
  with file_close_Done [OF c3 cl] 2(5) last have "fs s' (trace_file_name (qem_file_index s)) =
      Some (file_header
              (of_nat (sizeof_qem_trace cfg + length (enabled_events t es) * sizeof_qem_trace cfg))
              (of_nat (sizeof_qem_trace cfg)) 1 @
            concat (map (record_bytes cfg) (enabled_events t es)))"
    by (simp add: file_content_def)
  then show ?thesis by (simp add: session_def en 2(1) dis)
qed

text \<open>
  C6. A tracing session leaves exactly one complete trace file: the name carries the session
  number, the file starts with the header (size field, size of a record, version 1) and
  goes on with the packed records of the events whose class the start command enabled, in
  the order in which the guest produced them, whatever the size of the buffer. The library
  calls are assumed to succeed.
\<close>

theorem file_session_contents:
  assumes io: "io_reliable io" and inv: "file_inv cfg s" and idle: "qem_tracing_state s = 0"
    and room: "unat (qem_file_index s) < 10 ^ 8" and t: "t \<noteq> 0" and stop: "t AND NOT t' = 0"
  shows "\<exists>s'. session (file_qem_trace_enable cfg io) (file_qem_trace_disable cfg io)
      qem_tracing_state (file_qem_trace_output cfg io) t es t' s = Done () s' \<and>
    fs s' (trace_file_name (qem_file_index s)) =
      Some (file_header
              (of_nat (sizeof_qem_trace cfg + length (enabled_events t es) * sizeof_qem_trace cfg))
              (of_nat (sizeof_qem_trace cfg)) 1 @
            concat (map (record_bytes cfg) (enabled_events t es)))"
  using file_session_result [OF assms] .

definition demo_events :: "(u8 \<times> out_args) list" where
  "demo_events =
     [(1, \<lparr>oa_virt_addr = 0x1000, oa_phys_addr = 0x7000, oa_core = 2, oa_time = 5, oa_flags = 0x100\<rparr>),
      (2, \<lparr>oa_virt_addr = 0x2000, oa_phys_addr = 0x8000, oa_core = 0, oa_time = 6, oa_flags = 0\<rparr>)]"

lemma demo_file:
  "trace_file_name 0 = ''qem_trace_00000000.out''"
  "file_header (of_nat (sizeof_qem_trace default_config +
       length (enabled_events 1 demo_events) * sizeof_qem_trace default_config))
     (of_nat (sizeof_qem_trace default_config)) 1 @
   concat (map (record_bytes default_config) (enabled_events 1 demo_events)) =
   [32, 0, 0, 0, 0, 0, 0, 0, 16, 0, 1, 0, 0, 0, 0, 0,
    0, 112, 0, 0, 5, 0, 0, 0, 0, 0, 0, 0, 2, 1, 0, 0]"
proof -
  show "trace_file_name 0 = ''qem_trace_00000000.out''"
    by (simp add: trace_file_name_def fmt_08d_def dec_int_def dec_nat.simps pad0_def hex_char_def)
      (simp add: eval_nat_numeral)
qed code_simp

theorem file_session_contents_witness:
  "\<exists>s'. session (file_qem_trace_enable default_config good_io) (file_qem_trace_disable default_config good_io)
      qem_tracing_state (file_qem_trace_output default_config good_io) 1 demo_events 3
      (file_start default_config (\<lambda>_. None)) = Done () s' \<and>
    fs s' ''qem_trace_00000000.out'' =
      Some [32, 0, 0, 0, 0, 0, 0, 0, 16, 0, 1, 0, 0, 0, 0, 0,
    0, 112, 0, 0, 5, 0, 0, 0, 0, 0, 0, 0, 2, 1, 0, 0]"
proof -
  have "file_inv default_config (file_start default_config (\<lambda>_. None))"
    by (rule file_inv_start) (simp_all add: default_config_def)
  moreover have "qem_tracing_state (file_start default_config (\<lambda>_. None)) = 0"
    "qem_file_index (file_start default_config (\<lambda>_. None)) = 0"
    by (simp_all add: file_start_def)
  ultimately show ?thesis
    using file_session_contents [where io = good_io and cfg = default_config and t = 1 and t' = 3
      and s = "file_start default_config (\<lambda>_. None)" and es = demo_events]
    by (simp only: demo_file io_reliable_good_io) simp
qed

end
