(* ===== verification/QEM_SMI_Shm.thy ===== *)
theory QEM_SMI_Shm
  imports QEM_Prelude
begin

text \<open>
  The shared memory region of the Shared Memory Interface, as raw bytes. Its layout, common
  to the sender (\<^verbatim>\<open>QEMTrace/qem_trace_smi_engine.h\<close>) and the receiver
  (\<^verbatim>\<open>SMILib/include/qem_posix_smi.h\<close>), is a block count (16 bits), a block mask (16 bits,
  one bit per block, set when the block holds data), a block size (32 bits) and the blocks.
\<close>

section \<open>Layout\<close>

definition QEM_SMI_STREAM_VERSION :: u32 where "QEM_SMI_STREAM_VERSION = 1"
definition QEM_SMI_HANDSHAKE_MAGIC :: u32 where "QEM_SMI_HANDSHAKE_MAGIC = 0xDEADCAFE"

definition QEM_SMI_META_BLOCK_COUNT_OFFSET :: nat where "QEM_SMI_META_BLOCK_COUNT_OFFSET = 0"
definition QEM_SMI_META_BLOCK_COUNT_SIZE :: nat where "QEM_SMI_META_BLOCK_COUNT_SIZE = 2"
definition QEM_SMI_META_BLOCK_MASK_OFFSET :: nat where
  "QEM_SMI_META_BLOCK_MASK_OFFSET = QEM_SMI_META_BLOCK_COUNT_OFFSET + QEM_SMI_META_BLOCK_COUNT_SIZE"
definition QEM_SMI_META_BLOCK_MASK_SIZE :: nat where "QEM_SMI_META_BLOCK_MASK_SIZE = 2"
definition QEM_SMI_META_BLOCK_SIZE_OFFSET :: nat where
  "QEM_SMI_META_BLOCK_SIZE_OFFSET = QEM_SMI_META_BLOCK_MASK_OFFSET + QEM_SMI_META_BLOCK_MASK_SIZE"
definition QEM_SMI_META_BLOCK_SIZE_SIZE :: nat where "QEM_SMI_META_BLOCK_SIZE_SIZE = 4"
definition QEM_SMI_DATA_BUFFER_META_DATA_SIZE :: nat where
  "QEM_SMI_DATA_BUFFER_META_DATA_SIZE = QEM_SMI_META_BLOCK_SIZE_OFFSET + QEM_SMI_META_BLOCK_SIZE_SIZE"

lemma smi_layout:
  "QEM_SMI_META_BLOCK_COUNT_OFFSET = 0" "QEM_SMI_META_BLOCK_COUNT_SIZE = 2"
  "QEM_SMI_META_BLOCK_MASK_OFFSET = 2" "QEM_SMI_META_BLOCK_MASK_SIZE = 2"
  "QEM_SMI_META_BLOCK_SIZE_OFFSET = 4" "QEM_SMI_META_BLOCK_SIZE_SIZE = 4"
  "QEM_SMI_DATA_BUFFER_META_DATA_SIZE = 8"
  by (simp_all add: QEM_SMI_META_BLOCK_COUNT_OFFSET_def QEM_SMI_META_BLOCK_COUNT_SIZE_def
      QEM_SMI_META_BLOCK_MASK_OFFSET_def QEM_SMI_META_BLOCK_MASK_SIZE_def
      QEM_SMI_META_BLOCK_SIZE_OFFSET_def QEM_SMI_META_BLOCK_SIZE_SIZE_def
      QEM_SMI_DATA_BUFFER_META_DATA_SIZE_def)

datatype QEM_SMI_STATUS_CODE_E =
    QEM_SMI_UNINIT
  | QEM_SMI_NOT_CONNECTED
  | QEM_SMI_CONNECTED
  | QEM_SMI_ERR_ABORTED
  | QEM_SMI_FAILED_CREATE_PIPE

section \<open>Accesses\<close>

text \<open>
  \<open>memcpy (&blocks, shared_buffer + BLOCK_MASK_OFFSET, 2)\<close> sets the low half of a 32-bit
  variable and leaves its high half as it was.
\<close>

definition load_blocks :: "u32 \<Rightarrow> bytes \<Rightarrow> u32 option" where
  "load_blocks old shm =
     map_option (\<lambda>bs. (old AND 0xFFFF0000) OR ucast (le_word bs :: u16))
       (mem_read shm QEM_SMI_META_BLOCK_MASK_OFFSET QEM_SMI_META_BLOCK_MASK_SIZE)"

definition store_blocks :: "u32 \<Rightarrow> bytes \<Rightarrow> bytes option" where
  "store_blocks blocks shm =
     mem_write shm QEM_SMI_META_BLOCK_MASK_OFFSET (le_bytes QEM_SMI_META_BLOCK_MASK_SIZE blocks)"

text \<open>\<open>(blocks & (1 << next_block)) != 0\<close>, \<open>blocks |= 1 << n\<close> and \<open>blocks &= ~(1 << n)\<close>.\<close>

definition block_used :: "u32 \<Rightarrow> nat \<Rightarrow> bool" where
  "block_used blocks n = (blocks AND push_bit n 1 \<noteq> 0)"

definition mark_block :: "u32 \<Rightarrow> nat \<Rightarrow> u32" where
  "mark_block blocks n = blocks OR push_bit n 1"

definition clear_block :: "u32 \<Rightarrow> nat \<Rightarrow> u32" where
  "clear_block blocks n = blocks AND NOT (push_bit n 1)"

text \<open>The data part starts at \<open>base\<close>; block \<open>n\<close> is at \<open>base + n * block_size\<close>.\<close>

definition put_block :: "nat \<Rightarrow> nat \<Rightarrow> nat \<Rightarrow> bytes \<Rightarrow> bytes \<Rightarrow> bytes option" where
  "put_block base n bsize bs shm = mem_write shm (base + c_u32 (n * bsize)) bs"

definition get_block :: "nat \<Rightarrow> nat \<Rightarrow> nat \<Rightarrow> bytes \<Rightarrow> bytes option" where
  "get_block base n bsize shm = mem_read shm (base + c_u32 (n * bsize)) bsize"

section \<open>Well-formed regions\<close>

text \<open>
  The region can hold the metadata and all the blocks, the blocks can hold the handshake
  word, and there is a mask bit per block.
\<close>

definition smi_geometry :: "nat \<Rightarrow> nat \<Rightarrow> bytes \<Rightarrow> bool" where
  "smi_geometry bcount bsize shm \<longleftrightarrow> 0 < bcount \<and> bcount \<le> 16 \<and> 0 < bsize \<and>
     4 \<le> bcount * bsize \<and> bcount * bsize + 8 < 2 ^ 31 \<and> length shm = bcount * bsize + 8"

lemma smi_geometry_bound:
  assumes "smi_geometry bc bz shm"
  shows "bz < 2 ^ 31"
proof -
  have "bz \<le> bc * bz" using assms by (simp add: smi_geometry_def)
  then show ?thesis using assms unfolding smi_geometry_def by linarith
qed

text \<open>Bit \<open>n\<close> of the mask in the region, and the bytes of block \<open>n\<close>.\<close>

definition mask_bit :: "bytes \<Rightarrow> nat \<Rightarrow> bool" where
  "mask_bit shm n = bit (le_word (take 2 (drop 2 shm)) :: u16) n"

definition block_bytes :: "nat \<Rightarrow> bytes \<Rightarrow> nat \<Rightarrow> bytes" where
  "block_bytes bsize shm n = take bsize (drop (8 + n * bsize) shm)"

lemma bit_push_bit_one: "bit (push_bit n 1 :: u32) m \<longleftrightarrow> m = n \<and> n < 32"
  by (auto simp: bit_exp_iff possible_bit_word)

lemma block_used_bit: "block_used b n = bit b n"
  by (simp add: block_used_def and_exp_eq_0_iff_not_bit)

lemma load_blocks_used:
  assumes "smi_geometry bc bz shm" and "n < bc"
  shows "\<exists>b. load_blocks old shm = Some b \<and> block_used b n = mask_bit shm n"
proof -
  have n: "n < 16" using assms by (simp add: smi_geometry_def)
  have "(0xFFFF0000 :: u32) = push_bit 16 0xFFFF" by simp
  also have "bit \<dots> n = False" using n by (subst bit_push_bit_iff) simp
  finally have "bit (0xFFFF0000 :: u32) n = False" .
  then show ?thesis
    using assms n
    by (auto simp: load_blocks_def mem_read_def smi_layout smi_geometry_def block_used_bit
        bit_or_iff bit_and_iff bit_ucast_iff mask_bit_def)
qed


text \<open>What storing a mask and writing a block do to the mask bits and to the blocks.\<close>

lemma le_bytes_2_ucast: "le_bytes 2 (b :: u32) = le_bytes 2 (ucast b :: u16)"
proof -
  have "ucast b = (ucast (ucast b :: u16) :: u8)"
    by (rule bit_word_eqI) (simp add: bit_ucast_iff)
  moreover have "ucast (drop_bit 8 b) = (ucast (drop_bit 8 (ucast b :: u16)) :: u8)"
    by (rule bit_word_eqI) (auto simp: bit_ucast_iff bit_drop_bit_eq)
  ultimately show ?thesis by (simp add: numeral_2_eq_2)
qed

lemma bit_le_word_cut:
  "bit (le_word (le_bytes 2 (b :: u32)) :: u16) n \<longleftrightarrow> n < 16 \<and> bit b n"
  unfolding le_bytes_2_ucast by (simp add: bit_le_word_bytes bit_ucast_iff)

lemma mask_bit_store:
  assumes "store_blocks b shm = Some shm'"
  shows "mask_bit shm' n \<longleftrightarrow> n < 16 \<and> bit b n" and "length shm' = length shm"
proof -
  from assms have "mem_write shm 2 (le_bytes 2 b) = Some shm'"
    by (simp add: store_blocks_def smi_layout)
  from mem_read_write_same [OF this] mem_write_length [OF this]
  show "mask_bit shm' n \<longleftrightarrow> n < 16 \<and> bit b n" and "length shm' = length shm"
    by (auto simp: mask_bit_def mem_read_def bit_le_word_cut split: if_splits)
qed

lemma block_bytes_store:
  assumes "store_blocks b shm = Some shm'"
  shows "block_bytes bz shm' n = block_bytes bz shm n"
proof -
  from assms have "shm' = take 2 shm @ le_bytes 2 b @ drop 4 shm" "4 \<le> length shm"
    by (auto simp: store_blocks_def smi_layout mem_write_def split: if_splits)
  then show ?thesis by (simp add: block_bytes_def)
qed

lemma store_blocks_ok:
  assumes "smi_geometry bc bz shm"
  shows "\<exists>shm'. store_blocks b shm = Some shm'"
  using assms by (auto simp: store_blocks_def smi_layout smi_geometry_def mem_write_def)

text \<open>Blocks do not meet each other, nor the metadata.\<close>

lemma block_offset_bound:
  assumes "smi_geometry bc bz shm" and "n < bc"
  shows "n * bz + bz \<le> bc * bz" and "c_u32 (n * bz) = n * bz"
proof -
  have "Suc n * bz \<le> bc * bz" using assms(2) by (intro mult_le_mono1) simp
  then show le: "n * bz + bz \<le> bc * bz" by simp
  have "bc * bz < 2 ^ 31" using assms(1) by (simp add: smi_geometry_def)
  with le show "c_u32 (n * bz) = n * bz" by (intro c_u32_small) simp
qed

lemma put_block_ok:
  assumes "smi_geometry bc bz shm" and "n < bc" and "length bs \<le> bz"
  shows "\<exists>shm'. put_block 8 n bz bs shm = Some shm'"
  using block_offset_bound [OF assms(1,2)] assms
  by (auto simp: put_block_def smi_geometry_def mem_write_def)

lemma put_block_effect:
  assumes g: "smi_geometry bc bz shm" and n: "n < bc" and len: "length bs = bz"
    and put: "put_block 8 n bz bs shm = Some shm'"
  shows "length shm' = length shm"
    and "mask_bit shm' m = mask_bit shm m"
    and "k < bc \<Longrightarrow> block_bytes bz shm' k = (if k = n then bs else block_bytes bz shm k)"
proof -
  have w: "mem_write shm (8 + n * bz) bs = Some shm'"
    using put block_offset_bound [OF g n] by (simp add: put_block_def)
  show l: "length shm' = length shm" using mem_write_length [OF w] .
  have "mem_read shm' 2 2 = mem_read shm 2 2"
    by (rule mem_read_write_other [OF w]) simp
  then show "mask_bit shm' m = mask_bit shm m"
    using l g by (simp add: mem_read_def mask_bit_def smi_geometry_def)
  assume k: "k < bc"
  show "block_bytes bz shm' k = (if k = n then bs else block_bytes bz shm k)"
  proof (cases "k = n")
    case True
    then show ?thesis
      using mem_read_write_same [OF w] len
      by (auto simp: mem_read_def block_bytes_def split: if_splits)
  next
    case False
    then consider "Suc k \<le> n" | "Suc n \<le> k" by linarith
    then have "8 + k * bz + bz \<le> 8 + n * bz \<or> 8 + n * bz + length bs \<le> 8 + k * bz"
    proof cases
      case 1
      from mult_le_mono1 [OF 1, of bz] show ?thesis by simp
    next
      case 2
      from mult_le_mono1 [OF 2, of bz] show ?thesis by (simp add: len)
    qed
    from mem_read_write_other [OF w this] False l block_offset_bound [OF g k] g
    show ?thesis by (simp add: mem_read_def block_bytes_def smi_geometry_def)
  qed
qed

lemma get_block_ok:
  assumes g: "smi_geometry bc bz shm" and n: "n < bc"
  shows "get_block 8 n bz shm = Some (block_bytes bz shm n)"
    and "length (block_bytes bz shm n) = bz"
  using block_offset_bound [OF g n] g
  by (auto simp: get_block_def mem_read_def block_bytes_def smi_geometry_def)

lemma bit_mark_block: "bit (mark_block b n) m \<longleftrightarrow> bit b m \<or> (m = n \<and> n < 32)"
  by (auto simp: mark_block_def bit_or_iff bit_exp_iff possible_bit_word)

lemma bit_clear_block:
  "m < 32 \<Longrightarrow> bit (clear_block b n) m \<longleftrightarrow> bit b m \<and> m \<noteq> n"
  by (auto simp: clear_block_def bit_and_iff bit_not_iff bit_exp_iff possible_bit_word)

lemma smi_geometry_length: "length shm' = length shm \<Longrightarrow> smi_geometry bc bz shm' = smi_geometry bc bz shm"
  by (simp add: smi_geometry_def)

text \<open>
  The read-modify-write of the mask that both ends do under the lock: load the mask, set or
  clear the bit of a block, store the mask.
\<close>

lemma mark_block_effect:
  assumes "smi_geometry bc bz shm" and "n < bc"
  obtains b shm' where "load_blocks old shm = Some b"
    and "store_blocks (mark_block b n) shm = Some shm'"
    and "length shm' = length shm"
    and "\<And>m. m < bc \<Longrightarrow> mask_bit shm' m \<longleftrightarrow> mask_bit shm m \<or> m = n"
    and "\<And>k. block_bytes bz shm' k = block_bytes bz shm k"
proof -
  obtain b where b: "load_blocks old shm = Some b"
    using load_blocks_used [OF assms] by blast
  have use: "bit b m = mask_bit shm m" if "m < bc" for m
    using load_blocks_used [OF assms(1) that, of old] b by (auto simp: block_used_bit)
  obtain shm' where st: "store_blocks (mark_block b n) shm = Some shm'"
    using store_blocks_ok [OF assms(1)] by blast
  have "bc \<le> 16" using assms(1) by (simp add: smi_geometry_def)
  then show thesis
    using that [OF b st mask_bit_store(2) [OF st] _ block_bytes_store [OF st]] assms(2)
    by (auto simp: mask_bit_store(1) [OF st] bit_mark_block use)
qed

lemma clear_block_effect:
  assumes "smi_geometry bc bz shm" and "n < bc"
  obtains b shm' where "load_blocks old shm = Some b"
    and "store_blocks (clear_block b n) shm = Some shm'"
    and "length shm' = length shm"
    and "\<And>m. m < bc \<Longrightarrow> mask_bit shm' m \<longleftrightarrow> mask_bit shm m \<and> m \<noteq> n"
    and "\<And>k. block_bytes bz shm' k = block_bytes bz shm k"
proof -
  obtain b where b: "load_blocks old shm = Some b"
    using load_blocks_used [OF assms] by blast
  have use: "bit b m = mask_bit shm m" if "m < bc" for m
    using load_blocks_used [OF assms(1) that, of old] b by (auto simp: block_used_bit)
  obtain shm' where st: "store_blocks (clear_block b n) shm = Some shm'"
    using store_blocks_ok [OF assms(1)] by blast
  have "bc \<le> 16" using assms(1) by (simp add: smi_geometry_def)
  then show thesis
    using that [OF b st mask_bit_store(2) [OF st] _ block_bytes_store [OF st]] assms(2)
    by (auto simp: mask_bit_store(1) [OF st] bit_clear_block use)
qed

end
