(* ===== verification/QEM_SMI_Posix.thy ===== *)
theory QEM_SMI_Posix
  imports QEM_SMI_Shm QEM_Backend
begin

text \<open>
  The static variables of the two ends of the Shared Memory Interface, which
  \<^verbatim>\<open>qem_trace_smi_engine.c\<close> and \<^verbatim>\<open>qem_posix_smi.c\<close> declare with the same names, and
  the POSIX calls both make. What a call answers is a parameter (\<open>posix\<close>): for the number
  of the call, its result and the value of \<open>errno\<close> after it. Every call is appended to
  \<open>os_log\<close>, so that the resources held and the locking discipline can be read off it.
\<close>

section \<open>Names of the shared objects\<close>

definition QEM_SMI_SHM_NAME :: string where "QEM_SMI_SHM_NAME = ''/QEM_SMI_SHM''"
definition QEM_SMI_SHARED_SEM_SERVER :: string where
  "QEM_SMI_SHARED_SEM_SERVER = ''/QEM_SMI_SEM_SERVER''"
definition QEM_SMI_SHARED_SEM_CLIENT :: string where
  "QEM_SMI_SHARED_SEM_CLIENT = ''/QEM_SMI_SEM_CLIENT''"
definition QEM_SMI_SHARED_MUTEX :: string where "QEM_SMI_SHARED_MUTEX = ''/QEM_SMI_MUTEX''"
definition QEM_SMI_SHARED_COND_READ :: string where
  "QEM_SMI_SHARED_COND_READ = ''/QEM_SMI_COND_READ''"
definition QEM_SMI_SHARED_COND_WRITE :: string where
  "QEM_SMI_SHARED_COND_WRITE = ''/QEM_SMI_COND_WRITE''"

section \<open>State\<close>

text \<open>A pointer into a mapping: \<open>NULL\<close>, \<open>MAP_FAILED\<close> or a live mapping.\<close>

datatype map_ptr = Null | MapFailed | Mapped

datatype sync_obj = MonLock | CondRead | CondWrite

datatype os_call =
    ShmOpen string int
  | ShmUnlink string
  | Ftruncate int nat
  | Mmap int nat map_ptr
  | Munmap map_ptr nat
  | CloseFd int
  | Malloc nat bool
  | FreeMem
  | SemOpen string bool
  | SemClose string
  | SemUnlink string
  | SemPost string
  | SemTimedwait string nat int
  | SemWait string
  | Nanosleep nat
  | AttrInit sync_obj int
  | AttrSetpshared sync_obj int
  | AttrDestroy sync_obj
  | SyncInit sync_obj int
  | SyncDestroy sync_obj
  | MutexLock
  | MutexUnlock
  | CondWait sync_obj
  | CondSignal sync_obj

record smi_link = tracer +
  error_code :: QEM_SMI_STATUS_CODE_E
  shared_buffer :: map_ptr
  shared_buffer_data :: "map_ptr \<times> nat"
  shared_buffer_size :: nat
  shm_fd :: int
  shm :: bytes
  local_buffer :: "bytes option"
  local_buffer_index :: nat
  server_sem :: bool
  client_sem :: bool
  mon_lock :: map_ptr
  mon_lock_fd :: int
  cond_read :: map_ptr
  cond_read_fd :: int
  cond_write :: map_ptr
  cond_write_fd :: int
  next_block :: nat
  block_count :: nat
  block_size :: nat
  os_log :: "os_call list"

section \<open>The operating system\<close>

record posix =
  os_shm_open :: "nat \<Rightarrow> int"
  os_ftruncate :: "nat \<Rightarrow> int"
  os_mmap :: "nat \<Rightarrow> bool"
  os_malloc :: "nat \<Rightarrow> bool"
  os_heap :: "nat \<Rightarrow> u8"
  os_stack :: "nat \<Rightarrow> u32"
  os_sem_open :: "nat \<Rightarrow> bool"
  os_timedwait :: "nat \<Rightarrow> int"
  os_clock :: "nat \<Rightarrow> nat"
  os_pthread :: "nat \<Rightarrow> int"
  os_errno :: "nat \<Rightarrow> int"

text \<open>The number of the next call, and \<open>errno\<close> as the calls made so far left it.\<close>

definition os_now :: "'z smi_link_scheme \<Rightarrow> nat" where
  "os_now s = length (os_log s)"

definition c_errno :: "posix \<Rightarrow> 'z smi_link_scheme \<Rightarrow> int" where
  "c_errno os s = os_errno os (os_now s)"

definition os_do :: "os_call \<Rightarrow> 'z smi_link_scheme \<Rightarrow> 'z smi_link_scheme" where
  "os_do c s = s\<lparr>os_log := os_log s @ [c]\<rparr>"

text \<open>
  \<open>shm_open\<close> returns a descriptor or -1. \<open>mmap\<close> of the descriptor -1 fails (EBADF); the
  wrapper returns the pointer the source compares with \<open>MAP_FAILED\<close>.
\<close>

definition new_fd :: "posix \<Rightarrow> 'z smi_link_scheme \<Rightarrow> int" where
  "new_fd os s = max (-1) (os_shm_open os (os_now s))"

definition c_shm_open :: "posix \<Rightarrow> string \<Rightarrow> 'z smi_link_scheme \<Rightarrow> int \<times> 'z smi_link_scheme" where
  "c_shm_open os name s = (let fd = new_fd os s in (fd, os_do (ShmOpen name fd) s))"

definition c_ftruncate ::
    "posix \<Rightarrow> int \<Rightarrow> nat \<Rightarrow> 'z smi_link_scheme \<Rightarrow> int \<times> 'z smi_link_scheme" where
  "c_ftruncate os fd n s = (os_ftruncate os (os_now s), os_do (Ftruncate fd n) s)"

definition c_mmap ::
    "posix \<Rightarrow> int \<Rightarrow> nat \<Rightarrow> 'z smi_link_scheme \<Rightarrow> map_ptr \<times> 'z smi_link_scheme" where
  "c_mmap os fd n s =
     (let p = (if 0 \<le> fd \<and> os_mmap os (os_now s) then Mapped else MapFailed)
      in (p, os_do (Mmap fd n p) s))"

text \<open>The bytes of a fresh heap block are whatever the heap holds.\<close>

definition c_malloc ::
    "posix \<Rightarrow> nat \<Rightarrow> 'z smi_link_scheme \<Rightarrow> bytes option \<times> 'z smi_link_scheme" where
  "c_malloc os n s =
     (let ok = os_malloc os (os_now s)
      in (if ok then Some (map (os_heap os) [0..<n]) else None, os_do (Malloc n ok) s))"

definition c_sem_open :: "posix \<Rightarrow> string \<Rightarrow> 'z smi_link_scheme \<Rightarrow> bool \<times> 'z smi_link_scheme" where
  "c_sem_open os name s =
     (let ok = os_sem_open os (os_now s) in (ok, os_do (SemOpen name ok) s))"

definition c_attr_init :: "posix \<Rightarrow> sync_obj \<Rightarrow> 'z smi_link_scheme \<Rightarrow> int \<times> 'z smi_link_scheme" where
  "c_attr_init os ob s = (let r = os_pthread os (os_now s) in (r, os_do (AttrInit ob r) s))"

definition c_attr_setpshared ::
    "posix \<Rightarrow> sync_obj \<Rightarrow> 'z smi_link_scheme \<Rightarrow> int \<times> 'z smi_link_scheme" where
  "c_attr_setpshared os ob s =
     (let r = os_pthread os (os_now s) in (r, os_do (AttrSetpshared ob r) s))"

definition c_sync_init :: "posix \<Rightarrow> sync_obj \<Rightarrow> 'z smi_link_scheme \<Rightarrow> int \<times> 'z smi_link_scheme" where
  "c_sync_init os ob s = (let r = os_pthread os (os_now s) in (r, os_do (SyncInit ob r) s))"

text \<open>An operating system that grants everything.\<close>

definition os_reliable :: "posix \<Rightarrow> bool" where
  "os_reliable os \<longleftrightarrow> (\<forall>n. 0 \<le> os_shm_open os n) \<and> (\<forall>n. os_ftruncate os n = 0) \<and>
     (\<forall>n. os_mmap os n) \<and> (\<forall>n. os_malloc os n) \<and> (\<forall>n. os_sem_open os n) \<and>
     (\<forall>n. os_timedwait os n = 0) \<and> (\<forall>n. os_pthread os n = 0)"

definition good_os :: posix where
  "good_os = \<lparr>os_shm_open = (\<lambda>n. int n + 3), os_ftruncate = (\<lambda>_. 0), os_mmap = (\<lambda>_. True),
     os_malloc = (\<lambda>_. True), os_heap = (\<lambda>_. 0xA5), os_stack = (\<lambda>_. 0xDEADBEEF),
     os_sem_open = (\<lambda>_. True), os_timedwait = (\<lambda>_. 0), os_clock = (\<lambda>n. 1000 + n),
     os_pthread = (\<lambda>_. 0), os_errno = (\<lambda>_. 0)\<rparr>"

lemma os_reliable_good_os [simp]: "os_reliable good_os"
  by (simp add: os_reliable_def good_os_def)

section \<open>Resources\<close>

text \<open>
  The resources that a log of calls leaves open, and those a state still has a handle on.
  Descriptors, mappings, semaphores and heap blocks are counted.
\<close>

definition one_if :: "bool \<Rightarrow> int" where
  "one_if b = (if b then 1 else 0)"

lemma one_if_simps [simp]: "one_if True = 1" "one_if False = 0"
  by (simp_all add: one_if_def)

fun os_gain :: "os_call \<Rightarrow> int \<times> int \<times> int \<times> int" where
  "os_gain (ShmOpen n fd) = (one_if (fd \<noteq> -1), 0, 0, 0)"
| "os_gain (CloseFd fd) = (-1, 0, 0, 0)"
| "os_gain (Mmap fd n p) = (0, one_if (p = Mapped), 0, 0)"
| "os_gain (Munmap p n) = (0, - one_if (p = Mapped), 0, 0)"
| "os_gain (SemOpen n ok) = (0, 0, one_if ok, 0)"
| "os_gain (SemClose n) = (0, 0, -1, 0)"
| "os_gain (Malloc n ok) = (0, 0, 0, one_if ok)"
| "os_gain FreeMem = (0, 0, 0, -1)"
| "os_gain _ = (0, 0, 0, 0)"

fun quad_add :: "int \<times> int \<times> int \<times> int \<Rightarrow> int \<times> int \<times> int \<times> int \<Rightarrow> int \<times> int \<times> int \<times> int" where
  "quad_add (a, b, c, d) (a', b', c', d') = (a + a', b + b', c + c', d + d')"

definition os_open :: "os_call list \<Rightarrow> int \<times> int \<times> int \<times> int" where
  "os_open l = fold (\<lambda>c. quad_add (os_gain c)) l (0, 0, 0, 0)"

definition held :: "'z smi_link_scheme \<Rightarrow> int \<times> int \<times> int \<times> int" where
  "held s =
     (one_if (shm_fd s \<noteq> -1) + one_if (mon_lock_fd s \<noteq> -1) + one_if (cond_read_fd s \<noteq> -1) +
        one_if (cond_write_fd s \<noteq> -1),
      one_if (shared_buffer s = Mapped) + one_if (mon_lock s = Mapped) +
        one_if (cond_read s = Mapped) + one_if (cond_write s = Mapped),
      one_if (server_sem s) + one_if (client_sem s),
      one_if (\<not> Option.is_none (local_buffer s)))"

definition accounted :: "'z smi_link_scheme \<Rightarrow> bool" where
  "accounted s \<longleftrightarrow> os_open (os_log s) = held s"

lemma quad_add_zero [simp]: "quad_add (0, 0, 0, 0) q = q" "quad_add q (0, 0, 0, 0) = q"
  by (cases q, simp)+

lemma quad_add_assoc: "quad_add (quad_add p q) r = quad_add p (quad_add q r)"
  by (cases p; cases q; cases r) simp

lemma quad_add_left_commute: "quad_add p (quad_add q r) = quad_add q (quad_add p r)"
  by (cases p; cases q; cases r) simp

lemma os_open_Nil [simp]: "os_open [] = (0, 0, 0, 0)"
  by (simp add: os_open_def)

lemma os_open_Cons [simp]: "os_open (c # l) = quad_add (os_gain c) (os_open l)"
proof -
  have "fold (\<lambda>c. quad_add (os_gain c)) l (quad_add q q') =
      quad_add q (fold (\<lambda>c. quad_add (os_gain c)) l q')" for q q'
    by (induction l arbitrary: q') (simp_all add: quad_add_left_commute)
  from this [of "os_gain c" "(0, 0, 0, 0)"] show ?thesis by (simp add: os_open_def)
qed

lemma os_open_append [simp]: "os_open (l @ m) = quad_add (os_open l) (os_open m)"
  by (induction l) (simp_all add: quad_add_assoc)

text \<open>No handle is live.\<close>

definition no_handles :: "'z smi_link_scheme \<Rightarrow> bool" where
  "no_handles s \<longleftrightarrow> shared_buffer s = Null \<and> shm_fd s = -1 \<and> local_buffer s = None \<and>
     \<not> server_sem s \<and> \<not> client_sem s \<and> mon_lock s = MapFailed \<and> mon_lock_fd s = -1 \<and>
     cond_read s = MapFailed \<and> cond_read_fd s = -1 \<and>
     cond_write s = MapFailed \<and> cond_write_fd s = -1"

lemma no_handles_held: "no_handles s \<Longrightarrow> held s = (0, 0, 0, 0)"
  by (simp add: no_handles_def held_def)

end
