(* ===== verification/QEM_SMI_Engine.thy ===== *)
theory QEM_SMI_Engine
  imports QEM_SMI_Posix
begin

text \<open>
  The sending end of the Shared Memory Interface, \<^verbatim>\<open>QEMTrace/qem_trace_smi_engine.c\<close>: set-up
  and handshake, the local buffer, and the ring of blocks. The parts of \<open>send\<close> and
  \<open>flush\<close> between two synchronisation points are definitions of their own, because the
  protocol theory interleaves them with the receiver. Here a call runs alone; waiting for a
  block that the receiver has not freed ends it with \<open>Blocked\<close>.
\<close>

section \<open>Access to the ring\<close>

text \<open>Reading \<open>shared_buffer\<close> needs a live mapping, and so does \<open>shared_buffer_data\<close>.\<close>

definition smi_load_blocks :: "u32 \<Rightarrow> 'z smi_link_scheme \<Rightarrow> u32 option" where
  "smi_load_blocks old s = (if shared_buffer s = Mapped then load_blocks old (shm s) else None)"

definition smi_store_blocks :: "u32 \<Rightarrow> 'z smi_link_scheme \<Rightarrow> 'z smi_link_scheme option" where
  "smi_store_blocks blocks s =
     (if shared_buffer s = Mapped
      then map_option (\<lambda>m. s\<lparr>shm := m\<rparr>) (store_blocks blocks (shm s)) else None)"

definition smi_data_base :: "'z smi_link_scheme \<Rightarrow> nat option" where
  "smi_data_base s =
     (if shared_buffer s = Mapped \<and> fst (shared_buffer_data s) = Mapped
      then Some (snd (shared_buffer_data s)) else None)"

text \<open>\<open>memcpy (shared_buffer_data + next_block * block_size, local_buffer, n)\<close>.\<close>

definition smi_copy_out :: "nat \<Rightarrow> 'z smi_link_scheme \<Rightarrow> 'z smi_link_scheme option" where
  "smi_copy_out n s =
     (case (smi_data_base s, local_buffer s) of
        (Some base, Some lb) \<Rightarrow>
          (case mem_read lb 0 n of
             None \<Rightarrow> None
           | Some bs \<Rightarrow> map_option (\<lambda>m. s\<lparr>shm := m\<rparr>)
               (put_block base (next_block s) (block_size s) bs (shm s)))
      | _ \<Rightarrow> None)"

text \<open>\<open>memset (shared_buffer_data + next_block * block_size, 0, block_size)\<close>.\<close>

definition smi_zero_block :: "'z smi_link_scheme \<Rightarrow> 'z smi_link_scheme option" where
  "smi_zero_block s =
     (case smi_data_base s of
        None \<Rightarrow> None
      | Some base \<Rightarrow> map_option (\<lambda>m. s\<lparr>shm := m\<rparr>)
          (put_block base (next_block s) (block_size s) (replicate (block_size s) 0) (shm s)))"

text \<open>
  The first critical section: wait until the next block is free. The second: mark the block
  used, step to the next one and signal the reader. \<open>blocks\<close> is the local variable, whose
  high half keeps the value it had.
\<close>

definition smi_await_free :: "u32 \<Rightarrow> 'z smi_link_scheme \<Rightarrow> (u32, 'z smi_link_scheme) run" where
  "smi_await_free blocks s =
     (let s = os_do MutexLock s
      in case smi_load_blocks blocks s of
           None \<Rightarrow> Fault s
         | Some b \<Rightarrow> if block_used b (next_block s) then Blocked (os_do (CondWait CondWrite) s)
                     else Done b (os_do MutexUnlock s))"

definition smi_mark_used :: "u32 \<Rightarrow> 'z smi_link_scheme \<Rightarrow> (u32 \<times> 'z smi_link_scheme) option" where
  "smi_mark_used blocks s =
     (case smi_load_blocks blocks s of
        None \<Rightarrow> None
      | Some b \<Rightarrow>
          let b = mark_block b (next_block s)
          in map_option (\<lambda>s. (b, s\<lparr>next_block := c_u32 (next_block s + 1) mod block_count s\<rparr>))
               (smi_store_blocks b s))"

definition smi_publish :: "u32 \<Rightarrow> 'z smi_link_scheme \<Rightarrow> (u32, 'z smi_link_scheme) run" where
  "smi_publish blocks s =
     (let s = os_do MutexLock s
      in case smi_mark_used blocks s of
           None \<Rightarrow> Fault s
         | Some (b, s) \<Rightarrow> Done b (os_do MutexUnlock (os_do (CondSignal CondRead) s)))"

section \<open>Send and flush\<close>

text \<open>The unsigned difference of two 32-bit values.\<close>

definition c_sub32 :: "nat \<Rightarrow> nat \<Rightarrow> nat" where
  "c_sub32 a b = c_u32 (a + 2 ^ 32 - b)"

text \<open>
  The first part of the loop body of \<open>send\<close>: fill the local buffer from the caller's
  buffer. The locals are \<open>write_size\<close> and \<open>wrote\<close>.
\<close>

definition send_fill ::
    "bytes \<Rightarrow> nat \<Rightarrow> nat \<Rightarrow> 'z smi_link_scheme \<Rightarrow> (nat \<times> nat \<times> 'z smi_link_scheme) option" where
  "send_fill buffer write_size wrote s =
     (let to_write = c_sub32 (block_size s) (local_buffer_index s)
      in case (mem_read buffer wrote to_write, local_buffer s) of
           (Some chunk, Some lb) \<Rightarrow>
             map_option (\<lambda>lb. (c_sub32 write_size to_write, c_u32 (wrote + to_write),
                               s\<lparr>local_buffer := Some lb, local_buffer_index := 0\<rparr>))
               (mem_write lb (local_buffer_index s) chunk)
         | _ \<Rightarrow> None)"

text \<open>The end of \<open>send\<close>: what is left goes to the local buffer.\<close>

definition send_rest ::
    "bytes \<Rightarrow> nat \<Rightarrow> nat \<Rightarrow> 'z smi_link_scheme \<Rightarrow> 'z smi_link_scheme option" where
  "send_rest buffer write_size wrote s =
     (if write_size = 0 then Some s
      else case (mem_read buffer wrote write_size, local_buffer s) of
             (Some chunk, Some lb) \<Rightarrow>
               map_option (\<lambda>lb. s\<lparr>local_buffer := Some lb,
                                  local_buffer_index := c_u32 (local_buffer_index s + write_size)\<rparr>)
                 (mem_write lb (local_buffer_index s) chunk)
           | _ \<Rightarrow> None)"

fun send_loop ::
    "nat \<Rightarrow> bytes \<Rightarrow> nat \<Rightarrow> nat \<Rightarrow> u32 \<Rightarrow> 'z smi_link_scheme \<Rightarrow> (int, 'z smi_link_scheme) run" where
  "send_loop 0 buffer write_size wrote blocks s = Hangs s"
| "send_loop (Suc fuel) buffer write_size wrote blocks s =
     (if block_size s < c_u32 (local_buffer_index s + write_size) then
        (case send_fill buffer write_size wrote s of
           None \<Rightarrow> Fault s
         | Some (write_size, wrote, s) \<Rightarrow>
             bind_run (smi_await_free blocks s) (\<lambda>blocks s.
             case smi_copy_out (block_size s) s of
               None \<Rightarrow> Fault s
             | Some s \<Rightarrow>
                 bind_run (smi_publish blocks s) (\<lambda>blocks s.
                 send_loop fuel buffer write_size wrote blocks s)))
      else
        (case send_rest buffer write_size wrote s of None \<Rightarrow> Fault s | Some s \<Rightarrow> Done 0 s))"

definition qem_smi_client_send ::
    "bytes option \<Rightarrow> nat \<Rightarrow> 'z smi_link_scheme \<Rightarrow> (int, 'z smi_link_scheme) run" where
  "qem_smi_client_send buffer sz s =
     (if error_code s \<noteq> QEM_SMI_CONNECTED then
        bind_run (QEM_TRACE_ERROR ''You must connect the SMI before calling send'' 0 0 s)
          (\<lambda>_ s. Done (-1) s)
      else case buffer of
             None \<Rightarrow> bind_run (QEM_TRACE_ERROR ''Buffer cannot be NULL'' 0 0 s) (\<lambda>_ s. Done (-1) s)
           | Some bs \<Rightarrow> send_loop (sz + 2) bs sz 0 0 s)"

definition flush_copy :: "'z smi_link_scheme \<Rightarrow> 'z smi_link_scheme option" where
  "flush_copy s = (case smi_zero_block s of None \<Rightarrow> None | Some s \<Rightarrow> smi_copy_out (local_buffer_index s) s)"

definition qem_smi_client_flush ::
    "posix \<Rightarrow> 'z smi_link_scheme \<Rightarrow> (int, 'z smi_link_scheme) run" where
  "qem_smi_client_flush os s =
     (if error_code s \<noteq> QEM_SMI_CONNECTED then
        bind_run (QEM_TRACE_ERROR ''You must connect the SMI before calling flush'' 0 0 s)
          (\<lambda>_ s. Done (-1) s)
      else if local_buffer_index s = 0 then Done 0 s
      else
        bind_run (smi_await_free (os_stack os (os_now s)) s) (\<lambda>blocks s.
        case flush_copy s of
          None \<Rightarrow> Fault s
        | Some s \<Rightarrow>
            bind_run (smi_publish blocks s) (\<lambda>_ s. Done 0 (s\<lparr>local_buffer_index := 0\<rparr>))))"

section \<open>Disconnection\<close>

text \<open>The steps of \<open>qem_smi_client_disconnect\<close>, one per handle, in the order of the code.\<close>

definition drop_shared_buffer :: "'z smi_link_scheme \<Rightarrow> 'z smi_link_scheme" where
  "drop_shared_buffer s =
     (if shared_buffer s \<noteq> Null
      then (os_do (Munmap (shared_buffer s) (shared_buffer_size s)) s)\<lparr>shared_buffer := Null\<rparr>
      else s)"

definition drop_shm_fd :: "'z smi_link_scheme \<Rightarrow> 'z smi_link_scheme" where
  "drop_shm_fd s =
     (if shm_fd s \<noteq> -1
      then (os_do (ShmUnlink QEM_SMI_SHM_NAME) (os_do (CloseFd (shm_fd s)) s))\<lparr>shm_fd := -1\<rparr>
      else s)"

definition drop_local_buffer :: "'z smi_link_scheme \<Rightarrow> 'z smi_link_scheme" where
  "drop_local_buffer s =
     (if local_buffer s \<noteq> None then (os_do FreeMem s)\<lparr>local_buffer := None\<rparr> else s)"

definition drop_sems :: "'z smi_link_scheme \<Rightarrow> 'z smi_link_scheme" where
  "drop_sems s =
     (let s = (if server_sem s
               then (os_do (SemUnlink QEM_SMI_SHARED_SEM_SERVER)
                      (os_do (SemClose QEM_SMI_SHARED_SEM_SERVER) s))\<lparr>server_sem := False\<rparr>
               else s)
      in if client_sem s
         then (os_do (SemUnlink QEM_SMI_SHARED_SEM_CLIENT)
                (os_do (SemClose QEM_SMI_SHARED_SEM_CLIENT) s))\<lparr>client_sem := False\<rparr>
         else s)"

text \<open>
  The sender destroys a synchronisation object before it unmaps it; the receiver only
  unmaps it. The sizes are those of \<open>pthread_mutex_t\<close> and \<open>pthread_cond_t\<close> on the host.
\<close>

definition sizeof_pthread_mutex :: nat where "sizeof_pthread_mutex = 40"
definition sizeof_pthread_cond :: nat where "sizeof_pthread_cond = 48"

definition destroy_if :: "bool \<Rightarrow> sync_obj \<Rightarrow> 'z smi_link_scheme \<Rightarrow> 'z smi_link_scheme" where
  "destroy_if own ob s = (if own then os_do (SyncDestroy ob) s else s)"

definition drop_mon_lock :: "bool \<Rightarrow> 'z smi_link_scheme \<Rightarrow> 'z smi_link_scheme" where
  "drop_mon_lock own s =
     (let s = (if mon_lock s \<noteq> MapFailed
               then (os_do (Munmap (mon_lock s) sizeof_pthread_mutex) (destroy_if own MonLock s))
                      \<lparr>mon_lock := MapFailed\<rparr>
               else s)
      in if mon_lock_fd s \<noteq> -1
         then (os_do (ShmUnlink QEM_SMI_SHARED_MUTEX) (os_do (CloseFd (mon_lock_fd s)) s))
                \<lparr>mon_lock_fd := -1\<rparr>
         else s)"

definition drop_cond_read :: "bool \<Rightarrow> 'z smi_link_scheme \<Rightarrow> 'z smi_link_scheme" where
  "drop_cond_read own s =
     (let s = (if cond_read s \<noteq> MapFailed
               then (os_do (Munmap (cond_read s) sizeof_pthread_cond) (destroy_if own CondRead s))
                      \<lparr>cond_read := MapFailed\<rparr>
               else s)
      in if cond_read_fd s \<noteq> -1
         then (os_do (ShmUnlink QEM_SMI_SHARED_COND_READ) (os_do (CloseFd (cond_read_fd s)) s))
                \<lparr>cond_read_fd := -1\<rparr>
         else s)"

definition drop_cond_write :: "bool \<Rightarrow> 'z smi_link_scheme \<Rightarrow> 'z smi_link_scheme" where
  "drop_cond_write own s =
     (let s = (if cond_write s \<noteq> MapFailed
               then (os_do (Munmap (cond_write s) sizeof_pthread_cond) (destroy_if own CondWrite s))
                      \<lparr>cond_write := MapFailed\<rparr>
               else s)
      in if cond_write_fd s \<noteq> -1
         then (os_do (ShmUnlink QEM_SMI_SHARED_COND_WRITE) (os_do (CloseFd (cond_write_fd s)) s))
                \<lparr>cond_write_fd := -1\<rparr>
         else s)"

definition drop_handles :: "bool \<Rightarrow> 'z smi_link_scheme \<Rightarrow> 'z smi_link_scheme" where
  "drop_handles own s =
     drop_cond_write own (drop_cond_read own (drop_mon_lock own (drop_sems (drop_local_buffer
       (drop_shm_fd (drop_shared_buffer s))))))"

definition qem_smi_client_disconnect ::
    "posix \<Rightarrow> 'z smi_link_scheme \<Rightarrow> (unit, 'z smi_link_scheme) run" where
  "qem_smi_client_disconnect os s =
     bind_run (if error_code s = QEM_SMI_CONNECTED
               then bind_run (qem_smi_client_flush os s) (\<lambda>_ s. Done () s) else Done () s) (\<lambda>_ s.
     let s = drop_handles True s;
         s = os_do (AttrDestroy MonLock) (os_do (AttrDestroy CondWrite) (os_do (AttrDestroy CondRead) s))
     in Done () (s\<lparr>error_code := QEM_SMI_UNINIT\<rparr>))"

section \<open>Set-up\<close>

text \<open>The error path of every set-up call: disconnect, report, return -1.\<close>

definition fail_disconnect ::
    "posix \<Rightarrow> string \<Rightarrow> 'z smi_link_scheme \<Rightarrow> (int, 'z smi_link_scheme) run" where
  "fail_disconnect os msg s =
     bind_run (qem_smi_client_disconnect os s) (\<lambda>_ s.
     bind_run (QEM_TRACE_ERROR msg (c_errno os s) 0 s) (\<lambda>_ s. Done (-1) s))"

definition need ::
    "posix \<Rightarrow> bool \<Rightarrow> string \<Rightarrow> 'z smi_link_scheme \<Rightarrow>
     ('z smi_link_scheme \<Rightarrow> (int, 'z smi_link_scheme) run) \<Rightarrow> (int, 'z smi_link_scheme) run" where
  "need os ok msg s k = (if ok then k s else fail_disconnect os msg s)"

text \<open>Storing the low \<open>n\<close> bytes of a 32-bit value in the metadata of the region.\<close>

definition smi_put_meta :: "nat \<Rightarrow> nat \<Rightarrow> nat \<Rightarrow> 'z smi_link_scheme \<Rightarrow> (unit, 'z smi_link_scheme) run" where
  "smi_put_meta off n v s =
     (if shared_buffer s = Mapped then
        (case mem_write (shm s) off (le_bytes n (of_nat v :: u32)) of
           None \<Rightarrow> Fault s
         | Some m \<Rightarrow> Done () (s\<lparr>shm := m\<rparr>))
      else Fault s)"

text \<open>The part of \<open>mmap_buffer\<close> after \<open>ftruncate\<close>.\<close>

definition mmap_rest :: "posix \<Rightarrow> 'z smi_link_scheme \<Rightarrow> (int, 'z smi_link_scheme) run" where
  "mmap_rest os s =
     (let (p, s) = c_mmap os (shm_fd s) (shared_buffer_size s) s;
          s = s\<lparr>shared_buffer := p\<rparr>
      in need os (p \<noteq> MapFailed) ''Could not mmap shared memory shm'' s (\<lambda>s.
      let s = s\<lparr>shared_buffer_data := (shared_buffer s, QEM_SMI_DATA_BUFFER_META_DATA_SIZE)\<rparr>
      in
      bind_run (smi_put_meta QEM_SMI_META_BLOCK_COUNT_OFFSET QEM_SMI_META_BLOCK_COUNT_SIZE
                  (block_count s) s) (\<lambda>_ s.
      bind_run (smi_put_meta QEM_SMI_META_BLOCK_MASK_OFFSET QEM_SMI_META_BLOCK_MASK_SIZE 0 s) (\<lambda>_ s.
      bind_run (smi_put_meta QEM_SMI_META_BLOCK_SIZE_OFFSET QEM_SMI_META_BLOCK_SIZE_SIZE
                  (block_size s) s) (\<lambda>_ s.
      Done 0 s)))))"

text \<open>
  A failing \<open>ftruncate\<close> disconnects and reports but does not return: the code goes on to
  \<open>mmap\<close> with the descriptor that \<open>disconnect\<close> has set to -1.
\<close>

definition mmap_buffer :: "posix \<Rightarrow> 'z smi_link_scheme \<Rightarrow> (int, 'z smi_link_scheme) run" where
  "mmap_buffer os s =
     (let (fd, s) = c_shm_open os QEM_SMI_SHM_NAME s;
          s = (if 0 \<le> fd then s\<lparr>shm_fd := fd, shm := []\<rparr> else s\<lparr>shm_fd := fd\<rparr>)
      in need os (0 \<le> fd) ''Could not open shared memory region'' s (\<lambda>s.
      let s = s\<lparr>shared_buffer_size := c_u32 (block_count s * block_size s +
                  QEM_SMI_DATA_BUFFER_META_DATA_SIZE)\<rparr>;
          (error, s) = c_ftruncate os (shm_fd s) (shared_buffer_size s) s;
          s = (if error = 0 then s\<lparr>shm := replicate (shared_buffer_size s) 0\<rparr> else s)
      in
      bind_run
        (if error \<noteq> 0 then
           bind_run (qem_smi_client_disconnect os s) (\<lambda>_ s.
           QEM_TRACE_ERROR ''Could not truncate shared memory: '' error 0 s)
         else Done () s) (\<lambda>_ s.
      mmap_rest os s)))"

definition create_local_buffer :: "posix \<Rightarrow> 'z smi_link_scheme \<Rightarrow> (int, 'z smi_link_scheme) run" where
  "create_local_buffer os s =
     (let s = s\<lparr>local_buffer_index := 0\<rparr>;
          (p, s) = c_malloc os (block_size s) s;
          s = s\<lparr>local_buffer := p\<rparr>
      in need os (p \<noteq> None) ''Could not create local buffer'' s (\<lambda>s. Done 0 s))"

text \<open>\<open>create_sync\<close> in its three parts: open, map, initialise.\<close>

definition create_sync_init :: "posix \<Rightarrow> 'z smi_link_scheme \<Rightarrow> (int, 'z smi_link_scheme) run" where
  "create_sync_init os s =
     (let msg = ''Could not initialize synchronization''; (e, s) = c_attr_init os MonLock s
      in need os (e = 0) msg s (\<lambda>s.
      let (e, s) = c_attr_setpshared os MonLock s
      in need os (e = 0) msg s (\<lambda>s.
      let (e, s) = c_sync_init os MonLock s
      in need os (e = 0) msg s (\<lambda>s.
      let (e, s) = c_attr_init os CondRead s
      in need os (e = 0) msg s (\<lambda>s.
      let (e, s) = c_attr_setpshared os CondRead s
      in need os (e = 0) msg s (\<lambda>s.
      let (e, s) = c_sync_init os CondRead s
      in need os (e = 0) msg s (\<lambda>s.
      let (e, s) = c_attr_init os CondWrite s
      in need os (e = 0) msg s (\<lambda>s.
      let (e, s) = c_attr_setpshared os CondWrite s
      in need os (e = 0) msg s (\<lambda>s.
      let (e, s) = c_sync_init os CondWrite s
      in need os (e = 0) msg s (\<lambda>s. Done 0 s))))))))))"

definition create_sync_map :: "posix \<Rightarrow> 'z smi_link_scheme \<Rightarrow> (int, 'z smi_link_scheme) run" where
  "create_sync_map os s =
     (let (e, s) = c_ftruncate os (mon_lock_fd s) sizeof_pthread_mutex s
      in need os (e = 0) ''Could not truncate monitor lock memory'' s (\<lambda>s.
      let (e, s) = c_ftruncate os (cond_read_fd s) sizeof_pthread_cond s
      in need os (e = 0) ''Could not truncate monitor read memory'' s (\<lambda>s.
      let (e, s) = c_ftruncate os (cond_write_fd s) sizeof_pthread_cond s
      in need os (e = 0) ''Could not truncate monitor write memory'' s (\<lambda>s.
      let (p, s) = c_mmap os (mon_lock_fd s) sizeof_pthread_mutex s; s = s\<lparr>mon_lock := p\<rparr>
      in need os (p \<noteq> MapFailed) ''Could not mmap monitor mutex'' s (\<lambda>s.
      let (p, s) = c_mmap os (cond_read_fd s) sizeof_pthread_cond s; s = s\<lparr>cond_read := p\<rparr>
      in need os (p \<noteq> MapFailed) ''Could not mmap monitor read cond'' s (\<lambda>s.
      let (p, s) = c_mmap os (cond_write_fd s) sizeof_pthread_cond s; s = s\<lparr>cond_write := p\<rparr>
      in need os (p \<noteq> MapFailed) ''Could not mmap monitor write cond'' s (\<lambda>s.
      create_sync_init os s)))))))"

definition create_sync :: "posix \<Rightarrow> 'z smi_link_scheme \<Rightarrow> (int, 'z smi_link_scheme) run" where
  "create_sync os s =
     (let (p, s) = c_sem_open os QEM_SMI_SHARED_SEM_SERVER s; s = s\<lparr>server_sem := p\<rparr>
      in need os p ''Could not create server sem'' s (\<lambda>s.
      let (p, s) = c_sem_open os QEM_SMI_SHARED_SEM_CLIENT s; s = s\<lparr>client_sem := p\<rparr>
      in need os p ''Could not create client sem'' s (\<lambda>s.
      let (fd, s) = c_shm_open os QEM_SMI_SHARED_MUTEX s; s = s\<lparr>mon_lock_fd := fd\<rparr>
      in need os (0 \<le> fd) ''Could not create monitor mutex'' s (\<lambda>s.
      let (fd, s) = c_shm_open os QEM_SMI_SHARED_COND_READ s; s = s\<lparr>cond_read_fd := fd\<rparr>
      in need os (0 \<le> fd) ''Could not create monitor read cond'' s (\<lambda>s.
      let (fd, s) = c_shm_open os QEM_SMI_SHARED_COND_WRITE s; s = s\<lparr>cond_write_fd := fd\<rparr>
      in need os (0 \<le> fd) ''Could not create monitor write cond'' s (\<lambda>s.
      create_sync_map os s))))))"

text \<open>\<open>if ((ret_val = step ()) != 0) { disconnect (); return ret_val; }\<close>\<close>

definition init_step ::
    "posix \<Rightarrow> (int, 'z smi_link_scheme) run \<Rightarrow> ('z smi_link_scheme \<Rightarrow> (int, 'z smi_link_scheme) run) \<Rightarrow>
     (int, 'z smi_link_scheme) run" where
  "init_step os r k =
     bind_run r (\<lambda>ret_val s.
       if ret_val \<noteq> 0 then bind_run (qem_smi_client_disconnect os s) (\<lambda>_ s. Done ret_val s)
       else k s)"

definition qem_smi_client_init :: "posix \<Rightarrow> 'z smi_link_scheme \<Rightarrow> (int, 'z smi_link_scheme) run" where
  "qem_smi_client_init os s =
     (let s = s\<lparr>shared_buffer_data := (shared_buffer s, 0), error_code := QEM_SMI_NOT_CONNECTED,
                local_buffer_index := 0\<rparr>;
          s = fold os_do [ShmUnlink QEM_SMI_SHARED_MUTEX, ShmUnlink QEM_SMI_SHARED_COND_READ,
                ShmUnlink QEM_SMI_SHARED_COND_WRITE, SemUnlink QEM_SMI_SHARED_SEM_CLIENT,
                SemUnlink QEM_SMI_SHARED_SEM_SERVER, ShmUnlink QEM_SMI_SHM_NAME] s
      in init_step os (mmap_buffer os s) (\<lambda>s.
         init_step os (create_local_buffer os s) (\<lambda>s.
         init_step os (create_sync os s) (\<lambda>s. Done 0 s))))"


section \<open>Connection\<close>

definition EINTR :: int where "EINTR = 4"

text \<open>
  \<open>while ((sem_get = sem_timedwait (server_sem, &ts)) == -1 && errno == EINTR)\<close>: a wait
  that a signal interrupts is repeated with the same deadline.
\<close>

partial_function (option) sem_timedwait_loop ::
    "posix \<Rightarrow> nat \<Rightarrow> 'z smi_link_scheme \<Rightarrow> (int \<times> 'z smi_link_scheme) option" where
  "sem_timedwait_loop os deadline s =
     (let sem_get = os_timedwait os (os_now s);
          s' = os_do (SemTimedwait QEM_SMI_SHARED_SEM_SERVER deadline sem_get) s
      in if sem_get = -1 \<and> c_errno os s' = EINTR then sem_timedwait_loop os deadline s'
         else Some (sem_get, s'))"

text \<open>The outer loop; \<open>left\<close> is \<open>max_attempt - attempt\<close>.\<close>

fun connect_loop ::
    "posix \<Rightarrow> nat \<Rightarrow> nat \<Rightarrow> nat \<Rightarrow> int \<Rightarrow> 'z smi_link_scheme \<Rightarrow> (nat \<times> int, 'z smi_link_scheme) run" where
  "connect_loop os timeout 0 attempt sem_get s = Done (attempt, sem_get) s"
| "connect_loop os timeout (Suc left) attempt sem_get s =
     (case sem_timedwait_loop os (os_clock os (os_now s) + timeout) s of
        None \<Rightarrow> Hangs s
      | Some (sem_get, s) \<Rightarrow>
          if sem_get = 0 then Done (attempt, sem_get) s
          else connect_loop os timeout left (attempt + 1) sem_get
                 (if attempt = 0 then QEM_TRACE_INFO ''Waiting for client to connect.'' 0 s
                  else c_printf ''.'' s))"

definition connect_finish ::
    "posix \<Rightarrow> nat \<Rightarrow> int \<Rightarrow> 'z smi_link_scheme \<Rightarrow> (int, 'z smi_link_scheme) run" where
  "connect_finish os attempt sem_get s =
     (let s = (if attempt \<noteq> 0 then c_printf (''.'' @ newline) s else s)
      in if sem_get \<noteq> 0 then
           bind_run (qem_smi_client_disconnect os s) (\<lambda>_ s.
           bind_run (QEM_TRACE_ERROR ''Client did not respond'' 0 0 s) (\<lambda>_ s. Done (-1) s))
         else Done 0 ((QEM_TRACE_INFO ''SMI Client connected'' 0 s)\<lparr>error_code := QEM_SMI_CONNECTED\<rparr>))"

definition qem_smi_client_connect ::
    "posix \<Rightarrow> nat \<Rightarrow> nat \<Rightarrow> 'z smi_link_scheme \<Rightarrow> (int, 'z smi_link_scheme) run" where
  "qem_smi_client_connect os timeout max_attempt s =
     (if error_code s \<noteq> QEM_SMI_NOT_CONNECTED then
        bind_run (QEM_TRACE_ERROR ''You must initialize the SMI before calling connect'' 0 0 s) (\<lambda>_ s.
        bind_run (qem_smi_client_disconnect os s) (\<lambda>_ s. Done (-1) s))
      else
        (case smi_data_base s of
           None \<Rightarrow> Fault s
         | Some base \<Rightarrow>
        (case mem_write (shm s) base (le_bytes 4 QEM_SMI_HANDSHAKE_MAGIC) of
           None \<Rightarrow> Fault s
         | Some m \<Rightarrow>
        bind_run (connect_loop os timeout max_attempt 0 (-1)
                   (os_do (SemPost QEM_SMI_SHARED_SEM_CLIENT) (s\<lparr>shm := m\<rparr>))) (\<lambda>(attempt, sem_get) s.
        connect_finish os attempt sem_get s))))"

section \<open>Releasing the handles\<close>

lemmas drop_defs =
  drop_shared_buffer_def drop_shm_fd_def drop_local_buffer_def drop_sems_def destroy_if_def
  drop_mon_lock_def drop_cond_read_def drop_cond_write_def

lemmas account_defs = accounted_def held_def os_do_def Let_def

lemma accounted_drop_shared_buffer: "accounted s \<Longrightarrow> accounted (drop_shared_buffer s)"
  by (cases "shared_buffer s") (simp_all add: drop_defs account_defs)

lemma accounted_drop_shm_fd: "accounted s \<Longrightarrow> accounted (drop_shm_fd s)"
  by (cases "shm_fd s = -1") (simp_all add: drop_defs account_defs)

lemma accounted_drop_local_buffer: "accounted s \<Longrightarrow> accounted (drop_local_buffer s)"
  by (cases "local_buffer s") (simp_all add: drop_defs account_defs)

lemma accounted_drop_sems: "accounted s \<Longrightarrow> accounted (drop_sems s)"
  by (cases "server_sem s"; cases "client_sem s") (simp_all add: drop_defs account_defs)

lemma accounted_drop_mon_lock: "accounted s \<Longrightarrow> accounted (drop_mon_lock own s)"
  by (cases "mon_lock s"; cases "mon_lock_fd s = -1"; cases own)
    (simp_all add: drop_defs account_defs)

lemma accounted_drop_cond_read: "accounted s \<Longrightarrow> accounted (drop_cond_read own s)"
  by (cases "cond_read s"; cases "cond_read_fd s = -1"; cases own)
    (simp_all add: drop_defs account_defs)

lemma accounted_drop_cond_write: "accounted s \<Longrightarrow> accounted (drop_cond_write own s)"
  by (cases "cond_write s"; cases "cond_write_fd s = -1"; cases own)
    (simp_all add: drop_defs account_defs)

lemmas accounted_drop =
  accounted_drop_shared_buffer accounted_drop_shm_fd accounted_drop_local_buffer
  accounted_drop_sems accounted_drop_mon_lock accounted_drop_cond_read accounted_drop_cond_write

lemma accounted_drop_handles: "accounted s \<Longrightarrow> accounted (drop_handles own s)"
  by (simp add: drop_handles_def accounted_drop)


text \<open>Each step clears its handles and leaves the other variables as they were.\<close>

lemma drop_shared_buffer_fields [simp]:
  "shared_buffer (drop_shared_buffer s) = Null" "shm_fd (drop_shared_buffer s) = shm_fd s"
  "local_buffer (drop_shared_buffer s) = local_buffer s"
  "server_sem (drop_shared_buffer s) = server_sem s"
  "client_sem (drop_shared_buffer s) = client_sem s"
  "mon_lock (drop_shared_buffer s) = mon_lock s"
  "mon_lock_fd (drop_shared_buffer s) = mon_lock_fd s"
  "cond_read (drop_shared_buffer s) = cond_read s"
  "cond_read_fd (drop_shared_buffer s) = cond_read_fd s"
  "cond_write (drop_shared_buffer s) = cond_write s"
  "cond_write_fd (drop_shared_buffer s) = cond_write_fd s"
  "error_code (drop_shared_buffer s) = error_code s"
  "qem_tracing_state (drop_shared_buffer s) = qem_tracing_state s"
  "qem_time_start (drop_shared_buffer s) = qem_time_start s"
  "console (drop_shared_buffer s) = console s"
  "shared_buffer_data (drop_shared_buffer s) = shared_buffer_data s"
  "shm (drop_shared_buffer s) = shm s"
  "local_buffer_index (drop_shared_buffer s) = local_buffer_index s"
  "next_block (drop_shared_buffer s) = next_block s"
  "block_count (drop_shared_buffer s) = block_count s"
  "block_size (drop_shared_buffer s) = block_size s"
  by (simp_all add: drop_defs os_do_def Let_def)

lemma drop_shm_fd_fields [simp]:
  "shared_buffer (drop_shm_fd s) = shared_buffer s" "shm_fd (drop_shm_fd s) = -1"
  "local_buffer (drop_shm_fd s) = local_buffer s" "server_sem (drop_shm_fd s) = server_sem s"
  "client_sem (drop_shm_fd s) = client_sem s" "mon_lock (drop_shm_fd s) = mon_lock s"
  "mon_lock_fd (drop_shm_fd s) = mon_lock_fd s" "cond_read (drop_shm_fd s) = cond_read s"
  "cond_read_fd (drop_shm_fd s) = cond_read_fd s" "cond_write (drop_shm_fd s) = cond_write s"
  "cond_write_fd (drop_shm_fd s) = cond_write_fd s" "error_code (drop_shm_fd s) = error_code s"
  "qem_tracing_state (drop_shm_fd s) = qem_tracing_state s"
  "qem_time_start (drop_shm_fd s) = qem_time_start s" "console (drop_shm_fd s) = console s"
  "shared_buffer_data (drop_shm_fd s) = shared_buffer_data s" "shm (drop_shm_fd s) = shm s"
  "local_buffer_index (drop_shm_fd s) = local_buffer_index s"
  "next_block (drop_shm_fd s) = next_block s" "block_count (drop_shm_fd s) = block_count s"
  "block_size (drop_shm_fd s) = block_size s"
  by (simp_all add: drop_defs os_do_def Let_def)

lemma drop_local_buffer_fields [simp]:
  "shared_buffer (drop_local_buffer s) = shared_buffer s"
  "shm_fd (drop_local_buffer s) = shm_fd s" "local_buffer (drop_local_buffer s) = None"
  "server_sem (drop_local_buffer s) = server_sem s"
  "client_sem (drop_local_buffer s) = client_sem s" "mon_lock (drop_local_buffer s) = mon_lock s"
  "mon_lock_fd (drop_local_buffer s) = mon_lock_fd s"
  "cond_read (drop_local_buffer s) = cond_read s"
  "cond_read_fd (drop_local_buffer s) = cond_read_fd s"
  "cond_write (drop_local_buffer s) = cond_write s"
  "cond_write_fd (drop_local_buffer s) = cond_write_fd s"
  "error_code (drop_local_buffer s) = error_code s"
  "qem_tracing_state (drop_local_buffer s) = qem_tracing_state s"
  "qem_time_start (drop_local_buffer s) = qem_time_start s"
  "console (drop_local_buffer s) = console s"
  "shared_buffer_data (drop_local_buffer s) = shared_buffer_data s"
  "shm (drop_local_buffer s) = shm s"
  "local_buffer_index (drop_local_buffer s) = local_buffer_index s"
  "next_block (drop_local_buffer s) = next_block s"
  "block_count (drop_local_buffer s) = block_count s"
  "block_size (drop_local_buffer s) = block_size s"
  by (simp_all add: drop_defs os_do_def Let_def)

lemma drop_sems_fields [simp]:
  "shared_buffer (drop_sems s) = shared_buffer s" "shm_fd (drop_sems s) = shm_fd s"
  "local_buffer (drop_sems s) = local_buffer s" "\<not> server_sem (drop_sems s)"
  "\<not> client_sem (drop_sems s)" "mon_lock (drop_sems s) = mon_lock s"
  "mon_lock_fd (drop_sems s) = mon_lock_fd s" "cond_read (drop_sems s) = cond_read s"
  "cond_read_fd (drop_sems s) = cond_read_fd s" "cond_write (drop_sems s) = cond_write s"
  "cond_write_fd (drop_sems s) = cond_write_fd s" "error_code (drop_sems s) = error_code s"
  "qem_tracing_state (drop_sems s) = qem_tracing_state s"
  "qem_time_start (drop_sems s) = qem_time_start s" "console (drop_sems s) = console s"
  "shared_buffer_data (drop_sems s) = shared_buffer_data s" "shm (drop_sems s) = shm s"
  "local_buffer_index (drop_sems s) = local_buffer_index s"
  "next_block (drop_sems s) = next_block s" "block_count (drop_sems s) = block_count s"
  "block_size (drop_sems s) = block_size s"
  by (simp_all add: drop_defs os_do_def Let_def)

lemma drop_mon_lock_fields [simp]:
  "shared_buffer (drop_mon_lock own s) = shared_buffer s"
  "shm_fd (drop_mon_lock own s) = shm_fd s" "local_buffer (drop_mon_lock own s) = local_buffer s"
  "server_sem (drop_mon_lock own s) = server_sem s"
  "client_sem (drop_mon_lock own s) = client_sem s" "mon_lock (drop_mon_lock own s) = MapFailed"
  "mon_lock_fd (drop_mon_lock own s) = -1" "cond_read (drop_mon_lock own s) = cond_read s"
  "cond_read_fd (drop_mon_lock own s) = cond_read_fd s"
  "cond_write (drop_mon_lock own s) = cond_write s"
  "cond_write_fd (drop_mon_lock own s) = cond_write_fd s"
  "error_code (drop_mon_lock own s) = error_code s"
  "qem_tracing_state (drop_mon_lock own s) = qem_tracing_state s"
  "qem_time_start (drop_mon_lock own s) = qem_time_start s"
  "console (drop_mon_lock own s) = console s"
  "shared_buffer_data (drop_mon_lock own s) = shared_buffer_data s"
  "shm (drop_mon_lock own s) = shm s"
  "local_buffer_index (drop_mon_lock own s) = local_buffer_index s"
  "next_block (drop_mon_lock own s) = next_block s"
  "block_count (drop_mon_lock own s) = block_count s"
  "block_size (drop_mon_lock own s) = block_size s"
  by (simp_all add: drop_defs os_do_def Let_def)

lemma drop_cond_read_fields [simp]:
  "shared_buffer (drop_cond_read own s) = shared_buffer s"
  "shm_fd (drop_cond_read own s) = shm_fd s"
  "local_buffer (drop_cond_read own s) = local_buffer s"
  "server_sem (drop_cond_read own s) = server_sem s"
  "client_sem (drop_cond_read own s) = client_sem s"
  "mon_lock (drop_cond_read own s) = mon_lock s"
  "mon_lock_fd (drop_cond_read own s) = mon_lock_fd s"
  "cond_read (drop_cond_read own s) = MapFailed" "cond_read_fd (drop_cond_read own s) = -1"
  "cond_write (drop_cond_read own s) = cond_write s"
  "cond_write_fd (drop_cond_read own s) = cond_write_fd s"
  "error_code (drop_cond_read own s) = error_code s"
  "qem_tracing_state (drop_cond_read own s) = qem_tracing_state s"
  "qem_time_start (drop_cond_read own s) = qem_time_start s"
  "console (drop_cond_read own s) = console s"
  "shared_buffer_data (drop_cond_read own s) = shared_buffer_data s"
  "shm (drop_cond_read own s) = shm s"
  "local_buffer_index (drop_cond_read own s) = local_buffer_index s"
  "next_block (drop_cond_read own s) = next_block s"
  "block_count (drop_cond_read own s) = block_count s"
  "block_size (drop_cond_read own s) = block_size s"
  by (simp_all add: drop_defs os_do_def Let_def)

lemma drop_cond_write_fields [simp]:
  "shared_buffer (drop_cond_write own s) = shared_buffer s"
  "shm_fd (drop_cond_write own s) = shm_fd s"
  "local_buffer (drop_cond_write own s) = local_buffer s"
  "server_sem (drop_cond_write own s) = server_sem s"
  "client_sem (drop_cond_write own s) = client_sem s"
  "mon_lock (drop_cond_write own s) = mon_lock s"
  "mon_lock_fd (drop_cond_write own s) = mon_lock_fd s"
  "cond_read (drop_cond_write own s) = cond_read s"
  "cond_read_fd (drop_cond_write own s) = cond_read_fd s"
  "cond_write (drop_cond_write own s) = MapFailed" "cond_write_fd (drop_cond_write own s) = -1"
  "error_code (drop_cond_write own s) = error_code s"
  "qem_tracing_state (drop_cond_write own s) = qem_tracing_state s"
  "qem_time_start (drop_cond_write own s) = qem_time_start s"
  "console (drop_cond_write own s) = console s"
  "shared_buffer_data (drop_cond_write own s) = shared_buffer_data s"
  "shm (drop_cond_write own s) = shm s"
  "local_buffer_index (drop_cond_write own s) = local_buffer_index s"
  "next_block (drop_cond_write own s) = next_block s"
  "block_count (drop_cond_write own s) = block_count s"
  "block_size (drop_cond_write own s) = block_size s"
  by (simp_all add: drop_defs os_do_def Let_def)

lemma drop_handles_none: "no_handles (drop_handles own s)"
  by (simp add: no_handles_def drop_handles_def)

lemma drop_handles_fields [simp]:
  "error_code (drop_handles own s) = error_code s"
  "qem_tracing_state (drop_handles own s) = qem_tracing_state s"
  "qem_time_start (drop_handles own s) = qem_time_start s"
  "console (drop_handles own s) = console s"
  "shared_buffer_data (drop_handles own s) = shared_buffer_data s"
  "shm (drop_handles own s) = shm s"
  "local_buffer_index (drop_handles own s) = local_buffer_index s"
  "next_block (drop_handles own s) = next_block s"
  "block_count (drop_handles own s) = block_count s"
  "block_size (drop_handles own s) = block_size s"
  by (simp_all add: drop_handles_def)

text \<open>Without a connection nothing is flushed and disconnecting always completes.\<close>

lemma disconnect_unconnected:
  assumes "error_code s \<noteq> QEM_SMI_CONNECTED"
  shows "\<exists>s'. qem_smi_client_disconnect os s = Done () s' \<and> no_handles s' \<and>
    error_code s' = QEM_SMI_UNINIT \<and> (accounted s \<longrightarrow> accounted s') \<and>
    block_count s' = block_count s \<and> block_size s' = block_size s \<and> next_block s' = next_block s \<and>
    qem_tracing_state s' = qem_tracing_state s"
proof -
  let ?d = "drop_handles True s"
  have "no_handles ?d" "accounted s \<longrightarrow> accounted ?d"
    by (simp_all add: drop_handles_none accounted_drop_handles)
  then show ?thesis
    using assms
    by (simp add: qem_smi_client_disconnect_def Let_def os_do_def no_handles_def accounted_def held_def)
qed


section \<open>Outcomes of the set-up\<close>

text \<open>
  A configuration whose block count fits the mask and whose region fits 32-bit arithmetic.
  The checked-in configuration is one.
\<close>

definition smi_config_ok :: "nat \<Rightarrow> nat \<Rightarrow> bool" where
  "smi_config_ok bc bz \<longleftrightarrow> 0 < bc \<and> bc \<le> 16 \<and> 0 < bz \<and> 4 \<le> bc * bz \<and> bc * bz + 8 < 2 ^ 31"

definition QEM_SMI_BLOCK_COUNT :: nat where "QEM_SMI_BLOCK_COUNT = 8"
definition QEM_SMI_BLOCK_SIZE :: nat where "QEM_SMI_BLOCK_SIZE = 10000000"

lemma smi_config_ok_default: "smi_config_ok QEM_SMI_BLOCK_COUNT QEM_SMI_BLOCK_SIZE"
  by (simp add: smi_config_ok_def QEM_SMI_BLOCK_COUNT_def QEM_SMI_BLOCK_SIZE_def)

definition buffer_of_size :: "nat \<Rightarrow> bytes option \<Rightarrow> bool" where
  "buffer_of_size n b = (case b of None \<Rightarrow> False | Some lb \<Rightarrow> length lb = n)"

definition link_mem :: "'z smi_link_scheme \<Rightarrow> bool" where
  "link_mem s \<longleftrightarrow> shared_buffer s = Mapped \<and> shared_buffer_data s = (Mapped, 8) \<and>
     smi_geometry (block_count s) (block_size s) (shm s) \<and> next_block s < block_count s \<and>
     buffer_of_size (block_size s) (local_buffer s) \<and>
     local_buffer_index s \<le> block_size s"

definition link_sync :: "'z smi_link_scheme \<Rightarrow> bool" where
  "link_sync s \<longleftrightarrow> server_sem s \<and> client_sem s \<and> mon_lock s = Mapped \<and> cond_read s = Mapped \<and>
     cond_write s = Mapped"

text \<open>The metadata the sender publishes for the receiver; no block holds data.\<close>

definition region_fresh :: "nat \<Rightarrow> nat \<Rightarrow> bytes \<Rightarrow> bool" where
  "region_fresh bc bz m \<longleftrightarrow> take 8 m = le_bytes 2 (of_nat bc :: u32) @ le_bytes 2 (0 :: u32) @
     le_bytes 4 (of_nat bz :: u32)"

definition link_ready :: "nat \<Rightarrow> 'z smi_link_scheme \<Rightarrow> bool" where
  "link_ready nb s \<longleftrightarrow> next_block s = nb \<and> link_mem s \<and> link_sync s \<and> error_code s = QEM_SMI_NOT_CONNECTED \<and>
     local_buffer_index s = 0 \<and> region_fresh (block_count s) (block_size s) (shm s) \<and> accounted s"

definition link_released :: "'z smi_link_scheme \<Rightarrow> bool" where
  "link_released s \<longleftrightarrow> no_handles s \<and> error_code s = QEM_SMI_UNINIT \<and> accounted s"

definition setup_result ::
    "('z smi_link_scheme \<Rightarrow> bool) \<Rightarrow> (int, 'z smi_link_scheme) run \<Rightarrow> bool" where
  "setup_result P r = (case r of Done v s \<Rightarrow> v = 0 \<and> P s \<or> v = -1 \<and> link_released s | _ \<Rightarrow> False)"

lemma setup_result_Done [simp]: "P s \<Longrightarrow> setup_result P (Done 0 s)"
  by (simp add: setup_result_def)

lemma setup_fail:
  assumes "accounted s" and "error_code s \<noteq> QEM_SMI_CONNECTED"
  shows "setup_result P (fail_disconnect os msg s)"
proof -
  from disconnect_unconnected [OF assms(2), of os] obtain s' where
    s': "qem_smi_client_disconnect os s = Done () s'" "no_handles s'" "error_code s' = QEM_SMI_UNINIT"
    "accounted s'" using assms(1) by blast
  then show ?thesis
    by (simp add: fail_disconnect_def setup_result_def run_simps link_released_def no_handles_def
        accounted_def held_def)
qed

lemma setup_need:
  assumes "accounted s" and "error_code s \<noteq> QEM_SMI_CONNECTED"
    and "ok \<Longrightarrow> setup_result P (k s)"
  shows "setup_result P (need os ok msg s k)"
  using assms by (simp add: need_def setup_fail)

lemma accounted_neutral:
  assumes "accounted s" and "os_gain c = (0, 0, 0, 0)"
  shows "accounted (os_do c s)"
  using assms by (simp add: account_defs)

lemma setup_init_step:
  assumes "setup_result P r" and "\<And>s. P s \<Longrightarrow> setup_result Q (k s)"
  shows "setup_result Q (init_step os r k)"
proof (cases r)
  case (Done v s)
  show ?thesis
  proof (cases "v = 0")
    case True
    then show ?thesis using assms Done by (simp add: setup_result_def init_step_def)
  next
    case False
    with assms(1) Done have v: "v = -1" "link_released s" by (auto simp: setup_result_def)
    then have "error_code s \<noteq> QEM_SMI_CONNECTED" by (simp add: link_released_def)
    from disconnect_unconnected [OF this, of os] v Done show ?thesis
      by (auto simp: init_step_def setup_result_def link_released_def)
  qed
qed (use assms in \<open>auto simp: setup_result_def\<close>)

lemmas os_wrapper_defs =
  c_shm_open_def c_ftruncate_def c_mmap_def c_malloc_def c_sem_open_def c_attr_init_def
  c_attr_setpshared_def c_sync_init_def

lemma setup_create_sync_init:
  assumes "accounted s" and "error_code s \<noteq> QEM_SMI_CONNECTED"
    and "\<And>l. accounted (s\<lparr>os_log := l\<rparr>) \<Longrightarrow> P (s\<lparr>os_log := l\<rparr>)"
  shows "setup_result P (create_sync_init os s)"
  unfolding create_sync_init_def os_wrapper_defs Let_def prod.case
  by (intro setup_need setup_result_Done; (intro accounted_neutral assms)?)
    (use assms in \<open>simp_all add: os_do_def accounted_def held_def\<close>)


text \<open>What the first two steps of the set-up establish and \<open>create_sync\<close> does not touch.\<close>

definition link_core :: "nat \<Rightarrow> 'z smi_link_scheme \<Rightarrow> bool" where
  "link_core nb s \<longleftrightarrow> next_block s = nb \<and> link_mem s \<and> error_code s = QEM_SMI_NOT_CONNECTED \<and>
     local_buffer_index s = 0 \<and> region_fresh (block_count s) (block_size s) (shm s)"

definition sync_unmapped :: "'z smi_link_scheme \<Rightarrow> bool" where
  "sync_unmapped s \<longleftrightarrow> mon_lock s = MapFailed \<and> cond_read s = MapFailed \<and> cond_write s = MapFailed"

lemmas link_defs = link_core_def link_mem_def link_ready_def link_sync_def sync_unmapped_def

lemma setup_create_sync_map:
  assumes "accounted s" and "link_core nb s" and "server_sem s" and "client_sem s"
    and "sync_unmapped s"
  shows "setup_result (link_ready nb) (create_sync_map os s)"
  unfolding create_sync_map_def os_wrapper_defs Let_def prod.case
  by (intro setup_need setup_create_sync_init)
    (use assms in \<open>simp_all add: os_do_def accounted_def held_def link_defs split: if_splits\<close>)

lemma setup_create_sync:
  assumes "accounted s" and "link_core nb s" and "sync_unmapped s"
    and "\<not> server_sem s" and "\<not> client_sem s"
    and "mon_lock_fd s = -1" and "cond_read_fd s = -1" and "cond_write_fd s = -1"
  shows "setup_result (link_ready nb) (create_sync os s)"
  unfolding create_sync_def os_wrapper_defs Let_def prod.case
  by (intro setup_need setup_create_sync_map)
    (use assms in \<open>simp_all add: os_do_def accounted_def held_def link_defs split: if_splits\<close>)


lemma setup_create_local_buffer:
  assumes "accounted s" and "error_code s \<noteq> QEM_SMI_CONNECTED" and "local_buffer s = None"
    and "\<And>b l. buffer_of_size (block_size s) (Some b) \<Longrightarrow>
      accounted (s\<lparr>local_buffer_index := 0, os_log := l, local_buffer := Some b\<rparr>) \<Longrightarrow>
      P (s\<lparr>local_buffer_index := 0, os_log := l, local_buffer := Some b\<rparr>)"
  shows "setup_result P (create_local_buffer os s)"
proof -
  have "buffer_of_size n (Some (map (os_heap os) [0..<n]))" for n
    by (simp add: buffer_of_size_def)
  then show ?thesis
    unfolding create_local_buffer_def os_wrapper_defs Let_def prod.case
    by (intro setup_need)
      (use assms in \<open>auto simp: os_do_def accounted_def held_def split: if_splits\<close>)
qed

text \<open>The state of the region right after the three metadata stores.\<close>

lemma smi_put_meta_Done:
  assumes "shared_buffer s = Mapped" and "off + n \<le> length (shm s)"
  shows "smi_put_meta off n v s =
    Done () (s\<lparr>shm := take off (shm s) @ le_bytes n (of_nat v :: u32) @ drop (off + n) (shm s)\<rparr>)"
  using assms by (simp add: smi_put_meta_def mem_write_def)

definition fresh_region :: "nat \<Rightarrow> nat \<Rightarrow> bytes" where
  "fresh_region bc bz = le_bytes 2 (of_nat bc :: u32) @ le_bytes 2 (0 :: u32) @
     le_bytes 4 (of_nat bz :: u32) @ replicate (bc * bz) 0"

lemma fresh_region_ok:
  "region_fresh bc bz (fresh_region bc bz)"
  "smi_config_ok bc bz \<Longrightarrow> smi_geometry bc bz (fresh_region bc bz)"
  by (simp_all add: region_fresh_def fresh_region_def smi_geometry_def smi_config_ok_def)

text \<open>What \<open>mmap_buffer\<close> establishes.\<close>

definition buffer_mapped :: "nat \<Rightarrow> 'z smi_link_scheme \<Rightarrow> bool" where
  "buffer_mapped nb s \<longleftrightarrow> next_block s = nb \<and> shared_buffer s = Mapped \<and> shared_buffer_data s = (Mapped, 8) \<and>
     shm s = fresh_region (block_count s) (block_size s) \<and>
     error_code s = QEM_SMI_NOT_CONNECTED \<and> smi_config_ok (block_count s) (block_size s) \<and>
     next_block s < block_count s \<and> accounted s \<and> sync_unmapped s \<and> local_buffer s = None \<and>
     \<not> server_sem s \<and> \<not> client_sem s \<and>
     mon_lock_fd s = -1 \<and> cond_read_fd s = -1 \<and> cond_write_fd s = -1"

lemma mmap_rest_ok:
  assumes "accounted s" and "error_code s = QEM_SMI_NOT_CONNECTED" and "shared_buffer s = Null"
    and "shm s = replicate (block_count s * block_size s + 8) 0"
    and "smi_config_ok (block_count s) (block_size s)" and "next_block s = nb" and "nb < block_count s"
    and "sync_unmapped s" and "local_buffer s = None" and "\<not> server_sem s" and "\<not> client_sem s"
    and "mon_lock_fd s = -1" and "cond_read_fd s = -1" and "cond_write_fd s = -1"
  shows "setup_result (buffer_mapped nb) (mmap_rest os s)"
  unfolding mmap_rest_def os_wrapper_defs Let_def prod.case
  by (intro setup_need)
    (use assms in \<open>auto simp: os_do_def accounted_def held_def smi_layout smi_put_meta_Done
      setup_result_def buffer_mapped_def sync_unmapped_def fresh_region_def split: if_splits\<close>)

lemma mmap_rest_bad_fd:
  assumes "accounted s" and "error_code s \<noteq> QEM_SMI_CONNECTED" and "shared_buffer s = Null"
    and "shm_fd s = -1"
  shows "setup_result P (mmap_rest os s)"
  unfolding mmap_rest_def os_wrapper_defs Let_def prod.case
  by (intro setup_need) (use assms in \<open>auto simp: os_do_def accounted_def held_def\<close>)


lemma mmap_buffer_result:
  assumes "accounted s" and "no_handles s" and "error_code s = QEM_SMI_NOT_CONNECTED"
    and "smi_config_ok (block_count s) (block_size s)" and "next_block s < block_count s"
  shows "setup_result (buffer_mapped (next_block s)) (mmap_buffer os s)"
proof -
  define fd where "fd = new_fd os s"
  define s1 where "s1 = (let s = os_do (ShmOpen QEM_SMI_SHM_NAME fd) s
    in if 0 \<le> fd then s\<lparr>shm_fd := fd, shm := []\<rparr> else s\<lparr>shm_fd := fd\<rparr>)"
  define n where "n = block_count s * block_size s + 8"
  define e where "e = os_ftruncate os (os_now s1)"
  define s2 where "s2 = (os_do (Ftruncate fd n) (s1\<lparr>shared_buffer_size := n\<rparr>))"
  have n: "c_u32 (block_count s * block_size s + QEM_SMI_DATA_BUFFER_META_DATA_SIZE) = n"
    using assms(4) by (simp add: n_def smi_layout smi_config_ok_def)
  have s1: "accounted s1" "error_code s1 \<noteq> QEM_SMI_CONNECTED"
    using assms by (auto simp: s1_def os_do_def Let_def accounted_def held_def no_handles_def)
  have s2: "accounted s2" "error_code s2 \<noteq> QEM_SMI_CONNECTED"
    using s1 by (auto simp: s2_def os_do_def accounted_def held_def)
  have ok: "setup_result (buffer_mapped (next_block s)) (mmap_rest os (s2\<lparr>shm := replicate n 0\<rparr>))"
    using assms s2
    by (intro mmap_rest_ok)
      (simp_all add: s2_def s1_def os_do_def Let_def accounted_def held_def no_handles_def n_def
        sync_unmapped_def)
  obtain s3 where s3: "qem_smi_client_disconnect os s2 = Done () s3" "no_handles s3"
    "error_code s3 = QEM_SMI_UNINIT" "accounted s3"
    using disconnect_unconnected [OF s2(2), of os] s2(1) by blast
  have bad: "setup_result (buffer_mapped (next_block s)) (bind_run (qem_smi_client_disconnect os s2) (\<lambda>_ s.
      bind_run (QEM_TRACE_ERROR ''Could not truncate shared memory: '' e 0 s) (\<lambda>_. mmap_rest os)))"
    using s3
    by (simp add: run_simps)
      (intro mmap_rest_bad_fd; simp add: no_handles_def accounted_def held_def)
  have "mmap_buffer os s = need os (0 \<le> fd) ''Could not open shared memory region'' s1
    (\<lambda>s. if e \<noteq> 0 then bind_run (qem_smi_client_disconnect os s2) (\<lambda>_ s.
      bind_run (QEM_TRACE_ERROR ''Could not truncate shared memory: '' e 0 s) (\<lambda>_. mmap_rest os))
     else mmap_rest os (s2\<lparr>shm := replicate n 0\<rparr>))"
    using n
    by (simp add: mmap_buffer_def c_shm_open_def c_ftruncate_def Let_def need_def fd_def [symmetric]
        s1_def [symmetric] s2_def e_def bind_run_assoc)
      (simp add: s1_def os_now_def os_do_def Let_def)
  then show ?thesis using s1 ok bad by (auto intro!: setup_need)
qed

lemma init_result:
  assumes "no_handles s" and "accounted s"
    and "smi_config_ok (block_count s) (block_size s)" and "next_block s < block_count s"
  shows "setup_result (link_ready (next_block s)) (qem_smi_client_init os s)"
proof -
  have core: "setup_result (link_ready (next_block s)) (create_sync os t)"
    if "accounted t" "link_core (next_block s) t" "sync_unmapped t" "\<not> server_sem t" "\<not> client_sem t"
      "mon_lock_fd t = -1" "cond_read_fd t = -1" "cond_write_fd t = -1" for t
    by (rule setup_create_sync [OF that])
  have loc: "setup_result (\<lambda>t. accounted t \<and> link_core (next_block s) t \<and> sync_unmapped t \<and> \<not> server_sem t \<and>
      \<not> client_sem t \<and> mon_lock_fd t = -1 \<and> cond_read_fd t = -1 \<and> cond_write_fd t = -1)
      (create_local_buffer os t)" if "buffer_mapped (next_block s) t" for t
    using that
    by (intro setup_create_local_buffer)
      (auto simp: buffer_mapped_def link_core_def link_mem_def fresh_region_ok sync_unmapped_def)
  show ?thesis
    unfolding qem_smi_client_init_def Let_def
    by (intro setup_init_step [OF mmap_buffer_result] setup_init_step [OF loc] setup_init_step [OF core])
      (use assms in \<open>auto simp: os_do_def no_handles_def accounted_def held_def\<close>)
qed


lemma link_released_console [simp]: "link_released (s\<lparr>console := c\<rparr>) = link_released s"
  by (simp add: link_released_def no_handles_def accounted_def held_def)

end
