(* ===== verification/QEM_SMI_Sender.thy ===== *)
theory QEM_SMI_Sender
  imports QEM_SMI_Engine
begin

text \<open>
  What \<open>qem_smi_client_send\<close> and \<open>qem_smi_client_flush\<close> do to the ring. The region of raw
  bytes is abstracted to a list of slots, each empty or holding a block, and the two
  operations are shown to refine operations on that abstract ring.
\<close>

section \<open>The abstract ring\<close>

record ring =
  slots :: "bytes option list"
  next_slot :: nat
  pending :: bytes

definition slot_list :: "nat \<Rightarrow> nat \<Rightarrow> bytes \<Rightarrow> bytes option list" where
  "slot_list bc bz m = map (\<lambda>k. if mask_bit m k then Some (block_bytes bz m k) else None) [0..<bc]"

lemma length_slot_list [simp]: "length (slot_list bc bz m) = bc"
  by (simp add: slot_list_def)

lemma slot_list_nth [simp]:
  "k < bc \<Longrightarrow> slot_list bc bz m ! k = (if mask_bit m k then Some (block_bytes bz m k) else None)"
  by (simp add: slot_list_def)

definition ring_of :: "'z smi_link_scheme \<Rightarrow> ring" where
  "ring_of s =
     \<lparr>slots = slot_list (block_count s) (block_size s) (shm s), next_slot = next_block s,
      pending = (case local_buffer s of None \<Rightarrow> [] | Some lb \<Rightarrow> take (local_buffer_index s) lb)\<rparr>"

text \<open>Filling the next slot, when it is empty; otherwise the writer waits.\<close>

definition ring_push :: "bytes \<Rightarrow> ring \<Rightarrow> (unit, ring) run" where
  "ring_push b r =
     (if slots r ! next_slot r \<noteq> None then Blocked r
      else Done () \<lparr>slots = (slots r)[next_slot r := Some b],
                    next_slot = (next_slot r + 1) mod length (slots r), pending = []\<rparr>)"

text \<open>
  Sending: as long as the pending bytes and the data exceed one block, a block is pushed;
  the rest stays pending. Flushing: the pending bytes are padded with zeros to a block.
\<close>

function ring_send :: "nat \<Rightarrow> bytes \<Rightarrow> ring \<Rightarrow> (unit, ring) run" where
  "ring_send bz data r =
     (if length (pending r @ data) \<le> bz then Done () (r\<lparr>pending := pending r @ data\<rparr>)
      else if bz = 0 then Hangs r
      else case ring_push (take bz (pending r @ data)) (r\<lparr>pending := []\<rparr>) of
             Done _ r' \<Rightarrow> ring_send bz (drop bz (pending r @ data)) r'
           | other \<Rightarrow> other)"
  by pat_completeness auto
termination
  by (relation "measure (\<lambda>(bz, data, r). length (pending r) + length data)")
    (auto simp: ring_push_def split: if_splits)

declare ring_send.simps [simp del]

definition ring_flush :: "nat \<Rightarrow> ring \<Rightarrow> (unit, ring) run" where
  "ring_flush bz r =
     (if pending r = [] then Done () r
      else bind_run (ring_push (pending r @ replicate (bz - length (pending r)) 0) r) (\<lambda>_ r. Done () r))"

section \<open>Steps on the bytes\<close>

lemma await_free_cases:
  assumes "link_mem s"
  shows "\<exists>b l. smi_await_free b0 s =
    (if mask_bit (shm s) (next_block s) then Blocked (s\<lparr>os_log := l\<rparr>) else Done b (s\<lparr>os_log := l\<rparr>))"
proof -
  obtain b where "load_blocks b0 (shm s) = Some b" "block_used b (next_block s) = mask_bit (shm s) (next_block s)"
    using load_blocks_used [of "block_count s" "block_size s" "shm s" "next_block s" b0] assms
    by (auto simp: link_mem_def)
  then show ?thesis
    using assms by (auto simp: smi_await_free_def smi_load_blocks_def os_do_def link_mem_def)
qed

lemma copy_out_effect:
  assumes "link_mem s" and "local_buffer s = Some lb"
  shows "\<exists>m. smi_copy_out (block_size s) s = Some (s\<lparr>shm := m\<rparr>) \<and> length m = length (shm s) \<and>
    (\<forall>k. mask_bit m k = mask_bit (shm s) k) \<and>
    (\<forall>k < block_count s. block_bytes (block_size s) m k =
       (if k = next_block s then lb else block_bytes (block_size s) (shm s) k))"
proof -
  have g: "smi_geometry (block_count s) (block_size s) (shm s)" "next_block s < block_count s"
    "length lb = block_size s"
    using assms by (auto simp: link_mem_def buffer_of_size_def)
  obtain m where m: "put_block 8 (next_block s) (block_size s) lb (shm s) = Some m"
    using put_block_ok [OF g(1,2), of lb] g(3) by auto
  with assms g(3) put_block_effect [OF g m]
  show ?thesis
    by (auto simp: smi_copy_out_def smi_data_base_def link_mem_def mem_read_def)
qed

lemma flush_copy_effect:
  assumes "link_mem s" and "local_buffer s = Some lb"
  shows "\<exists>m. flush_copy s = Some (s\<lparr>shm := m\<rparr>) \<and> length m = length (shm s) \<and>
    (\<forall>k. mask_bit m k = mask_bit (shm s) k) \<and>
    (\<forall>k < block_count s. block_bytes (block_size s) m k =
       (if k = next_block s
        then take (local_buffer_index s) lb @ replicate (block_size s - local_buffer_index s) 0
        else block_bytes (block_size s) (shm s) k))"
proof -
  let ?z = "replicate (block_size s) (0 :: u8)"
  let ?n = "next_block s" and ?bz = "block_size s" and ?i = "local_buffer_index s"
  let ?b = "take ?i lb @ replicate (?bz - ?i) 0"
  have g: "smi_geometry (block_count s) ?bz (shm s)" "?n < block_count s" "length lb = ?bz" "?i \<le> ?bz"
    using assms by (auto simp: link_mem_def buffer_of_size_def)
  have off: "c_u32 (?n * ?bz) = ?n * ?bz" and fit: "8 + ?n * ?bz + ?bz \<le> length (shm s)"
    using block_offset_bound [OF g(1,2)] g(1) by (auto simp: smi_geometry_def)
  obtain m1 where m1: "put_block 8 ?n ?bz ?z (shm s) = Some m1"
    using put_block_ok [OF g(1,2), of ?z] by auto
  obtain m2 where m2: "put_block 8 ?n ?bz (take ?i lb) m1 = Some m2"
    using m1 fit g off by (auto simp: put_block_def mem_write_def split: if_splits)
  have "put_block 8 ?n ?bz ?b (shm s) = Some m2"
    using m1 m2 fit g off by (auto simp: put_block_def mem_write_def split: if_splits)
  moreover have "flush_copy s = Some (s\<lparr>shm := m2\<rparr>)"
    using assms m1 m2 g
    by (auto simp: flush_copy_def smi_zero_block_def smi_copy_out_def smi_data_base_def link_mem_def
        mem_read_def)
  ultimately show ?thesis
    using put_block_effect [OF g(1,2), of ?b m2] g(3,4) by auto
qed

lemma mark_used_effect:
  assumes "link_mem s"
  shows "\<exists>b m. smi_mark_used b0 s = Some (b, s\<lparr>shm := m, next_block := (next_block s + 1) mod block_count s\<rparr>) \<and>
    length m = length (shm s) \<and>
    (\<forall>k < block_count s. mask_bit m k \<longleftrightarrow> mask_bit (shm s) k \<or> k = next_block s) \<and>
    (\<forall>k. block_bytes (block_size s) m k = block_bytes (block_size s) (shm s) k)"
proof -
  have g: "smi_geometry (block_count s) (block_size s) (shm s)" "next_block s < block_count s"
    using assms by (auto simp: link_mem_def)
  from mark_block_effect [OF g, of b0] obtain b m where
    m: "load_blocks b0 (shm s) = Some b" "store_blocks (mark_block b (next_block s)) (shm s) = Some m"
    "length m = length (shm s)"
    "\<And>k. k < block_count s \<Longrightarrow> mask_bit m k \<longleftrightarrow> mask_bit (shm s) k \<or> k = next_block s"
    "\<And>k. block_bytes (block_size s) m k = block_bytes (block_size s) (shm s) k"
    by blast
  have "c_u32 (Suc (next_block s)) = Suc (next_block s)"
    using g by (intro c_u32_small) (auto simp: smi_geometry_def)
  with m assms show ?thesis
    by (auto simp: smi_mark_used_def smi_load_blocks_def smi_store_blocks_def link_mem_def)
qed

text \<open>Copying a block and publishing it fills the slot.\<close>

lemma slot_list_push:
  assumes "n < bc" and "\<And>k. k < bc \<Longrightarrow> mask_bit m k \<longleftrightarrow> mask_bit m0 k \<or> k = n"
    and "\<And>k. k < bc \<Longrightarrow> block_bytes bz m k = (if k = n then b else block_bytes bz m0 k)"
  shows "slot_list bc bz m = (slot_list bc bz m0)[n := Some b]"
  using assms by (intro nth_equalityI) (auto simp: nth_list_update)

lemma link_mem_shm:
  assumes "link_mem s" and "length m = length (shm s)" and "n < block_count s"
  shows "link_mem (s\<lparr>shm := m, next_block := n, os_log := l\<rparr>)"
  using assms by (simp add: link_mem_def smi_geometry_def)

lemma publish_effect:
  assumes "link_mem s" and "n = next_block s"
    and "length m = length (shm s)" and "\<forall>k. mask_bit m k = mask_bit (shm s) k"
    and "\<forall>k < block_count s. block_bytes (block_size s) m k =
       (if k = n then b else block_bytes (block_size s) (shm s) k)"
  shows "\<exists>bl l m'. smi_publish b0 (s\<lparr>shm := m\<rparr>) =
      Done bl (s\<lparr>shm := m', next_block := (n + 1) mod block_count s, os_log := l\<rparr>) \<and>
    link_mem (s\<lparr>shm := m', next_block := (n + 1) mod block_count s, os_log := l\<rparr>) \<and>
    slot_list (block_count s) (block_size s) m' =
      (slot_list (block_count s) (block_size s) (shm s))[n := Some b]"
proof -
  let ?s = "s\<lparr>shm := m, os_log := os_log s @ [MutexLock]\<rparr>"
  have n: "n < block_count s" using assms(1,2) by (simp add: link_mem_def)
  have lm: "link_mem ?s" using assms(1,3) by (simp add: link_mem_def smi_geometry_def)
  obtain bl m' where m': "smi_mark_used b0 ?s =
      Some (bl, ?s\<lparr>shm := m', next_block := (n + 1) mod block_count s\<rparr>)"
    "length m' = length m" "\<forall>k < block_count s. mask_bit m' k \<longleftrightarrow> mask_bit m k \<or> k = n"
    "\<forall>k. block_bytes (block_size s) m' k = block_bytes (block_size s) m k"
    using mark_used_effect [OF lm, of b0] assms(2) by auto
  have "slot_list (block_count s) (block_size s) m' =
      (slot_list (block_count s) (block_size s) (shm s))[n := Some b]"
    using m' assms(4,5) n by (intro slot_list_push) auto
  moreover have "(n + 1) mod block_count s < block_count s" using n by simp
  ultimately show ?thesis
    using m' assms(1,3) by (auto simp: smi_publish_def os_do_def link_mem_def smi_geometry_def)
qed


section \<open>Refinement\<close>

text \<open>The abstract reading of a result, and the part of the state a send or a flush may change.\<close>

definition ring_run :: "(int, 'z smi_link_scheme) run \<Rightarrow> (unit, ring) run" where
  "ring_run r =
     (case r of
        Done v s \<Rightarrow> if v = 0 then Done () (ring_of s) else Exited v (ring_of s)
      | Exited v s \<Rightarrow> Exited v (ring_of s)
      | Blocked s \<Rightarrow> Blocked (ring_of s)
      | Fault s \<Rightarrow> Fault (ring_of s)
      | Hangs s \<Rightarrow> Hangs (ring_of s))"

definition link_evolves :: "'z smi_link_scheme \<Rightarrow> 'z smi_link_scheme \<Rightarrow> bool" where
  "link_evolves s t \<longleftrightarrow> link_mem t \<and> (\<exists>lb i m n l. t = s\<lparr>shm := m, local_buffer := lb,
     local_buffer_index := i, next_block := n, os_log := l\<rparr>)"

lemma link_evolves_fields:
  assumes "link_evolves s t"
  shows "link_mem t" "block_count t = block_count s" "block_size t = block_size s"
    "error_code t = error_code s" "qem_tracing_state t = qem_tracing_state s"
    "console t = console s" "qem_time_start t = qem_time_start s" "held t = held s \<or> local_buffer s = None"
  using assms by (auto simp: link_evolves_def link_mem_def buffer_of_size_def held_def split: option.splits)

lemma link_evolves_refl: "link_mem s \<Longrightarrow> link_evolves s s"
  unfolding link_evolves_def
  by (intro conjI exI [of _ "local_buffer s"] exI [of _ "local_buffer_index s"] exI [of _ "shm s"]
      exI [of _ "next_block s"] exI [of _ "os_log s"]) simp_all

lemma link_evolves_trans: "link_evolves s t \<Longrightarrow> link_evolves t u \<Longrightarrow> link_evolves s u"
  by (fastforce simp: link_evolves_def)

lemma link_mem_bound: "link_mem s \<Longrightarrow> block_size s < 2 ^ 31"
  using smi_geometry_bound by (auto simp: link_mem_def)

lemma send_rest_effect:
  assumes "link_mem s" and "wrote + ws \<le> length buf" and "local_buffer_index s + ws \<le> block_size s"
  shows "\<exists>t. send_rest buf ws wrote s = Some t \<and> link_evolves s t \<and>
    ring_of t = (ring_of s)\<lparr>pending := pending (ring_of s) @ take ws (drop wrote buf)\<rparr>"
proof -
  obtain lb where lb: "local_buffer s = Some lb" "length lb = block_size s"
    using assms(1) by (auto simp: link_mem_def buffer_of_size_def split: option.splits)
  have small: "c_u32 (local_buffer_index s + ws) = local_buffer_index s + ws"
    using assms link_mem_bound [OF assms(1)] by (intro c_u32_small) simp
  show ?thesis
  proof (cases "ws = 0")
    case True
    then show ?thesis using assms lb
      by (intro exI [of _ s]) (simp add: send_rest_def ring_of_def link_evolves_refl)
  next
    case False
    let ?c = "take ws (drop wrote buf)"
    let ?lb = "take (local_buffer_index s) lb @ ?c @ drop (local_buffer_index s + ws) lb"
    let ?t = "s\<lparr>local_buffer := Some ?lb, local_buffer_index := local_buffer_index s + ws\<rparr>"
    have "send_rest buf ws wrote s = Some ?t"
      using False assms lb small by (simp add: send_rest_def mem_read_def mem_write_def)
    moreover have "link_mem ?t"
      using assms lb by (simp add: link_mem_def buffer_of_size_def)
    then have "link_evolves s ?t"
      unfolding link_evolves_def
      by (intro conjI exI [of _ "Some ?lb"] exI [of _ "local_buffer_index s + ws"] exI [of _ "shm s"]
          exI [of _ "next_block s"] exI [of _ "os_log s"]) simp_all
    moreover have "ring_of ?t = (ring_of s)\<lparr>pending := pending (ring_of s) @ ?c\<rparr>"
      using lb assms by (simp add: ring_of_def)
    ultimately show ?thesis by blast
  qed
qed

lemma c_sub32_small: "b \<le> a \<Longrightarrow> a < 2 ^ 32 \<Longrightarrow> c_sub32 a b = a - b"
  by (simp add: c_sub32_def c_u32_def mod_if)

lemma send_fill_effect:
  assumes "link_mem s" and "wrote + ws \<le> length buf" and "block_size s < local_buffer_index s + ws"
    and "wrote + ws < 2 ^ 32"
  defines "tw \<equiv> block_size s - local_buffer_index s"
  shows "\<exists>lb'. send_fill buf ws wrote s =
      Some (ws - tw, wrote + tw, s\<lparr>local_buffer := Some lb', local_buffer_index := 0\<rparr>) \<and>
    link_mem (s\<lparr>local_buffer := Some lb', local_buffer_index := 0\<rparr>) \<and>
    lb' = take (block_size s) (pending (ring_of s) @ take ws (drop wrote buf))"
proof -
  obtain lb where lb: "local_buffer s = Some lb" "length lb = block_size s"
    using assms(1) by (auto simp: link_mem_def buffer_of_size_def split: option.splits)
  have i: "local_buffer_index s \<le> block_size s" "block_size s < 2 ^ 32"
    using assms(1) link_mem_bound [OF assms(1)] by (auto simp: link_mem_def)
  have tw: "c_sub32 (block_size s) (local_buffer_index s) = tw" "tw \<le> ws" "c_sub32 ws tw = ws - tw"
    "c_u32 (wrote + tw) = wrote + tw"
    using i assms(3,4) by (auto simp: c_sub32_small tw_def)
  let ?lb = "take (local_buffer_index s) lb @ take tw (drop wrote buf)"
  have "local_buffer_index s + tw = block_size s" using i by (simp add: tw_def)
  then have "send_fill buf ws wrote s =
      Some (ws - tw, wrote + tw, s\<lparr>local_buffer := Some ?lb, local_buffer_index := 0\<rparr>)"
    using lb tw assms(2) by (simp add: send_fill_def mem_read_def mem_write_def)
  moreover have "?lb = take (block_size s) (pending (ring_of s) @ take ws (drop wrote buf))"
    using lb i tw(2) by (simp add: ring_of_def tw_def min_def)
  moreover have "length ?lb = block_size s"
    using lb tw(2) assms(2) i by (simp add: tw_def)
  ultimately show ?thesis
    using assms(1) by (auto simp: link_mem_def buffer_of_size_def)
qed


lemma ring_send_push:
  assumes "bz < length (pending r @ data)" and "0 < bz"
  shows "ring_send bz data r =
    bind_run (ring_push (take bz (pending r @ data)) (r\<lparr>pending := []\<rparr>)) (\<lambda>_. ring_send bz (drop bz (pending r @ data)))"
  using assms by (subst ring_send.simps) (simp split: run.splits)

text \<open>One turn of the loop of \<open>send\<close>: it waits for the slot, or it fills it and goes on.\<close>

lemma send_turn:
  assumes lm: "link_mem s" and sz: "wrote + ws \<le> length buf" "wrote + ws < 2 ^ 31"
    and big: "block_size s < local_buffer_index s + ws"
  defines "tw \<equiv> block_size s - local_buffer_index s"
  defines "blk \<equiv> take (block_size s) (pending (ring_of s) @ take ws (drop wrote buf))"
  shows "(\<exists>t. send_loop (Suc fuel) buf ws wrote b s = Blocked t \<and> link_evolves s t \<and>
        ring_push blk ((ring_of s)\<lparr>pending := []\<rparr>) = Blocked (ring_of t)) \<or>
    (\<exists>bl t. send_loop (Suc fuel) buf ws wrote b s = send_loop fuel buf (ws - tw) (wrote + tw) bl t \<and>
        link_evolves s t \<and> ring_push blk ((ring_of s)\<lparr>pending := []\<rparr>) = Done () (ring_of t) \<and> local_buffer_index t = 0)"
proof -
  define s1 where "s1 = s\<lparr>local_buffer := Some blk, local_buffer_index := 0\<rparr>"
  have s1 [simp]: "block_size s1 = block_size s" "block_count s1 = block_count s" "shm s1 = shm s"
    "next_block s1 = next_block s"
    by (simp_all add: s1_def)
  have fill: "send_fill buf ws wrote s = Some (ws - tw, wrote + tw, s1)" and lm1: "link_mem s1"
    using send_fill_effect [OF lm sz(1) big] sz(2) by (auto simp: tw_def blk_def s1_def)
  have small: "c_u32 (local_buffer_index s + ws) = local_buffer_index s + ws"
    using lm link_mem_bound [OF lm] sz by (intro c_u32_small) (simp add: link_mem_def)
  have ev: "link_evolves s (s1\<lparr>shm := m, next_block := n, os_log := l\<rparr>)"
    if "link_mem (s1\<lparr>shm := m, next_block := n, os_log := l\<rparr>)" for m n l
    using that unfolding link_evolves_def s1_def
    by (intro conjI exI [of _ "Some blk"] exI [of _ 0] exI [of _ m] exI [of _ n] exI [of _ l]) simp_all
  obtain bl l where aw: "smi_await_free b s1 = (if mask_bit (shm s) (next_block s)
      then Blocked (s1\<lparr>os_log := l\<rparr>) else Done bl (s1\<lparr>os_log := l\<rparr>))"
    using await_free_cases [OF lm1, of b] by (auto simp: s1_def)
  have n: "next_block s < block_count s" using lm by (simp add: link_mem_def)
  have lm1l: "link_mem (s1\<lparr>os_log := l\<rparr>)" using lm1 by (simp add: link_mem_def)
  show ?thesis
  proof (cases "mask_bit (shm s) (next_block s)")
    case True
    then have "send_loop (Suc fuel) buf ws wrote b s = Blocked (s1\<lparr>os_log := l\<rparr>)"
      using big small fill aw by simp
    moreover have "link_evolves s (s1\<lparr>os_log := l\<rparr>)"
      using ev [of l "next_block s1" "shm s1"] lm1l by (simp del: s1)
    moreover have "ring_push blk ((ring_of s)\<lparr>pending := []\<rparr>) = Blocked (ring_of (s1\<lparr>os_log := l\<rparr>))"
      using True n by (simp add: ring_push_def ring_of_def s1_def)
    ultimately show ?thesis by blast
  next
    case False
    obtain m where m: "smi_copy_out (block_size s) (s1\<lparr>os_log := l\<rparr>) = Some (s1\<lparr>os_log := l, shm := m\<rparr>)"
      "length m = length (shm s)" "\<forall>k. mask_bit m k = mask_bit (shm s) k"
      "\<forall>k < block_count s. block_bytes (block_size s) m k =
         (if k = next_block s then blk else block_bytes (block_size s) (shm s) k)"
      using copy_out_effect [OF lm1l, of blk] by (auto simp: s1_def)
    obtain bl' l' m' where p: "smi_publish bl (s1\<lparr>os_log := l, shm := m\<rparr>) =
        Done bl' (s1\<lparr>shm := m', next_block := (next_block s + 1) mod block_count s, os_log := l'\<rparr>)"
      "link_mem (s1\<lparr>shm := m', next_block := (next_block s + 1) mod block_count s, os_log := l'\<rparr>)"
      "slot_list (block_count s) (block_size s) m' =
         (slot_list (block_count s) (block_size s) (shm s))[next_block s := Some blk]"
      using publish_effect [OF lm1l refl, of m blk bl] m by (auto cong: if_cong)
    let ?t = "s1\<lparr>shm := m', next_block := (next_block s + 1) mod block_count s, os_log := l'\<rparr>"
    have "send_loop (Suc fuel) buf ws wrote b s = send_loop fuel buf (ws - tw) (wrote + tw) bl' ?t"
      using big small fill aw False m(1) p(1) by (simp add: s1_def)
    moreover have "ring_push blk ((ring_of s)\<lparr>pending := []\<rparr>) = Done () (ring_of ?t)"
      using False n p(3) by (simp add: ring_push_def ring_of_def s1_def)
    moreover have "local_buffer_index ?t = 0" by (simp add: s1_def)
    ultimately show ?thesis using ev [OF p(2)] by blast
  qed
qed

lemma ring_of_pending:
  assumes "link_mem s"
  shows "length (pending (ring_of s)) = local_buffer_index s" and "local_buffer_index s \<le> block_size s"
    and "0 < block_size s"
  using assms by (auto simp: ring_of_def link_mem_def buffer_of_size_def smi_geometry_def split: option.splits)

lemma send_loop_refines:
  assumes "link_mem s" and "wrote + ws \<le> length buf" and "wrote + ws < 2 ^ 31"
    and "ws + of_bool (local_buffer_index s = block_size s) < fuel"
  shows "ring_run (send_loop fuel buf ws wrote b s) =
      ring_send (block_size s) (take ws (drop wrote buf)) (ring_of s) \<and>
    link_evolves s (run_state (send_loop fuel buf ws wrote b s))"
  using assms
proof (induction fuel arbitrary: ws wrote b s)
  case 0
  then show ?case by simp
next
  case (Suc fuel)
  let ?bz = "block_size s" and ?i = "local_buffer_index s" and ?data = "take ws (drop wrote buf)"
  note lm = Suc.prems(1) and sz = Suc.prems(2,3) and pend = ring_of_pending [OF Suc.prems(1)]
  have small: "c_u32 (?i + ws) = ?i + ws"
    using pend link_mem_bound [OF lm] sz by (intro c_u32_small) simp
  have len: "length (pending (ring_of s) @ ?data) = ?i + ws" using pend sz by simp
  show ?case
  proof (cases "?bz < ?i + ws")
    case False
    with send_rest_effect [OF lm sz(1)] obtain t where
      "send_rest buf ws wrote s = Some t" "link_evolves s t"
      "ring_of t = (ring_of s)\<lparr>pending := pending (ring_of s) @ ?data\<rparr>" by auto
    then show ?thesis
      using False small len by (simp add: ring_run_def) (subst ring_send.simps, simp)
  next
    case True
    define tw where "tw = ?bz - ?i"
    have tw: "tw \<le> ws" "tw + ?i = ?bz" using True pend by (auto simp: tw_def)
    have push: "ring_send ?bz ?data (ring_of s) =
        bind_run (ring_push (take ?bz (pending (ring_of s) @ ?data)) ((ring_of s)\<lparr>pending := []\<rparr>))
          (\<lambda>_. ring_send ?bz (take (ws - tw) (drop (wrote + tw) buf)))"
      using ring_send_push [of ?bz "ring_of s" ?data] True len pend tw
      by (simp add: drop_take add.commute tw_def)
    from send_turn [OF lm sz True, of fuel b] show ?thesis
    proof (elim disjE exE conjE)
      fix t
      assume "send_loop (Suc fuel) buf ws wrote b s = Blocked t" "link_evolves s t"
        "ring_push (take ?bz (pending (ring_of s) @ ?data)) ((ring_of s)\<lparr>pending := []\<rparr>) = Blocked (ring_of t)"
      then show ?thesis using push by (simp only: bind_run.simps) (simp add: ring_run_def)
    next
      fix bl t
      assume t: "send_loop (Suc fuel) buf ws wrote b s =
          send_loop fuel buf (ws - (?bz - ?i)) (wrote + (?bz - ?i)) bl t" "link_evolves s t"
        "ring_push (take ?bz (pending (ring_of s) @ ?data)) ((ring_of s)\<lparr>pending := []\<rparr>) = Done () (ring_of t)"
        "local_buffer_index t = 0"
      note f = link_evolves_fields [OF t(2)]
      have "ws - tw + of_bool (local_buffer_index t = block_size t) < fuel"
        using Suc.prems(4) tw t(4) pend f by (cases "?i = ?bz") auto
      moreover have "wrote + tw + (ws - tw) \<le> length buf" "wrote + tw + (ws - tw) < 2 ^ 31"
        using sz tw by auto
      ultimately show ?thesis
        using Suc.IH [OF f(1), of "wrote + tw" "ws - tw" bl] t push f link_evolves_trans [OF t(2)]
        by (simp only: bind_run.simps tw_def [symmetric])
    qed
  qed
qed


text \<open>
  On a connected link a send refines the abstract one: it never leaves the bounds of its
  buffers, its loop ends, and it returns 0 unless it has to wait for the reader.
\<close>

lemma send_refines:
  assumes "link_mem s" and "error_code s = QEM_SMI_CONNECTED" and "sz \<le> length data" and "sz < 2 ^ 31"
  shows "ring_run (qem_smi_client_send (Some data) sz s) =
      ring_send (block_size s) (take sz data) (ring_of s)"
    and "link_evolves s (run_state (qem_smi_client_send (Some data) sz s))"
  using send_loop_refines [OF assms(1), of 0 sz data "sz + 2" 0] assms
  by (simp_all add: qem_smi_client_send_def)

lemma flush_refines:
  assumes lm: "link_mem s" and "error_code s = QEM_SMI_CONNECTED"
  shows "ring_run (qem_smi_client_flush os s) = ring_flush (block_size s) (ring_of s) \<and>
    link_evolves s (run_state (qem_smi_client_flush os s))"
proof (cases "local_buffer_index s = 0")
  case True
  then show ?thesis
    using assms ring_of_pending(1) [OF lm]
    by (simp add: qem_smi_client_flush_def ring_run_def ring_flush_def link_evolves_refl)
next
  case False
  obtain lb where lb: "local_buffer s = Some lb"
    using lm by (auto simp: link_mem_def buffer_of_size_def split: option.splits)
  let ?i = "local_buffer_index s" and ?bz = "block_size s"
  define blk where "blk = take ?i lb @ replicate (?bz - ?i) 0"
  have blk: "blk = pending (ring_of s) @ replicate (?bz - length (pending (ring_of s))) 0"
    using lb ring_of_pending(1) [OF lm] by (simp add: blk_def ring_of_def)
  have pend: "pending (ring_of s) \<noteq> []" using ring_of_pending(1) [OF lm] False by auto
  obtain bl l where aw: "smi_await_free (os_stack os (os_now s)) s = (if mask_bit (shm s) (next_block s)
      then Blocked (s\<lparr>os_log := l\<rparr>) else Done bl (s\<lparr>os_log := l\<rparr>))"
    using await_free_cases [OF lm, of "os_stack os (os_now s)"] by blast
  have n: "next_block s < block_count s" using lm by (simp add: link_mem_def)
  have lml: "link_mem (s\<lparr>os_log := l\<rparr>)" using lm by (simp add: link_mem_def)
  have ev: "link_evolves s (s\<lparr>shm := m, next_block := n, local_buffer_index := i, os_log := l\<rparr>)"
    if "link_mem (s\<lparr>shm := m, next_block := n, local_buffer_index := i, os_log := l\<rparr>)" for m n l i
    using that unfolding link_evolves_def
    by (intro conjI exI [of _ "local_buffer s"] exI [of _ i] exI [of _ m] exI [of _ n] exI [of _ l]) simp_all
  show ?thesis
  proof (cases "mask_bit (shm s) (next_block s)")
    case True
    then show ?thesis
      using assms False aw n pend lb lml ev [where m = "shm s" and n = "next_block s" and i = ?i and l = l]
      by (simp add: qem_smi_client_flush_def ring_run_def ring_flush_def ring_push_def)
        (simp add: ring_of_def)
  next
    case mb: False
    obtain m where m: "flush_copy (s\<lparr>os_log := l\<rparr>) = Some (s\<lparr>os_log := l, shm := m\<rparr>)"
      "length m = length (shm s)" "\<forall>k. mask_bit m k = mask_bit (shm s) k"
      "\<forall>k < block_count s. block_bytes ?bz m k = (if k = next_block s then blk else block_bytes ?bz (shm s) k)"
      using flush_copy_effect [OF lml, of lb] lb by (auto simp: blk_def)
    let ?n = "(next_block s + 1) mod block_count s"
    obtain bl' l' m' where p: "smi_publish bl (s\<lparr>os_log := l, shm := m\<rparr>) =
        Done bl' (s\<lparr>shm := m', next_block := ?n, os_log := l'\<rparr>)"
      "link_mem (s\<lparr>shm := m', next_block := ?n, os_log := l'\<rparr>)"
      "slot_list (block_count s) ?bz m' = (slot_list (block_count s) ?bz (shm s))[next_block s := Some blk]"
      using publish_effect [OF lml refl, of m blk bl] m by (auto cong: if_cong)
    let ?t = "s\<lparr>shm := m', next_block := ?n, local_buffer_index := 0, os_log := l'\<rparr>"
    have "link_evolves s ?t" using p(2) by (intro ev) (simp add: link_mem_def)
    moreover have "qem_smi_client_flush os s = Done 0 ?t"
      using assms False aw mb m(1) p(1) by (simp add: qem_smi_client_flush_def)
    moreover have "ring_flush ?bz (ring_of s) = Done () (ring_of ?t)"
      using pend mb n p(3) blk lb by (simp add: ring_flush_def ring_push_def) (simp add: ring_of_def)
    ultimately show ?thesis by (simp add: ring_run_def)
  qed
qed

end
