(* ===== verification/QEM_SMI_Lib.thy ===== *)
theory QEM_SMI_Lib
  imports QEM_SMI_Sender
begin

text \<open>
  The receiving end of the Shared Memory Interface, \<^verbatim>\<open>SMILib/src/qem_posix_smi.c\<close>: connection,
  the local copy of a block, and the reading side of the ring. The library never prints, so
  the console of its state stays as it is. As for the sender, a call runs alone here and ends
  with \<open>Blocked\<close> where it waits for the other end.
\<close>

section \<open>Error codes\<close>

definition QEM_SMI_SHM_FD_ERROR :: int where "QEM_SMI_SHM_FD_ERROR = 100"
definition QEM_SMI_SHM_MMAP_ERROR :: int where "QEM_SMI_SHM_MMAP_ERROR = 101"
definition QEM_SMI_CREATE_LBUFFER_ERROR :: int where "QEM_SMI_CREATE_LBUFFER_ERROR = 102"
definition QEM_SMI_SHM_LOCK_ERROR :: int where "QEM_SMI_SHM_LOCK_ERROR = 103"
definition QEM_SMI_SHM_RCOND_ERROR :: int where "QEM_SMI_SHM_RCOND_ERROR = 104"
definition QEM_SMI_SHM_WCOND_ERROR :: int where "QEM_SMI_SHM_WCOND_ERROR = 105"
definition QEM_SMI_MMAP_LOCK_ERROR :: int where "QEM_SMI_MMAP_LOCK_ERROR = 106"
definition QEM_SMI_MMAP_RCOND_ERROR :: int where "QEM_SMI_MMAP_RCOND_ERROR = 107"
definition QEM_SMI_MMAP_WCOND_ERROR :: int where "QEM_SMI_MMAP_WCOND_ERROR = 108"
definition QEM_SMI_NOT_CONNECTED_ERROR :: int where "QEM_SMI_NOT_CONNECTED_ERROR = 109"
definition QEM_SMI_TIMEOUT_ERROR :: int where "QEM_SMI_TIMEOUT_ERROR = 110"
definition QEM_SMI_WRONG_MAGIC_ERROR :: int where "QEM_SMI_WRONG_MAGIC_ERROR = 111"
definition QEM_SMI_NULL_BUFFER_ERROR :: int where "QEM_SMI_NULL_BUFFER_ERROR = 112"

lemmas smi_error_defs =
  QEM_SMI_SHM_FD_ERROR_def QEM_SMI_SHM_MMAP_ERROR_def QEM_SMI_CREATE_LBUFFER_ERROR_def
  QEM_SMI_SHM_LOCK_ERROR_def QEM_SMI_SHM_RCOND_ERROR_def QEM_SMI_SHM_WCOND_ERROR_def
  QEM_SMI_MMAP_LOCK_ERROR_def QEM_SMI_MMAP_RCOND_ERROR_def QEM_SMI_MMAP_WCOND_ERROR_def
  QEM_SMI_NOT_CONNECTED_ERROR_def QEM_SMI_TIMEOUT_ERROR_def QEM_SMI_WRONG_MAGIC_ERROR_def
  QEM_SMI_NULL_BUFFER_ERROR_def

section \<open>Connection\<close>

definition qem_smi_disconnect :: "'z smi_link_scheme \<Rightarrow> 'z smi_link_scheme" where
  "qem_smi_disconnect s = (drop_handles False s)\<lparr>error_code := QEM_SMI_UNINIT\<rparr>"

definition qem_smi_init :: "'z smi_link_scheme \<Rightarrow> 'z smi_link_scheme" where
  "qem_smi_init s =
     s\<lparr>shared_buffer_data := (shared_buffer s, 0), error_code := QEM_SMI_NOT_CONNECTED\<rparr>"

text \<open>\<open>if (bad) { qem_smi_disconnect (); return code; }\<close>\<close>

definition lib_need ::
    "bool \<Rightarrow> int \<Rightarrow> 'z smi_link_scheme \<Rightarrow> ('z smi_link_scheme \<Rightarrow> (int, 'z smi_link_scheme) run) \<Rightarrow>
     (int, 'z smi_link_scheme) run" where
  "lib_need ok code s k = (if ok then k s else Done code (qem_smi_disconnect s))"

text \<open>
  The metadata: \<open>memcpy\<close> of two bytes into the 32-bit \<open>block_count\<close> leaves its high half as
  it was. The region is the object the sender created; the receiver maps it twice.
\<close>

definition read_metadata :: "'z smi_link_scheme \<Rightarrow> 'z smi_link_scheme option" where
  "read_metadata s =
     (case (mem_read (shm s) QEM_SMI_META_BLOCK_COUNT_OFFSET QEM_SMI_META_BLOCK_COUNT_SIZE,
            mem_read (shm s) QEM_SMI_META_BLOCK_SIZE_OFFSET QEM_SMI_META_BLOCK_SIZE_SIZE) of
        (Some c, Some z) \<Rightarrow>
          Some (s\<lparr>block_count := block_count s div 2 ^ 16 * 2 ^ 16 + unat (le_word c :: u16),
                  block_size := unat (le_word z :: u32)\<rparr>)
      | _ \<Rightarrow> None)"

definition mapp_buffer :: "posix \<Rightarrow> 'z smi_link_scheme \<Rightarrow> (int, 'z smi_link_scheme) run" where
  "mapp_buffer os s =
     (let (fd, s) = c_shm_open os QEM_SMI_SHM_NAME s; s = s\<lparr>shm_fd := fd\<rparr>
      in lib_need (0 \<le> fd) QEM_SMI_SHM_FD_ERROR s (\<lambda>s.
      let (p, s) = c_mmap os (shm_fd s) QEM_SMI_DATA_BUFFER_META_DATA_SIZE s;
          s = s\<lparr>shared_buffer := p\<rparr>
      in lib_need (p \<noteq> MapFailed) QEM_SMI_SHM_MMAP_ERROR s (\<lambda>s.
      case read_metadata s of
        None \<Rightarrow> Fault s
      | Some s \<Rightarrow>
          let s = s\<lparr>shared_buffer_size := c_u32 (block_count s * block_size s +
                      QEM_SMI_DATA_BUFFER_META_DATA_SIZE)\<rparr>;
              s = os_do (Munmap (shared_buffer s) QEM_SMI_DATA_BUFFER_META_DATA_SIZE) s;
              (p, s) = c_mmap os (shm_fd s) (shared_buffer_size s) s;
              s = s\<lparr>shared_buffer := p\<rparr>
          in lib_need (p \<noteq> MapFailed) QEM_SMI_SHM_MMAP_ERROR s (\<lambda>s.
             Done 0 (s\<lparr>shared_buffer_data :=
               (shared_buffer s, QEM_SMI_DATA_BUFFER_META_DATA_SIZE)\<rparr>)))))"

definition createlocal_buffer :: "posix \<Rightarrow> 'z smi_link_scheme \<Rightarrow> (int, 'z smi_link_scheme) run" where
  "createlocal_buffer os s =
     (let s = s\<lparr>local_buffer_index := 0\<rparr>;
          (p, s) = c_malloc os (shared_buffer_size s) s;
          s = s\<lparr>local_buffer := p\<rparr>
      in lib_need (p \<noteq> None) QEM_SMI_CREATE_LBUFFER_ERROR s (\<lambda>s. Done 0 s))"

definition lib_create_sync :: "posix \<Rightarrow> 'z smi_link_scheme \<Rightarrow> (int, 'z smi_link_scheme) run" where
  "lib_create_sync os s =
     (let (fd, s) = c_shm_open os QEM_SMI_SHARED_MUTEX s; s = s\<lparr>mon_lock_fd := fd\<rparr>
      in lib_need (0 \<le> fd) QEM_SMI_SHM_LOCK_ERROR s (\<lambda>s.
      let (fd, s) = c_shm_open os QEM_SMI_SHARED_COND_READ s; s = s\<lparr>cond_read_fd := fd\<rparr>
      in lib_need (0 \<le> fd) QEM_SMI_SHM_RCOND_ERROR s (\<lambda>s.
      let (fd, s) = c_shm_open os QEM_SMI_SHARED_COND_WRITE s; s = s\<lparr>cond_write_fd := fd\<rparr>
      in lib_need (0 \<le> fd) QEM_SMI_SHM_WCOND_ERROR s (\<lambda>s.
      let (p, s) = c_mmap os (mon_lock_fd s) sizeof_pthread_mutex s; s = s\<lparr>mon_lock := p\<rparr>
      in lib_need (p \<noteq> MapFailed) QEM_SMI_MMAP_LOCK_ERROR s (\<lambda>s.
      let (p, s) = c_mmap os (cond_read_fd s) sizeof_pthread_cond s; s = s\<lparr>cond_read := p\<rparr>
      in lib_need (p \<noteq> MapFailed) QEM_SMI_MMAP_RCOND_ERROR s (\<lambda>s.
      let (p, s) = c_mmap os (cond_write_fd s) sizeof_pthread_cond s; s = s\<lparr>cond_write := p\<rparr>
      in lib_need (p \<noteq> MapFailed) QEM_SMI_MMAP_WCOND_ERROR s (\<lambda>s. Done 0 s)))))))"

text \<open>The loops that open the semaphores; \<open>left\<close> is \<open>max_attempt - attempt\<close>.\<close>

fun open_server_sem :: "posix \<Rightarrow> nat \<Rightarrow> nat \<Rightarrow> 'z smi_link_scheme \<Rightarrow> bool \<times> 'z smi_link_scheme" where
  "open_server_sem os timeout 0 s = (False, s)"
| "open_server_sem os timeout (Suc left) s =
     (let (p, s) = c_sem_open os QEM_SMI_SHARED_SEM_SERVER s; s = s\<lparr>server_sem := p\<rparr>
      in if p then (True, s) else open_server_sem os timeout left (os_do (Nanosleep timeout) s))"

fun open_client_sem :: "posix \<Rightarrow> nat \<Rightarrow> nat \<Rightarrow> 'z smi_link_scheme \<Rightarrow> bool \<times> 'z smi_link_scheme" where
  "open_client_sem os timeout 0 s = (False, s)"
| "open_client_sem os timeout (Suc left) s =
     (let (p, s) = c_sem_open os QEM_SMI_SHARED_SEM_CLIENT s; s = s\<lparr>client_sem := p\<rparr>
      in if p then (True, s) else open_client_sem os timeout left (os_do (Nanosleep timeout) s))"

text \<open>
  The last part of \<open>qem_smi_connect\<close>: the receiver checks the magic number that the sender
  left at the start of the data and answers.
\<close>

definition check_magic :: "'z smi_link_scheme \<Rightarrow> (int, 'z smi_link_scheme) run" where
  "check_magic s =
     (case Option.bind (smi_data_base s) (\<lambda>base. mem_read (shm s) base 4) of
        None \<Rightarrow> Fault s
      | Some bs \<Rightarrow>
          lib_need (le_word bs = QEM_SMI_HANDSHAKE_MAGIC) QEM_SMI_WRONG_MAGIC_ERROR s (\<lambda>s.
          Done 0 ((os_do (SemPost QEM_SMI_SHARED_SEM_SERVER) s)
            \<lparr>local_buffer_index := block_size s, error_code := QEM_SMI_CONNECTED\<rparr>)))"

definition ok_then ::
    "(int, 's) run \<Rightarrow> ('s \<Rightarrow> (int, 's) run) \<Rightarrow> (int, 's) run" where
  "ok_then r k = bind_run r (\<lambda>error s. if error \<noteq> 0 then Done error s else k s)"

text \<open>\<open>posted\<close> tells whether the sender has posted the client semaphore.\<close>

definition qem_smi_connect ::
    "posix \<Rightarrow> bool \<Rightarrow> nat \<Rightarrow> nat \<Rightarrow> 'z smi_link_scheme \<Rightarrow> (int, 'z smi_link_scheme) run" where
  "qem_smi_connect os posted timeout max_attempt s =
     lib_need (error_code s = QEM_SMI_NOT_CONNECTED) QEM_SMI_NOT_CONNECTED_ERROR s (\<lambda>s.
     let (ok, s) = open_server_sem os timeout max_attempt s
     in lib_need ok QEM_SMI_TIMEOUT_ERROR s (\<lambda>s.
     let (ok, s) = open_client_sem os timeout max_attempt s
     in lib_need ok QEM_SMI_TIMEOUT_ERROR s (\<lambda>s.
     let s = os_do (SemWait QEM_SMI_SHARED_SEM_CLIENT) s
     in if \<not> posted then Blocked s
        else ok_then (mapp_buffer os s) (\<lambda>s.
             ok_then (createlocal_buffer os s) (\<lambda>s.
             ok_then (lib_create_sync os s) (\<lambda>s. check_magic s))))))"

section \<open>Receive\<close>

definition smi_await_used :: "u32 \<Rightarrow> 'z smi_link_scheme \<Rightarrow> (u32, 'z smi_link_scheme) run" where
  "smi_await_used blocks s =
     (let s = os_do MutexLock s
      in case smi_load_blocks blocks s of
           None \<Rightarrow> Fault s
         | Some b \<Rightarrow> if \<not> block_used b (next_block s) then Blocked (os_do (CondWait CondRead) s)
                     else Done b (os_do MutexUnlock s))"

definition smi_mark_free :: "u32 \<Rightarrow> 'z smi_link_scheme \<Rightarrow> (u32 \<times> 'z smi_link_scheme) option" where
  "smi_mark_free blocks s =
     (case smi_load_blocks blocks s of
        None \<Rightarrow> None
      | Some b \<Rightarrow>
          let b = clear_block b (next_block s)
          in map_option (\<lambda>s. (b, s\<lparr>next_block := c_u32 (next_block s + 1) mod block_count s\<rparr>))
               (smi_store_blocks b s))"

definition smi_release :: "u32 \<Rightarrow> 'z smi_link_scheme \<Rightarrow> (u32, 'z smi_link_scheme) run" where
  "smi_release blocks s =
     (let s = os_do MutexLock s
      in case smi_mark_free blocks s of
           None \<Rightarrow> Fault s
         | Some (b, s) \<Rightarrow> Done b (os_do MutexUnlock (os_do (CondSignal CondWrite) s)))"

text \<open>\<open>memcpy (local_buffer, shared_buffer_data + next_block * block_size, block_size)\<close>.\<close>

definition smi_copy_in :: "'z smi_link_scheme \<Rightarrow> 'z smi_link_scheme option" where
  "smi_copy_in s =
     (case (smi_data_base s, local_buffer s) of
        (Some base, Some lb) \<Rightarrow>
          (case get_block base (next_block s) (block_size s) (shm s) of
             None \<Rightarrow> None
           | Some bs \<Rightarrow> map_option (\<lambda>lb. s\<lparr>local_buffer := Some lb\<rparr>) (mem_write lb 0 bs))
      | _ \<Rightarrow> None)"

text \<open>Moving bytes of the local buffer to the caller's buffer at \<open>read\<close>.\<close>

definition recv_copy :: "bytes \<Rightarrow> nat \<Rightarrow> nat \<Rightarrow> 'z smi_link_scheme \<Rightarrow> bytes option" where
  "recv_copy buffer read n s =
     (case local_buffer s of
        None \<Rightarrow> None
      | Some lb \<Rightarrow> Option.bind (mem_read lb (local_buffer_index s) n) (mem_write buffer read))"

definition recv_drain ::
    "bytes \<Rightarrow> nat \<Rightarrow> nat \<Rightarrow> 'z smi_link_scheme \<Rightarrow> (bytes \<times> nat \<times> nat \<times> 'z smi_link_scheme) option" where
  "recv_drain buffer readSize read s =
     (let toRead = c_sub32 (block_size s) (local_buffer_index s)
      in if 0 < toRead
         then map_option (\<lambda>buffer. (buffer, c_sub32 readSize toRead, c_u32 (read + toRead),
                s\<lparr>local_buffer_index := 0\<rparr>)) (recv_copy buffer read toRead s)
         else Some (buffer, readSize, read, s\<lparr>local_buffer_index := 0\<rparr>))"

definition recv_rest ::
    "bytes \<Rightarrow> nat \<Rightarrow> nat \<Rightarrow> 'z smi_link_scheme \<Rightarrow> (bytes \<times> 'z smi_link_scheme) option" where
  "recv_rest buffer readSize read s =
     (if readSize = 0 then Some (buffer, s)
      else map_option (\<lambda>buffer. (buffer,
             s\<lparr>local_buffer_index := c_u32 (local_buffer_index s + readSize)\<rparr>))
             (recv_copy buffer read readSize s))"

fun receive_loop ::
    "nat \<Rightarrow> bytes \<Rightarrow> nat \<Rightarrow> nat \<Rightarrow> u32 \<Rightarrow> 'z smi_link_scheme \<Rightarrow> (int \<times> bytes, 'z smi_link_scheme) run" where
  "receive_loop 0 buffer readSize read blocks s = Hangs s"
| "receive_loop (Suc fuel) buffer readSize read blocks s =
     (if block_size s < c_u32 (local_buffer_index s + readSize) then
        (case recv_drain buffer readSize read s of
           None \<Rightarrow> Fault s
         | Some (buffer, readSize, read, s) \<Rightarrow>
             bind_run (smi_await_used blocks s) (\<lambda>blocks s.
             case smi_copy_in s of
               None \<Rightarrow> Fault s
             | Some s \<Rightarrow>
                 bind_run (smi_release blocks s) (\<lambda>blocks s.
                 receive_loop fuel buffer readSize read blocks s)))
      else
        (case recv_rest buffer readSize read s of
           None \<Rightarrow> Fault s
         | Some (buffer, s) \<Rightarrow> Done (0, buffer) s))"

definition qem_smi_receive ::
    "posix \<Rightarrow> bytes option \<Rightarrow> nat \<Rightarrow> 'z smi_link_scheme \<Rightarrow> (int \<times> bytes, 'z smi_link_scheme) run" where
  "qem_smi_receive os buffer sz s =
     (if error_code s \<noteq> QEM_SMI_CONNECTED then 
        Done (QEM_SMI_NOT_CONNECTED_ERROR, case buffer of None \<Rightarrow> [] | Some buf \<Rightarrow> buf) s
      else case buffer of
             None \<Rightarrow> Done (QEM_SMI_NULL_BUFFER_ERROR, []) s
           | Some buf \<Rightarrow> receive_loop (sz + 2) buf sz 0 (os_stack os (os_now s)) s)"

definition qem_smi_post_server_flush :: "'z smi_link_scheme \<Rightarrow> 'z smi_link_scheme" where
  "qem_smi_post_server_flush s = s\<lparr>local_buffer_index := block_size s\<rparr>"

end
