(* ===== verification/QEM_SMI_Receiver.thy ===== *)
theory QEM_SMI_Receiver
  imports QEM_SMI_Lib
begin

text \<open>
  What \<open>qem_smi_receive\<close> does to the ring: it refines reading bytes from the abstract ring
  of the sender theory, where a block is taken out of its slot when the bytes of the block
  before it are used up.
\<close>

section \<open>The abstract reader\<close>

definition ring_pull :: "ring \<Rightarrow> (bytes, ring) run" where
  "ring_pull r =
     (case slots r ! next_slot r of
        None \<Rightarrow> Blocked r
      | Some b \<Rightarrow> Done b (r\<lparr>slots := (slots r)[next_slot r := None],
                         next_slot := (next_slot r + 1) mod length (slots r)\<rparr>))"

text \<open>\<open>n\<close> bytes are read into \<open>acc\<close>; \<open>pending\<close> are the bytes of the last block not yet read.\<close>

function ring_recv :: "nat \<Rightarrow> bytes \<Rightarrow> nat \<Rightarrow> ring \<Rightarrow> (bytes, ring) run" where
  "ring_recv bz acc n r =
     (if n \<le> length (pending r) then Done (acc @ take n (pending r)) (r\<lparr>pending := drop n (pending r)\<rparr>)
      else case ring_pull (r\<lparr>pending := []\<rparr>) of
             Done b r' \<Rightarrow> if length b \<noteq> bz \<or> bz = 0 then Fault r'
               else ring_recv bz (acc @ pending r) (n - length (pending r)) (r'\<lparr>pending := b\<rparr>)
           | Blocked r' \<Rightarrow> Blocked r'
           | _ \<Rightarrow> Fault r)"
  by pat_completeness auto
termination
  by (relation "measure (\<lambda>(bz, acc, n, r). 2 * n + of_bool (pending r = []))")
    (auto simp: ring_pull_def split: option.splits if_splits)

declare ring_recv.simps [simp del]

definition rlink_mem :: "'z smi_link_scheme \<Rightarrow> bool" where
  "rlink_mem s \<longleftrightarrow> shared_buffer s = Mapped \<and> shared_buffer_data s = (Mapped, 8) \<and>
     smi_geometry (block_count s) (block_size s) (shm s) \<and> next_block s < block_count s \<and>
     (\<exists>lb. local_buffer s = Some lb \<and> block_size s \<le> length lb) \<and>
     local_buffer_index s \<le> block_size s"

definition reader_ring_of :: "'z smi_link_scheme \<Rightarrow> ring" where
  "reader_ring_of s =
     \<lparr>slots = slot_list (block_count s) (block_size s) (shm s), next_slot = next_block s,
      pending = (case local_buffer s of
                   None \<Rightarrow> [] | Some lb \<Rightarrow> drop (local_buffer_index s) (take (block_size s) lb))\<rparr>"

lemma reader_pending:
  assumes "rlink_mem s"
  shows "length (pending (reader_ring_of s)) = block_size s - local_buffer_index s"
    and "local_buffer_index s \<le> block_size s" and "0 < block_size s" and "block_size s < 2 ^ 31"
  using assms smi_geometry_bound
  by (auto simp: reader_ring_of_def rlink_mem_def smi_geometry_def)

section \<open>Steps on the bytes\<close>

lemma await_used_cases:
  assumes "rlink_mem s"
  shows "\<exists>b l. smi_await_used b0 s =
    (if mask_bit (shm s) (next_block s) then Done b (s\<lparr>os_log := l\<rparr>) else Blocked (s\<lparr>os_log := l\<rparr>))"
proof -
  obtain b where "load_blocks b0 (shm s) = Some b" "block_used b (next_block s) = mask_bit (shm s) (next_block s)"
    using load_blocks_used [of "block_count s" "block_size s" "shm s" "next_block s" b0] assms
    by (auto simp: rlink_mem_def)
  then show ?thesis
    using assms by (auto simp: smi_await_used_def smi_load_blocks_def os_do_def rlink_mem_def)
qed

lemma copy_in_effect:
  assumes "rlink_mem s"
  shows "\<exists>lb. smi_copy_in s = Some (s\<lparr>local_buffer := Some lb\<rparr>) \<and>
    take (block_size s) lb = block_bytes (block_size s) (shm s) (next_block s) \<and>
    block_size s \<le> length lb"
proof -
  obtain lb where lb: "local_buffer s = Some lb" "block_size s \<le> length lb"
    using assms by (auto simp: rlink_mem_def)
  have g: "smi_geometry (block_count s) (block_size s) (shm s)" "next_block s < block_count s"
    using assms by (auto simp: rlink_mem_def)
  show ?thesis
    using get_block_ok [OF g] lb assms
    by (auto simp: smi_copy_in_def smi_data_base_def rlink_mem_def mem_write_def)
qed

lemma mark_free_effect:
  assumes "rlink_mem s"
  shows "\<exists>b m. smi_mark_free b0 s = Some (b, s\<lparr>shm := m, next_block := (next_block s + 1) mod block_count s\<rparr>) \<and>
    length m = length (shm s) \<and>
    (\<forall>k < block_count s. mask_bit m k \<longleftrightarrow> mask_bit (shm s) k \<and> k \<noteq> next_block s) \<and>
    (\<forall>k. block_bytes (block_size s) m k = block_bytes (block_size s) (shm s) k)"
proof -
  have g: "smi_geometry (block_count s) (block_size s) (shm s)" "next_block s < block_count s"
    using assms by (auto simp: rlink_mem_def)
  from clear_block_effect [OF g, of b0] obtain b m where
    m: "load_blocks b0 (shm s) = Some b" "store_blocks (clear_block b (next_block s)) (shm s) = Some m"
    "length m = length (shm s)"
    "\<And>k. k < block_count s \<Longrightarrow> mask_bit m k \<longleftrightarrow> mask_bit (shm s) k \<and> k \<noteq> next_block s"
    "\<And>k. block_bytes (block_size s) m k = block_bytes (block_size s) (shm s) k"
    by blast
  have "c_u32 (Suc (next_block s)) = Suc (next_block s)"
    using g by (intro c_u32_small) (auto simp: smi_geometry_def)
  with m assms show ?thesis
    by (auto simp: smi_mark_free_def smi_load_blocks_def smi_store_blocks_def rlink_mem_def)
qed

lemma slot_list_pull:
  assumes "n < bc" and "\<And>k. k < bc \<Longrightarrow> mask_bit m k \<longleftrightarrow> mask_bit m0 k \<and> k \<noteq> n"
    and "\<And>k. block_bytes bz m k = block_bytes bz m0 k"
  shows "slot_list bc bz m = (slot_list bc bz m0)[n := None]"
  using assms by (intro nth_equalityI) (auto simp: nth_list_update)

lemma release_effect:
  assumes "rlink_mem s"
  shows "\<exists>bl l m. smi_release b0 s =
      Done bl (s\<lparr>shm := m, next_block := (next_block s + 1) mod block_count s, os_log := l\<rparr>) \<and>
    rlink_mem (s\<lparr>shm := m, next_block := (next_block s + 1) mod block_count s, os_log := l\<rparr>) \<and>
    slot_list (block_count s) (block_size s) m =
      (slot_list (block_count s) (block_size s) (shm s))[next_block s := None]"
proof -
  let ?s = "s\<lparr>os_log := os_log s @ [MutexLock]\<rparr>"
  have n: "next_block s < block_count s" using assms by (simp add: rlink_mem_def)
  have lm: "rlink_mem ?s" using assms by (simp add: rlink_mem_def)
  obtain bl m where m: "smi_mark_free b0 ?s =
      Some (bl, ?s\<lparr>shm := m, next_block := (next_block s + 1) mod block_count s\<rparr>)"
    "length m = length (shm s)" "\<forall>k < block_count s. mask_bit m k \<longleftrightarrow> mask_bit (shm s) k \<and> k \<noteq> next_block s"
    "\<forall>k. block_bytes (block_size s) m k = block_bytes (block_size s) (shm s) k"
    using mark_free_effect [OF lm, of b0] by auto
  have "slot_list (block_count s) (block_size s) m =
      (slot_list (block_count s) (block_size s) (shm s))[next_block s := None]"
    using m n by (intro slot_list_pull) auto
  moreover have "(next_block s + 1) mod block_count s < block_count s" using n by simp
  ultimately show ?thesis
    using m assms by (auto simp: smi_release_def os_do_def rlink_mem_def smi_geometry_def)
qed


section \<open>Refinement\<close>

text \<open>
  The first \<open>k\<close> bytes of the caller's buffer and the ring. While a call waits, the bytes of
  the local buffer have already been handed out.
\<close>

definition reader_run :: "nat \<Rightarrow> (int \<times> bytes, 'z smi_link_scheme) run \<Rightarrow> (bytes, ring) run" where
  "reader_run k r =
     (case r of
        Done (v, buf) s \<Rightarrow> if v = 0 then Done (take k buf) (reader_ring_of s) else Exited v (reader_ring_of s)
      | Exited v s \<Rightarrow> Exited v (reader_ring_of s)
      | Blocked s \<Rightarrow> Blocked ((reader_ring_of s)\<lparr>pending := []\<rparr>)
      | Fault s \<Rightarrow> Fault (reader_ring_of s)
      | Hangs s \<Rightarrow> Hangs (reader_ring_of s))"

definition rlink_evolves :: "'z smi_link_scheme \<Rightarrow> 'z smi_link_scheme \<Rightarrow> bool" where
  "rlink_evolves s t \<longleftrightarrow> rlink_mem t \<and> (\<exists>lb i m n l. t = s\<lparr>shm := m, local_buffer := lb,
     local_buffer_index := i, next_block := n, os_log := l\<rparr>)"

lemma rlink_evolves_fields:
  assumes "rlink_evolves s t"
  shows "rlink_mem t" "block_count t = block_count s" "block_size t = block_size s"
    "error_code t = error_code s"
  using assms by (auto simp: rlink_evolves_def)

lemma rlink_evolves_trans: "rlink_evolves s t \<Longrightarrow> rlink_evolves t u \<Longrightarrow> rlink_evolves s u"
  by (fastforce simp: rlink_evolves_def)

lemma rlink_evolvesI:
  assumes "rlink_mem (s\<lparr>shm := m, local_buffer := lb, local_buffer_index := i, next_block := n, os_log := l\<rparr>)"
  shows "rlink_evolves s (s\<lparr>shm := m, local_buffer := lb, local_buffer_index := i, next_block := n, os_log := l\<rparr>)"
  using assms unfolding rlink_evolves_def by blast

lemma recv_copy_effect:
  assumes "rlink_mem s" and "local_buffer_index s + n \<le> block_size s" and "rd + n \<le> length buf"
  shows "recv_copy buf rd n s =
    Some (take rd buf @ take n (pending (reader_ring_of s)) @ drop (rd + n) buf)"
proof -
  obtain lb where lb: "local_buffer s = Some lb" "block_size s \<le> length lb"
    using assms(1) by (auto simp: rlink_mem_def)
  then have "take n (drop (local_buffer_index s) lb) =
      take n (drop (local_buffer_index s) (take (block_size s) lb))"
    using assms(2) by (simp add: drop_take)
  then show ?thesis
    using assms lb by (simp add: recv_copy_def reader_ring_of_def mem_read_def mem_write_def min.absorb1)
qed

text \<open>The bytes handed out by one turn of the loop: everything pending.\<close>

lemma recv_drain_effect:
  assumes lm: "rlink_mem s" and sz: "rd + n \<le> length buf" "rd + n < 2 ^ 31"
    and big: "block_size s < local_buffer_index s + n"
  defines "pend \<equiv> pending (reader_ring_of s)"
  shows "\<exists>buf'. recv_drain buf n rd s =
      Some (buf', n - length pend, rd + length pend, s\<lparr>local_buffer_index := 0\<rparr>) \<and>
    length buf' = length buf \<and> take (rd + length pend) buf' = take rd buf @ pend"
proof -
  let ?tr = "block_size s - local_buffer_index s"
  note p = reader_pending [OF lm]
  have tr: "c_sub32 (block_size s) (local_buffer_index s) = ?tr" "c_sub32 n ?tr = n - ?tr"
    "c_u32 (rd + ?tr) = rd + ?tr"
    using p sz big by (simp_all add: c_sub32_small)
  show ?thesis
  proof (cases "?tr = 0")
    case True
    then show ?thesis using p tr by (simp add: recv_drain_def pend_def)
  next
    case False
    have "recv_copy buf rd ?tr s = Some (take rd buf @ take ?tr pend @ drop (rd + ?tr) buf)"
      unfolding pend_def using p sz big by (intro recv_copy_effect [OF lm]) auto
    then show ?thesis
      using False p tr sz big by (simp add: recv_drain_def pend_def)
  qed
qed

lemma recv_turn:
  assumes lm: "rlink_mem s" and sz: "rd + n \<le> length buf" "rd + n < 2 ^ 31"
    and big: "block_size s < local_buffer_index s + n"
  defines "r \<equiv> (reader_ring_of s)\<lparr>pending := []\<rparr>"
  defines "pend \<equiv> pending (reader_ring_of s)"
  shows "(\<exists>t. receive_loop (Suc fuel) buf n rd b s = Blocked t \<and> rlink_evolves s t \<and>
        ring_pull r = Blocked ((reader_ring_of t)\<lparr>pending := []\<rparr>)) \<or>
    (\<exists>bl buf' t blk. receive_loop (Suc fuel) buf n rd b s =
          receive_loop fuel buf' (n - length pend) (rd + length pend) bl t \<and>
        length buf' = length buf \<and> take (rd + length pend) buf' = take rd buf @ pend \<and>
        rlink_evolves s t \<and> ring_pull r = Done blk ((reader_ring_of t)\<lparr>pending := []\<rparr>) \<and>
        pending (reader_ring_of t) = blk \<and> length blk = block_size s \<and> local_buffer_index t = 0)"
proof -
  define s1 where "s1 = s\<lparr>local_buffer_index := 0\<rparr>"
  obtain buf' where fill: "recv_drain buf n rd s = Some (buf', n - length pend, rd + length pend, s1)"
    "length buf' = length buf" "take (rd + length pend) buf' = take rd buf @ pend"
    using recv_drain_effect [OF lm sz big] by (auto simp: s1_def pend_def)
  have s1 [simp]: "block_size s1 = block_size s" "block_count s1 = block_count s" "shm s1 = shm s"
    "next_block s1 = next_block s" "local_buffer_index s1 = 0"
    by (simp_all add: s1_def)
  have small: "c_u32 (local_buffer_index s + n) = local_buffer_index s + n"
    using reader_pending [OF lm] sz by (intro c_u32_small) simp
  have lm1: "rlink_mem s1" using lm by (auto simp: rlink_mem_def s1_def)
  obtain bl l where aw: "smi_await_used b s1 = (if mask_bit (shm s) (next_block s)
      then Done bl (s1\<lparr>os_log := l\<rparr>) else Blocked (s1\<lparr>os_log := l\<rparr>))"
    using await_used_cases [OF lm1, of b] by auto
  have nb: "next_block s < block_count s" using lm by (simp add: rlink_mem_def)
  have lm1l: "rlink_mem (s1\<lparr>os_log := l\<rparr>)" using lm1 by (simp add: rlink_mem_def)
  show ?thesis
  proof (cases "mask_bit (shm s) (next_block s)")
    case False
    then have "receive_loop (Suc fuel) buf n rd b s = Blocked (s1\<lparr>os_log := l\<rparr>)"
      using big small fill aw by simp
    moreover have "rlink_evolves s (s1\<lparr>os_log := l\<rparr>)"
      using lm1l rlink_evolvesI [where s = s and m = "shm s" and lb = "local_buffer s" and i = 0 and n = "next_block s" and l = l] by (simp add: s1_def)
    moreover have "ring_pull r = Blocked ((reader_ring_of (s1\<lparr>os_log := l\<rparr>))\<lparr>pending := []\<rparr>)"
      using False nb by (simp add: ring_pull_def r_def reader_ring_of_def)
    ultimately show ?thesis by blast
  next
    case True
    define blk where "blk = block_bytes (block_size s) (shm s) (next_block s)"
    obtain lb where lb: "smi_copy_in (s1\<lparr>os_log := l\<rparr>) = Some (s1\<lparr>os_log := l, local_buffer := Some lb\<rparr>)"
      "take (block_size s) lb = blk" "block_size s \<le> length lb"
      using copy_in_effect [OF lm1l] by (auto simp: blk_def)
    define s2 where "s2 = s1\<lparr>os_log := l, local_buffer := Some lb\<rparr>"
    have "rlink_mem s2" using lm1 lb by (auto simp: rlink_mem_def s2_def)
    from release_effect [OF this, of bl] obtain bl' l' m where rl: "smi_release bl s2 =
        Done bl' (s2\<lparr>shm := m, next_block := (next_block s + 1) mod block_count s, os_log := l'\<rparr>)"
      "rlink_mem (s2\<lparr>shm := m, next_block := (next_block s + 1) mod block_count s, os_log := l'\<rparr>)"
      "slot_list (block_count s) (block_size s) m =
         (slot_list (block_count s) (block_size s) (shm s))[next_block s := None]"
      by (auto simp: s2_def)
    let ?t = "s2\<lparr>shm := m, next_block := (next_block s + 1) mod block_count s, os_log := l'\<rparr>"
    have "receive_loop (Suc fuel) buf n rd b s =
        receive_loop fuel buf' (n - length pend) (rd + length pend) bl' ?t"
      using big small fill(1) aw True lb(1) rl(1) by (simp add: s2_def)
    moreover
    have t: "?t = s\<lparr>shm := m, local_buffer := Some lb, local_buffer_index := 0,
        next_block := (next_block s + 1) mod block_count s, os_log := l'\<rparr>"
      by (simp add: s2_def s1_def)
    have "rlink_evolves s ?t"
      using rl(2) unfolding t by (rule rlink_evolvesI)
    moreover have "ring_pull r = Done blk ((reader_ring_of ?t)\<lparr>pending := []\<rparr>)"
      using True nb rl(3) by (simp add: ring_pull_def r_def reader_ring_of_def s2_def blk_def)
    moreover have "pending (reader_ring_of ?t) = blk" "length blk = block_size s"
      using lb by (auto simp: reader_ring_of_def s2_def)
    moreover have "local_buffer_index ?t = 0" by (simp add: s2_def)
    ultimately show ?thesis using fill(2,3) by blast
  qed
qed


lemma receive_loop_refines:
  assumes "rlink_mem s" and "rd + n \<le> length buf" and "rd + n < 2 ^ 31"
    and "n + of_bool (local_buffer_index s = block_size s) < fuel"
  shows "reader_run (rd + n) (receive_loop fuel buf n rd b s) =
      ring_recv (block_size s) (take rd buf) n (reader_ring_of s) \<and>
    rlink_evolves s (run_state (receive_loop fuel buf n rd b s))"
  using assms
proof (induction fuel arbitrary: n rd b s buf)
  case 0
  then show ?case by simp
next
  case (Suc fuel)
  let ?bz = "block_size s" and ?i = "local_buffer_index s"
  note lm = Suc.prems(1) and sz = Suc.prems(2,3) and pend = reader_pending [OF Suc.prems(1)]
  have small: "c_u32 (?i + n) = ?i + n" using pend sz by (intro c_u32_small) simp
  show ?case
  proof (cases "?bz < ?i + n")
    case False
    then have cp: "recv_copy buf rd n s =
        Some (take rd buf @ take n (pending (reader_ring_of s)) @ drop (rd + n) buf)"
      using recv_copy_effect [OF lm _ sz(1)] by simp
    have le: "n \<le> length (pending (reader_ring_of s))" using False pend by linarith
    define t where "t = s\<lparr>local_buffer_index := ?i + n\<rparr>"
    obtain lb where lb: "local_buffer s = Some lb" "?bz \<le> length lb" using lm by (auto simp: rlink_mem_def)
    have pt: "reader_ring_of t = (reader_ring_of s)\<lparr>pending := drop n (pending (reader_ring_of s))\<rparr>"
      using lb by (simp add: reader_ring_of_def t_def add.commute)
    have "rlink_mem t" using lm False by (simp add: rlink_mem_def t_def)
    then have ev: "rlink_evolves s t"
      using rlink_evolvesI [where s = s and m = "shm s" and lb = "local_buffer s" and i = "?i + n"
        and n = "next_block s" and l = "os_log s"] by (simp add: t_def)
    have "receive_loop (Suc fuel) buf n rd b s =
        Done (0, take rd buf @ take n (pending (reader_ring_of s)) @ drop (rd + n) buf) t"
      using False small cp sz pend by (auto simp: recv_rest_def t_def)
    then show ?thesis
      using pt ev pend(1) sz le by (subst ring_recv.simps) (simp add: reader_run_def)
  next
    case True
    let ?p = "pending (reader_ring_of s)"
    have unfold: "ring_recv ?bz (take rd buf) n (reader_ring_of s) =
        (case ring_pull ((reader_ring_of s)\<lparr>pending := []\<rparr>) of
           Done b r' \<Rightarrow> if length b \<noteq> ?bz \<or> ?bz = 0 then Fault r'
             else ring_recv ?bz (take rd buf @ ?p) (n - length ?p) (r'\<lparr>pending := b\<rparr>)
         | Blocked r' \<Rightarrow> Blocked r' | _ \<Rightarrow> Fault (reader_ring_of s))"
      using True pend by (subst ring_recv.simps) auto
    from recv_turn [OF lm sz True, of fuel b] show ?thesis
    proof (elim disjE exE conjE)
      fix t
      assume "receive_loop (Suc fuel) buf n rd b s = Blocked t" "rlink_evolves s t"
        "ring_pull ((reader_ring_of s)\<lparr>pending := []\<rparr>) = Blocked ((reader_ring_of t)\<lparr>pending := []\<rparr>)"
      then show ?thesis using unfold by (simp only: run.case) (simp add: reader_run_def)
    next
      fix bl buf' t blk
      assume t: "receive_loop (Suc fuel) buf n rd b s = receive_loop fuel buf' (n - length ?p) (rd + length ?p) bl t"
        "length buf' = length buf" "take (rd + length ?p) buf' = take rd buf @ ?p" "rlink_evolves s t"
        "ring_pull ((reader_ring_of s)\<lparr>pending := []\<rparr>) = Done blk ((reader_ring_of t)\<lparr>pending := []\<rparr>)"
        "pending (reader_ring_of t) = blk" "length blk = ?bz" "local_buffer_index t = 0"
      note f = rlink_evolves_fields [OF t(4)]
      have "n - length ?p + of_bool (local_buffer_index t = block_size t) < fuel"
        using Suc.prems(4) t(8) pend f True by (cases "?i = ?bz") auto
      moreover have len: "rd + length ?p + (n - length ?p) = rd + n" using True pend by simp
      moreover have "ring_recv ?bz (take rd buf) n (reader_ring_of s) =
          ring_recv ?bz (take rd buf @ ?p) (n - length ?p) (reader_ring_of t)"
        using unfold t(5,7) pend(3) unfolding t(6) [symmetric] by simp
      ultimately show ?thesis
        using Suc.IH [OF f(1), of "rd + length ?p" "n - length ?p" buf' bl] t(1-3) sz f(3)
          rlink_evolves_trans [OF t(4)]
        by simp
    qed
  qed
qed

text \<open>A connected receive refines the abstract one; \<open>sz\<close> bytes arrive or the call waits.\<close>

lemma receive_refines:
  assumes "rlink_mem s" and "error_code s = QEM_SMI_CONNECTED" and "sz \<le> length buf" and "sz < 2 ^ 31"
  shows "reader_run sz (qem_smi_receive os (Some buf) sz s) = ring_recv (block_size s) [] sz (reader_ring_of s)"
    and "rlink_evolves s (run_state (qem_smi_receive os (Some buf) sz s))"
  using receive_loop_refines [OF assms(1), of 0 sz buf "sz + 2"] assms
  by (simp_all add: qem_smi_receive_def)

lemma post_server_flush_ring:
  assumes "rlink_mem s"
  shows "reader_ring_of (qem_smi_post_server_flush s) = (reader_ring_of s)\<lparr>pending := []\<rparr>"
    and "rlink_mem (qem_smi_post_server_flush s)"
  using assms by (auto simp: qem_smi_post_server_flush_def reader_ring_of_def rlink_mem_def)

end
