(* ===== verification/QEM_Trace_SMI.thy ===== *)
theory QEM_Trace_SMI
  imports QEM_SMI_Sender
begin

text \<open>
  The Shared Memory Interface back end, \<^verbatim>\<open>qem_trace_smi.c\<close>: a connection made once, a start
  sequence per session (stream version and record size), one record per event and an end
  sequence (a zero record, then a flush). The calls run without a reader here, so the ring
  keeps every block; the contract of a back end is proved for this byte stream.
\<close>

section \<open>Operations\<close>

record smi_tracer = smi_link +
  connected :: u8

text \<open>The first part of \<open>qem_init_tracing\<close>; the result of \<open>qem_smi_client_init\<close> is not looked at.\<close>

definition smi_connect_once :: "posix \<Rightarrow> smi_tracer \<Rightarrow> (unit, smi_tracer) run" where
  "smi_connect_once os s =
     (if connected s = 0 then
        bind_run (qem_smi_client_init os s) (\<lambda>_ s.
        bind_run (qem_smi_client_connect os 1 1000 s) (\<lambda>error s.
        bind_run (exit_if (error \<noteq> 0) ''[QEMU] Error while connecting SMI (step 1)'' error s) (\<lambda>_ s.
        Done () (s\<lparr>connected := 1\<rparr>))))
      else Done () s)"

text \<open>\<open>error = qem_smi_client_send (...); if (error != 0) QEM_TRACE_ERROR (msg, error, 1);\<close>\<close>

definition send_checked :: "string \<Rightarrow> bytes \<Rightarrow> nat \<Rightarrow> smi_tracer \<Rightarrow> (unit, smi_tracer) run" where
  "send_checked msg data sz s =
     bind_run (qem_smi_client_send (Some data) sz s) (\<lambda>error t. exit_if (error \<noteq> 0) msg error t)"

definition smi_qem_init_tracing ::
    "qem_config \<Rightarrow> posix \<Rightarrow> smi_tracer \<Rightarrow> (unit, smi_tracer) run" where
  "smi_qem_init_tracing cfg os s =
     bind_run (smi_connect_once os s) (\<lambda>_ s.
     bind_run (send_checked ''Error while connecting SMI (step 2)''
                 (le_bytes 4 QEM_SMI_STREAM_VERSION) 4 s) (\<lambda>_ s.
     bind_run (send_checked ''Error while connecting SMI (step 3)''
                 (le_bytes 4 (of_nat (sizeof_qem_trace cfg) :: u32)) 4 s) (\<lambda>_ s.
     Done () (QEM_TRACE_INFO ''Init SMI sequence sent'' 0 s))))"

definition smi_qem_close_tracing ::
    "qem_config \<Rightarrow> posix \<Rightarrow> smi_tracer \<Rightarrow> (unit, smi_tracer) run" where
  "smi_qem_close_tracing cfg os s =
     bind_run (send_checked ''Error while closing SMI (step 3)''
                 (replicate (sizeof_qem_trace cfg) 0) (sizeof_qem_trace cfg) s) (\<lambda>_ s.
     bind_run (qem_smi_client_flush os s) (\<lambda>_ s.
     Done () (QEM_TRACE_INFO ''END SMI sequence sent'' 0 s)))"

definition smi_qem_trace_enable ::
    "qem_config \<Rightarrow> posix \<Rightarrow> u8 \<Rightarrow> smi_tracer \<Rightarrow> (unit, smi_tracer) run" where
  "smi_qem_trace_enable cfg os type s =
     (if qem_tracing_state s = type then Done () s
      else bind_run (if qem_tracing_state s = 0 then smi_qem_init_tracing cfg os s else Done () s)
             (\<lambda>_ s. Done () (s\<lparr>qem_tracing_state := type\<rparr>)))"

definition smi_qem_trace_disable ::
    "qem_config \<Rightarrow> posix \<Rightarrow> u8 \<Rightarrow> smi_tracer \<Rightarrow> (unit, smi_tracer) run" where
  "smi_qem_trace_disable cfg os type s =
     (if qem_tracing_state s = 0 then Done () s
      else let s = s\<lparr>qem_tracing_state := qem_tracing_state s AND NOT type\<rparr>
           in if qem_tracing_state s = 0 then smi_qem_close_tracing cfg os s else Done () s)"

definition smi_qem_trace_start_timer :: "u64 \<Rightarrow> smi_tracer \<Rightarrow> (unit, smi_tracer) run" where
  "smi_qem_trace_start_timer now s = Done () (s\<lparr>qem_time_start := now\<rparr>)"

definition smi_qem_trace_get_timer :: "u64 \<Rightarrow> smi_tracer \<Rightarrow> (unit, smi_tracer) run" where
  "smi_qem_trace_get_timer now s =
     Done () (c_printf (''[QEMU] Elapsed time = '' @ dec_nat (unat (now - qem_time_start s)) @
       newline) s)"

definition smi_qem_trace_output ::
    "qem_config \<Rightarrow> out_args \<Rightarrow> smi_tracer \<Rightarrow> (unit, smi_tracer) run" where
  "smi_qem_trace_output cfg a s =
     send_checked ''Could not send trace with SMI'' (record_bytes cfg a) (sizeof_qem_trace cfg) s"

text \<open>The statics at program start, for a configuration of the ring.\<close>

definition smi_start :: "nat \<Rightarrow> nat \<Rightarrow> smi_tracer" where
  "smi_start bc bz =
     \<lparr>console = [], qem_tracing_state = 0, qem_time_start = 0, error_code = QEM_SMI_UNINIT,
      shared_buffer = Null, shared_buffer_data = (Null, 0), shared_buffer_size = 0, shm_fd = -1,
      shm = [], local_buffer = None, local_buffer_index = 0, server_sem = False, client_sem = False,
      mon_lock = MapFailed, mon_lock_fd = -1, cond_read = MapFailed, cond_read_fd = -1,
      cond_write = MapFailed, cond_write_fd = -1, next_block = 0, block_count = bc,
      block_size = bz, os_log = [], connected = 0\<rparr>"

section \<open>The byte stream in the ring\<close>

definition ring_stream :: "ring \<Rightarrow> bytes" where
  "ring_stream r = concat (map (case_option [] id) (slots r)) @ pending r"

text \<open>Without a reader the slots fill up from the first one on.\<close>

definition ring_filled :: "ring \<Rightarrow> bool" where
  "ring_filled r \<longleftrightarrow> (\<exists>bs k. slots r = map Some bs @ replicate k None \<and> slots r \<noteq> [] \<and>
     next_slot r = length bs mod length (slots r))"

lemma ring_filled_pending [simp]: "ring_filled (r\<lparr>pending := p\<rparr>) = ring_filled r"
  by (simp add: ring_filled_def)

lemma ring_push_stream:
  assumes "ring_filled r" and "pending r = []" and "ring_push b r = Done () r'"
  shows "ring_stream r' = ring_stream r @ b \<and> ring_filled r'"
proof -
  from assms(1) obtain bs k where r: "slots r = map Some bs @ replicate k None" "slots r \<noteq> []"
    "next_slot r = length bs mod length (slots r)"
    by (auto simp: ring_filled_def)
  have free: "slots r ! next_slot r = None"
    using assms(3) by (auto simp: ring_push_def split: if_splits)
  have "k \<noteq> 0"
  proof
    assume "k = 0"
    then have "next_slot r = 0" "bs \<noteq> []" using r by auto
    then show False using free r \<open>k = 0\<close> by (cases bs) auto
  qed
  then obtain j where k: "k = Suc j" by (cases k) auto
  have n: "next_slot r = length bs" using r k by simp
  have "r' = \<lparr>slots = map Some (bs @ [b]) @ replicate j None,
      next_slot = length (bs @ [b]) mod length (slots r), pending = []\<rparr>"
    using assms(3) free n by (simp add: ring_push_def r(1) k list_update_append)
  moreover have "length (slots r) = length (map Some (bs @ [b]) @ replicate j None)"
    using r(1) k by simp
  ultimately show ?thesis
    using assms(2) r(1)
    by (simp add: ring_stream_def ring_filled_def)
      (intro exI [of _ "bs @ [b]"] exI [of _ j], simp add: k)
qed

lemma ring_send_stream:
  assumes "ring_filled r" and "ring_send bz data r = Done () r'"
  shows "ring_stream r' = ring_stream r @ data \<and> ring_filled r'"
  using assms
proof (induction bz data r rule: ring_send.induct)
  case (1 bz data r)
  show ?case
  proof (cases "length (pending r @ data) \<le> bz")
    case True
    then show ?thesis
      using "1.prems" by (subst (asm) ring_send.simps) (auto simp: ring_stream_def)
  next
    case False
    with "1.prems"(2) have bz: "bz \<noteq> 0"
      by (subst (asm) ring_send.simps) (auto split: if_splits)
    let ?b = "take bz (pending r @ data)" and ?r = "r\<lparr>pending := []\<rparr>"
    from False bz "1.prems"(2) obtain r1 where r1: "ring_push ?b ?r = Done () r1"
      "ring_send bz (drop bz (pending r @ data)) r1 = Done () r'"
      by (auto simp: ring_send_push bind_run_Done_iff)
    have "ring_filled ?r" using "1.prems"(1) by simp
    from ring_push_stream [OF this _ r1(1)] have p: "ring_stream r1 = ring_stream ?r @ ?b" "ring_filled r1"
      by auto
    from "1.IH" [OF False bz r1(1) p(2) r1(2)] p(1) show ?thesis
      by (simp add: ring_stream_def flip: append_assoc) (metis append_assoc append_take_drop_id drop_append take_append)
  qed
qed

lemma ring_flush_stream:
  assumes "ring_filled r" and "ring_flush bz r = Done () r'"
  shows "prefix (ring_stream r) (ring_stream r') \<and> ring_filled r'"
proof (cases "pending r = []")
  case True
  then show ?thesis using assms by (simp add: ring_flush_def)
next
  case False
  let ?b = "pending r @ replicate (bz - length (pending r)) 0" and ?r = "r\<lparr>pending := []\<rparr>"
  from assms(2) False have "ring_push ?b ?r = Done () r'"
    by (auto simp: ring_flush_def bind_run_Done_iff ring_push_def split: if_splits)
  moreover have "ring_filled ?r" using assms(1) by simp
  ultimately have "ring_stream r' = ring_stream ?r @ ?b" "ring_filled r'"
    using ring_push_stream by fastforce+
  then show ?thesis by (auto simp: ring_stream_def prefix_def)
qed

lemma ring_send_not_fault: "\<not> is_fault (ring_send bz data r)"
proof (induction bz data r rule: ring_send.induct)
  case (1 bz data r)
  then show ?case
    by (subst ring_send.simps) (auto simp: ring_push_def split: run.splits)
qed


section \<open>The link while it is connected\<close>

definition link_ok :: "'z smi_link_scheme \<Rightarrow> bool" where
  "link_ok s \<longleftrightarrow> link_mem s \<and> error_code s = QEM_SMI_CONNECTED \<and> ring_filled (ring_of s)"

definition link_stream :: "'z smi_link_scheme \<Rightarrow> bytes" where
  "link_stream s = ring_stream (ring_of s)"

lemma link_evolves_smi:
  assumes "link_evolves s (t :: smi_tracer)"
  shows "connected t = connected s" "qem_tracing_state t = qem_tracing_state s"
    "error_code t = error_code s" "link_mem t"
  using assms by (auto simp: link_evolves_def)

lemma send_Done:
  assumes "link_ok s" and "sz = length data" and "sz < 2 ^ 31"
    and "qem_smi_client_send (Some data) sz s = Done e t"
  shows "e = 0 \<and> link_ok t \<and> link_evolves s t \<and> link_stream t = link_stream s @ data"
proof -
  have lm: "link_mem s" "error_code s = QEM_SMI_CONNECTED" using assms(1) by (auto simp: link_ok_def)
  have ev: "link_evolves s t"
    using send_refines(2) [OF lm, of sz data] assms by simp
  have "ring_run (Done e t) = ring_send (block_size s) data (ring_of s)"
    using send_refines(1) [OF lm, of sz data] assms by simp
  moreover have "ring_run (Done e t) = (if e = 0 then Done () (ring_of t) else Exited e (ring_of t))"
    by (simp add: ring_run_def)
  moreover have "ring_send bz d r \<noteq> Exited v r'" for bz d r v r'
  proof (induction bz d r rule: ring_send.induct)
    case (1 bz d r)
    then show ?case by (subst ring_send.simps) (auto simp: ring_push_def split: run.splits)
  qed
  ultimately have "e = 0" "ring_send (block_size s) data (ring_of s) = Done () (ring_of t)"
    by (auto split: if_splits) metis+
  then show ?thesis
    using ring_send_stream [of "ring_of s" "block_size s" data "ring_of t"] assms(1) ev
      link_evolves_fields [OF ev]
    by (auto simp: link_ok_def link_stream_def)
qed

lemma send_safe:
  assumes "link_ok s" and "sz = length data" and "sz < 2 ^ 31"
  shows "\<not> is_fault (qem_smi_client_send (Some data) sz s)"
proof
  assume "is_fault (qem_smi_client_send (Some data) sz s)"
  then obtain t where "qem_smi_client_send (Some data) sz s = Fault t"
    by (cases "qem_smi_client_send (Some data) sz s") auto
  then have "ring_send (block_size s) (take sz data) (ring_of s) = Fault (ring_of t)"
    using send_refines(1) [of s sz data] assms by (simp add: link_ok_def ring_run_def)
  then show False using ring_send_not_fault [of "block_size s" "take sz data" "ring_of s"] by simp
qed

lemma flush_Done:
  assumes "link_ok s" and "qem_smi_client_flush os s = Done e t"
  shows "e = 0 \<and> link_ok t \<and> link_evolves s t \<and> prefix (link_stream s) (link_stream t)"
proof -
  have lm: "link_mem s" "error_code s = QEM_SMI_CONNECTED" using assms(1) by (auto simp: link_ok_def)
  have ev: "link_evolves s t" using flush_refines [OF lm, of os] assms by simp
  have "(if e = 0 then Done () (ring_of t) else Exited e (ring_of t)) = ring_flush (block_size s) (ring_of s)"
    using flush_refines [OF lm, of os] assms by (simp add: ring_run_def)
  then have "e = 0" "ring_flush (block_size s) (ring_of s) = Done () (ring_of t)"
    by (auto simp: ring_flush_def ring_push_def split: if_splits)
  then show ?thesis
    using ring_flush_stream [of "ring_of s" "block_size s" "ring_of t"] assms(1) ev
      link_evolves_fields [OF ev]
    by (auto simp: link_ok_def link_stream_def)
qed

lemma flush_safe:
  assumes "link_ok s"
  shows "\<not> is_fault (qem_smi_client_flush os s)"
proof
  assume "is_fault (qem_smi_client_flush os s)"
  then obtain t where "qem_smi_client_flush os s = Fault t"
    by (cases "qem_smi_client_flush os s") auto
  then have "ring_flush (block_size s) (ring_of s) = Fault (ring_of t)"
    using flush_refines [of s os] assms by (simp add: link_ok_def ring_run_def)
  then show False by (auto simp: ring_flush_def ring_push_def split: if_splits)
qed


section \<open>Connection\<close>

text \<open>Waiting for the reader changes the call log and the console only.\<close>

lemma sem_timedwait_loop_log:
  assumes "sem_timedwait_loop os d s = Some y"
  shows "\<exists>l. snd y = s\<lparr>os_log := l\<rparr> \<and> os_open l = os_open (os_log s)"
  using assms
proof (rule sem_timedwait_loop.raw_induct [rotated])
  fix f os d y and s :: "'a smi_link_scheme"
  assume IH: "\<And>os d s y. f os d s = Some y \<Longrightarrow> \<exists>l. snd y = s\<lparr>os_log := l\<rparr> \<and> os_open l = os_open (os_log s)"
    and f: "(let sem_get = os_timedwait os (os_now s);
          s' = os_do (SemTimedwait QEM_SMI_SHARED_SEM_SERVER d sem_get) s
      in if sem_get = -1 \<and> c_errno os s' = EINTR then f os d s' else Some (sem_get, s')) = Some y"
  show "\<exists>l. snd y = s\<lparr>os_log := l\<rparr> \<and> os_open l = os_open (os_log s)"
    using f by (auto simp: Let_def os_do_def split: if_splits dest!: IH)
qed

lemma sem_timedwait_loop_frame:
  "sem_timedwait_loop os d s = Some (r, t) \<Longrightarrow>
     \<exists>l. t = s\<lparr>os_log := l\<rparr> \<and> os_open l = os_open (os_log s)"
  using sem_timedwait_loop_log by fastforce

lemma connect_loop_frame:
  "connect_loop os timeout left attempt g s = Done v t \<Longrightarrow>
     \<exists>l c. t = s\<lparr>os_log := l, console := c\<rparr> \<and> os_open l = os_open (os_log s)"
proof (induction left arbitrary: attempt g s)
  case 0
  then show ?case by (intro exI [of _ "os_log s"] exI [of _ "console s"]) simp
next
  case (Suc left)
  let ?d = "os_clock os (os_now s) + timeout"
  from Suc.prems obtain g' s' where w: "sem_timedwait_loop os ?d s = Some (g', s')"
    by (auto split: option.splits)
  then obtain l where l: "s' = s\<lparr>os_log := l\<rparr>" "os_open l = os_open (os_log s)"
    using sem_timedwait_loop_frame by blast
  show ?case
  proof (cases "g' = 0")
    case True
    then have "t = s'" using Suc.prems w by simp
    then show ?thesis using l by (intro exI [of _ l] exI [of _ "console s"]) simp
  next
    case False
    let ?s = "if attempt = 0 then QEM_TRACE_INFO ''Waiting for client to connect.'' 0 s' else c_printf ''.'' s'"
    have "connect_loop os timeout left (attempt + 1) g' ?s = Done v t"
      using Suc.prems w False by simp
    from Suc.IH [OF this] obtain l2 c where "t = ?s\<lparr>os_log := l2, console := c\<rparr>"
      "os_open l2 = os_open (os_log ?s)" by blast
    then show ?thesis using l
      by (intro exI [of _ l2] exI [of _ c]) (auto simp: QEM_TRACE_INFO_def c_printf_def split: if_splits)
  qed
qed

lemma connect_loop_safe: "\<not> is_fault (connect_loop os timeout left attempt g s)"
  by (induction left arbitrary: attempt g s) (auto split: option.splits)

lemma region_fresh_empty:
  assumes "region_fresh bc bz m" and "smi_geometry bc bz m"
  shows "\<not> mask_bit m k"
proof -
  have "take 2 (drop 2 m) = take 2 (drop 2 (take 8 m))" by (simp add: drop_take)
  then have "take 2 (drop 2 m) = le_bytes 2 (0 :: u32)"
    using assms by (simp add: region_fresh_def numeral_2_eq_2)
  then show ?thesis by (simp add: mask_bit_def numeral_2_eq_2)
qed

text \<open>The handshake word overwrites the start of the first block, not the metadata.\<close>

lemma handshake_region:
  assumes "smi_geometry bc bz m" and "mem_write m 8 bs = Some m'"
  shows "smi_geometry bc bz m'" and "mask_bit m' k = mask_bit m k"
proof -
  have "mem_read m' 2 2 = mem_read m 2 2"
    by (rule mem_read_write_other [OF assms(2)]) simp
  then show "mask_bit m' k = mask_bit m k" "smi_geometry bc bz m'"
    using assms mem_write_length [OF assms(2)]
    by (simp_all add: mem_read_def mask_bit_def smi_geometry_def)
qed


lemma link_ok_fresh:
  assumes "link_mem s" and "error_code s = QEM_SMI_CONNECTED" and "next_block s = 0"
    and "local_buffer_index s = 0" and "\<And>k. \<not> mask_bit (shm s) k"
  shows "link_ok s \<and> link_stream s = []"
proof -
  have "slot_list (block_count s) (block_size s) (shm s) = replicate (block_count s) None"
    using assms(5) by (intro nth_equalityI) auto
  moreover have "0 < block_count s" using assms(1) by (simp add: link_mem_def smi_geometry_def)
  ultimately show ?thesis
    using assms by (auto simp: link_ok_def link_stream_def ring_filled_def ring_stream_def ring_of_def
        split: option.splits intro!: exI [of _ "[] :: bytes list"])
qed

lemma disconnect_not_fault:
  "error_code s \<noteq> QEM_SMI_CONNECTED \<Longrightarrow> \<not> is_fault (qem_smi_client_disconnect os s)"
  using disconnect_unconnected [of s os] by auto

lemma connect_finish_result:
  assumes "error_code s = QEM_SMI_NOT_CONNECTED" and "accounted s" and "link_mem s"
    and "next_block s = 0" and "local_buffer_index s = 0" and "\<And>k. \<not> mask_bit (shm s) k"
  shows "\<exists>e t. connect_finish os a get s = Done e t \<and>
    (e = 0 \<and> link_ok t \<and> link_stream t = [] \<or> e = -1 \<and> link_released t)"
proof -
  define v where "v = (if a \<noteq> 0 then c_printf (''.'' @ newline) s else s)"
  have v: "error_code v \<noteq> QEM_SMI_CONNECTED" "accounted v"
    using assms(1,2) by (auto simp: v_def c_printf_def accounted_def held_def)
  from disconnect_unconnected [OF v(1), of os] v(2) obtain w where
    w: "qem_smi_client_disconnect os v = Done () w" "link_released w"
    by (auto simp: link_released_def)
  let ?t = "(QEM_TRACE_INFO ''SMI Client connected'' 0 v)\<lparr>error_code := QEM_SMI_CONNECTED\<rparr>"
  have "link_ok ?t \<and> link_stream ?t = []"
    by (rule link_ok_fresh) (use assms in \<open>auto simp: v_def QEM_TRACE_INFO_def c_printf_def link_mem_def\<close>)
  then show ?thesis
    using w unfolding connect_finish_def Let_def v_def [symmetric] by (simp add: run_simps)
qed

lemma connect_result:
  assumes "link_ready 0 s"
  shows "\<not> is_fault (qem_smi_client_connect os timeout n s)"
    and "qem_smi_client_connect os timeout n s = Done e t \<Longrightarrow>
      e = 0 \<and> link_ok t \<and> link_stream t = [] \<or> e = -1 \<and> link_released t"
proof -
  have r: "link_mem s" "error_code s = QEM_SMI_NOT_CONNECTED" "next_block s = 0"
    "local_buffer_index s = 0" "accounted s" "region_fresh (block_count s) (block_size s) (shm s)"
    using assms(1) by (auto simp: link_ready_def)
  then have g: "smi_geometry (block_count s) (block_size s) (shm s)" by (simp add: link_mem_def)
  have base: "smi_data_base s = Some 8" using r(1) by (simp add: link_mem_def smi_data_base_def)
  show "\<not> is_fault (qem_smi_client_connect os timeout n s)" and
    "qem_smi_client_connect os timeout n s = Done e t \<Longrightarrow>
      e = 0 \<and> link_ok t \<and> link_stream t = [] \<or> e = -1 \<and> link_released t"
  proof -
    obtain m where m: "mem_write (shm s) 8 (le_bytes 4 QEM_SMI_HANDSHAKE_MAGIC) = Some m"
      using g by (auto simp: mem_write_def smi_geometry_def)
    let ?s = "os_do (SemPost QEM_SMI_SHARED_SEM_CLIENT) (s\<lparr>shm := m\<rparr>)"
    have conn: "qem_smi_client_connect os timeout n s =
        bind_run (connect_loop os timeout n 0 (-1) ?s) (\<lambda>(a, get) s. connect_finish os a get s)"
      using r(2) base m by (simp add: qem_smi_client_connect_def)
    have fin: "\<exists>e t. connect_finish os a get u = Done e t \<and>
        (e = 0 \<and> link_ok t \<and> link_stream t = [] \<or> e = -1 \<and> link_released t)"
      if lp: "connect_loop os timeout n 0 (-1) ?s = Done (a, get) u" for a get u
    proof -
      obtain l c where u: "u = ?s\<lparr>os_log := l, console := c\<rparr>" "os_open l = os_open (os_log ?s)"
        using connect_loop_frame [OF lp] by blast
      show ?thesis
        using r handshake_region [OF g m] region_fresh_empty [OF r(6) g] u(2)
        by (intro connect_finish_result)
          (auto simp: u(1) os_do_def accounted_def held_def link_mem_def)
    qed
    show "\<not> is_fault (qem_smi_client_connect os timeout n s)"
      using conn connect_loop_safe fin by (fastforce simp: is_fault_bind)
    assume "qem_smi_client_connect os timeout n s = Done e t"
    then show "e = 0 \<and> link_ok t \<and> link_stream t = [] \<or> e = -1 \<and> link_released t"
      using conn fin by (fastforce simp: bind_run_Done_iff)
  qed
qed


text \<open>Nothing in the engine ends the process: its error reports are not critical.\<close>

lemma flush_not_exited: "qem_smi_client_flush os s \<noteq> Exited c t"
  by (auto simp: qem_smi_client_flush_def run_simps smi_await_free_def smi_publish_def Let_def
      split: option.splits if_splits)

lemma disconnect_not_exited: "qem_smi_client_disconnect os s \<noteq> Exited c t"
proof (cases "error_code s = QEM_SMI_CONNECTED")
  case True
  then show ?thesis
    using flush_not_exited [of os s]
    by (cases "qem_smi_client_flush os s") (auto simp: qem_smi_client_disconnect_def Let_def)
next
  case False
  then show ?thesis using disconnect_unconnected [of s os] by auto
qed

lemma connect_loop_not_exited: "connect_loop os timeout n a g s \<noteq> Exited c t"
  by (induction n arbitrary: a g s) (auto split: option.splits)

lemma connect_finish_not_exited: "connect_finish os a g s \<noteq> Exited c t"
  unfolding connect_finish_def Let_def
  by (cases "qem_smi_client_disconnect os (if a \<noteq> 0 then c_printf (''.'' @ newline) s else s)")
    (auto simp: run_simps disconnect_not_exited)

lemma connect_not_exited: "qem_smi_client_connect os timeout n s \<noteq> Exited c t"
proof -
  have b: "bind_run (connect_loop os timeout n 0 (-1) s') (\<lambda>(a, g) s. connect_finish os a g s) \<noteq> Exited c t" for s'
    by (cases "connect_loop os timeout n 0 (-1) s'")
      (auto simp: connect_finish_not_exited connect_loop_not_exited)
  have d: "bind_run (qem_smi_client_disconnect os s') (\<lambda>_ s. Done (-1) s) \<noteq> Exited c t" for s'
    by (cases "qem_smi_client_disconnect os s'") (auto simp: disconnect_not_exited)
  show ?thesis
    using b d by (auto simp: qem_smi_client_connect_def QEM_TRACE_ERROR_benign split: option.splits)
qed

section \<open>The contract of a back end\<close>

definition smi_inv :: "smi_tracer \<Rightarrow> bool" where
  "smi_inv s \<longleftrightarrow>
     (if connected s = 0
      then qem_tracing_state s = 0 \<and> no_handles s \<and> accounted s \<and> next_block s = 0 \<and>
           smi_config_ok (block_count s) (block_size s)
      else link_ok s)"

text \<open>Everything sent since the connection was made.\<close>

definition smi_log :: "smi_tracer \<Rightarrow> bytes" where
  "smi_log s = (if connected s = 0 then [] else link_stream s)"

definition start_sequence :: "qem_config \<Rightarrow> bytes" where
  "start_sequence cfg = le_bytes 4 QEM_SMI_STREAM_VERSION @ le_bytes 4 (of_nat (sizeof_qem_trace cfg) :: u32)"

lemma link_ok_frame [simp]:
  "link_ok (s\<lparr>connected := c\<rparr>) = link_ok s" "link_ok (s\<lparr>qem_tracing_state := k\<rparr>) = link_ok s"
  "link_ok (QEM_TRACE_INFO msg code s) = link_ok s"
  by (simp_all add: link_ok_def link_mem_def ring_of_def QEM_TRACE_INFO_def c_printf_def cong: option.case_cong)

lemma link_stream_frame [simp]:
  "link_stream (s\<lparr>connected := c\<rparr>) = link_stream s"
  "link_stream (s\<lparr>qem_tracing_state := k\<rparr>) = link_stream s"
  "link_stream (QEM_TRACE_INFO msg code s) = link_stream s"
  by (simp_all add: link_stream_def ring_of_def QEM_TRACE_INFO_def c_printf_def cong: option.case_cong)

lemma connected_INFO [simp]: "connected (QEM_TRACE_INFO msg code s) = connected s"
  by (simp add: QEM_TRACE_INFO_def c_printf_def)

lemma disconnect_released:
  assumes "link_released s"
  shows "\<exists>t. qem_smi_client_disconnect os s = Done () t \<and> link_released t"
proof -
  have "error_code s \<noteq> QEM_SMI_CONNECTED" using assms by (simp add: link_released_def)
  from disconnect_unconnected [OF this, of os] assms show ?thesis
    by (auto simp: link_released_def)
qed

lemma connect_uninit:
  assumes "link_released s"
  shows "\<exists>t. qem_smi_client_connect os timeout n s = Done (-1) t \<and> link_released t"
proof -
  define v where "v = s\<lparr>console := console s @ ''[QEMERROR] '' @
    ''You must initialize the SMI before calling connect'' @ log_tail 0\<rparr>"
  have "link_released v" using assms by (simp add: v_def)
  from disconnect_released [OF this, of os] obtain t where
    "qem_smi_client_disconnect os v = Done () t" "link_released t" by blast
  moreover have "qem_smi_client_connect os timeout n s =
      bind_run (qem_smi_client_disconnect os v) (\<lambda>_ s. Done (-1) s)"
    using assms by (simp only: qem_smi_client_connect_def QEM_TRACE_ERROR_benign v_def)
      (simp add: link_released_def)
  ultimately show ?thesis by simp
qed

lemma smi_connect_once_result:
  assumes "smi_inv s"
  shows "\<not> is_fault (smi_connect_once os s)"
    and "smi_connect_once os s = Done u t \<Longrightarrow> link_ok t \<and> connected t \<noteq> 0 \<and> link_stream t = smi_log s"
    and "smi_connect_once os s = Exited c t \<Longrightarrow> c = -1 \<and> link_released t"
proof -
  have "\<not> is_fault (smi_connect_once os s) \<and>
      (smi_connect_once os s = Done u t \<longrightarrow> link_ok t \<and> connected t \<noteq> 0 \<and> link_stream t = smi_log s) \<and>
      (smi_connect_once os s = Exited c t \<longrightarrow> c = -1 \<and> link_released t)"
  proof (cases "connected s = 0")
    case False
    then show ?thesis using assms by (auto simp: smi_connect_once_def smi_inv_def smi_log_def)
  next
    case True
    then have pre: "no_handles s" "accounted s" "smi_config_ok (block_count s) (block_size s)"
      "next_block s < block_count s" "next_block s = 0"
      using assms by (auto simp: smi_inv_def smi_config_ok_def)
    from init_result [OF pre(1-4), of os] obtain v s1 where
      i: "qem_smi_client_init os s = Done v s1" "link_ready 0 s1 \<or> link_released s1"
      using pre(5) by (auto simp: setup_result_def split: run.splits)
    define r where "r = qem_smi_client_connect os 1 1000 s1"
    have once: "smi_connect_once os s = bind_run r (\<lambda>error s.
        bind_run (exit_if (error \<noteq> 0) ''[QEMU] Error while connecting SMI (step 1)'' error s) (\<lambda>_ s.
        Done () (s\<lparr>connected := 1\<rparr>)))"
      using True i(1) by (simp add: smi_connect_once_def r_def)
    have rr: "\<not> is_fault r" "\<And>e t. r = Done e t \<Longrightarrow>
        e = 0 \<and> link_ok t \<and> link_stream t = [] \<or> e = -1 \<and> link_released t"
      "\<And>e t. r \<noteq> Exited e t"
      using i(2) connect_result [of s1 os 1 1000] connect_uninit [of s1 os 1 1000]
        connect_not_exited [of os 1 1000 s1]
      unfolding r_def by (metis is_fault.simps(2) run.inject(1))+
    show ?thesis
      using rr True unfolding once
      by (cases r) (auto simp: run_simps smi_log_def)
  qed
  then show "\<not> is_fault (smi_connect_once os s)"
    and "smi_connect_once os s = Done u t \<Longrightarrow> link_ok t \<and> connected t \<noteq> 0 \<and> link_stream t = smi_log s"
    and "smi_connect_once os s = Exited c t \<Longrightarrow> c = -1 \<and> link_released t"
    by blast+
qed


lemma is_fault_bind_unit:
  "is_fault (bind_run m f) \<longleftrightarrow> is_fault m \<or> (\<exists>s. m = Done () s \<and> is_fault (f () s))"
  by (simp add: is_fault_bind)

lemma send_checked_result:
  assumes "link_ok s" and "sz = length data" and "sz < 2 ^ 31"
  shows "\<not> is_fault (send_checked msg data sz s)"
    and "send_checked msg data sz s = Done () t \<Longrightarrow>
      link_ok t \<and> link_evolves s t \<and> link_stream t = link_stream s @ data"
  using send_safe [OF assms] send_Done [OF assms]
  by (auto simp: send_checked_def is_fault_bind bind_run_Done_iff)

lemma sizeof_qem_trace_small: "sizeof_qem_trace cfg < 2 ^ 31" "sizeof_qem_trace cfg \<le> 20" "0 < sizeof_qem_trace cfg"
  by (simp_all add: sizeof_qem_trace_def)

lemma smi_init_result:
  assumes "smi_inv s"
  shows "\<not> is_fault (smi_qem_init_tracing cfg os s)"
    and "smi_qem_init_tracing cfg os s = Done () t \<Longrightarrow>
      link_ok t \<and> connected t \<noteq> 0 \<and> link_stream t = smi_log s @ start_sequence cfg"
proof -
  let ?v = "le_bytes 4 QEM_SMI_STREAM_VERSION" and ?z = "le_bytes 4 (of_nat (sizeof_qem_trace cfg) :: u32)"
  note once = smi_connect_once_result [OF assms]
  have four: "(4 :: nat) = length ?v" "(4 :: nat) = length ?z" "(4 :: nat) < 2 ^ 31" by simp_all
  note v = send_checked_result [OF _ four(1,3)] and z = send_checked_result [OF _ four(2,3)]
  have "\<not> is_fault (bind_run (send_checked m ?z 4 u) (\<lambda>_ s. Done () (f s)))" if "link_ok u" for m u f
    using z(1) [OF that] by (simp only: is_fault_bind) simp
  then have "\<not> is_fault (bind_run (send_checked m ?v 4 u) (\<lambda>_ s.
      bind_run (send_checked m' ?z 4 s) (\<lambda>_ s. Done () (f s))))" if "link_ok u" for m m' u f
    using v [OF that] by (simp only: is_fault_bind_unit [of "send_checked m ?v 4 u"]) blast
  then show "\<not> is_fault (smi_qem_init_tracing cfg os s)"
    unfolding smi_qem_init_tracing_def is_fault_bind_unit [of "smi_connect_once os s"]
    using once(1,2) by blast
  assume "smi_qem_init_tracing cfg os s = Done () t"
  then obtain s1 s2 s3 where st: "smi_connect_once os s = Done () s1"
    "send_checked ''Error while connecting SMI (step 2)'' ?v 4 s1 = Done () s2"
    "send_checked ''Error while connecting SMI (step 3)'' ?z 4 s2 = Done () s3"
    "t = QEM_TRACE_INFO ''Init SMI sequence sent'' 0 s3"
    unfolding smi_qem_init_tracing_def bind_run_Done_iff by auto
  from once(2) [OF st(1)] have 1: "link_ok s1" "connected s1 \<noteq> 0" "link_stream s1 = smi_log s" by auto
  from v(2) [OF 1(1) st(2)] have 2: "link_ok s2" "link_evolves s1 s2" "link_stream s2 = link_stream s1 @ ?v" by auto
  from z(2) [OF 2(1) st(3)] have 3: "link_ok s3" "link_evolves s2 s3" "link_stream s3 = link_stream s2 @ ?z" by auto
  show "link_ok t \<and> connected t \<noteq> 0 \<and> link_stream t = smi_log s @ start_sequence cfg"
    using 1 2 3 st(4) link_evolves_smi(1) [OF 2(2)] link_evolves_smi(1) [OF 3(2)]
    by (simp add: start_sequence_def)
qed

lemma smi_close_result:
  assumes "link_ok s"
  shows "\<not> is_fault (smi_qem_close_tracing cfg os s)"
    and "smi_qem_close_tracing cfg os s = Done () t \<Longrightarrow>
      link_ok t \<and> connected t = connected s \<and> qem_tracing_state t = qem_tracing_state s \<and>
      prefix (link_stream s @ replicate (sizeof_qem_trace cfg) 0) (link_stream t)"
proof -
  let ?z = "replicate (sizeof_qem_trace cfg) (0 :: u8)"
  have z: "sizeof_qem_trace cfg = length ?z" by simp
  note sz = send_checked_result [OF assms z sizeof_qem_trace_small(1)]
  show "\<not> is_fault (smi_qem_close_tracing cfg os s)"
    unfolding smi_qem_close_tracing_def by (auto simp: is_fault_bind sz(1) flush_safe dest!: sz(2))
  assume "smi_qem_close_tracing cfg os s = Done () t"
  then obtain s1 e s2 where st:
    "send_checked ''Error while closing SMI (step 3)'' ?z (sizeof_qem_trace cfg) s = Done () s1"
    "qem_smi_client_flush os s1 = Done e s2" "t = QEM_TRACE_INFO ''END SMI sequence sent'' 0 s2"
    unfolding smi_qem_close_tracing_def bind_run_Done_iff by auto
  from sz(2) [OF st(1)] have 1: "link_ok s1" "link_evolves s s1" "link_stream s1 = link_stream s @ ?z" by auto
  from flush_Done [OF 1(1) st(2)] have 2: "link_ok s2" "link_evolves s1 s2" "prefix (link_stream s1) (link_stream s2)"
    by auto
  show "link_ok t \<and> connected t = connected s \<and> qem_tracing_state t = qem_tracing_state s \<and>
      prefix (link_stream s @ ?z) (link_stream t)"
    using 1 2 st(3) link_evolves_smi [OF 1(2)] link_evolves_smi [OF 2(2)] by simp
qed

lemma smi_output_result:
  assumes "link_ok s"
  shows "\<not> is_fault (smi_qem_trace_output cfg a s)"
    and "smi_qem_trace_output cfg a s = Done () t \<Longrightarrow> link_ok t \<and> connected t = connected s \<and>
      qem_tracing_state t = qem_tracing_state s \<and> link_stream t = link_stream s @ record_bytes cfg a"
  using send_checked_result [OF assms length_record_bytes [symmetric] sizeof_qem_trace_small(1)]
    link_evolves_smi
  by (auto simp: smi_qem_trace_output_def)

lemma smi_inv_connected: "smi_inv s \<Longrightarrow> qem_tracing_state s \<noteq> 0 \<Longrightarrow> link_ok s \<and> connected s \<noteq> 0"
  by (auto simp: smi_inv_def split: if_splits)

lemma smi_enable_result:
  assumes s: "smi_inv s" and t: "t \<noteq> 0" and en: "smi_qem_trace_enable cfg os t s = Done () s'"
  shows "smi_inv s' \<and> qem_tracing_state s' = t \<and> smi_log s' =
    smi_log s @ (if qem_tracing_state s = 0 then start_sequence cfg else [])"
proof -
  consider "qem_tracing_state s = t" "s' = s"
    | s1 where "qem_tracing_state s = 0" "smi_qem_init_tracing cfg os s = Done () s1" "s' = s1\<lparr>qem_tracing_state := t\<rparr>"
    | "qem_tracing_state s \<noteq> 0" "s' = s\<lparr>qem_tracing_state := t\<rparr>"
    using en by (auto simp: smi_qem_trace_enable_def bind_run_Done_iff split: if_splits)
  then show ?thesis
  proof cases
    case 1
    then show ?thesis using s t by simp
  next
    case 2
    from smi_init_result(2) [OF s 2(2)] 2 show ?thesis by (simp add: smi_inv_def smi_log_def)
  next
    case 3
    from smi_inv_connected [OF s 3(1)] 3 show ?thesis by (simp add: smi_inv_def smi_log_def)
  qed
qed

lemma smi_disable_result:
  assumes s: "smi_inv s" and dis: "smi_qem_trace_disable cfg os t s = Done () s'"
  shows "smi_inv s' \<and> qem_tracing_state s' = qem_tracing_state s AND NOT t \<and> prefix (smi_log s) (smi_log s')"
proof (cases "qem_tracing_state s = 0")
  case True
  then show ?thesis using s dis by (simp add: smi_qem_trace_disable_def)
next
  case False
  define k where "k = qem_tracing_state s AND NOT t"
  define s1 where "s1 = s\<lparr>qem_tracing_state := k\<rparr>"
  have k: "qem_tracing_state s1 = k" by (simp add: s1_def)
  have dis1: "(if k = 0 then smi_qem_close_tracing cfg os s1 else Done () s1) = Done () s'"
    using dis False unfolding smi_qem_trace_disable_def Let_def s1_def k_def by simp
  have ok: "link_ok s1" "connected s1 \<noteq> 0" "smi_log s = link_stream s1"
    using smi_inv_connected [OF s False] by (simp_all add: s1_def smi_log_def)
  have "link_ok s' \<and> connected s' = connected s1 \<and> qem_tracing_state s' = k \<and>
      prefix (link_stream s1) (link_stream s')"
  proof (cases "k = 0")
    case True
    then have "smi_qem_close_tracing cfg os s1 = Done () s'" using dis1 by simp
    from smi_close_result(2) [OF ok(1) this] k show ?thesis by (blast dest: append_prefixD)
  next
    case False
    then show ?thesis using dis1 ok k by simp
  qed
  then show ?thesis using ok unfolding smi_inv_def smi_log_def k_def by simp
qed

lemma smi_disable_safe:
  assumes "smi_inv s"
  shows "\<not> is_fault (smi_qem_trace_disable cfg os t s)"
proof (cases "qem_tracing_state s = 0")
  case False
  from smi_inv_connected [OF assms this] have "link_ok (s\<lparr>qem_tracing_state := k\<rparr>)" for k by simp
  from smi_close_result(1) [OF this] show ?thesis
    unfolding smi_qem_trace_disable_def Let_def by simp
qed (simp add: smi_qem_trace_disable_def)

interpretation smi_backend: trace_backend
  "smi_qem_trace_enable cfg os" "smi_qem_trace_disable cfg os" "smi_qem_trace_output cfg"
  qem_tracing_state smi_inv smi_log "record_bytes cfg" for cfg os
proof unfold_locales
  fix s s' t
  assume s: "smi_inv s" "t \<noteq> 0" "smi_qem_trace_enable cfg os t s = Done () s'"
  show "smi_inv s'" "qem_tracing_state s' = t" "prefix (smi_log s) (smi_log s')"
    using smi_enable_result [OF s] by simp_all
next
  fix s s' t
  assume s: "smi_inv s" "smi_qem_trace_disable cfg os t s = Done () s'"
  show "smi_inv s'" "qem_tracing_state s' = qem_tracing_state s AND NOT t"
    "prefix (smi_log s) (smi_log s')"
    using smi_disable_result [OF s] by simp_all
next
  fix s t
  assume "smi_inv s"
  then show "\<not> is_fault (smi_qem_trace_disable cfg os t s)" by (rule smi_disable_safe)
next
  fix s s' a
  assume s: "smi_inv s" "qem_tracing_state s \<noteq> 0" and out: "smi_qem_trace_output cfg a s = Done () s'"
  have ok: "link_ok s" "connected s \<noteq> 0" using smi_inv_connected [OF s] by simp_all
  from smi_output_result(2) [OF ok(1) out] ok(2)
  show "smi_inv s'" "qem_tracing_state s' = qem_tracing_state s" "smi_log s' = smi_log s @ record_bytes cfg a"
    by (simp_all add: smi_inv_def smi_log_def)
next
  fix s a
  assume s: "smi_inv s" "qem_tracing_state s \<noteq> 0"
  then have "link_ok s" using smi_inv_connected by simp
  then show "\<not> is_fault (smi_qem_trace_output cfg a s)" by (rule smi_output_result(1))
qed

end
