(* ===== verification/QEM_Trace_File_MT.thy ===== *)
theory QEM_Trace_File_MT
  imports QEM_Trace_File
begin

text \<open>
  The file back end with two buffers and a writer thread, \<^verbatim>\<open>qem_trace_file_mt_buff.c\<close>.
  When the current buffer is full, the emulator waits for the semaphore, starts a thread that
  writes the full buffer and goes on with the other one; the thread posts the semaphore at its
  end. The threads run at any time between the steps of the emulator. The main result is that
  the file of a session is the one the back end with one buffer writes, for every
  interleaving.
\<close>

section \<open>State and operations\<close>

text \<open>The results of the calls of the thread library, by the number of the call.\<close>

record mt_io =
  mt_libc :: libc_io
  mt_sem_init :: "nat \<Rightarrow> int"
  mt_sem_wait :: "nat \<Rightarrow> int"
  mt_sem_post :: "nat \<Rightarrow> int"
  mt_create :: "nat \<Rightarrow> int"
  mt_detach :: "nat \<Rightarrow> int"

definition mt_reliable :: "mt_io \<Rightarrow> bool" where
  "mt_reliable io \<longleftrightarrow> io_reliable (mt_libc io) \<and> (\<forall>n. mt_sem_init io n = 0) \<and>
     (\<forall>n. mt_sem_wait io n = 0) \<and> (\<forall>n. mt_sem_post io n = 0) \<and> (\<forall>n. mt_create io n = 0) \<and>
     (\<forall>n. mt_detach io n = 0)"

definition good_mt_io :: mt_io where
  "good_mt_io = \<lparr>mt_libc = good_io, mt_sem_init = (\<lambda>_. 0), mt_sem_wait = (\<lambda>_. 0),
     mt_sem_post = (\<lambda>_. 0), mt_create = (\<lambda>_. 0), mt_detach = (\<lambda>_. 0)\<rparr>"

text \<open>
  A writer thread: the buffer it was started for and the part of \<open>qem_trace_flush_routine\<close>
  it has reached.
\<close>

datatype mt_stage = Job_Write | Job_Count | Job_Clear | Job_Post

record mt_tracer = stdio +
  qem_trace_current_buffer :: nat
  qem_trace_buffer_sizes :: "nat list"
  mt_buffers :: "bytes list"
  mt_file_size :: u64
  qem_trace_buffer_sync :: nat
  qem_trace_buffer_sync_init :: u8
  mt_file_index :: u32
  mt_jobs :: "(nat \<times> mt_stage) list"

text \<open>\<open>sem_wait\<close> and \<open>sem_post\<close> with the check that follows each of them.\<close>

definition mt_wait :: "mt_io \<Rightarrow> mt_tracer \<Rightarrow> (unit, mt_tracer) run" where
  "mt_wait io s =
     (let r = mt_sem_wait io (io_calls s)
      in if r = 0 \<and> qem_trace_buffer_sync s = 0 then Blocked s
         else exit_if (r \<noteq> 0) ''Could not get synchronization semaphore'' r
           (s\<lparr>qem_trace_buffer_sync := qem_trace_buffer_sync s - (if r = 0 then 1 else 0),
              io_calls := Suc (io_calls s)\<rparr>))"

definition mt_post :: "mt_io \<Rightarrow> mt_tracer \<Rightarrow> (unit, mt_tracer) run" where
  "mt_post io s =
     (let r = mt_sem_post io (io_calls s)
      in exit_if (r \<noteq> 0) ''Could not post synchronization semaphore'' r
           (s\<lparr>qem_trace_buffer_sync := qem_trace_buffer_sync s + (if r = 0 then 1 else 0),
              io_calls := Suc (io_calls s)\<rparr>))"

definition mt_qem_write_header ::
    "mt_io \<Rightarrow> u64 \<Rightarrow> u32 \<Rightarrow> u32 \<Rightarrow> mt_tracer \<Rightarrow> (unit, mt_tracer) run" where
  "mt_qem_write_header io fsize trace_size trace_version s =
     (let header = \<lparr>hdr_size = fsize, hdr_struct_size = ucast trace_size,
                    hdr_version = ucast trace_version, hdr_reserved = replicate 5 0\<rparr>
      in bind_run (c_fseek_set (mt_libc io) 0 s) (\<lambda>error s.
         bind_run (exit_if (error \<noteq> 0) ''Could not set the header marker'' error s) (\<lambda>_ s.
         bind_run (mt_wait io s) (\<lambda>_ s.
         bind_run (c_fwrite (mt_libc io) (header_bytes header) sizeof_qem_trace_header 1 s) (\<lambda>error s.
         bind_run (exit_if (error \<noteq> 1) ''Could not write the header'' (int error) s) (\<lambda>_ s.
         mt_post io (s\<lparr>qem_trace_buffer_sizes :=
           (qem_trace_buffer_sizes s)[qem_trace_current_buffer s := 0]\<rparr>)))))))"

definition mt_sync_start :: "mt_io \<Rightarrow> mt_tracer \<Rightarrow> (unit, mt_tracer) run" where
  "mt_sync_start io s =
     (if qem_trace_buffer_sync_init s = 0 then
        let r = mt_sem_init io (io_calls s)
        in exit_if (r \<noteq> 0) ''Could not initialize synchronization semaphore'' r
             (s\<lparr>qem_trace_buffer_sync := (if r = 0 then 1 else qem_trace_buffer_sync s),
                io_calls := Suc (io_calls s)\<rparr>)
      else Done () s)"

definition mt_qem_init_tracing :: "qem_config \<Rightarrow> mt_io \<Rightarrow> mt_tracer \<Rightarrow> (unit, mt_tracer) run" where
  "mt_qem_init_tracing cfg io s =
     (let filename = trace_file_name (mt_file_index s);
          s = s\<lparr>mt_file_index := mt_file_index s + 1\<rparr>
      in if 23 < length filename + 1 then Fault s
         else
           bind_run (c_fopen_wb (mt_libc io) filename (c_remove filename s)) (\<lambda>error s.
           bind_run (exit_if (error \<noteq> 0) ''Could not create or open the trace file'' error s) (\<lambda>_ s.
           bind_run (mt_sync_start io s) (\<lambda>_ s.
           bind_run (mt_qem_write_header io 0 (of_nat (sizeof_qem_trace cfg)) 1 s) (\<lambda>_ s.
           Done () (QEM_TRACE_INFO filename 0 (QEM_TRACE_INFO ''==== Trace file name'' 0
             (s\<lparr>mt_file_size := of_nat (sizeof_qem_trace cfg)\<rparr>))))))))"

text \<open>Writing the buffer \<open>b\<close>, as the closing of a session and the thread do.\<close>

definition mt_write_buffer :: "qem_config \<Rightarrow> mt_io \<Rightarrow> nat \<Rightarrow> mt_tracer \<Rightarrow> (unit, mt_tracer) run" where
  "mt_write_buffer cfg io b s =
     (if b < length (mt_buffers s) \<and> b < length (qem_trace_buffer_sizes s) then
        bind_run (c_fwrite (mt_libc io) (mt_buffers s ! b) (sizeof_qem_trace cfg)
                    (qem_trace_buffer_sizes s ! b) s) (\<lambda>error t.
        exit_if (error \<noteq> qem_trace_buffer_sizes s ! b) ''Could not flush trace buffer'' (int error) t)
      else Fault s)"

definition mt_count :: "qem_config \<Rightarrow> nat \<Rightarrow> mt_tracer \<Rightarrow> mt_tracer" where
  "mt_count cfg b s =
     s\<lparr>mt_file_size := mt_file_size s + of_nat (qem_trace_buffer_sizes s ! b * sizeof_qem_trace cfg)\<rparr>"

definition mt_clear :: "nat \<Rightarrow> mt_tracer \<Rightarrow> mt_tracer" where
  "mt_clear b s = s\<lparr>qem_trace_buffer_sizes := (qem_trace_buffer_sizes s)[b := 0]\<rparr>"

definition mt_qem_close_tracing :: "qem_config \<Rightarrow> mt_io \<Rightarrow> mt_tracer \<Rightarrow> (unit, mt_tracer) run" where
  "mt_qem_close_tracing cfg io s =
     bind_run (mt_wait io s) (\<lambda>_ s.
     bind_run
       (if qem_trace_buffer_sizes s ! qem_trace_current_buffer s \<noteq> 0 then
          bind_run (mt_write_buffer cfg io (qem_trace_current_buffer s) s) (\<lambda>_ s.
          Done () (mt_clear (qem_trace_current_buffer s) (mt_count cfg (qem_trace_current_buffer s) s)))
        else Done () s) (\<lambda>_ s.
     bind_run (mt_post io s) (\<lambda>_ s.
     bind_run (mt_qem_write_header io (mt_file_size s) (of_nat (sizeof_qem_trace cfg)) 1 s) (\<lambda>_ s.
     bind_run (c_fclose (mt_libc io) s) (\<lambda>r t.
     if r < 0 then QEM_TRACE_ERROR ''Error while closing the trace file'' (io_errno (mt_libc io) (io_calls s)) 0 t
     else Done () (QEM_TRACE_INFO ''Trace file saved'' 0 t))))))"

text \<open>One part of \<open>qem_trace_flush_routine\<close> for the thread at place \<open>k\<close>.\<close>

definition mt_flush_routine :: "qem_config \<Rightarrow> mt_io \<Rightarrow> nat \<Rightarrow> mt_tracer \<Rightarrow> (unit, mt_tracer) run" where
  "mt_flush_routine cfg io k s =
     (case mt_jobs s ! k of
        (b, Job_Write) \<Rightarrow> bind_run (mt_write_buffer cfg io b s) (\<lambda>_ s.
          Done () (s\<lparr>mt_jobs := (mt_jobs s)[k := (b, Job_Count)]\<rparr>))
      | (b, Job_Count) \<Rightarrow> Done () ((mt_count cfg b s)\<lparr>mt_jobs := (mt_jobs s)[k := (b, Job_Clear)]\<rparr>)
      | (b, Job_Clear) \<Rightarrow> Done () ((mt_clear b s)\<lparr>mt_jobs := (mt_jobs s)[k := (b, Job_Post)]\<rparr>)
      | (b, Job_Post) \<Rightarrow> bind_run (mt_post io s) (\<lambda>_ s.
          Done () (s\<lparr>mt_jobs := take k (mt_jobs s) @ drop (Suc k) (mt_jobs s)\<rparr>)))"

definition mt_qem_trace_enable :: "qem_config \<Rightarrow> mt_io \<Rightarrow> u8 \<Rightarrow> mt_tracer \<Rightarrow> (unit, mt_tracer) run" where
  "mt_qem_trace_enable cfg io type s =
     (if qem_tracing_state s = type then Done () s
      else bind_run (if qem_tracing_state s = 0 then mt_qem_init_tracing cfg io s else Done () s)
             (\<lambda>_ s. Done () (s\<lparr>qem_tracing_state := type\<rparr>)))"

definition mt_qem_trace_disable :: "qem_config \<Rightarrow> mt_io \<Rightarrow> u8 \<Rightarrow> mt_tracer \<Rightarrow> (unit, mt_tracer) run" where
  "mt_qem_trace_disable cfg io type s =
     (if qem_tracing_state s = 0 then Done () s
      else let s' = s\<lparr>qem_tracing_state := qem_tracing_state s AND NOT type\<rparr>
           in if qem_tracing_state s' = 0 then mt_qem_close_tracing cfg io s' else Done () s')"

definition mt_qem_trace_start_timer :: "u64 \<Rightarrow> mt_tracer \<Rightarrow> (unit, mt_tracer) run" where
  "mt_qem_trace_start_timer now s = Done () (s\<lparr>qem_time_start := now\<rparr>)"

definition mt_qem_trace_get_timer :: "u64 \<Rightarrow> mt_tracer \<Rightarrow> (unit, mt_tracer) run" where
  "mt_qem_trace_get_timer now s =
     Done () (c_printf (''[QEMU] Elapsed time = '' @ dec_nat (unat (now - qem_time_start s)) @
       newline) s)"

text \<open>The two parts of \<open>qem_trace_output\<close>: the change of buffers and the store of the record.\<close>

definition mt_swap :: "qem_config \<Rightarrow> mt_io \<Rightarrow> mt_tracer \<Rightarrow> (unit, mt_tracer) run" where
  "mt_swap cfg io s =
     (if qem_trace_buffer_sizes s ! qem_trace_current_buffer s = QEM_TRACE_BUFFER_SIZE cfg then
        let last_buffer = qem_trace_current_buffer s
        in bind_run (mt_wait io s) (\<lambda>_ s.
           let r = mt_create io (io_calls s); d = mt_detach io (Suc (io_calls s))
           in bind_run (exit_if (r \<noteq> 0) ''Could not create flush trace thread'' r s) (\<lambda>_ s.
              bind_run (exit_if (d \<noteq> 0) ''Could not detach flush trace thread'' d s) (\<lambda>_ s.
              Done () (s\<lparr>mt_jobs := mt_jobs s @ [(last_buffer, Job_Write)],
                         qem_trace_current_buffer := (qem_trace_current_buffer s + 1) mod 2,
                         io_calls := Suc (Suc (io_calls s))\<rparr>))))
      else Done () s)"

definition mt_store :: "qem_config \<Rightarrow> out_args \<Rightarrow> mt_tracer \<Rightarrow> (unit, mt_tracer) run" where
  "mt_store cfg a s =
     (let c = qem_trace_current_buffer s; offset = qem_trace_buffer_sizes s ! c * sizeof_qem_trace cfg
      in case mem_write (mt_buffers s ! c) offset (record_bytes cfg a) of
           None \<Rightarrow> Fault s
         | Some b \<Rightarrow> Done () (s\<lparr>mt_buffers := (mt_buffers s)[c := b],
             qem_trace_buffer_sizes := (qem_trace_buffer_sizes s)[c := c_u32 (qem_trace_buffer_sizes s ! c + 1)]\<rparr>))"

definition mt_qem_trace_output :: "qem_config \<Rightarrow> mt_io \<Rightarrow> out_args \<Rightarrow> mt_tracer \<Rightarrow> (unit, mt_tracer) run" where
  "mt_qem_trace_output cfg io a s = bind_run (mt_swap cfg io s) (\<lambda>_. mt_store cfg a)"

definition mt_start :: "qem_config \<Rightarrow> (string \<Rightarrow> bytes option) \<Rightarrow> mt_tracer" where
  "mt_start cfg files =
     \<lparr>console = [], qem_tracing_state = 0, qem_time_start = 0, fs = files,
      qem_trace_file_fd = None, io_calls = 0, qem_trace_current_buffer = 0,
      qem_trace_buffer_sizes = [0, 0],
      mt_buffers = replicate 2 (replicate (QEM_TRACE_BUFFER_SIZE cfg * sizeof_qem_trace cfg) 0),
      mt_file_size = 0, qem_trace_buffer_sync = 0, qem_trace_buffer_sync_init = 0,
      mt_file_index = 0, mt_jobs = []\<rparr>"

section \<open>The interleavings\<close>

text \<open>
  What the emulator has still to do: start and stop commands, guest events (a class and a
  record), and the second half of an output.
\<close>

datatype mt_cmd = Enable u8 | Event u8 out_args | Store out_args | Disable u8

inductive mt_step ::
    "qem_config \<Rightarrow> mt_io \<Rightarrow> mt_cmd list \<times> mt_tracer \<Rightarrow> mt_cmd list \<times> mt_tracer \<Rightarrow> bool"
  for cfg :: qem_config and io :: mt_io where
  enable: "mt_qem_trace_enable cfg io t s = Done () s' \<Longrightarrow> mt_step cfg io (Enable t # cs, s) (cs, s')"
| ignore: "qem_tracing_state s AND k = 0 \<Longrightarrow> mt_step cfg io (Event k a # cs, s) (cs, s)"
| swap: "qem_tracing_state s AND k \<noteq> 0 \<Longrightarrow> mt_swap cfg io s = Done () s' \<Longrightarrow>
    mt_step cfg io (Event k a # cs, s) (Store a # cs, s')"
| store: "mt_store cfg a s = Done () s' \<Longrightarrow> mt_step cfg io (Store a # cs, s) (cs, s')"
| disable: "mt_qem_trace_disable cfg io t s = Done () s' \<Longrightarrow> mt_step cfg io (Disable t # cs, s) (cs, s')"
| worker: "k < length (mt_jobs s) \<Longrightarrow> mt_flush_routine cfg io k s = Done () s' \<Longrightarrow>
    mt_step cfg io (cs, s) (cs, s')"

section \<open>Invariant of a session\<close>

text \<open>The bytes a thread has still to write, and to count.\<close>

definition mt_unwritten :: "mt_tracer \<Rightarrow> bytes" where
  "mt_unwritten s = concat (map (\<lambda>j. if snd j = Job_Write then mt_buffers s ! fst j else []) (mt_jobs s))"

definition mt_uncounted :: "qem_config \<Rightarrow> mt_tracer \<Rightarrow> nat" where
  "mt_uncounted cfg s =
     (if \<exists>j \<in> set (mt_jobs s). snd j = Job_Count then QEM_TRACE_BUFFER_SIZE cfg * sizeof_qem_trace cfg else 0)"

definition mt_buffered :: "qem_config \<Rightarrow> mt_tracer \<Rightarrow> bytes" where
  "mt_buffered cfg s = take (qem_trace_buffer_sizes s ! qem_trace_current_buffer s * sizeof_qem_trace cfg)
     (mt_buffers s ! qem_trace_current_buffer s)"

definition mt_shape :: "qem_config \<Rightarrow> mt_tracer \<Rightarrow> bool" where
  "mt_shape cfg s \<longleftrightarrow>
     0 < QEM_TRACE_BUFFER_SIZE cfg \<and> QEM_TRACE_BUFFER_SIZE cfg < 2 ^ 31 \<and>
     length (mt_buffers s) = 2 \<and> length (qem_trace_buffer_sizes s) = 2 \<and>
     (\<forall>b < 2. length (mt_buffers s ! b) = QEM_TRACE_BUFFER_SIZE cfg * sizeof_qem_trace cfg) \<and>
     qem_trace_current_buffer s < 2 \<and>
     qem_trace_buffer_sizes s ! qem_trace_current_buffer s \<le> QEM_TRACE_BUFFER_SIZE cfg \<and>
     qem_trace_buffer_sync_init s = 0"

text \<open>
  The semaphore is 1 and no thread runs, or it is 0 and one thread runs, for the buffer that
  is not the current one.
\<close>

definition mt_sync :: "qem_config \<Rightarrow> mt_tracer \<Rightarrow> bool" where
  "mt_sync cfg s \<longleftrightarrow>
     (let other = 1 - qem_trace_current_buffer s
      in mt_jobs s = [] \<and> qem_trace_buffer_sync s = 1 \<and> qem_trace_buffer_sizes s ! other = 0 \<or>
         (\<exists>st. mt_jobs s = [(other, st)] \<and> qem_trace_buffer_sync s = 0 \<and>
            qem_trace_buffer_sizes s ! other = (if st = Job_Post then 0 else QEM_TRACE_BUFFER_SIZE cfg)))"

text \<open>The file of the session, with the bytes recorded so far.\<close>

definition mt_file :: "qem_config \<Rightarrow> string \<Rightarrow> bytes \<Rightarrow> mt_tracer \<Rightarrow> bool" where
  "mt_file cfg name recs s \<longleftrightarrow>
     (\<exists>d. fs s name = Some d \<and> qem_trace_file_fd s = Some (name, length d) \<and>
        sizeof_qem_trace_header \<le> length d \<and>
        payload d @ mt_unwritten s @ mt_buffered cfg s = recs \<and>
        mt_file_size s + of_nat (mt_uncounted cfg s) = of_nat (sizeof_qem_trace cfg + length (payload d)))"

definition mt_session :: "qem_config \<Rightarrow> string \<Rightarrow> bytes \<Rightarrow> mt_tracer \<Rightarrow> bool" where
  "mt_session cfg name recs s \<longleftrightarrow> mt_shape cfg s \<and> mt_sync cfg s \<and> mt_file cfg name recs s"

lemma mt_write_Done:
  assumes "fs s name = Some d" and "qem_trace_file_fd s = Some (name, length d)"
    and "b < length (mt_buffers s)" and "b < length (qem_trace_buffer_sizes s)"
    and "qem_trace_buffer_sizes s ! b * sizeof_qem_trace cfg \<le> length (mt_buffers s ! b)"
  defines "bs \<equiv> take (qem_trace_buffer_sizes s ! b * sizeof_qem_trace cfg) (mt_buffers s ! b)"
  shows "mt_write_buffer cfg io b s = Done () t \<Longrightarrow>
      t = s\<lparr>fs := (fs s)(name := Some (d @ bs)), qem_trace_file_fd := Some (name, length (d @ bs)),
            io_calls := Suc (io_calls s)\<rparr>"
    and "mt_reliable io \<Longrightarrow> \<exists>t. mt_write_buffer cfg io b s = Done () t"
  using assms
  by (auto simp: mt_write_buffer_def c_fwrite_open bind_run_Done_iff mt_reliable_def io_reliable_def run_simps)

lemma mt_frame [simp]:
  "mt_unwritten (s\<lparr>qem_trace_buffer_sync := n\<rparr>) = mt_unwritten s"
  "mt_unwritten (s\<lparr>io_calls := n\<rparr>) = mt_unwritten s"
  "mt_unwritten (s\<lparr>qem_tracing_state := st\<rparr>) = mt_unwritten s"
  "mt_uncounted cfg (s\<lparr>qem_trace_buffer_sync := n\<rparr>) = mt_uncounted cfg s"
  "mt_uncounted cfg (s\<lparr>io_calls := n\<rparr>) = mt_uncounted cfg s"
  "mt_uncounted cfg (s\<lparr>qem_tracing_state := st\<rparr>) = mt_uncounted cfg s"
  "mt_buffered cfg (s\<lparr>qem_trace_buffer_sync := n\<rparr>) = mt_buffered cfg s"
  "mt_buffered cfg (s\<lparr>io_calls := n\<rparr>) = mt_buffered cfg s"
  "mt_buffered cfg (s\<lparr>qem_tracing_state := st\<rparr>) = mt_buffered cfg s"
  by (simp_all add: mt_unwritten_def mt_uncounted_def mt_buffered_def cong: if_cong)

lemma mt_uncounted_cases [simp]:
  "mt_jobs s = [] \<Longrightarrow> mt_uncounted cfg s = 0"
  "mt_jobs s = [(b, Job_Write)] \<Longrightarrow> mt_uncounted cfg s = 0"
  "mt_jobs s = [(b, Job_Count)] \<Longrightarrow> mt_uncounted cfg s = QEM_TRACE_BUFFER_SIZE cfg * sizeof_qem_trace cfg"
  "mt_jobs s = [(b, Job_Clear)] \<Longrightarrow> mt_uncounted cfg s = 0"
  "mt_jobs s = [(b, Job_Post)] \<Longrightarrow> mt_uncounted cfg s = 0"
  by (simp_all add: mt_uncounted_def)

lemma mt_unwritten_cases [simp]:
  "mt_jobs s = [] \<Longrightarrow> mt_unwritten s = []"
  "mt_jobs s = [(b, Job_Write)] \<Longrightarrow> mt_unwritten s = mt_buffers s ! b"
  "mt_jobs s = [(b, Job_Count)] \<Longrightarrow> mt_unwritten s = []"
  "mt_jobs s = [(b, Job_Clear)] \<Longrightarrow> mt_unwritten s = []"
  "mt_jobs s = [(b, Job_Post)] \<Longrightarrow> mt_unwritten s = []"
  by (simp_all add: mt_unwritten_def)

lemma payload_append: "sizeof_qem_trace_header \<le> length d \<Longrightarrow> payload (d @ bs) = payload d @ bs"
  by (simp add: payload_def)

lemma mt_current_cases: "mt_shape cfg s \<Longrightarrow> qem_trace_current_buffer s = 0 \<or> qem_trace_current_buffer s = 1"
  using less_2_cases [of "qem_trace_current_buffer s"] by (simp add: mt_shape_def)

text \<open>The steps of the writer thread.\<close>

lemma mt_worker_session:
  assumes ses: "mt_session cfg name recs s" and k: "k < length (mt_jobs s)"
    and run: "mt_flush_routine cfg io k s = Done () t"
  shows "mt_session cfg name recs t \<and> qem_tracing_state t = qem_tracing_state s \<and>
    mt_file_index t = mt_file_index s"
proof -
  let ?N = "QEM_TRACE_BUFFER_SIZE cfg" and ?sz = "sizeof_qem_trace cfg"
  define o' where "o' = 1 - qem_trace_current_buffer s"
  have sh: "mt_shape cfg s" and sy: "mt_sync cfg s" and fi: "mt_file cfg name recs s"
    using ses by (auto simp: mt_session_def)
  obtain st where st: "mt_jobs s = [(o', st)]" "qem_trace_buffer_sync s = 0"
    "qem_trace_buffer_sizes s ! o' = (if st = Job_Post then 0 else ?N)" and k0: "k = 0"
    using sy k by (auto simp: mt_sync_def Let_def o'_def)
  have o': "o' < 2" "o' \<noteq> qem_trace_current_buffer s" "qem_trace_current_buffer s < 2"
    using mt_current_cases [OF sh] by (auto simp: o'_def)
  obtain d where d: "fs s name = Some d" "qem_trace_file_fd s = Some (name, length d)"
    "sizeof_qem_trace_header \<le> length d" "payload d @ mt_unwritten s @ mt_buffered cfg s = recs"
    "mt_file_size s + of_nat (mt_uncounted cfg s) = of_nat (?sz + length (payload d))"
    using fi by (auto simp: mt_file_def)
  show ?thesis
  proof (cases st)
    case Job_Write
    have len: "length (mt_buffers s ! o') = ?N * ?sz" using sh o'(1) by (simp add: mt_shape_def)
    obtain u where u: "mt_write_buffer cfg io o' s = Done () u"
      "t = u\<lparr>mt_jobs := (mt_jobs u)[0 := (o', Job_Count)]\<rparr>"
      using run st(1) k0 Job_Write by (auto simp: mt_flush_routine_def bind_run_Done_iff)
    have "u = s\<lparr>fs := (fs s)(name := Some (d @ mt_buffers s ! o')),
        qem_trace_file_fd := Some (name, length (d @ mt_buffers s ! o')), io_calls := Suc (io_calls s)\<rparr>"
      using mt_write_Done(1) [OF d(1,2) _ _ _ u(1)] st(3) Job_Write len sh o'(1) by (simp add: mt_shape_def)
    then have t: "t = s\<lparr>fs := (fs s)(name := Some (d @ mt_buffers s ! o')),
        qem_trace_file_fd := Some (name, length (d @ mt_buffers s ! o')), io_calls := Suc (io_calls s),
        mt_jobs := [(o', Job_Count)]\<rparr>"
      using u(2) st(1) by simp
    have "mt_shape cfg t" "mt_sync cfg t" using sh st Job_Write unfolding t by (auto simp: mt_shape_def mt_sync_def o'_def)
    moreover have "mt_file cfg name recs t"
      using d st(1) Job_Write len unfolding mt_file_def t
      by (intro exI [of _ "d @ mt_buffers s ! o'"]) (simp add: payload_append mt_buffered_def)
    ultimately show ?thesis by (simp add: mt_session_def t)
  next
    case Job_Count
    have t: "t = s\<lparr>mt_file_size := mt_file_size s + of_nat (?N * ?sz), mt_jobs := [(o', Job_Clear)]\<rparr>"
      using run st k0 Job_Count by (simp add: mt_flush_routine_def mt_count_def)
    have "mt_shape cfg t" "mt_sync cfg t" using sh st Job_Count unfolding t by (auto simp: mt_shape_def mt_sync_def o'_def)
    moreover have "mt_file cfg name recs t"
      using d st(1) Job_Count unfolding mt_file_def t
      by (intro exI [of _ d]) (simp add: mt_buffered_def)
    ultimately show ?thesis by (simp add: mt_session_def t)
  next
    case Job_Clear
    have t: "t = s\<lparr>qem_trace_buffer_sizes := (qem_trace_buffer_sizes s)[o' := 0], mt_jobs := [(o', Job_Post)]\<rparr>"
      using run st k0 Job_Clear by (simp add: mt_flush_routine_def mt_clear_def)
    have "mt_shape cfg t" "mt_sync cfg t"
      using sh st Job_Clear o' unfolding t by (auto simp: mt_shape_def mt_sync_def o'_def)
    moreover have "mt_file cfg name recs t"
      using d st(1) Job_Clear o' unfolding mt_file_def t
      by (intro exI [of _ d]) (simp add: mt_buffered_def)
    ultimately show ?thesis by (simp add: mt_session_def t)
  next
    case Job_Post
    have t: "t = s\<lparr>qem_trace_buffer_sync := 1, io_calls := Suc (io_calls s), mt_jobs := []\<rparr>"
      using run st k0 Job_Post by (auto simp: mt_flush_routine_def mt_post_def Let_def bind_run_Done_iff split: if_splits)
    have "mt_shape cfg t" "mt_sync cfg t"
      using sh st Job_Post o' unfolding t by (auto simp: mt_shape_def mt_sync_def o'_def)
    moreover have "mt_file cfg name recs t"
      using d st(1) Job_Post o' unfolding mt_file_def t
      by (intro exI [of _ d]) (simp add: mt_buffered_def)
    ultimately show ?thesis by (simp add: mt_session_def t)
  qed
qed

text \<open>The steps of the emulator inside a session.\<close>

lemma mt_swap_session:
  assumes ses: "mt_session cfg name recs s" and run: "mt_swap cfg io s = Done () t"
  shows "mt_session cfg name recs t \<and> qem_tracing_state t = qem_tracing_state s \<and>
    mt_file_index t = mt_file_index s \<and>
    qem_trace_buffer_sizes t ! qem_trace_current_buffer t < QEM_TRACE_BUFFER_SIZE cfg"
proof (cases "qem_trace_buffer_sizes s ! qem_trace_current_buffer s = QEM_TRACE_BUFFER_SIZE cfg")
  case False
  then show ?thesis using assms by (auto simp: mt_swap_def mt_session_def mt_shape_def)
next
  case True
  have sh: "mt_shape cfg s" and sy: "mt_sync cfg s" and fi: "mt_file cfg name recs s"
    using ses by (auto simp: mt_session_def)
  let ?c = "qem_trace_current_buffer s"
  have t: "t = s\<lparr>qem_trace_buffer_sync := qem_trace_buffer_sync s - 1,
      io_calls := Suc (Suc (Suc (io_calls s))), mt_jobs := mt_jobs s @ [(?c, Job_Write)],
      qem_trace_current_buffer := (?c + 1) mod 2\<rparr>" "qem_trace_buffer_sync s \<noteq> 0"
    using run True by (auto simp: mt_swap_def mt_wait_def Let_def bind_run_Done_iff split: if_splits)
  have free: "mt_jobs s = []" "qem_trace_buffer_sync s = 1" "qem_trace_buffer_sizes s ! (1 - ?c) = 0"
    using sy t(2) by (auto simp: mt_sync_def Let_def)
  have c: "(?c + 1) mod 2 = 1 - ?c" "1 - (1 - ?c) = ?c" "1 - ?c < 2"
    using mt_current_cases [OF sh] by auto
  have "mt_shape cfg t" using sh free c by (simp add: mt_shape_def t(1))
  moreover have "mt_sync cfg t" using free c True by (simp add: mt_sync_def t(1) Let_def)
  moreover have "mt_file cfg name recs t"
  proof -
    have "mt_buffered cfg s = mt_buffers s ! ?c" "mt_buffered cfg t = []"
      using True sh free c by (simp_all add: mt_buffered_def mt_shape_def t(1))
    moreover have "mt_unwritten t = mt_buffers s ! ?c" "mt_uncounted cfg t = 0"
      using free by (simp_all add: t(1))
    ultimately show ?thesis using fi free by (auto simp: mt_file_def t(1))
  qed
  moreover have "qem_trace_buffer_sizes t ! qem_trace_current_buffer t < QEM_TRACE_BUFFER_SIZE cfg"
    using sh free c by (simp add: t(1) mt_shape_def)
  ultimately show ?thesis by (simp add: mt_session_def t(1))
qed

lemma mt_store_session:
  assumes ses: "mt_session cfg name recs s"
    and room: "qem_trace_buffer_sizes s ! qem_trace_current_buffer s < QEM_TRACE_BUFFER_SIZE cfg"
  shows "\<exists>t. mt_store cfg a s = Done () t \<and> mt_session cfg name (recs @ record_bytes cfg a) t \<and>
    qem_tracing_state t = qem_tracing_state s \<and> mt_file_index t = mt_file_index s \<and> mt_jobs t = mt_jobs s"
proof -
  let ?c = "qem_trace_current_buffer s" and ?N = "QEM_TRACE_BUFFER_SIZE cfg" and ?sz = "sizeof_qem_trace cfg"
  let ?n = "qem_trace_buffer_sizes s ! qem_trace_current_buffer s"
  have sh: "mt_shape cfg s" and sy: "mt_sync cfg s" and fi: "mt_file cfg name recs s"
    using ses by (auto simp: mt_session_def)
  have len: "length (mt_buffers s ! ?c) = ?N * ?sz" "?c < 2" "length (mt_buffers s) = 2"
    "length (qem_trace_buffer_sizes s) = 2" "?N < 2 ^ 31"
    using sh by (simp_all add: mt_shape_def)
  have "Suc ?n * ?sz \<le> ?N * ?sz" using room by (intro mult_le_mono1) simp
  then have fit: "?n * ?sz + ?sz \<le> length (mt_buffers s ! ?c)" using len by simp
  define b where "b = take (?n * ?sz) (mt_buffers s ! ?c) @ record_bytes cfg a @ drop (?n * ?sz + ?sz) (mt_buffers s ! ?c)"
  have w: "mem_write (mt_buffers s ! ?c) (?n * ?sz) (record_bytes cfg a) = Some b"
    using fit by (simp add: mem_write_def b_def)
  have lb: "length b = ?N * ?sz" using fit len by (simp add: b_def)
  have small: "c_u32 (Suc ?n) = Suc ?n" using room len by (intro c_u32_small) simp
  define t where "t = s\<lparr>mt_buffers := (mt_buffers s)[?c := b],
      qem_trace_buffer_sizes := (qem_trace_buffer_sizes s)[?c := Suc ?n]\<rparr>"
  have st: "mt_store cfg a s = Done () t" using w small by (simp add: mt_store_def Let_def t_def)
  have other: "1 - ?c \<noteq> ?c" using mt_current_cases [OF sh] by auto
  have "mt_shape cfg t"
    using sh lb room by (auto simp: mt_shape_def t_def nth_list_update)
  moreover have "mt_sync cfg t" using sy other by (auto simp: mt_sync_def Let_def t_def)
  moreover have "mt_file cfg name (recs @ record_bytes cfg a) t"
  proof -
    have "mt_buffered cfg t = mt_buffered cfg s @ record_bytes cfg a"
      using len fit room by (simp add: mt_buffered_def t_def b_def add.commute)
    moreover have "mt_unwritten t = mt_unwritten s" "mt_uncounted cfg t = mt_uncounted cfg s"
      using sy other by (auto simp: mt_unwritten_def mt_uncounted_def mt_sync_def Let_def t_def)
    ultimately show ?thesis using fi by (auto simp: mt_file_def t_def)
  qed
  ultimately show ?thesis using st by (simp add: mt_session_def t_def)
qed

text \<open>Opening and closing a session.\<close>

definition mt_idle :: "qem_config \<Rightarrow> mt_tracer \<Rightarrow> bool" where
  "mt_idle cfg s \<longleftrightarrow> mt_shape cfg s \<and> mt_jobs s = [] \<and> qem_trace_buffer_sizes s = [0, 0]"

lemma mt_idle_start:
  "0 < QEM_TRACE_BUFFER_SIZE cfg \<Longrightarrow> QEM_TRACE_BUFFER_SIZE cfg < 2 ^ 31 \<Longrightarrow> mt_idle cfg (mt_start cfg files)"
  by (simp add: mt_idle_def mt_shape_def mt_start_def)

lemma mt_header_Done:
  assumes "qem_trace_file_fd s = Some (name, pos)" and "fs s name = Some d" and "qem_trace_buffer_sync s = 1"
  shows "mt_qem_write_header io fsize tsz ver s = Done () t \<Longrightarrow>
      t = s\<lparr>fs := (fs s)(name := Some (file_header fsize tsz ver @ drop sizeof_qem_trace_header d)),
            qem_trace_file_fd := Some (name, sizeof_qem_trace_header),
            io_calls := Suc (Suc (Suc (Suc (io_calls s)))), qem_trace_buffer_sync := 1,
            qem_trace_buffer_sizes := (qem_trace_buffer_sizes s)[qem_trace_current_buffer s := 0]\<rparr>"
    and "mt_reliable io \<Longrightarrow> \<exists>t. mt_qem_write_header io fsize tsz ver s = Done () t"
  using assms
  by (auto simp: mt_qem_write_header_def c_fseek_set_open c_fwrite_open mt_wait_def mt_post_def Let_def
      bind_run_Done_iff file_overwrite_start length_header_bytes file_header_def mt_reliable_def
      io_reliable_def run_simps split: if_splits)

lemma mt_init_session:
  assumes idle: "mt_idle cfg s"
  shows "mt_qem_init_tracing cfg io s = Done () t \<Longrightarrow> mt_session cfg (trace_file_name (mt_file_index s)) [] t \<and> mt_jobs t = []"
    and "mt_reliable io \<Longrightarrow> unat (mt_file_index s) < 10 ^ 8 \<Longrightarrow> \<exists>t. mt_qem_init_tracing cfg io s = Done () t"
proof -
  let ?name = "trace_file_name (mt_file_index s)" and ?sz = "sizeof_qem_trace cfg"
  let ?s1 = "s\<lparr>mt_file_index := mt_file_index s + 1, fs := (fs s)(?name := Some []),
      qem_trace_file_fd := Some (?name, 0), qem_trace_buffer_sync := 1, io_calls := Suc (Suc (io_calls s))\<rparr>"
  have sh: "mt_shape cfg s" "qem_trace_buffer_sync_init s = 0" using idle by (auto simp: mt_idle_def mt_shape_def)
  have s1: "qem_trace_file_fd ?s1 = Some (?name, 0)" "fs ?s1 ?name = Some []" "qem_trace_buffer_sync ?s1 = 1"
    by simp_all
  show "\<exists>t. mt_qem_init_tracing cfg io s = Done () t" if "mt_reliable io" "unat (mt_file_index s) < 10 ^ 8"
    using that sh(2) mt_header_Done(2) [OF s1 that(1), of 0 "of_nat ?sz" 1] trace_file_name_length [OF that(2)]
    by (auto simp: mt_qem_init_tracing_def Let_def c_fopen_wb_def c_remove_def mt_sync_start_def
        mt_reliable_def io_reliable_def run_simps)
  assume run: "mt_qem_init_tracing cfg io s = Done () t"
  then obtain u where u: "mt_qem_write_header io 0 (of_nat ?sz) 1 ?s1 = Done () u"
    "t = QEM_TRACE_INFO ?name 0 (QEM_TRACE_INFO ''==== Trace file name'' 0 (u\<lparr>mt_file_size := of_nat ?sz\<rparr>))"
    using sh(2) by (auto simp: mt_qem_init_tracing_def Let_def c_fopen_wb_def c_remove_def mt_sync_start_def
        bind_run_Done_iff split: if_splits)
  have t: "fs t ?name = Some (file_header 0 (of_nat ?sz) 1)" "qem_trace_file_fd t = Some (?name, sizeof_qem_trace_header)"
    "qem_trace_buffer_sync t = 1" "qem_trace_buffer_sizes t = [0, 0]" "mt_file_size t = of_nat ?sz" "mt_jobs t = []"
    "mt_buffers t = mt_buffers s" "qem_trace_current_buffer t = qem_trace_current_buffer s"
    "qem_trace_buffer_sync_init t = 0"
    using mt_header_Done(1) [OF s1 u(1)] u(2) idle sh mt_current_cases [OF sh(1)]
    by (auto simp: QEM_TRACE_INFO_def c_printf_def mt_idle_def)
  have c: "[0, 0] ! qem_trace_current_buffer s = (0 :: nat)" "[0, 0] ! (1 - qem_trace_current_buffer s) = (0 :: nat)"
    using mt_current_cases [OF sh(1)] by auto
  have "mt_shape cfg t" "mt_sync cfg t" using sh(1) t c by (simp_all add: mt_shape_def mt_sync_def Let_def)
  moreover have "mt_file cfg ?name [] t"
    using t c by (simp add: mt_file_def mt_buffered_def payload_def)
  ultimately show "mt_session cfg ?name [] t \<and> mt_jobs t = []" using t(6) by (simp add: mt_session_def)
qed

text \<open>The part of the closing that writes the rest of the current buffer.\<close>

definition mt_close_rest :: "qem_config \<Rightarrow> mt_io \<Rightarrow> mt_tracer \<Rightarrow> (unit, mt_tracer) run" where
  "mt_close_rest cfg io s =
     (if qem_trace_buffer_sizes s ! qem_trace_current_buffer s \<noteq> 0 then
        bind_run (mt_write_buffer cfg io (qem_trace_current_buffer s) s) (\<lambda>_ s.
        Done () (mt_clear (qem_trace_current_buffer s) (mt_count cfg (qem_trace_current_buffer s) s)))
      else Done () s)"

lemma mt_close_rest_Done:
  assumes sh: "mt_shape cfg s" and free: "mt_jobs s = []" "qem_trace_buffer_sizes s ! (1 - qem_trace_current_buffer s) = 0"
    and fi: "mt_file cfg name recs s"
  shows "mt_close_rest cfg io s = Done () t \<Longrightarrow>
      (\<exists>d. fs t name = Some d \<and> qem_trace_file_fd t = Some (name, length d) \<and>
         sizeof_qem_trace_header \<le> length d \<and> payload d = recs) \<and>
      mt_file_size t = of_nat (sizeof_qem_trace cfg + length recs) \<and> qem_trace_buffer_sizes t = [0, 0] \<and>
      mt_shape cfg t \<and> mt_jobs t = [] \<and> qem_trace_buffer_sync t = qem_trace_buffer_sync s"
    and "mt_reliable io \<Longrightarrow> \<exists>t. mt_close_rest cfg io s = Done () t"
proof -
  let ?c = "qem_trace_current_buffer s" and ?sz = "sizeof_qem_trace cfg"
  let ?n = "qem_trace_buffer_sizes s ! qem_trace_current_buffer s"
  obtain d where d: "fs s name = Some d" "qem_trace_file_fd s = Some (name, length d)"
    "sizeof_qem_trace_header \<le> length d" "payload d @ mt_buffered cfg s = recs"
    "mt_file_size s = of_nat (?sz + length (payload d))"
    using fi free by (auto simp: mt_file_def)
  have len: "?c < length (mt_buffers s)" "?c < length (qem_trace_buffer_sizes s)"
    "?n * ?sz \<le> length (mt_buffers s ! ?c)"
    using sh by (auto simp: mt_shape_def intro: mult_le_mono1)
  have zero: "(qem_trace_buffer_sizes s)[?c := 0] = [0, 0]"
    using sh free(2) mt_current_cases [OF sh]
    by (cases "qem_trace_buffer_sizes s") (auto simp: mt_shape_def length_Suc_conv)
  note w = mt_write_Done [OF d(1,2) len]
  show "\<exists>t. mt_close_rest cfg io s = Done () t" if "mt_reliable io"
    using w(2) [OF that] by (auto simp: mt_close_rest_def)
  assume run: "mt_close_rest cfg io s = Done () t"
  show "(\<exists>d. fs t name = Some d \<and> qem_trace_file_fd t = Some (name, length d) \<and>
         sizeof_qem_trace_header \<le> length d \<and> payload d = recs) \<and>
      mt_file_size t = of_nat (?sz + length recs) \<and> qem_trace_buffer_sizes t = [0, 0] \<and>
      mt_shape cfg t \<and> mt_jobs t = [] \<and> qem_trace_buffer_sync t = qem_trace_buffer_sync s"
  proof (cases "?n = 0")
    case True
    then have "t = s" "mt_buffered cfg s = []" "qem_trace_buffer_sizes s = [0, 0]"
      using run zero by (auto simp: mt_close_rest_def mt_buffered_def) (metis list_update_id)
    then show ?thesis using d sh free by auto
  next
    case False
    let ?bs = "take (?n * ?sz) (mt_buffers s ! ?c)"
    obtain u where u: "mt_write_buffer cfg io ?c s = Done () u"
      "t = mt_clear (qem_trace_current_buffer u) (mt_count cfg (qem_trace_current_buffer u) u)"
      using run False by (auto simp: mt_close_rest_def bind_run_Done_iff)
    have t: "t = s\<lparr>fs := (fs s)(name := Some (d @ ?bs)), qem_trace_file_fd := Some (name, length (d @ ?bs)),
        io_calls := Suc (io_calls s), mt_file_size := mt_file_size s + of_nat (?n * ?sz),
        qem_trace_buffer_sizes := [0, 0]\<rparr>"
      using w(1) [OF u(1)] u(2) zero by (simp add: mt_clear_def mt_count_def)
    have "mt_buffered cfg s = ?bs" by (simp add: mt_buffered_def)
    moreover have "length ?bs = ?n * ?sz" using len(3) by simp
    moreover have "mt_shape cfg t"
      using sh mt_current_cases [OF sh] by (auto simp: mt_shape_def t)
    ultimately show ?thesis using d free by (auto simp: t payload_append)
  qed
qed

lemma mt_close_session:
  assumes ses: "mt_session cfg name recs s"
  shows "mt_qem_close_tracing cfg io s = Done () t \<Longrightarrow> mt_idle cfg t \<and>
      fs t name = Some (file_header (of_nat (sizeof_qem_trace cfg + length recs)) (of_nat (sizeof_qem_trace cfg)) 1 @ recs)"
    and "mt_reliable io \<Longrightarrow> mt_jobs s = [] \<Longrightarrow> \<exists>t. mt_qem_close_tracing cfg io s = Done () t"
proof -
  let ?sz = "sizeof_qem_trace cfg"
  let ?s1 = "s\<lparr>qem_trace_buffer_sync := 0, io_calls := Suc (io_calls s)\<rparr>"
  have sh: "mt_shape cfg s" and sy: "mt_sync cfg s" and fi: "mt_file cfg name recs s"
    using ses by (auto simp: mt_session_def)
  have 1: "mt_shape cfg ?s1" "mt_file cfg name recs ?s1"
    using sh fi by (simp_all add: mt_shape_def mt_file_def)
  have close: "mt_qem_close_tracing cfg io s = bind_run (mt_wait io s) (\<lambda>_ s.
     bind_run (mt_close_rest cfg io s) (\<lambda>_ s. bind_run (mt_post io s) (\<lambda>_ s.
     bind_run (mt_qem_write_header io (mt_file_size s) (of_nat ?sz) 1 s) (\<lambda>_ s.
     bind_run (c_fclose (mt_libc io) s) (\<lambda>r t.
     if r < 0 then QEM_TRACE_ERROR ''Error while closing the trace file'' (io_errno (mt_libc io) (io_calls s)) 0 t
     else Done () (QEM_TRACE_INFO ''Trace file saved'' 0 t))))))"
    by (simp only: mt_qem_close_tracing_def mt_close_rest_def)
  have free: "qem_trace_buffer_sizes s ! (1 - qem_trace_current_buffer s) = 0" "qem_trace_buffer_sync s = 1"
    if "mt_jobs s = []" using sy that by (auto simp: mt_sync_def Let_def)
  show "\<exists>t. mt_qem_close_tracing cfg io s = Done () t" if io: "mt_reliable io" and j: "mt_jobs s = []"
  proof -
    have rc: "mt_jobs ?s1 = []" "qem_trace_buffer_sizes ?s1 ! (1 - qem_trace_current_buffer ?s1) = 0"
      using j free [OF j] by simp_all
    note r = mt_close_rest_Done [OF 1(1) rc 1(2), of io]
    obtain u where u: "mt_close_rest cfg io ?s1 = Done () u" using r(2) [OF io] by blast
    then obtain d where d: "fs u name = Some d" "qem_trace_file_fd u = Some (name, length d)" "qem_trace_buffer_sync u = 0"
      using r(1) [OF u] by auto
    let ?u = "u\<lparr>qem_trace_buffer_sync := 1, io_calls := Suc (io_calls u)\<rparr>"
    have h: "qem_trace_file_fd ?u = Some (name, length d)" "fs ?u name = Some d" "qem_trace_buffer_sync ?u = 1"
      using d by simp_all
    obtain v where v: "mt_qem_write_header io (mt_file_size ?u) (of_nat ?sz) 1 ?u = Done () v"
      using mt_header_Done(2) [OF h io] by blast
    have "qem_trace_file_fd v = Some (name, sizeof_qem_trace_header)" using mt_header_Done(1) [OF h v] by simp
    then show ?thesis
      using u v d free(2) [OF j] io
      by (simp add: close mt_wait_def mt_post_def Let_def mt_reliable_def io_reliable_def run_simps c_fclose_open)
  qed
  assume run: "mt_qem_close_tracing cfg io s = Done () t"
  then have "qem_trace_buffer_sync s \<noteq> 0"
    by (auto simp: close mt_wait_def Let_def bind_run_Done_iff split: if_splits)
  then have j: "mt_jobs s = []" using sy by (auto simp: mt_sync_def Let_def)
  have rc: "mt_jobs ?s1 = []" "qem_trace_buffer_sizes ?s1 ! (1 - qem_trace_current_buffer ?s1) = 0"
    using j free [OF j] by simp_all
  obtain u v w where u: "mt_close_rest cfg io ?s1 = Done () u"
    and v: "v = u\<lparr>qem_trace_buffer_sync := Suc (qem_trace_buffer_sync u), io_calls := Suc (io_calls u)\<rparr>"
    and w: "mt_qem_write_header io (mt_file_size v) (of_nat ?sz) 1 v = Done () w"
    and t: "bind_run (c_fclose (mt_libc io) w) (\<lambda>r t. if r < 0
       then QEM_TRACE_ERROR ''Error while closing the trace file'' (io_errno (mt_libc io) (io_calls w)) 0 t
       else Done () (QEM_TRACE_INFO ''Trace file saved'' 0 t)) = Done () t"
    using run free(2) [OF j] unfolding close
    by (auto simp: mt_wait_def mt_post_def Let_def bind_run_Done_iff [of "bind_run _ _"]
        bind_run_Done_iff [of "mt_close_rest _ _ _"] bind_run_Done_iff [of "exit_if _ _ _ _"]
        bind_run_Done_iff [of "mt_qem_write_header _ _ _ _ _"] split: if_splits)
  obtain d where d: "fs u name = Some d" "qem_trace_file_fd u = Some (name, length d)"
    "sizeof_qem_trace_header \<le> length d" "payload d = recs" "mt_file_size u = of_nat (?sz + length recs)"
    "qem_trace_buffer_sizes u = [0, 0]" "mt_shape cfg u" "mt_jobs u = []" "qem_trace_buffer_sync u = 0"
    using mt_close_rest_Done(1) [OF 1(1) rc 1(2) u] by auto
  have h: "qem_trace_file_fd v = Some (name, length d)" "fs v name = Some d" "qem_trace_buffer_sync v = 1"
    using d by (simp_all add: v)
  note w' = mt_header_Done(1) [OF h w]
  have c: "[0, 0][qem_trace_current_buffer u := 0] = [0, 0 :: nat]"
    using mt_current_cases [OF d(7)] by auto
  have "fs t = fs w" "mt_shape cfg t = mt_shape cfg w" "mt_jobs t = mt_jobs w"
    "qem_trace_buffer_sizes t = qem_trace_buffer_sizes w"
    using t by (auto simp: w' c_fclose_def run_simps QEM_TRACE_INFO_def c_printf_def mt_shape_def split: if_splits)
  moreover have "mt_shape cfg w" using d(6,7) c by (simp add: mt_shape_def w' v)
  ultimately show "mt_idle cfg t \<and> fs t name =
      Some (file_header (of_nat (?sz + length recs)) (of_nat ?sz) 1 @ recs)"
    using d c by (simp add: mt_idle_def w' v payload_def)
qed

section \<open>Runs of a session\<close>

text \<open>
  Where a session stands: not started, between two events, between the two halves of an
  output, or over.
\<close>

definition event_cmds :: "(u8 \<times> out_args) list \<Rightarrow> mt_cmd list" where
  "event_cmds es = map (\<lambda>(k, a). Event k a) es"

definition session_cmds :: "u8 \<Rightarrow> (u8 \<times> out_args) list \<Rightarrow> u8 \<Rightarrow> mt_cmd list" where
  "session_cmds t es t' = Enable t # event_cmds es @ [Disable t']"

definition enabled_bytes :: "qem_config \<Rightarrow> u8 \<Rightarrow> (u8 \<times> out_args) list \<Rightarrow> bytes" where
  "enabled_bytes cfg t es = concat (map (record_bytes cfg) (enabled_events t es))"

definition mt_final :: "qem_config \<Rightarrow> string \<Rightarrow> u8 \<Rightarrow> (u8 \<times> out_args) list \<Rightarrow> mt_tracer \<Rightarrow> bool" where
  "mt_final cfg name t es s \<longleftrightarrow> mt_idle cfg s \<and>
     fs s name = Some (file_header
       (of_nat (sizeof_qem_trace cfg + length (enabled_events t es) * sizeof_qem_trace cfg))
       (of_nat (sizeof_qem_trace cfg)) 1 @ enabled_bytes cfg t es)"

inductive mt_at ::
    "qem_config \<Rightarrow> mt_tracer \<Rightarrow> u8 \<Rightarrow> (u8 \<times> out_args) list \<Rightarrow> u8 \<Rightarrow> mt_cmd list \<times> mt_tracer \<Rightarrow> bool"
  for cfg :: qem_config and s0 :: mt_tracer and t :: u8 and es :: "(u8 \<times> out_args) list" and t' :: u8 where
  before: "mt_at cfg s0 t es t' (session_cmds t es t', s0)"
| between: "es = past @ todo \<Longrightarrow> qem_tracing_state s = t \<Longrightarrow>
    mt_session cfg (trace_file_name (mt_file_index s0)) (enabled_bytes cfg t past) s \<Longrightarrow>
    mt_at cfg s0 t es t' (event_cmds todo @ [Disable t'], s)"
| storing: "es = past @ (k, a) # todo \<Longrightarrow> qem_tracing_state s = t \<Longrightarrow> t AND k \<noteq> 0 \<Longrightarrow>
    mt_session cfg (trace_file_name (mt_file_index s0)) (enabled_bytes cfg t past) s \<Longrightarrow>
    qem_trace_buffer_sizes s ! qem_trace_current_buffer s < QEM_TRACE_BUFFER_SIZE cfg \<Longrightarrow>
    mt_at cfg s0 t es t' (Store a # event_cmds todo @ [Disable t'], s)"
| after: "mt_final cfg (trace_file_name (mt_file_index s0)) t es s \<Longrightarrow> mt_at cfg s0 t es t' ([], s)"

lemma enabled_bytes_simps [simp]:
  "enabled_bytes cfg t [] = []"
  "enabled_bytes cfg t (es @ [(k, a)]) = enabled_bytes cfg t es @ (if t AND k \<noteq> 0 then record_bytes cfg a else [])"
  by (simp_all add: enabled_bytes_def enabled_events_def)

lemma length_enabled_bytes [simp]:
  "length (enabled_bytes cfg t es) = length (enabled_events t es) * sizeof_qem_trace cfg"
  by (simp add: enabled_bytes_def)

lemma mt_worker_room:
  assumes ses: "mt_session cfg name recs s" and k: "k < length (mt_jobs s)"
    and run: "mt_flush_routine cfg io k s = Done () u"
    and room: "qem_trace_buffer_sizes s ! qem_trace_current_buffer s < QEM_TRACE_BUFFER_SIZE cfg"
  shows "qem_trace_buffer_sizes u ! qem_trace_current_buffer u < QEM_TRACE_BUFFER_SIZE cfg"
proof -
  have sh: "mt_shape cfg s" using ses by (simp add: mt_session_def)
  have one: "k = 0" "fst (mt_jobs s ! k) = 1 - qem_trace_current_buffer s"
    using ses k by (auto simp: mt_session_def mt_sync_def Let_def)
  have "1 - qem_trace_current_buffer s \<noteq> qem_trace_current_buffer s"
    using mt_current_cases [OF sh] by auto
  then show ?thesis
    using run room one
    by (auto simp: mt_flush_routine_def mt_write_buffer_def mt_post_def mt_count_def mt_clear_def c_fwrite_def
        bind_run_Done_iff Let_def split: prod.splits mt_stage.splits if_splits option.splits)
qed

lemma mt_at_Event:
  assumes "mt_at cfg s0 t es t' (Event k a # cs, s)"
  obtains past todo where "es = past @ (k, a) # todo" and "cs = event_cmds todo @ [Disable t']"
    and "qem_tracing_state s = t"
    and "mt_session cfg (trace_file_name (mt_file_index s0)) (enabled_bytes cfg t past) s"
  using assms
  by (auto elim!: mt_at.cases simp: session_cmds_def event_cmds_def Cons_eq_append_conv map_eq_Cons_conv)

lemma mt_at_Store:
  assumes "mt_at cfg s0 t es t' (Store a # cs, s)"
  obtains past k todo where "es = past @ (k, a) # todo" and "cs = event_cmds todo @ [Disable t']"
    and "qem_tracing_state s = t" and "t AND k \<noteq> 0"
    and "mt_session cfg (trace_file_name (mt_file_index s0)) (enabled_bytes cfg t past) s"
    and "qem_trace_buffer_sizes s ! qem_trace_current_buffer s < QEM_TRACE_BUFFER_SIZE cfg"
  using assms
  by (auto elim!: mt_at.cases simp: session_cmds_def event_cmds_def Cons_eq_append_conv map_eq_Cons_conv)

lemma mt_at_Disable:
  assumes "mt_at cfg s0 t es t' (Disable k # cs, s)"
  shows "k = t'" and "cs = []" and "qem_tracing_state s = t"
    and "mt_session cfg (trace_file_name (mt_file_index s0)) (enabled_bytes cfg t es) s"
  using assms
  by (auto elim!: mt_at.cases simp: session_cmds_def event_cmds_def Cons_eq_append_conv map_eq_Cons_conv)

lemma mt_at_Enable:
  assumes "mt_at cfg s0 t es t' (Enable k # cs, s)"
  shows "s = s0" and "k = t" and "cs = event_cmds es @ [Disable t']"
  using assms
  by (auto elim!: mt_at.cases simp: session_cmds_def event_cmds_def Cons_eq_append_conv map_eq_Cons_conv)

lemma mt_session_tstate [simp]:
  "mt_session cfg name recs (s\<lparr>qem_tracing_state := st\<rparr>) = mt_session cfg name recs s"
  by (simp add: mt_session_def mt_shape_def mt_sync_def mt_file_def)

text \<open>Every step of a session leads to one of these places.\<close>

lemma mt_at_step:
  assumes at: "mt_at cfg s0 t es t' c" and step: "mt_step cfg io c c'"
    and idle: "mt_idle cfg s0" "qem_tracing_state s0 = 0" and t: "t \<noteq> 0" "t AND NOT t' = 0"
  shows "mt_at cfg s0 t es t' c'"
  using step at
proof (cases rule: mt_step.cases)
  case (worker k s u cs)
  from at show ?thesis unfolding worker(1)
  proof (cases rule: mt_at.cases)
    case before
    then show ?thesis using worker(3) idle(1) by (simp add: mt_idle_def)
  next
    case (between past todo)
    then show ?thesis
      using mt_worker_session [OF between(4) worker(3,4)] unfolding worker(2)
      by (auto intro: mt_at.between)
  next
    case (storing past k a todo)
    then show ?thesis
      using mt_worker_session [OF storing(5) worker(3,4)] mt_worker_room [OF storing(5) worker(3,4) storing(6)]
      unfolding worker(2) by (auto intro: mt_at.storing)
  next
    case after
    then show ?thesis using worker(3) by (simp add: mt_final_def mt_idle_def)
  qed
next
  case (enable k s u cs)
  note s = mt_at_Enable [OF at [unfolded enable(1)]]
  obtain v where v: "mt_qem_init_tracing cfg io s0 = Done () v" "u = v\<lparr>qem_tracing_state := t\<rparr>"
    using enable(3) idle(2) t(1) unfolding s by (auto simp: mt_qem_trace_enable_def bind_run_Done_iff)
  have "mt_session cfg (trace_file_name (mt_file_index s0)) [] u"
    using mt_init_session(1) [OF idle(1) v(1)] unfolding v(2) by simp
  then show ?thesis
    unfolding enable(2) s v(2) using mt_at.between [of es "[]" es] by simp
next
  case (ignore s k a cs)
  obtain past todo where e: "es = past @ (k, a) # todo" "cs = event_cmds todo @ [Disable t']"
    "qem_tracing_state s = t" "mt_session cfg (trace_file_name (mt_file_index s0)) (enabled_bytes cfg t past) s"
    by (rule mt_at_Event [OF at [unfolded ignore(1)]])
  then show ?thesis
    unfolding ignore(2) e(2) using ignore(3) by (intro mt_at.between [of es "past @ [(k, a)]"]) simp_all
next
  case (swap s k u a cs)
  obtain past todo where e: "es = past @ (k, a) # todo" "cs = event_cmds todo @ [Disable t']"
    "qem_tracing_state s = t" "mt_session cfg (trace_file_name (mt_file_index s0)) (enabled_bytes cfg t past) s"
    by (rule mt_at_Event [OF at [unfolded swap(1)]])
  then show ?thesis
    unfolding swap(2) using swap(3) mt_swap_session [OF e(4) swap(4)] by (auto intro: mt_at.storing)
next
  case (store a s u cs)
  obtain past k todo where e: "es = past @ (k, a) # todo" "cs = event_cmds todo @ [Disable t']"
    "qem_tracing_state s = t" "t AND k \<noteq> 0"
    "mt_session cfg (trace_file_name (mt_file_index s0)) (enabled_bytes cfg t past) s"
    "qem_trace_buffer_sizes s ! qem_trace_current_buffer s < QEM_TRACE_BUFFER_SIZE cfg"
    by (rule mt_at_Store [OF at [unfolded store(1)]])
  then show ?thesis
    unfolding store(2) e(2) using store(3) mt_store_session [OF e(5,6), of a]
    by (intro mt_at.between [of es "past @ [(k, a)]"]) simp_all
next
  case (disable k s u cs)
  note e = mt_at_Disable [OF at [unfolded disable(1)]]
  have "mt_qem_close_tracing cfg io (s\<lparr>qem_tracing_state := 0\<rparr>) = Done () u"
    using disable(3) t e by (simp add: mt_qem_trace_disable_def Let_def)
  then have "mt_final cfg (trace_file_name (mt_file_index s0)) t es u"
    using mt_close_session(1) [of cfg _ _ "s\<lparr>qem_tracing_state := 0\<rparr>"] e(4) by (simp add: mt_final_def)
  then show ?thesis unfolding disable(2) e(2) by (rule mt_at.after)
qed

text \<open>As long as commands are left, some process can move.\<close>

lemma mt_worker_progress:
  assumes ses: "mt_session cfg name recs s" and io: "mt_reliable io" and jobs: "mt_jobs s \<noteq> []"
  shows "\<exists>u. mt_flush_routine cfg io 0 s = Done () u"
proof -
  let ?o = "1 - qem_trace_current_buffer s"
  have sh: "mt_shape cfg s" using ses by (simp add: mt_session_def)
  obtain st where st: "mt_jobs s = [(?o, st)]"
    "qem_trace_buffer_sizes s ! ?o = (if st = Job_Post then 0 else QEM_TRACE_BUFFER_SIZE cfg)"
    using ses jobs by (auto simp: mt_session_def mt_sync_def Let_def)
  obtain d where d: "fs s name = Some d" "qem_trace_file_fd s = Some (name, length d)"
    using ses by (auto simp: mt_session_def mt_file_def)
  have o: "?o < 2" by simp
  then have "\<exists>u. mt_write_buffer cfg io ?o s = Done () u" if "st = Job_Write"
    using mt_write_Done(2) [OF d, of ?o cfg io] io sh st that by (simp add: mt_shape_def)
  then show ?thesis
    using st io by (cases st) (auto simp: mt_flush_routine_def mt_post_def Let_def mt_reliable_def run_simps)
qed

lemma mt_swap_progress:
  assumes "mt_session cfg name recs s" and "mt_reliable io" and "mt_jobs s = []"
  shows "\<exists>u. mt_swap cfg io s = Done () u"
  using assms by (auto simp: mt_session_def mt_sync_def mt_swap_def mt_wait_def Let_def mt_reliable_def run_simps)

lemma mt_at_progress:
  assumes at: "mt_at cfg s0 t es t' (cs, s)" and cs: "cs \<noteq> []" and io: "mt_reliable io"
    and s0: "mt_idle cfg s0" "qem_tracing_state s0 = 0" "unat (mt_file_index s0) < 10 ^ 8"
    and t: "t \<noteq> 0" "t AND NOT t' = 0"
  shows "\<exists>c. mt_step cfg io (cs, s) c"
proof -
  have job: "\<exists>c. mt_step cfg io (cs, s) c" if "mt_session cfg name recs s" "mt_jobs s \<noteq> []" for name recs
    using mt_worker_progress [OF that(1) io that(2)] that(2) mt_step.worker [of 0 s cfg io _ cs] by auto
  obtain c cs' where c: "cs = c # cs'" using cs by (cases cs) auto
  show ?thesis
  proof (cases c)
    case (Enable k)
    note e = mt_at_Enable [OF at [unfolded c Enable]]
    obtain u where "mt_qem_init_tracing cfg io s0 = Done () u" using mt_init_session(2) [OF s0(1) io s0(3)] by blast
    then have "mt_qem_trace_enable cfg io k s = Done () (u\<lparr>qem_tracing_state := t\<rparr>)"
      using e s0(2) t by (simp add: mt_qem_trace_enable_def)
    then show ?thesis unfolding c Enable using mt_step.enable by blast
  next
    case (Event k a)
    obtain past where e: "qem_tracing_state s = t"
      "mt_session cfg (trace_file_name (mt_file_index s0)) (enabled_bytes cfg t past) s"
      by (rule mt_at_Event [OF at [unfolded c Event]])
    show ?thesis
    proof (cases "mt_jobs s = []")
      case True
      obtain u where "mt_swap cfg io s = Done () u" using mt_swap_progress [OF e(2) io True] by blast
      then show ?thesis unfolding c Event using mt_step.swap mt_step.ignore by blast
    qed (rule job [OF e(2)])
  next
    case (Store a)
    obtain past where e: "mt_session cfg (trace_file_name (mt_file_index s0)) (enabled_bytes cfg t past) s"
      "qem_trace_buffer_sizes s ! qem_trace_current_buffer s < QEM_TRACE_BUFFER_SIZE cfg"
      by (rule mt_at_Store [OF at [unfolded c Store]])
    then show ?thesis unfolding c Store using mt_store_session [OF e] mt_step.store by blast
  next
    case (Disable k)
    note e = mt_at_Disable [OF at [unfolded c Disable]]
    show ?thesis
    proof (cases "mt_jobs s = []")
      case True
      obtain u where "mt_qem_close_tracing cfg io (s\<lparr>qem_tracing_state := 0\<rparr>) = Done () u"
        using mt_close_session(2) [of cfg _ _ "s\<lparr>qem_tracing_state := 0\<rparr>"] e(4) io True by simp blast
      then have "mt_qem_trace_disable cfg io k s = Done () u"
        using e t by (simp add: mt_qem_trace_disable_def Let_def)
      then show ?thesis unfolding c Disable using mt_step.disable by blast
    qed (rule job [OF e(4)])
  qed
qed

text \<open>The steps a configuration has still to make at most.\<close>

fun cmd_work :: "mt_cmd \<Rightarrow> nat" where
  "cmd_work (Event k a) = 6"
| "cmd_work _ = 1"

fun stage_work :: "mt_stage \<Rightarrow> nat" where
  "stage_work Job_Write = 4"
| "stage_work Job_Count = 3"
| "stage_work Job_Clear = 2"
| "stage_work Job_Post = 1"

definition mt_work :: "mt_cmd list \<times> mt_tracer \<Rightarrow> nat" where
  "mt_work c = sum_list (map cmd_work (fst c)) + sum_list (map (stage_work \<circ> snd) (mt_jobs (snd c)))"

lemma mt_worker_work:
  assumes "mt_session cfg name recs s" and "k < length (mt_jobs s)" and "mt_flush_routine cfg io k s = Done () u"
  shows "mt_work (cs, u) < mt_work (cs, s)"
proof -
  obtain b st where "mt_jobs s = [(b, st)]" "k = 0"
    using assms(1,2) by (auto simp: mt_session_def mt_sync_def Let_def)
  then show ?thesis
    using assms(3)
    by (cases st) (auto simp: mt_work_def mt_flush_routine_def mt_write_buffer_def mt_post_def mt_count_def
        mt_clear_def c_fwrite_def bind_run_Done_iff Let_def split: if_splits option.splits)
qed

lemma mt_step_work:
  assumes at: "mt_at cfg s0 t es t' c" and step: "mt_step cfg io c c'"
    and idle: "mt_idle cfg s0" "qem_tracing_state s0 = 0" and t: "t \<noteq> 0" "t AND NOT t' = 0"
  shows "mt_work c' < mt_work c"
  using step
proof (cases rule: mt_step.cases)
  case (enable k s u cs)
  note e = mt_at_Enable [OF at [unfolded enable(1)]]
  obtain v where v: "mt_qem_init_tracing cfg io s0 = Done () v" "u = v\<lparr>qem_tracing_state := t\<rparr>"
    using enable(3) idle(2) t(1) unfolding e by (auto simp: mt_qem_trace_enable_def bind_run_Done_iff)
  then show ?thesis
    using mt_init_session(1) [OF idle(1) v(1)] unfolding enable(1,2) by (simp add: mt_work_def)
next
  case (swap s k u a cs)
  then show ?thesis
    by (auto simp: mt_work_def mt_swap_def mt_wait_def Let_def bind_run_Done_iff split: if_splits)
next
  case (store a s u cs)
  then show ?thesis
    by (auto simp: mt_work_def mt_store_def Let_def split: option.splits)
next
  case (disable k s u cs)
  note e = mt_at_Disable [OF at [unfolded disable(1)]]
  have "mt_qem_close_tracing cfg io (s\<lparr>qem_tracing_state := 0\<rparr>) = Done () u"
    using disable(3) t e by (simp add: mt_qem_trace_disable_def Let_def)
  then have "mt_jobs u = []"
    using mt_close_session(1) [of cfg _ _ "s\<lparr>qem_tracing_state := 0\<rparr>"] e(4) by (simp add: mt_idle_def)
  then show ?thesis unfolding disable(1,2) by (simp add: mt_work_def)
next
  case (worker k s u cs)
  from at [unfolded worker(1)] have "mt_work (cs, u) < mt_work (cs, s)"
  proof (cases rule: mt_at.cases)
    case before
    then show ?thesis using worker(3) idle(1) by (simp add: mt_idle_def)
  next
    case (between past todo)
    show ?thesis by (rule mt_worker_work [OF between(4) worker(3,4)])
  next
    case (storing past k a todo)
    show ?thesis by (rule mt_worker_work [OF storing(5) worker(3,4)])
  next
    case after
    then show ?thesis using worker(3) by (simp add: mt_final_def mt_idle_def)
  qed
  then show ?thesis unfolding worker(1,2) .
qed (simp add: mt_work_def)

lemma mt_run_at:
  assumes run: "(mt_step cfg io ^^ n) (session_cmds t es t', s0) c"
    and idle: "mt_idle cfg s0" "qem_tracing_state s0 = 0" and t: "t \<noteq> 0" "t AND NOT t' = 0"
  shows "mt_at cfg s0 t es t' c \<and> n + mt_work c \<le> mt_work (session_cmds t es t', s0)"
  using run
proof (induction n arbitrary: c)
  case 0
  then show ?case using mt_at.before by auto
next
  case (Suc n)
  then obtain c1 where c1: "(mt_step cfg io ^^ n) (session_cmds t es t', s0) c1" "mt_step cfg io c1 c" by auto
  have "mt_at cfg s0 t es t' c1" "n + mt_work c1 \<le> mt_work (session_cmds t es t', s0)"
    using Suc.IH [OF c1(1)] by auto
  then show ?case
    using mt_at_step [OF _ c1(2) idle t] mt_step_work [OF _ c1(2) idle t] by fastforce
qed

lemma mt_run_ends:
  assumes at: "mt_at cfg s0 t es t' c" and io: "mt_reliable io"
    and s0: "mt_idle cfg s0" "qem_tracing_state s0 = 0" "unat (mt_file_index s0) < 10 ^ 8"
    and t: "t \<noteq> 0" "t AND NOT t' = 0"
  shows "\<exists>n u. (mt_step cfg io ^^ n) c ([], u)"
  using at
proof (induction "mt_work c" arbitrary: c rule: less_induct)
  case less
  obtain cs s where c: "c = (cs, s)" by (cases c)
  show ?case
  proof (cases "cs = []")
    case True
    then have "(mt_step cfg io ^^ 0) c ([], s)" using c by simp
    then show ?thesis by blast
  next
    case False
    obtain c' where c': "mt_step cfg io c c'" using mt_at_progress [OF less.prems [unfolded c] False io s0 t] c by blast
    obtain n u where "(mt_step cfg io ^^ n) c' ([], u)"
      using less.hyps [OF mt_step_work [OF less.prems c' s0(1,2) t] mt_at_step [OF less.prems c' s0(1,2) t]] by blast
    then have "(mt_step cfg io ^^ Suc n) c ([], u)" using c' by (rule relpowp_Suc_I2 [rotated])
    then show ?thesis by blast
  qed
qed

text \<open>
  C7. With two buffers and the writer thread a session ends with the same file as with one
  buffer, whatever the interleaving of the emulator and the threads: no run of a session has
  more than \<open>mt_work\<close> steps, it can always be continued while commands are left, and when the
  last command is done the trace file is, byte for byte, the one that the single-buffer back
  end leaves. The calls of the C library and of the thread library are assumed to succeed.
\<close>

theorem mt_session_same_file:
  assumes "mt_reliable io" and "mt_idle cfg s" and "qem_tracing_state s = 0"
    and "unat (mt_file_index s) < 10 ^ 8" and "t \<noteq> 0" and "t AND NOT t' = 0"
    and "file_inv cfg f" and "qem_tracing_state f = 0" and "qem_file_index f = mt_file_index s"
    and "(mt_step cfg io ^^ n) (session_cmds t es t', s) (cs, u)"
  shows "n \<le> mt_work (session_cmds t es t', s) \<and> (cs \<noteq> [] \<longrightarrow> (\<exists>c. mt_step cfg io (cs, u) c)) \<and>
    (\<exists>f'. session (file_qem_trace_enable cfg (mt_libc io)) (file_qem_trace_disable cfg (mt_libc io))
         qem_tracing_state (file_qem_trace_output cfg (mt_libc io)) t es t' f = Done () f' \<and>
       (cs = [] \<longrightarrow> fs u (trace_file_name (mt_file_index s)) = fs f' (trace_file_name (mt_file_index s))))"
proof -
  note run = mt_run_at [OF assms(10,2,3,5,6)]
  have bound: "n \<le> mt_work (session_cmds t es t', s)" and at: "mt_at cfg s t es t' (cs, u)" using run by auto
  have libc: "io_reliable (mt_libc io)" using assms(1) by (simp add: mt_reliable_def)
  have room: "unat (qem_file_index f) < 10 ^ 8" using assms(4,9) by simp
  obtain f' where f': "session (file_qem_trace_enable cfg (mt_libc io)) (file_qem_trace_disable cfg (mt_libc io))
      qem_tracing_state (file_qem_trace_output cfg (mt_libc io)) t es t' f = Done () f'"
    "fs f' (trace_file_name (mt_file_index s)) = Some (file_header
       (of_nat (sizeof_qem_trace cfg + length (enabled_events t es) * sizeof_qem_trace cfg))
       (of_nat (sizeof_qem_trace cfg)) 1 @ enabled_bytes cfg t es)"
    using file_session_result [OF libc assms(7,8) room assms(5,6), of es] unfolding assms(9) enabled_bytes_def
    by blast
  have "fs u (trace_file_name (mt_file_index s)) = fs f' (trace_file_name (mt_file_index s))" if "cs = []"
    using at that f'(2) by (auto elim!: mt_at.cases simp: session_cmds_def mt_final_def)
  then show ?thesis
    using bound f'(1) mt_at_progress [OF at _ assms(1,2,3,4,5,6)] by blast
qed

theorem mt_session_same_file_witness:
  "\<exists>n u f'. (mt_step (default_config\<lparr>QEM_TRACE_BUFFER_SIZE := 1\<rparr>) good_mt_io ^^ n)
       (session_cmds 3 demo_events 3, mt_start (default_config\<lparr>QEM_TRACE_BUFFER_SIZE := 1\<rparr>) (\<lambda>_. None)) ([], u) \<and>
     session (file_qem_trace_enable (default_config\<lparr>QEM_TRACE_BUFFER_SIZE := 1\<rparr>) good_io)
       (file_qem_trace_disable (default_config\<lparr>QEM_TRACE_BUFFER_SIZE := 1\<rparr>) good_io) qem_tracing_state
       (file_qem_trace_output (default_config\<lparr>QEM_TRACE_BUFFER_SIZE := 1\<rparr>) good_io) 3 demo_events 3
       (file_start (default_config\<lparr>QEM_TRACE_BUFFER_SIZE := 1\<rparr>) (\<lambda>_. None)) = Done () f' \<and>
     fs u ''qem_trace_00000000.out'' = fs f' ''qem_trace_00000000.out''"
proof -
  let ?c = "default_config\<lparr>QEM_TRACE_BUFFER_SIZE := 1\<rparr>"
  let ?s = "mt_start ?c (\<lambda>_. None)" and ?f = "file_start ?c (\<lambda>_. None)"
  have io: "mt_reliable good_mt_io" "mt_libc good_mt_io = good_io"
    by (simp_all add: good_mt_io_def mt_reliable_def)
  have s: "mt_idle ?c ?s" by (rule mt_idle_start) simp_all
  have s': "qem_tracing_state ?s = 0" "mt_file_index ?s = 0" "unat (mt_file_index ?s) < 10 ^ 8"
    by (simp_all add: mt_start_def)
  have f: "file_inv ?c ?f" "qem_tracing_state ?f = 0" "qem_file_index ?f = mt_file_index ?s"
    by (rule file_inv_start, simp_all add: file_start_def mt_start_def)
  have t: "(3 :: u8) \<noteq> 0" "(3 :: u8) AND NOT 3 = 0" by simp_all
  obtain n u where run: "(mt_step ?c good_mt_io ^^ n) (session_cmds 3 demo_events 3, ?s) ([], u)"
    using mt_run_ends [OF mt_at.before io(1) s s'(1,3) t] by blast
  show ?thesis
    using run mt_session_same_file [OF io(1) s s'(1,3) t f run] unfolding io(2) s'(2) demo_file(1) by blast
qed

end
