(* ===== verification/QEM_SMI_Protocol.thy ===== *)
theory QEM_SMI_Protocol
  imports QEM_SMI_Receiver
begin

text \<open>
  The two processes of the Shared Memory Interface running at the same time. The emulator
  executes \<open>qem_smi_client_send\<close> and \<open>qem_smi_client_flush\<close>, the reader executes
  \<open>qem_smi_receive\<close>, and both work on one region under one mutex with two condition
  variables. The functions are cut into the steps between which the other process can run:
  taking and releasing the mutex, the test of the block mask, waiting on a condition
  variable, the \<open>memcpy\<close> of a block (which the code does outside the mutex), the update of
  the mask and the signal. A step reuses the sequential definitions on the shared region. The
  link is connected throughout: \<open>qem_smi_post_server_flush\<close>, connecting and disconnecting are not
  steps of these processes.
\<close>

section \<open>Threads and the shared state\<close>

text \<open>
  Where a process stands in its function: outside, at the head of the loop, before the first
  critical section, at the test of the mask, in \<open>pthread_cond_wait\<close>, woken and waiting for
  the mutex, at the end of the first section, at the \<open>memcpy\<close>, before the second section, at
  the update of the mask, at the signal and at the end of the second section.
\<close>

datatype smi_pc =
    At_Idle | At_Loop | At_Lock | At_Test | At_Wait | At_Woken | At_Unlock | At_Copy | At_Lock2
  | At_Mark | At_Signal | At_Unlock2

datatype smi_party = Sender | Reader

text \<open>
  A process: its statics (\<open>shm\<close> is overwritten by the shared region before each step), its
  position, the locals \<open>blocks\<close>, \<open>buffer\<close>, \<open>write_size\<close> or \<open>readSize\<close>, \<open>wrote\<close> or
  \<open>read\<close>, and whether the call is a flush.
\<close>

record smi_thread =
  t_link :: smi_link
  t_pc :: smi_pc
  t_blocks :: u32
  t_buffer :: bytes
  t_todo :: nat
  t_pos :: nat
  t_flush :: bool

text \<open>
  \<open>offered\<close> is the history of the bytes given to the sender (with the padding of flushes),
  \<open>delivered\<close> that of the bytes that completed calls of the reader returned.
\<close>

record smi_sys =
  region :: bytes
  mutex :: "smi_party option"
  tx :: smi_thread
  rx :: smi_thread
  offered :: bytes
  delivered :: bytes

definition tx_link :: "smi_sys \<Rightarrow> smi_link" where
  "tx_link sys = (t_link (tx sys))\<lparr>shm := region sys\<rparr>"

definition rx_link :: "smi_sys \<Rightarrow> smi_link" where
  "rx_link sys = (t_link (rx sys))\<lparr>shm := region sys\<rparr>"

definition tx_goto :: "smi_pc \<Rightarrow> smi_sys \<Rightarrow> smi_sys" where
  "tx_goto p sys = sys\<lparr>tx := (tx sys)\<lparr>t_pc := p\<rparr>\<rparr>"

definition rx_goto :: "smi_pc \<Rightarrow> smi_sys \<Rightarrow> smi_sys" where
  "rx_goto p sys = sys\<lparr>rx := (rx sys)\<lparr>t_pc := p\<rparr>\<rparr>"

text \<open>The new statics and region of a step of the sender, of the reader.\<close>

definition tx_put :: "smi_link \<Rightarrow> smi_sys \<Rightarrow> smi_sys" where
  "tx_put s sys = sys\<lparr>region := shm s, tx := (tx sys)\<lparr>t_link := s\<rparr>\<rparr>"

definition rx_put :: "smi_link \<Rightarrow> smi_sys \<Rightarrow> smi_sys" where
  "rx_put s sys = sys\<lparr>region := shm s, rx := (rx sys)\<lparr>t_link := s\<rparr>\<rparr>"

definition lock_then :: "smi_party \<Rightarrow> smi_sys \<Rightarrow> smi_sys \<Rightarrow> (unit, smi_sys) run" where
  "lock_then p sys sys' = (if mutex sys = None then Done () (sys'\<lparr>mutex := Some p\<rparr>) else Blocked sys)"

section \<open>The sender\<close>

fun tx_act :: "smi_pc \<Rightarrow> smi_sys \<Rightarrow> (unit, smi_sys) run" where
  "tx_act At_Idle sys = Blocked sys"
| "tx_act At_Loop sys =
     (let t = tx sys; s = tx_link sys
      in if block_size s < c_u32 (local_buffer_index s + t_todo t) then
           (case send_fill (t_buffer t) (t_todo t) (t_pos t) s of
              None \<Rightarrow> Fault sys
            | Some (ws, wr, s) \<Rightarrow>
                Done () (sys\<lparr>tx := t\<lparr>t_link := s, t_todo := ws, t_pos := wr, t_pc := At_Lock\<rparr>\<rparr>))
         else
           (case send_rest (t_buffer t) (t_todo t) (t_pos t) s of
              None \<Rightarrow> Fault sys
            | Some s \<Rightarrow> Done () (sys\<lparr>tx := t\<lparr>t_link := s, t_todo := 0, t_pc := At_Idle\<rparr>\<rparr>)))"
| "tx_act At_Lock sys = lock_then Sender sys (tx_goto At_Test sys)"
| "tx_act At_Test sys =
     (case smi_load_blocks (t_blocks (tx sys)) (tx_link sys) of
        None \<Rightarrow> Fault sys
      | Some b \<Rightarrow>
          let sys = sys\<lparr>tx := (tx sys)\<lparr>t_blocks := b\<rparr>\<rparr>
          in if block_used b (next_block (tx_link sys))
             then Done () ((tx_goto At_Wait sys)\<lparr>mutex := None\<rparr>)
             else Done () (tx_goto At_Unlock sys))"
| "tx_act At_Wait sys = Blocked sys"
| "tx_act At_Woken sys = lock_then Sender sys (tx_goto At_Test sys)"
| "tx_act At_Unlock sys = Done () ((tx_goto At_Copy sys)\<lparr>mutex := None\<rparr>)"
| "tx_act At_Copy sys =
     (case (if t_flush (tx sys) then flush_copy (tx_link sys)
            else smi_copy_out (block_size (tx_link sys)) (tx_link sys)) of
        None \<Rightarrow> Fault sys
      | Some s \<Rightarrow> Done () (tx_goto At_Lock2 (tx_put s sys)))"
| "tx_act At_Lock2 sys = lock_then Sender sys (tx_goto At_Mark sys)"
| "tx_act At_Mark sys =
     (case smi_mark_used (t_blocks (tx sys)) (tx_link sys) of
        None \<Rightarrow> Fault sys
      | Some (b, s) \<Rightarrow>
          let sys = tx_put s (sys\<lparr>tx := (tx sys)\<lparr>t_blocks := b\<rparr>\<rparr>)
          in Done () ((tx_goto At_Signal sys)\<lparr>offered := offered sys @
               (if t_flush (tx sys) then replicate (block_size s - local_buffer_index s) 0 else [])\<rparr>))"
| "tx_act At_Signal sys =
     Done () (tx_goto At_Unlock2 (if t_pc (rx sys) = At_Wait then rx_goto At_Woken sys else sys))"
| "tx_act At_Unlock2 sys =
     (let sys = sys\<lparr>mutex := None\<rparr>
      in if t_flush (tx sys)
         then Done () (sys\<lparr>tx := (tx sys)\<lparr>t_link := (tx_link sys)\<lparr>local_buffer_index := 0\<rparr>,
                t_flush := False, t_todo := 0, t_pc := At_Idle\<rparr>\<rparr>)
         else Done () (tx_goto At_Loop sys))"

definition tx_step :: "smi_sys \<Rightarrow> (unit, smi_sys) run" where
  "tx_step sys = tx_act (t_pc (tx sys)) sys"

text \<open>A call of \<open>qem_smi_client_send\<close> and of \<open>qem_smi_client_flush\<close>.\<close>

definition begin_send :: "bytes \<Rightarrow> smi_sys \<Rightarrow> smi_sys" where
  "begin_send data sys =
     sys\<lparr>tx := (tx sys)\<lparr>t_blocks := 0, t_buffer := data, t_todo := length data, t_pos := 0,
       t_pc := At_Loop\<rparr>, offered := offered sys @ data\<rparr>"

definition begin_flush :: "u32 \<Rightarrow> smi_sys \<Rightarrow> smi_sys" where
  "begin_flush junk sys =
     (if local_buffer_index (tx_link sys) = 0 then sys
      else sys\<lparr>tx := (tx sys)\<lparr>t_blocks := junk, t_flush := True, t_pc := At_Lock\<rparr>\<rparr>)"

section \<open>The reader\<close>

fun rx_act :: "smi_pc \<Rightarrow> smi_sys \<Rightarrow> (unit, smi_sys) run" where
  "rx_act At_Idle sys = Blocked sys"
| "rx_act At_Loop sys =
     (let t = rx sys; s = rx_link sys
      in if block_size s < c_u32 (local_buffer_index s + t_todo t) then
           (case recv_drain (t_buffer t) (t_todo t) (t_pos t) s of
              None \<Rightarrow> Fault sys
            | Some (buf, rs, rd, s) \<Rightarrow>
                Done () (sys\<lparr>rx := t\<lparr>t_link := s, t_buffer := buf, t_todo := rs, t_pos := rd,
                  t_pc := At_Lock\<rparr>\<rparr>))
         else
           (case recv_rest (t_buffer t) (t_todo t) (t_pos t) s of
              None \<Rightarrow> Fault sys
            | Some (buf, s) \<Rightarrow>
                Done () (sys\<lparr>rx := t\<lparr>t_link := s, t_buffer := buf, t_todo := 0, t_pos := 0,
                  t_pc := At_Idle\<rparr>, delivered := delivered sys @ buf\<rparr>)))"
| "rx_act At_Lock sys = lock_then Reader sys (rx_goto At_Test sys)"
| "rx_act At_Test sys =
     (case smi_load_blocks (t_blocks (rx sys)) (rx_link sys) of
        None \<Rightarrow> Fault sys
      | Some b \<Rightarrow>
          let sys = sys\<lparr>rx := (rx sys)\<lparr>t_blocks := b\<rparr>\<rparr>
          in if \<not> block_used b (next_block (rx_link sys))
             then Done () ((rx_goto At_Wait sys)\<lparr>mutex := None\<rparr>)
             else Done () (rx_goto At_Unlock sys))"
| "rx_act At_Wait sys = Blocked sys"
| "rx_act At_Woken sys = lock_then Reader sys (rx_goto At_Test sys)"
| "rx_act At_Unlock sys = Done () ((rx_goto At_Copy sys)\<lparr>mutex := None\<rparr>)"
| "rx_act At_Copy sys =
     (case smi_copy_in (rx_link sys) of
        None \<Rightarrow> Fault sys
      | Some s \<Rightarrow> Done () (rx_goto At_Lock2 (rx_put s sys)))"
| "rx_act At_Lock2 sys = lock_then Reader sys (rx_goto At_Mark sys)"
| "rx_act At_Mark sys =
     (case smi_mark_free (t_blocks (rx sys)) (rx_link sys) of
        None \<Rightarrow> Fault sys
      | Some (b, s) \<Rightarrow>
          Done () (rx_goto At_Signal (rx_put s (sys\<lparr>rx := (rx sys)\<lparr>t_blocks := b\<rparr>\<rparr>))))"
| "rx_act At_Signal sys =
     Done () (rx_goto At_Unlock2 (if t_pc (tx sys) = At_Wait then tx_goto At_Woken sys else sys))"
| "rx_act At_Unlock2 sys = Done () ((rx_goto At_Loop sys)\<lparr>mutex := None\<rparr>)"

definition rx_step :: "smi_sys \<Rightarrow> (unit, smi_sys) run" where
  "rx_step sys = rx_act (t_pc (rx sys)) sys"

text \<open>A call of \<open>qem_smi_receive\<close> with a buffer of the size that is asked for.\<close>

definition begin_receive :: "u32 \<Rightarrow> bytes \<Rightarrow> smi_sys \<Rightarrow> smi_sys" where
  "begin_receive junk buf sys =
     sys\<lparr>rx := (rx sys)\<lparr>t_blocks := junk, t_buffer := buf, t_todo := length buf, t_pos := 0,
       t_pc := At_Loop\<rparr>\<rparr>"

section \<open>The interleavings\<close>

text \<open>
  Any process may move; an idle one may start a call of less than 2 GiB; a waiting one may
  wake up without a signal, which POSIX allows.
\<close>

inductive smi_step :: "smi_sys \<Rightarrow> smi_sys \<Rightarrow> bool" where
  tx_moves: "tx_step sys = Done () sys' \<Longrightarrow> smi_step sys sys'"
| rx_moves: "rx_step sys = Done () sys' \<Longrightarrow> smi_step sys sys'"
| send: "t_pc (tx sys) = At_Idle \<Longrightarrow> length data < 2 ^ 31 \<Longrightarrow> smi_step sys (begin_send data sys)"
| flush: "t_pc (tx sys) = At_Idle \<Longrightarrow> smi_step sys (begin_flush junk sys)"
| receive: "t_pc (rx sys) = At_Idle \<Longrightarrow> length buf < 2 ^ 31 \<Longrightarrow> smi_step sys (begin_receive junk buf sys)"
| tx_spurious: "t_pc (tx sys) = At_Wait \<Longrightarrow> smi_step sys (tx_goto At_Woken sys)"
| rx_spurious: "t_pc (rx sys) = At_Wait \<Longrightarrow> smi_step sys (rx_goto At_Woken sys)"

text \<open>
  The state after the handshake: an empty ring, both processes at block 0, the local buffer
  of the sender empty and that of the reader used up.
\<close>

definition smi_sys_start :: "smi_sys \<Rightarrow> bool" where
  "smi_sys_start sys \<longleftrightarrow>
     link_mem (tx_link sys) \<and> rlink_mem (rx_link sys) \<and>
     block_count (t_link (rx sys)) = block_count (t_link (tx sys)) \<and>
     block_size (t_link (rx sys)) = block_size (t_link (tx sys)) \<and>
     next_block (t_link (tx sys)) = 0 \<and> next_block (t_link (rx sys)) = 0 \<and>
     local_buffer_index (t_link (tx sys)) = 0 \<and>
     local_buffer_index (t_link (rx sys)) = block_size (t_link (rx sys)) \<and>
     (\<forall>k < block_count (t_link (tx sys)). \<not> mask_bit (region sys) k) \<and>
     mutex sys = None \<and> t_pc (tx sys) = At_Idle \<and> t_pc (rx sys) = At_Idle \<and>
     \<not> t_flush (tx sys) \<and> t_pos (rx sys) = 0 \<and> offered sys = [] \<and> delivered sys = []"

inductive smi_reachable :: "smi_sys \<Rightarrow> bool" where
  start: "smi_sys_start sys \<Longrightarrow> smi_reachable sys"
| step: "smi_reachable sys \<Longrightarrow> smi_step sys sys' \<Longrightarrow> smi_reachable sys'"

text \<open>The bytes that have reached the caller of the reader, the call in progress included.\<close>

definition received :: "smi_sys \<Rightarrow> bytes" where
  "received sys = delivered sys @ take (t_pos (rx sys)) (t_buffer (rx sys))"

section \<open>The slots as a queue\<close>

text \<open>The distance of slot \<open>j\<close> from the reader's slot \<open>r\<close>, going round.\<close>

definition ring_off :: "nat \<Rightarrow> nat \<Rightarrow> nat \<Rightarrow> nat" where
  "ring_off bc r j = (if r \<le> j then j - r else j + bc - r)"

definition ring_holds :: "nat \<Rightarrow> nat \<Rightarrow> bytes \<Rightarrow> nat \<Rightarrow> bytes list \<Rightarrow> bool" where
  "ring_holds bc bz m r q \<longleftrightarrow> r < bc \<and> length q \<le> bc \<and>
     (\<forall>j < bc. (mask_bit m j \<longleftrightarrow> ring_off bc r j < length q) \<and>
        (mask_bit m j \<longrightarrow> block_bytes bz m j = q ! ring_off bc r j))"

lemma mod_next: "r < (bc :: nat) \<Longrightarrow> n \<le> bc \<Longrightarrow> (r + n) mod bc = (if r + n < bc then r + n else r + n - bc)"
  by (simp add: mod_if)

lemma ring_holds_write_bit:
  assumes "ring_holds bc bz m r q"
  shows "mask_bit m ((r + length q) mod bc) \<longleftrightarrow> length q = bc"
    and "mask_bit m r \<longleftrightarrow> q \<noteq> []"
proof -
  have r: "r < bc" "length q \<le> bc" using assms by (auto simp: ring_holds_def)
  then have "(r + length q) mod bc < bc"
    "ring_off bc r ((r + length q) mod bc) < length q \<longleftrightarrow> length q = bc"
    unfolding ring_off_def mod_next [OF r] by auto
  then show "mask_bit m ((r + length q) mod bc) \<longleftrightarrow> length q = bc"
    using assms by (simp add: ring_holds_def)
  show "mask_bit m r \<longleftrightarrow> q \<noteq> []"
    using assms r by (auto simp: ring_holds_def ring_off_def)
qed

lemma ring_holds_first:
  assumes "ring_holds bc bz m r q" and "q \<noteq> []"
  shows "block_bytes bz m r = hd q"
  using assms ring_holds_write_bit(2) [OF assms(1)]
  by (auto simp: ring_holds_def ring_off_def hd_conv_nth)

lemma ring_holds_same:
  assumes "ring_holds bc bz m r q" and "\<And>k. k < bc \<Longrightarrow> mask_bit m' k = mask_bit m k"
    and "\<And>k. k < bc \<Longrightarrow> mask_bit m k \<Longrightarrow> block_bytes bz m' k = block_bytes bz m k"
  shows "ring_holds bc bz m' r q"
  using assms by (simp add: ring_holds_def)

lemma ring_holds_push:
  assumes h: "ring_holds bc bz m r q" and l: "length q < bc" and w: "w = (r + length q) mod bc"
    and b: "block_bytes bz m w = b"
    and m': "\<And>k. k < bc \<Longrightarrow> mask_bit m' k \<longleftrightarrow> mask_bit m k \<or> k = w"
      "\<And>k. block_bytes bz m' k = block_bytes bz m k"
  shows "ring_holds bc bz m' r (q @ [b])"
proof -
  have r: "r < bc" "length q \<le> bc" using h by (auto simp: ring_holds_def)
  have "ring_off bc r j = length q \<longleftrightarrow> j = w" if "j < bc" for j
    using that l r unfolding w ring_off_def mod_next [OF r] by auto
  then have "ring_off bc r j < length (q @ [b]) \<longleftrightarrow> ring_off bc r j < length q \<or> j = w"
    and "j \<noteq> w \<Longrightarrow> ring_off bc r j \<noteq> length q" and "ring_off bc r w = length q \<or> \<not> w < bc" if "j < bc" for j
    using that by (auto simp: less_Suc_eq)
  then show ?thesis
    using h l b r unfolding ring_holds_def
    by (auto simp: m' nth_append)
qed

lemma ring_holds_pull:
  assumes h: "ring_holds bc bz m r q" and q: "q \<noteq> []"
    and m': "\<And>k. k < bc \<Longrightarrow> mask_bit m' k \<longleftrightarrow> mask_bit m k \<and> k \<noteq> r"
      "\<And>k. block_bytes bz m' k = block_bytes bz m k"
  shows "ring_holds bc bz m' ((r + 1) mod bc) (tl q)"
proof -
  have r: "r < bc" "length q \<le> bc" using h by (auto simp: ring_holds_def)
  have off: "ring_off bc r j = (if j = r then 0 else Suc (ring_off bc ((r + 1) mod bc) j))"
    "j = r \<Longrightarrow> ring_off bc ((r + 1) mod bc) j = bc - 1"
    if "j < bc" for j
    using that r mod_next [of r bc 1] by (auto simp: ring_off_def)
  have lt: "(r + 1) mod bc < bc" using r by simp
  have "ring_off bc ((r + 1) mod bc) j < length (tl q) \<longleftrightarrow> ring_off bc r j < length q \<and> j \<noteq> r"
    and "ring_off bc ((r + 1) mod bc) j < length (tl q) \<Longrightarrow> tl q ! ring_off bc ((r + 1) mod bc) j = q ! ring_off bc r j"
    if "j < bc" for j
    using off [OF that] r q by (auto simp: nth_tl)
  then show ?thesis
    using h lt r unfolding ring_holds_def by (auto simp: m')
qed

lemma ring_holds_empty:
  assumes "0 < bc" and "\<forall>k < bc. \<not> mask_bit m k"
  shows "ring_holds bc bz m 0 []"
  using assms by (simp add: ring_holds_def)

section \<open>The invariant\<close>

text \<open>
  Positions: between filling the local buffer and the update of the mask; inside a critical
  section; after a successful test; after the \<open>memcpy\<close>.
\<close>

definition at_busy :: "smi_pc \<Rightarrow> bool" where
  "at_busy p \<longleftrightarrow> (p \<in> {At_Lock, At_Test, At_Wait, At_Woken, At_Unlock, At_Copy, At_Lock2, At_Mark})"

definition at_locked :: "smi_pc \<Rightarrow> bool" where
  "at_locked p \<longleftrightarrow> (p \<in> {At_Test, At_Unlock, At_Mark, At_Signal, At_Unlock2})"

definition at_granted :: "smi_pc \<Rightarrow> bool" where
  "at_granted p \<longleftrightarrow> (p \<in> {At_Unlock, At_Copy, At_Lock2, At_Mark})"

definition at_copied :: "smi_pc \<Rightarrow> bool" where
  "at_copied p \<longleftrightarrow> (p \<in> {At_Lock2, At_Mark})"

lemma at_simps [simp]:
  "\<not> at_busy At_Idle" "\<not> at_busy At_Loop" "at_busy At_Lock" "at_busy At_Test"
  "at_busy At_Wait" "at_busy At_Woken" "at_busy At_Unlock" "at_busy At_Copy"
  "at_busy At_Lock2" "at_busy At_Mark" "\<not> at_busy At_Signal" "\<not> at_busy At_Unlock2"
  "\<not> at_locked At_Idle" "\<not> at_locked At_Loop" "\<not> at_locked At_Lock" "at_locked At_Test"
  "\<not> at_locked At_Wait" "\<not> at_locked At_Woken" "at_locked At_Unlock" "\<not> at_locked At_Copy"
  "\<not> at_locked At_Lock2" "at_locked At_Mark" "at_locked At_Signal" "at_locked At_Unlock2"
  "\<not> at_granted At_Idle" "\<not> at_granted At_Loop" "\<not> at_granted At_Lock" "\<not> at_granted At_Test"
  "\<not> at_granted At_Wait" "\<not> at_granted At_Woken" "at_granted At_Unlock" "at_granted At_Copy"
  "at_granted At_Lock2" "at_granted At_Mark" "\<not> at_granted At_Signal" "\<not> at_granted At_Unlock2"
  "\<not> at_copied At_Idle" "\<not> at_copied At_Loop" "\<not> at_copied At_Lock" "\<not> at_copied At_Test"
  "\<not> at_copied At_Wait" "\<not> at_copied At_Woken" "\<not> at_copied At_Unlock" "\<not> at_copied At_Copy"
  "at_copied At_Lock2" "at_copied At_Mark" "\<not> at_copied At_Signal" "\<not> at_copied At_Unlock2"
  by (simp_all add: at_busy_def at_locked_def at_granted_def at_copied_def)

definition local_bytes :: "smi_link \<Rightarrow> bytes" where
  "local_bytes s = (case local_buffer s of None \<Rightarrow> [] | Some lb \<Rightarrow> lb)"

lemma local_bytes_fields [simp]:
  "local_bytes (s\<lparr>shm := m\<rparr>) = local_bytes s" "local_bytes (s\<lparr>local_buffer_index := i\<rparr>) = local_bytes s"
  "local_bytes (s\<lparr>next_block := n\<rparr>) = local_bytes s" "local_bytes (s\<lparr>local_buffer := Some lb\<rparr>) = lb"
  by (simp_all add: local_bytes_def)

text \<open>
  The bytes in the local buffer of the sender, the block it is about to publish, what it has
  still to take from the caller, and the bytes in the local buffer of the reader.
\<close>

definition tx_pend :: "smi_thread \<Rightarrow> bytes" where
  "tx_pend t =
     (if at_busy (t_pc t) \<and> \<not> t_flush t then local_bytes (t_link t)
      else if \<not> at_busy (t_pc t) \<and> t_flush t then []
      else take (local_buffer_index (t_link t)) (local_bytes (t_link t)))"

definition tx_block :: "smi_thread \<Rightarrow> bytes" where
  "tx_block t =
     (if t_flush t then tx_pend t @ replicate (block_size (t_link t) - local_buffer_index (t_link t)) 0
      else tx_pend t)"

definition tx_rest :: "smi_thread \<Rightarrow> bytes" where
  "tx_rest t = (if t_pc t = At_Idle \<or> t_flush t then [] else take (t_todo t) (drop (t_pos t) (t_buffer t)))"

definition rx_pend :: "smi_thread \<Rightarrow> bytes" where
  "rx_pend t =
     (if at_busy (t_pc t) then []
      else drop (local_buffer_index (t_link t)) (take (block_size (t_link t)) (local_bytes (t_link t))))"

definition sys_wf :: "smi_sys \<Rightarrow> bool" where
  "sys_wf sys \<longleftrightarrow>
     link_mem (tx_link sys) \<and> rlink_mem (rx_link sys) \<and>
     block_count (t_link (rx sys)) = block_count (t_link (tx sys)) \<and>
     block_size (t_link (rx sys)) = block_size (t_link (tx sys)) \<and>
     (t_pc (tx sys) = At_Idle \<or> t_pc (tx sys) = At_Loop \<longrightarrow> \<not> t_flush (tx sys)) \<and>
     (t_pc (tx sys) \<noteq> At_Idle \<and> \<not> t_flush (tx sys) \<longrightarrow>
        t_pos (tx sys) + t_todo (tx sys) = length (t_buffer (tx sys)) \<and> length (t_buffer (tx sys)) < 2 ^ 31) \<and>
     (t_pc (tx sys) \<noteq> At_Idle \<and> t_pc (tx sys) \<noteq> At_Loop \<and> \<not> t_flush (tx sys) \<longrightarrow>
        local_buffer_index (t_link (tx sys)) = 0) \<and>
     (t_pc (rx sys) \<noteq> At_Idle \<longrightarrow>
        t_pos (rx sys) + t_todo (rx sys) = length (t_buffer (rx sys)) \<and> length (t_buffer (rx sys)) < 2 ^ 31) \<and>
     (t_pc (rx sys) = At_Idle \<longrightarrow> t_pos (rx sys) = 0) \<and>
     (t_pc (rx sys) \<noteq> At_Idle \<and> t_pc (rx sys) \<noteq> At_Loop \<longrightarrow> local_buffer_index (t_link (rx sys)) = 0)"

definition sys_mutex :: "smi_sys \<Rightarrow> bool" where
  "sys_mutex sys \<longleftrightarrow>
     (mutex sys = Some Sender \<longleftrightarrow> at_locked (t_pc (tx sys))) \<and>
     (mutex sys = Some Reader \<longleftrightarrow> at_locked (t_pc (rx sys)))"

definition sys_ring :: "smi_sys \<Rightarrow> bytes list \<Rightarrow> bool" where
  "sys_ring sys q \<longleftrightarrow>
     (let bc = block_count (t_link (tx sys)); bz = block_size (t_link (tx sys));
          w = next_block (t_link (tx sys)); r = next_block (t_link (rx sys))
      in ring_holds bc bz (region sys) r q \<and> w = (r + length q) mod bc \<and>
         (at_granted (t_pc (tx sys)) \<longrightarrow> length q < bc) \<and>
         (at_copied (t_pc (tx sys)) \<longrightarrow> block_bytes bz (region sys) w = tx_block (tx sys)) \<and>
         (at_granted (t_pc (rx sys)) \<longrightarrow> q \<noteq> []) \<and>
         (at_copied (t_pc (rx sys)) \<longrightarrow> take bz (local_bytes (t_link (rx sys))) = hd q) \<and>
         (t_pc (tx sys) = At_Wait \<longrightarrow> length q = bc \<or> t_pc (rx sys) = At_Signal) \<and>
         (t_pc (rx sys) = At_Wait \<longrightarrow> q = [] \<or> t_pc (tx sys) = At_Signal))"

definition sys_stream :: "smi_sys \<Rightarrow> bytes list \<Rightarrow> bool" where
  "sys_stream sys q \<longleftrightarrow>
     offered sys = received sys @ rx_pend (rx sys) @ concat q @ tx_pend (tx sys) @ tx_rest (tx sys)"

definition sys_inv :: "smi_sys \<Rightarrow> bool" where
  "sys_inv sys \<longleftrightarrow> sys_wf sys \<and> sys_mutex sys \<and> (\<exists>q. sys_ring sys q \<and> sys_stream sys q)"

lemmas sys_inv_defs = sys_wf_def sys_mutex_def sys_ring_def sys_stream_def received_def
  tx_pend_def tx_block_def tx_rest_def rx_pend_def

lemma sys_start_inv:
  assumes "smi_sys_start sys"
  shows "sys_inv sys"
proof -
  have "0 < block_count (t_link (tx sys))"
    using assms by (auto simp: smi_sys_start_def link_mem_def tx_link_def)
  then have "sys_ring sys []"
    using assms ring_holds_empty by (simp add: smi_sys_start_def sys_ring_def)
  moreover have "sys_stream sys []"
    using assms by (simp add: smi_sys_start_def sys_stream_def received_def rx_pend_def tx_pend_def tx_rest_def)
  ultimately show ?thesis
    using assms by (auto simp: smi_sys_start_def sys_inv_def sys_wf_def sys_mutex_def)
qed

text \<open>The test of the mask under the mutex reads the bit of the next block.\<close>

lemma load_free:
  assumes "link_mem s"
  shows "\<exists>b. smi_load_blocks b0 s = Some b \<and> block_used b (next_block s) = mask_bit (shm s) (next_block s)"
  using load_blocks_used [of "block_count s" "block_size s" "shm s" "next_block s" b0] assms
  by (auto simp: link_mem_def smi_load_blocks_def)

lemma load_used:
  assumes "rlink_mem s"
  shows "\<exists>b. smi_load_blocks b0 s = Some b \<and> block_used b (next_block s) = mask_bit (shm s) (next_block s)"
  using load_blocks_used [of "block_count s" "block_size s" "shm s" "next_block s" b0] assms
  by (auto simp: rlink_mem_def smi_load_blocks_def)

text \<open>Steps that change no byte: positions, the mutex and the local mask only.\<close>


lemma next_block_tx: "next_block (tx_link sys) = next_block (t_link (tx sys))"
  by (simp add: tx_link_def)

lemma next_block_rx: "next_block (rx_link sys) = next_block (t_link (rx sys))"
  by (simp add: rx_link_def)

lemma sys_invI:
  "sys_wf sys \<Longrightarrow> sys_mutex sys \<Longrightarrow> sys_ring sys q \<Longrightarrow> sys_stream sys q \<Longrightarrow> sys_inv sys"
  by (auto simp: sys_inv_def)

lemmas goto_defs = tx_goto_def rx_goto_def tx_link_def rx_link_def Let_def

lemma tx_lock_inv:
  assumes "sys_inv sys" and "t_pc (tx sys) \<in> {At_Lock, At_Woken}"
    and "lock_then Sender sys (tx_goto At_Test sys) = Done () sys'"
  shows "sys_inv sys'"
proof -
  have sys': "sys' = (tx_goto At_Test sys)\<lparr>mutex := Some Sender\<rparr>" "mutex sys = None"
    using assms(3) by (auto simp: lock_then_def split: if_splits)
  obtain q where "sys_ring sys q" "sys_stream sys q" "sys_wf sys" "sys_mutex sys"
    using assms(1) by (auto simp: sys_inv_def)
  then show ?thesis
    using assms(2) unfolding sys'
    by (intro sys_invI [of _ q]; elim insertE emptyE; simp add: sys_inv_defs goto_defs sys'(2))
qed

lemma tx_test_inv:
  assumes "sys_inv sys" and pc: "t_pc (tx sys) = At_Test" and "tx_act At_Test sys = Done () sys'"
  shows "sys_inv sys'"
proof -
  obtain q where q: "sys_ring sys q" "sys_stream sys q" "sys_wf sys" "sys_mutex sys"
    using assms(1) by (auto simp: sys_inv_def)
  have lm: "link_mem (tx_link sys)" using q(3) by (simp add: sys_wf_def)
  have h: "ring_holds (block_count (t_link (tx sys))) (block_size (t_link (tx sys))) (region sys)
      (next_block (t_link (rx sys))) q"
    "next_block (t_link (tx sys)) = (next_block (t_link (rx sys)) + length q) mod block_count (t_link (tx sys))"
    using q(1) by (auto simp: sys_ring_def Let_def)
  obtain b where b: "smi_load_blocks (t_blocks (tx sys)) (tx_link sys) = Some b"
    "block_used b (next_block (tx_link sys)) = mask_bit (region sys) (next_block (tx_link sys))"
    using load_free [OF lm, of "t_blocks (tx sys)"] by (auto simp: tx_link_def)
  have used: "block_used b (next_block (t_link (tx sys))) \<longleftrightarrow> length q = block_count (t_link (tx sys))"
    using b(2) ring_holds_write_bit(1) [OF h(1)] h(2) by (simp add: tx_link_def)
  have le: "length q \<le> block_count (t_link (tx sys))" using h(1) by (simp add: ring_holds_def)
  have m: "mutex sys = Some Sender" "\<not> at_locked (t_pc (rx sys))"
    using q(4) pc by (auto simp: sys_mutex_def)
  show ?thesis
  proof (cases "length q = block_count (t_link (tx sys))")
    case True
    have "sys' = sys\<lparr>tx := (tx sys)\<lparr>t_blocks := b, t_pc := At_Wait\<rparr>, mutex := None\<rparr>"
      using assms(3) True used by (simp add: b(1) Let_def tx_goto_def next_block_tx)
    then show ?thesis
      using q pc m True by (intro sys_invI [of _ q]; simp add: sys_inv_defs goto_defs)
  next
    case False
    have "sys' = sys\<lparr>tx := (tx sys)\<lparr>t_blocks := b, t_pc := At_Unlock\<rparr>\<rparr>"
      using assms(3) False used by (simp add: b(1) Let_def tx_goto_def next_block_tx)
    then show ?thesis
      using q pc False le by (intro sys_invI [of _ q]; simp add: sys_inv_defs goto_defs)
  qed
qed

lemma tx_unlock_inv:
  assumes "sys_inv sys" and pc: "t_pc (tx sys) = At_Unlock" and "tx_act At_Unlock sys = Done () sys'"
  shows "sys_inv sys'"
proof -
  obtain q where q: "sys_ring sys q" "sys_stream sys q" "sys_wf sys" "sys_mutex sys"
    using assms(1) by (auto simp: sys_inv_def)
  have "\<not> at_locked (t_pc (rx sys))" using q(4) pc by (auto simp: sys_mutex_def)
  moreover have "sys' = sys\<lparr>tx := (tx sys)\<lparr>t_pc := At_Copy\<rparr>, mutex := None\<rparr>"
    using assms(3) by (simp add: tx_goto_def)
  ultimately show ?thesis
    using q pc by (intro sys_invI [of _ q]; simp add: sys_inv_defs goto_defs)
qed

lemma tx_lock2_inv:
  assumes "sys_inv sys" and pc: "t_pc (tx sys) = At_Lock2"
    and "lock_then Sender sys (tx_goto At_Mark sys) = Done () sys'"
  shows "sys_inv sys'"
proof -
  have sys': "sys' = (tx_goto At_Mark sys)\<lparr>mutex := Some Sender\<rparr>" "mutex sys = None"
    using assms(3) by (auto simp: lock_then_def split: if_splits)
  obtain q where "sys_ring sys q" "sys_stream sys q" "sys_wf sys" "sys_mutex sys"
    using assms(1) by (auto simp: sys_inv_def)
  then show ?thesis
    using pc unfolding sys'
    by (intro sys_invI [of _ q]; simp add: sys_inv_defs goto_defs sys'(2))
qed

lemma tx_signal_inv:
  assumes "sys_inv sys" and pc: "t_pc (tx sys) = At_Signal" and "tx_act At_Signal sys = Done () sys'"
  shows "sys_inv sys'"
proof -
  obtain q where q: "sys_ring sys q" "sys_stream sys q" "sys_wf sys" "sys_mutex sys"
    using assms(1) by (auto simp: sys_inv_def)
  show ?thesis
  proof (cases "t_pc (rx sys) = At_Wait")
    case True
    then have "sys' = sys\<lparr>rx := (rx sys)\<lparr>t_pc := At_Woken\<rparr>, tx := (tx sys)\<lparr>t_pc := At_Unlock2\<rparr>\<rparr>"
      using assms(3) by (simp add: goto_defs)
    then show ?thesis using q pc True by (intro sys_invI [of _ q]; simp add: sys_inv_defs goto_defs)
  next
    case False
    then have "sys' = sys\<lparr>tx := (tx sys)\<lparr>t_pc := At_Unlock2\<rparr>\<rparr>"
      using assms(3) by (simp add: goto_defs)
    then show ?thesis using q pc False by (intro sys_invI [of _ q]; simp add: sys_inv_defs goto_defs)
  qed
qed

lemma tx_unlock2_inv:
  assumes "sys_inv sys" and pc: "t_pc (tx sys) = At_Unlock2" and "tx_act At_Unlock2 sys = Done () sys'"
  shows "sys_inv sys'"
proof -
  obtain q where q: "sys_ring sys q" "sys_stream sys q" "sys_wf sys" "sys_mutex sys"
    using assms(1) by (auto simp: sys_inv_def)
  have l: "\<not> at_locked (t_pc (rx sys))" "mutex sys = Some Sender" using q(4) pc by (auto simp: sys_mutex_def)
  show ?thesis
  proof (cases "t_flush (tx sys)")
    case True
    then have "sys' = sys\<lparr>mutex := None, tx := (tx sys)\<lparr>t_link := (tx_link sys)\<lparr>local_buffer_index := 0\<rparr>,
        t_flush := False, t_todo := 0, t_pc := At_Idle\<rparr>\<rparr>"
      using assms(3) by (simp add: goto_defs)
    moreover have "link_mem ((t_link (tx sys))\<lparr>local_buffer_index := 0, shm := region sys\<rparr>)"
      using q(3) by (simp add: sys_wf_def link_mem_def tx_link_def)
    ultimately show ?thesis
      using q pc True l by (intro sys_invI [of _ q]; simp add: sys_inv_defs goto_defs)
  next
    case False
    then have "sys' = sys\<lparr>mutex := None, tx := (tx sys)\<lparr>t_pc := At_Loop\<rparr>\<rparr>"
      using assms(3) by (simp add: goto_defs)
    then show ?thesis
      using q pc False l by (intro sys_invI [of _ q]; simp add: sys_inv_defs goto_defs)
  qed
qed

text \<open>Steps of the sender that move bytes.\<close>

lemma tx_loop_inv:
  assumes "sys_inv sys" and pc: "t_pc (tx sys) = At_Loop" and act: "tx_act At_Loop sys = Done () sys'"
  shows "sys_inv sys'"
proof -
  let ?t = "tx sys" and ?s = "tx_link sys"
  obtain q where q: "sys_ring sys q" "sys_stream sys q" "sys_wf sys" "sys_mutex sys"
    using assms(1) by (auto simp: sys_inv_def)
  have lm: "link_mem ?s" and len: "t_pos ?t + t_todo ?t = length (t_buffer ?t)" "length (t_buffer ?t) < 2 ^ 31"
    and nf: "\<not> t_flush ?t"
    using q(3) pc by (auto simp: sys_wf_def)
  have bz: "block_size ?s < 2 ^ 31" "local_buffer_index ?s \<le> block_size ?s"
    using link_mem_bound [OF lm] lm by (auto simp: link_mem_def)
  have pend: "pending (ring_of ?s) = take (local_buffer_index (t_link ?t)) (local_bytes (t_link ?t))"
    by (simp add: ring_of_def local_bytes_def tx_link_def split: option.splits)
  have small: "c_u32 (local_buffer_index ?s + t_todo ?t) = local_buffer_index ?s + t_todo ?t"
    using bz len by (intro c_u32_small) simp
  let ?rest = "take (t_todo ?t) (drop (t_pos ?t) (t_buffer ?t))"
  show ?thesis
  proof (cases "block_size ?s < local_buffer_index ?s + t_todo ?t")
    case True
    define tw where "tw = block_size ?s - local_buffer_index ?s"
    obtain lb where f: "send_fill (t_buffer ?t) (t_todo ?t) (t_pos ?t) ?s =
        Some (t_todo ?t - tw, t_pos ?t + tw, ?s\<lparr>local_buffer := Some lb, local_buffer_index := 0\<rparr>)"
      "link_mem (?s\<lparr>local_buffer := Some lb, local_buffer_index := 0\<rparr>)"
      "lb = take (block_size ?s) (pending (ring_of ?s) @ ?rest)"
      using send_fill_effect [OF lm, of "t_pos ?t" "t_todo ?t" "t_buffer ?t"] len True by (auto simp: tw_def)
    have sys': "sys' = sys\<lparr>tx := ?t\<lparr>t_link := ?s\<lparr>local_buffer := Some lb, local_buffer_index := 0\<rparr>,
        t_todo := t_todo ?t - tw, t_pos := t_pos ?t + tw, t_pc := At_Lock\<rparr>\<rparr>"
      using act True small f(1) by (simp add: Let_def)
    have lp: "length (pending (ring_of ?s)) = local_buffer_index ?s"
      using ring_of_pending(1) [OF lm] by simp
    have tw: "tw \<le> t_todo ?t" using True by (simp add: tw_def)
    have "lb = pending (ring_of ?s) @ take tw ?rest"
      using f(3) lp bz by (simp add: tw_def)
    moreover have "take (t_todo ?t - tw) (drop (t_pos ?t + tw) (t_buffer ?t)) = drop tw ?rest"
      using tw by (simp add: drop_take add.commute)
    ultimately have split: "lb @ take (t_todo ?t - tw) (drop (t_pos ?t + tw) (t_buffer ?t)) =
        pending (ring_of ?s) @ ?rest"
      by (simp only: append_assoc append_take_drop_id)
    have lm': "link_mem (t_link ?t\<lparr>local_buffer := Some lb, local_buffer_index := 0, shm := region sys\<rparr>)"
      using f(2) by (simp add: tx_link_def link_mem_def)
    show ?thesis
      using q pc nf len lm' tw split [unfolded pend] unfolding sys'
      by (intro sys_invI [of _ q]; simp add: sys_inv_defs goto_defs)
  next
    case False
    obtain u where r: "send_rest (t_buffer ?t) (t_todo ?t) (t_pos ?t) ?s = Some u" "link_evolves ?s u"
      "ring_of u = (ring_of ?s)\<lparr>pending := pending (ring_of ?s) @ ?rest\<rparr>"
      using send_rest_effect [OF lm, of "t_pos ?t" "t_todo ?t" "t_buffer ?t"] len False by auto
    have sys': "sys' = sys\<lparr>tx := ?t\<lparr>t_link := u, t_todo := 0, t_pc := At_Idle\<rparr>\<rparr>"
      using act False small r(1) by (simp add: Let_def)
    have u: "link_mem u" "block_count u = block_count (t_link ?t)" "block_size u = block_size (t_link ?t)"
      using link_evolves_fields [OF r(2)] by (simp_all add: tx_link_def)
    have nb: "next_block u = next_block (t_link ?t)" "shm u = region sys"
      using r(1) by (auto simp: send_rest_def tx_link_def split: if_splits option.splits)
    have "link_mem (u\<lparr>shm := region sys\<rparr>)" using u(1) nb(2) by (simp add: link_mem_def)
    moreover have "take (local_buffer_index u) (local_bytes u) =
        take (local_buffer_index (t_link ?t)) (local_bytes (t_link ?t)) @ ?rest"
      using arg_cong [OF r(3), of pending] pend by (simp add: ring_of_def local_bytes_def split: option.splits)
    ultimately show ?thesis
      using q pc nf u nb unfolding sys'
      by (intro sys_invI [of _ q]; simp add: sys_inv_defs goto_defs)
  qed
qed

lemma tx_copy_inv:
  assumes "sys_inv sys" and pc: "t_pc (tx sys) = At_Copy" and act: "tx_act At_Copy sys = Done () sys'"
  shows "sys_inv sys'"
proof -
  let ?t = "tx sys" and ?s = "tx_link sys"
  let ?bc = "block_count (t_link ?t)" and ?bz = "block_size (t_link ?t)" and ?w = "next_block (t_link ?t)"
  obtain q where q: "sys_ring sys q" "sys_stream sys q" "sys_wf sys" "sys_mutex sys"
    using assms(1) by (auto simp: sys_inv_def)
  have lm: "link_mem ?s" using q(3) by (simp add: sys_wf_def)
  have lb: "local_buffer ?s = Some (local_bytes (t_link ?t))"
    using lm by (auto simp: link_mem_def buffer_of_size_def local_bytes_def tx_link_def split: option.splits)
  obtain m where m: "(if t_flush ?t then flush_copy ?s else smi_copy_out (block_size ?s) ?s) = Some (?s\<lparr>shm := m\<rparr>)"
    "length m = length (region sys)" "\<forall>k. mask_bit m k = mask_bit (region sys) k"
    "\<forall>k < ?bc. block_bytes ?bz m k = (if k = ?w then tx_block ?t else block_bytes ?bz (region sys) k)"
  proof (cases "t_flush ?t")
    case True
    then show thesis
      using flush_copy_effect [OF lm lb] that pc by (auto simp: tx_link_def tx_block_def tx_pend_def)
  next
    case False
    then show thesis
      using copy_out_effect [OF lm lb] that pc by (auto simp: tx_link_def tx_block_def tx_pend_def)
  qed
  have sys': "sys' = sys\<lparr>region := m, tx := ?t\<lparr>t_link := ?s\<lparr>shm := m\<rparr>, t_pc := At_Lock2\<rparr>\<rparr>"
    using act m(1) by (simp add: tx_put_def tx_goto_def)
  have r: "ring_holds ?bc ?bz (region sys) (next_block (t_link (rx sys))) q" "length q < ?bc"
    "?w = (next_block (t_link (rx sys)) + length q) mod ?bc"
    using q(1) pc by (auto simp: sys_ring_def Let_def)
  have free: "\<not> mask_bit (region sys) ?w" and w: "?w < ?bc"
    using ring_holds_write_bit(1) [OF r(1)] r by auto
  have "ring_holds ?bc ?bz m (next_block (t_link (rx sys))) q"
    using m(3,4) free by (intro ring_holds_same [OF r(1)]) auto
  moreover have "link_mem (t_link ?t\<lparr>shm := m\<rparr>)" "rlink_mem (t_link (rx sys)\<lparr>shm := m\<rparr>)"
    using q(3) m(2) by (auto simp: sys_wf_def link_mem_def rlink_mem_def tx_link_def rx_link_def smi_geometry_def)
  moreover have "block_bytes ?bz m ?w = tx_block ?t" using m(4) w by simp
  ultimately show ?thesis
    using q pc unfolding sys'
    by (intro sys_invI [of _ q]; simp add: sys_inv_defs goto_defs)
qed

lemma tx_mark_inv:
  assumes "sys_inv sys" and pc: "t_pc (tx sys) = At_Mark" and act: "tx_act At_Mark sys = Done () sys'"
  shows "sys_inv sys'"
proof -
  let ?t = "tx sys" and ?s = "tx_link sys"
  let ?bc = "block_count (t_link ?t)" and ?bz = "block_size (t_link ?t)" and ?w = "next_block (t_link ?t)"
  let ?i = "local_buffer_index (t_link ?t)" and ?w' = "(next_block (t_link (tx sys)) + 1) mod block_count (t_link (tx sys))"
  obtain q where q: "sys_ring sys q" "sys_stream sys q" "sys_wf sys" "sys_mutex sys"
    using assms(1) by (auto simp: sys_inv_def)
  have lm: "link_mem ?s" using q(3) by (simp add: sys_wf_def)
  obtain b m where m: "smi_mark_used (t_blocks ?t) ?s = Some (b, ?s\<lparr>shm := m, next_block := ?w'\<rparr>)"
    "length m = length (region sys)" "\<forall>k < ?bc. mask_bit m k \<longleftrightarrow> mask_bit (region sys) k \<or> k = ?w"
    "\<forall>k. block_bytes ?bz m k = block_bytes ?bz (region sys) k"
    using mark_used_effect [OF lm, of "t_blocks ?t"] by (auto simp: tx_link_def)
  define pad where "pad = (if t_flush ?t then replicate (?bz - ?i) 0 else [] :: bytes)"
  have sys': "sys' = sys\<lparr>region := m, tx := ?t\<lparr>t_blocks := b,
      t_link := ?s\<lparr>shm := m, next_block := ?w'\<rparr>, t_pc := At_Signal\<rparr>, offered := offered sys @ pad\<rparr>"
    using act m(1) by (cases "t_flush ?t") (auto simp: tx_put_def tx_goto_def Let_def pad_def tx_link_def)
  have r: "ring_holds ?bc ?bz (region sys) (next_block (t_link (rx sys))) q" "length q < ?bc"
    "?w = (next_block (t_link (rx sys)) + length q) mod ?bc"
    "block_bytes ?bz (region sys) ?w = tx_block ?t"
    using q(1) pc by (auto simp: sys_ring_def Let_def)

  have h: "ring_holds ?bc ?bz m (next_block (t_link (rx sys))) (q @ [tx_block ?t])"
    using m(3,4) by (intro ring_holds_push [OF r(1,2,3,4)]) auto
  have n: "?w' = (next_block (t_link (rx sys)) + length (q @ [tx_block ?t])) mod ?bc"
    using r(3) by (simp add: mod_Suc_eq)
  have "link_mem (t_link ?t\<lparr>next_block := ?w', shm := m\<rparr>)" "rlink_mem (t_link (rx sys)\<lparr>shm := m\<rparr>)"
    using q(3) m(2) r(2) by (auto simp: sys_wf_def link_mem_def rlink_mem_def tx_link_def rx_link_def smi_geometry_def)
  then have wf: "sys_wf sys'" using q(3) pc unfolding sys' by (simp add: sys_wf_def goto_defs)
  have mu: "sys_mutex sys'" using q(4) pc unfolding sys' by (auto simp: sys_mutex_def)
  have "at_copied (t_pc (rx sys)) \<longrightarrow> q \<noteq> []" "at_granted (t_pc (rx sys)) \<longrightarrow> q \<noteq> []"
    "at_copied (t_pc (rx sys)) \<longrightarrow> take ?bz (local_bytes (t_link (rx sys))) = hd q"
    using q(1) by (cases "t_pc (rx sys)"; simp add: sys_ring_def Let_def)+
  then have ri: "sys_ring sys' (q @ [tx_block ?t])"
    using h n unfolding sys' by (simp add: sys_ring_def Let_def tx_link_def del: length_append)
  have t': "tx_pend (tx sys') = []" "tx_rest (tx sys') = tx_rest ?t"
    using q(3) pc unfolding sys' by (auto simp: tx_pend_def tx_rest_def sys_wf_def tx_link_def)
  have "tx_block ?t @ tx_rest ?t = tx_pend ?t @ tx_rest ?t @ pad"
    by (simp add: tx_block_def pad_def tx_rest_def)
  then have "sys_stream sys' (q @ [tx_block ?t])"
    using q(2) t' by (simp add: sys_stream_def) (simp add: sys' received_def)
  then show ?thesis using wf mu ri by (auto intro: sys_invI)
qed

lemma tx_step_inv:
  assumes inv: "sys_inv sys" and "tx_step sys = Done () sys'"
  shows "sys_inv sys'"
proof -
  have act: "tx_act (t_pc (tx sys)) sys = Done () sys'" using assms(2) by (simp only: tx_step_def)
  show ?thesis
  proof (cases "t_pc (tx sys)")
    case At_Idle
    then show ?thesis using act by simp
  next
    case At_Loop
    then show ?thesis using act by (intro tx_loop_inv [OF inv]) (simp_all only:)
  next
    case At_Lock
    then show ?thesis using act by (intro tx_lock_inv [OF inv]) simp_all
  next
    case At_Test
    then show ?thesis using act by (intro tx_test_inv [OF inv]) (simp_all only:)
  next
    case At_Wait
    then show ?thesis using act by simp
  next
    case At_Woken
    then show ?thesis using act by (intro tx_lock_inv [OF inv]) simp_all
  next
    case At_Unlock
    then show ?thesis using act by (intro tx_unlock_inv [OF inv]) (simp_all only:)
  next
    case At_Copy
    then show ?thesis using act by (intro tx_copy_inv [OF inv]) (simp_all only:)
  next
    case At_Lock2
    then show ?thesis using act by (intro tx_lock2_inv [OF inv]) simp_all
  next
    case At_Mark
    then show ?thesis using act by (intro tx_mark_inv [OF inv]) (simp_all only:)
  next
    case At_Signal
    then show ?thesis using act by (intro tx_signal_inv [OF inv]) (simp_all only:)
  next
    case At_Unlock2
    then show ?thesis using act by (intro tx_unlock2_inv [OF inv]) (simp_all only:)
  qed
qed

text \<open>The steps of the reader.\<close>

lemma rx_lock_inv:
  assumes "sys_inv sys" and "t_pc (rx sys) \<in> {At_Lock, At_Woken}"
    and "lock_then Reader sys (rx_goto At_Test sys) = Done () sys'"
  shows "sys_inv sys'"
proof -
  have sys': "sys' = (rx_goto At_Test sys)\<lparr>mutex := Some Reader\<rparr>" "mutex sys = None"
    using assms(3) by (auto simp: lock_then_def split: if_splits)
  obtain q where "sys_ring sys q" "sys_stream sys q" "sys_wf sys" "sys_mutex sys"
    using assms(1) by (auto simp: sys_inv_def)
  then show ?thesis
    using assms(2) unfolding sys'
    by (intro sys_invI [of _ q]; elim insertE emptyE; simp add: sys_inv_defs goto_defs sys'(2))
qed

lemma rx_test_inv:
  assumes "sys_inv sys" and pc: "t_pc (rx sys) = At_Test" and "rx_act At_Test sys = Done () sys'"
  shows "sys_inv sys'"
proof -
  obtain q where q: "sys_ring sys q" "sys_stream sys q" "sys_wf sys" "sys_mutex sys"
    using assms(1) by (auto simp: sys_inv_def)
  have lm: "rlink_mem (rx_link sys)" using q(3) by (simp add: sys_wf_def)
  have h: "ring_holds (block_count (t_link (tx sys))) (block_size (t_link (tx sys))) (region sys)
      (next_block (t_link (rx sys))) q"
    using q(1) by (auto simp: sys_ring_def Let_def)
  obtain b where b: "smi_load_blocks (t_blocks (rx sys)) (rx_link sys) = Some b"
    "block_used b (next_block (rx_link sys)) = mask_bit (region sys) (next_block (rx_link sys))"
    using load_used [OF lm, of "t_blocks (rx sys)"] by (auto simp: rx_link_def)
  have used: "block_used b (next_block (t_link (rx sys))) \<longleftrightarrow> q \<noteq> []"
    using b(2) ring_holds_write_bit(2) [OF h] by (simp add: rx_link_def)
  have m: "mutex sys = Some Reader" "\<not> at_locked (t_pc (tx sys))"
    using q(4) pc by (auto simp: sys_mutex_def)
  show ?thesis
  proof (cases "q = []")
    case True
    have "sys' = sys\<lparr>rx := (rx sys)\<lparr>t_blocks := b, t_pc := At_Wait\<rparr>, mutex := None\<rparr>"
      using assms(3) True used by (simp add: b(1) Let_def rx_goto_def next_block_rx)
    then show ?thesis
      using q pc m True by (intro sys_invI [of _ q]; simp add: sys_inv_defs goto_defs)
  next
    case False
    have "sys' = sys\<lparr>rx := (rx sys)\<lparr>t_blocks := b, t_pc := At_Unlock\<rparr>\<rparr>"
      using assms(3) False used by (simp add: b(1) Let_def rx_goto_def next_block_rx)
    then show ?thesis
      using q pc False by (intro sys_invI [of _ q]; simp add: sys_inv_defs goto_defs)
  qed
qed

lemma rx_unlock_inv:
  assumes "sys_inv sys" and pc: "t_pc (rx sys) = At_Unlock" and "rx_act At_Unlock sys = Done () sys'"
  shows "sys_inv sys'"
proof -
  obtain q where q: "sys_ring sys q" "sys_stream sys q" "sys_wf sys" "sys_mutex sys"
    using assms(1) by (auto simp: sys_inv_def)
  have "\<not> at_locked (t_pc (tx sys))" using q(4) pc by (auto simp: sys_mutex_def)
  moreover have "sys' = sys\<lparr>rx := (rx sys)\<lparr>t_pc := At_Copy\<rparr>, mutex := None\<rparr>"
    using assms(3) by (simp add: rx_goto_def)
  ultimately show ?thesis
    using q pc by (intro sys_invI [of _ q]; simp add: sys_inv_defs goto_defs)
qed

lemma rx_lock2_inv:
  assumes "sys_inv sys" and pc: "t_pc (rx sys) = At_Lock2"
    and "lock_then Reader sys (rx_goto At_Mark sys) = Done () sys'"
  shows "sys_inv sys'"
proof -
  have sys': "sys' = (rx_goto At_Mark sys)\<lparr>mutex := Some Reader\<rparr>" "mutex sys = None"
    using assms(3) by (auto simp: lock_then_def split: if_splits)
  obtain q where "sys_ring sys q" "sys_stream sys q" "sys_wf sys" "sys_mutex sys"
    using assms(1) by (auto simp: sys_inv_def)
  then show ?thesis
    using pc unfolding sys'
    by (intro sys_invI [of _ q]; simp add: sys_inv_defs goto_defs sys'(2))
qed

lemma rx_signal_inv:
  assumes "sys_inv sys" and pc: "t_pc (rx sys) = At_Signal" and "rx_act At_Signal sys = Done () sys'"
  shows "sys_inv sys'"
proof -
  obtain q where q: "sys_ring sys q" "sys_stream sys q" "sys_wf sys" "sys_mutex sys"
    using assms(1) by (auto simp: sys_inv_def)
  show ?thesis
  proof (cases "t_pc (tx sys) = At_Wait")
    case True
    then have "sys' = sys\<lparr>tx := (tx sys)\<lparr>t_pc := At_Woken\<rparr>, rx := (rx sys)\<lparr>t_pc := At_Unlock2\<rparr>\<rparr>"
      using assms(3) by (simp add: goto_defs)
    then show ?thesis using q pc True by (intro sys_invI [of _ q]; simp add: sys_inv_defs goto_defs)
  next
    case False
    then have "sys' = sys\<lparr>rx := (rx sys)\<lparr>t_pc := At_Unlock2\<rparr>\<rparr>"
      using assms(3) by (simp add: goto_defs)
    then show ?thesis using q pc False by (intro sys_invI [of _ q]; simp add: sys_inv_defs goto_defs)
  qed
qed

lemma rx_unlock2_inv:
  assumes "sys_inv sys" and pc: "t_pc (rx sys) = At_Unlock2" and "rx_act At_Unlock2 sys = Done () sys'"
  shows "sys_inv sys'"
proof -
  obtain q where q: "sys_ring sys q" "sys_stream sys q" "sys_wf sys" "sys_mutex sys"
    using assms(1) by (auto simp: sys_inv_def)
  have "\<not> at_locked (t_pc (tx sys))" using q(4) pc by (auto simp: sys_mutex_def)
  moreover have "sys' = sys\<lparr>rx := (rx sys)\<lparr>t_pc := At_Loop\<rparr>, mutex := None\<rparr>"
    using assms(3) by (simp add: rx_goto_def)
  ultimately show ?thesis
    using q pc by (intro sys_invI [of _ q]; simp add: sys_inv_defs goto_defs)
qed

text \<open>Steps of the reader that move bytes.\<close>

lemma rx_loop_inv:
  assumes "sys_inv sys" and pc: "t_pc (rx sys) = At_Loop" and act: "rx_act At_Loop sys = Done () sys'"
  shows "sys_inv sys'"
proof -
  let ?t = "rx sys" and ?s = "rx_link sys"
  obtain q where q: "sys_ring sys q" "sys_stream sys q" "sys_wf sys" "sys_mutex sys"
    using assms(1) by (auto simp: sys_inv_def)
  have lm: "rlink_mem ?s" and len: "t_pos ?t + t_todo ?t = length (t_buffer ?t)" "length (t_buffer ?t) < 2 ^ 31"
    using q(3) pc by (auto simp: sys_wf_def)
  define p where "p = pending (reader_ring_of ?s)"
  have p: "rx_pend ?t = p"
    using pc by (simp add: p_def rx_pend_def reader_ring_of_def local_bytes_def rx_link_def split: option.splits)
  note bz = reader_pending [OF lm]
  have small: "c_u32 (local_buffer_index ?s + t_todo ?t) = local_buffer_index ?s + t_todo ?t"
    using bz len by (intro c_u32_small) simp
  show ?thesis
  proof (cases "block_size ?s < local_buffer_index ?s + t_todo ?t")
    case True
    obtain buf where f: "recv_drain (t_buffer ?t) (t_todo ?t) (t_pos ?t) ?s =
        Some (buf, t_todo ?t - length p, t_pos ?t + length p, ?s\<lparr>local_buffer_index := 0\<rparr>)"
      "length buf = length (t_buffer ?t)" "take (t_pos ?t + length p) buf = take (t_pos ?t) (t_buffer ?t) @ p"
      using recv_drain_effect [OF lm _ _ True, of "t_pos ?t" "t_buffer ?t"] len by (auto simp: p_def)
    have sys': "sys' = sys\<lparr>rx := ?t\<lparr>t_link := ?s\<lparr>local_buffer_index := 0\<rparr>, t_buffer := buf,
        t_todo := t_todo ?t - length p, t_pos := t_pos ?t + length p, t_pc := At_Lock\<rparr>\<rparr>"
      using act True small f(1) by (simp add: Let_def)
    have lp: "length p \<le> t_todo ?t" using bz True by (simp add: p_def)
    have "rlink_mem (t_link ?t\<lparr>local_buffer_index := 0, shm := region sys\<rparr>)"
      using lm by (auto simp: rlink_mem_def rx_link_def)
    then have wf: "sys_wf sys'" using q(3) pc len f(2) lp unfolding sys' by (simp add: sys_wf_def goto_defs)
    have st: "sys_stream sys' q"
      using q(2) f(3) p unfolding sys_stream_def received_def sys' by (simp add: rx_pend_def)
    have "sys_mutex sys'" "sys_ring sys' q"
      using q(1,4) pc unfolding sys' by (auto simp: sys_mutex_def sys_ring_def goto_defs)
    then show ?thesis using wf st by (intro sys_invI)
  next
    case False
    define n where "n = t_todo ?t"
    have n: "n \<le> length p" "local_buffer_index ?s + n \<le> block_size ?s" using bz False by (simp_all add: p_def n_def)
    let ?buf = "take (t_pos ?t) (t_buffer ?t) @ take n p"
    have cp: "recv_copy (t_buffer ?t) (t_pos ?t) n ?s = Some ?buf"
      using recv_copy_effect [OF lm n(2), of "t_pos ?t" "t_buffer ?t"] len by (simp add: p_def n_def)
    have small': "c_u32 (local_buffer_index ?s + n) = local_buffer_index ?s + n" using small by (simp add: n_def)
    have "recv_rest (t_buffer ?t) n (t_pos ?t) ?s = Some (?buf, ?s\<lparr>local_buffer_index := local_buffer_index ?s + n\<rparr>)"
      using cp small' len by (auto simp: recv_rest_def n_def)
    then have sys': "sys' = sys\<lparr>rx := ?t\<lparr>t_link := ?s\<lparr>local_buffer_index := local_buffer_index ?s + n\<rparr>,
        t_buffer := ?buf, t_todo := 0, t_pos := 0, t_pc := At_Idle\<rparr>, delivered := delivered sys @ ?buf\<rparr>"
      using act False small by (simp add: Let_def n_def)
    have "rlink_mem (t_link ?t\<lparr>local_buffer_index := local_buffer_index (t_link ?t) + n, shm := region sys\<rparr>)"
      using lm n(2) by (auto simp: rlink_mem_def rx_link_def)
    then have wf: "sys_wf sys'" using q(3) pc unfolding sys' by (simp add: sys_wf_def goto_defs)
    have "rx_pend (rx sys') = drop n p"
      using pc unfolding sys' p [symmetric] by (simp add: rx_pend_def rx_link_def add.commute)
    then have st: "sys_stream sys' q"
      using q(2) p unfolding sys_stream_def received_def by (simp add: sys')
    have "sys_mutex sys'" "sys_ring sys' q"
      using q(1,4) pc unfolding sys' by (auto simp: sys_mutex_def sys_ring_def goto_defs)
    then show ?thesis using wf st by (intro sys_invI)
  qed
qed

lemma rx_copy_inv:
  assumes "sys_inv sys" and pc: "t_pc (rx sys) = At_Copy" and act: "rx_act At_Copy sys = Done () sys'"
  shows "sys_inv sys'"
proof -
  let ?t = "rx sys" and ?s = "rx_link sys"
  obtain q where q: "sys_ring sys q" "sys_stream sys q" "sys_wf sys" "sys_mutex sys"
    using assms(1) by (auto simp: sys_inv_def)
  have lm: "rlink_mem ?s" and bz: "block_size (t_link ?t) = block_size (t_link (tx sys))"
    using q(3) by (simp_all add: sys_wf_def)
  obtain lb where lb: "smi_copy_in ?s = Some (?s\<lparr>local_buffer := Some lb\<rparr>)"
    "take (block_size (t_link ?t)) lb = block_bytes (block_size (t_link ?t)) (region sys) (next_block (t_link ?t))"
    "block_size (t_link ?t) \<le> length lb"
    using copy_in_effect [OF lm] by (auto simp: rx_link_def)
  have sys': "sys' = sys\<lparr>region := region sys, rx := ?t\<lparr>t_link := ?s\<lparr>local_buffer := Some lb\<rparr>, t_pc := At_Lock2\<rparr>\<rparr>"
    using act lb(1) by (simp add: rx_put_def rx_goto_def rx_link_def)
  have h: "ring_holds (block_count (t_link (tx sys))) (block_size (t_link (tx sys))) (region sys)
      (next_block (t_link ?t)) q" "q \<noteq> []"
    using q(1) pc by (auto simp: sys_ring_def Let_def)
  have hd: "take (block_size (t_link (tx sys))) lb = hd q"
    using ring_holds_first [OF h] lb(2) bz by simp
  have "rlink_mem (t_link ?t\<lparr>local_buffer := Some lb, shm := region sys\<rparr>)"
    using lm lb(3) by (auto simp: rlink_mem_def rx_link_def)
  then have "sys_wf sys'" using q(3) pc unfolding sys' by (simp add: sys_wf_def goto_defs)
  moreover have "sys_mutex sys'" "sys_ring sys' q"
    using q(1,4) pc hd unfolding sys' by (auto simp: sys_mutex_def sys_ring_def goto_defs)
  moreover have "sys_stream sys' q"
    using q(2) pc unfolding sys' by (simp add: sys_stream_def received_def rx_pend_def goto_defs)
  ultimately show ?thesis by (intro sys_invI)
qed

lemma rx_mark_inv:
  assumes "sys_inv sys" and pc: "t_pc (rx sys) = At_Mark" and act: "rx_act At_Mark sys = Done () sys'"
  shows "sys_inv sys'"
proof -
  let ?t = "rx sys" and ?s = "rx_link sys"
  let ?bc = "block_count (t_link (tx sys))" and ?bz = "block_size (t_link (tx sys))"
  let ?r = "next_block (t_link ?t)" and ?w = "next_block (t_link (tx sys))"
  let ?r' = "(next_block (t_link (rx sys)) + 1) mod block_count (t_link (tx sys))"
  obtain q where q: "sys_ring sys q" "sys_stream sys q" "sys_wf sys" "sys_mutex sys"
    using assms(1) by (auto simp: sys_inv_def)
  have lm: "rlink_mem ?s" and eq: "block_count (t_link ?t) = ?bc" "block_size (t_link ?t) = ?bz"
    using q(3) by (simp_all add: sys_wf_def)
  obtain b m where m: "smi_mark_free (t_blocks ?t) ?s = Some (b, ?s\<lparr>shm := m, next_block := ?r'\<rparr>)"
    "length m = length (region sys)" "\<forall>k < ?bc. mask_bit m k \<longleftrightarrow> mask_bit (region sys) k \<and> k \<noteq> ?r"
    "\<forall>k. block_bytes ?bz m k = block_bytes ?bz (region sys) k"
    using mark_free_effect [OF lm, of "t_blocks ?t"] eq by (auto simp: rx_link_def)
  have sys': "sys' = sys\<lparr>region := m, rx := ?t\<lparr>t_blocks := b, t_link := ?s\<lparr>shm := m, next_block := ?r'\<rparr>,
      t_pc := At_Signal\<rparr>\<rparr>"
    using act m(1) by (simp add: rx_put_def rx_goto_def)
  have r: "ring_holds ?bc ?bz (region sys) ?r q" "q \<noteq> []" "?w = (?r + length q) mod ?bc"
    "take ?bz (local_bytes (t_link ?t)) = hd q"
    using q(1) pc by (auto simp: sys_ring_def Let_def)
  have h: "ring_holds ?bc ?bz m ?r' (tl q)"
    using m(3,4) by (intro ring_holds_pull [OF r(1,2)]) auto
  have len: "length (tl q) < ?bc" "?r < ?bc"
    using r(1,2) by (auto simp: ring_holds_def)
  have "?r + 1 + length (tl q) = ?r + length q" using r(2) by (cases q) simp_all
  then have w: "?w = (?r' + length (tl q)) mod ?bc"
    using r(3) by (metis mod_add_left_eq)
  have "rlink_mem (t_link ?t\<lparr>next_block := ?r', shm := m\<rparr>)" "link_mem (t_link (tx sys)\<lparr>shm := m\<rparr>)"
    using q(3) m(2) len(2) eq by (auto simp: sys_wf_def link_mem_def rlink_mem_def tx_link_def rx_link_def smi_geometry_def)
  then have wf: "sys_wf sys'" using q(3) pc unfolding sys' by (simp add: sys_wf_def goto_defs)
  have mu: "sys_mutex sys'" using q(4) pc unfolding sys' by (auto simp: sys_mutex_def)
  have "at_copied (t_pc (tx sys)) \<longrightarrow> block_bytes ?bz (region sys) ?w = tx_block (tx sys)"
    using q(1) unfolding sys_ring_def Let_def by blast
  then have ri: "sys_ring sys' (tl q)"
    using h w m(4) len(1) unfolding sys' by (simp add: sys_ring_def Let_def rx_link_def del: length_tl)
  have "rx_pend (rx sys') = hd q" "local_buffer_index (t_link ?t) = 0"
    using r(4) eq q(3) pc unfolding sys' by (simp_all add: rx_pend_def rx_link_def sys_wf_def)
  moreover have "concat q = hd q @ concat (tl q)" using r(2) by (cases q) simp_all
  moreover have "rx_pend ?t = []" using pc by (simp add: rx_pend_def)
  ultimately have "sys_stream sys' (tl q)"
    using q(2) by (simp add: sys_stream_def received_def) (simp add: sys')
  then show ?thesis using wf mu ri by (intro sys_invI)
qed

lemma rx_step_inv:
  assumes inv: "sys_inv sys" and "rx_step sys = Done () sys'"
  shows "sys_inv sys'"
proof -
  have act: "rx_act (t_pc (rx sys)) sys = Done () sys'" using assms(2) by (simp only: rx_step_def)
  show ?thesis
  proof (cases "t_pc (rx sys)")
    case At_Idle
    then show ?thesis using act by simp
  next
    case At_Loop
    then show ?thesis using act by (intro rx_loop_inv [OF inv]) (simp_all only:)
  next
    case At_Lock
    then show ?thesis using act by (intro rx_lock_inv [OF inv]) simp_all
  next
    case At_Test
    then show ?thesis using act by (intro rx_test_inv [OF inv]) (simp_all only:)
  next
    case At_Wait
    then show ?thesis using act by simp
  next
    case At_Woken
    then show ?thesis using act by (intro rx_lock_inv [OF inv]) simp_all
  next
    case At_Unlock
    then show ?thesis using act by (intro rx_unlock_inv [OF inv]) (simp_all only:)
  next
    case At_Copy
    then show ?thesis using act by (intro rx_copy_inv [OF inv]) (simp_all only:)
  next
    case At_Lock2
    then show ?thesis using act by (intro rx_lock2_inv [OF inv]) simp_all
  next
    case At_Mark
    then show ?thesis using act by (intro rx_mark_inv [OF inv]) (simp_all only:)
  next
    case At_Signal
    then show ?thesis using act by (intro rx_signal_inv [OF inv]) (simp_all only:)
  next
    case At_Unlock2
    then show ?thesis using act by (intro rx_unlock2_inv [OF inv]) (simp_all only:)
  qed
qed

text \<open>Calls and spurious wake-ups, and with them every step, keep the invariant.\<close>

lemma begin_send_inv:
  assumes "sys_inv sys" and pc: "t_pc (tx sys) = At_Idle" and "length data < 2 ^ 31"
  shows "sys_inv (begin_send data sys)"
proof -
  obtain q where "sys_ring sys q" "sys_stream sys q" "sys_wf sys" "sys_mutex sys"
    using assms(1) by (auto simp: sys_inv_def)
  then show ?thesis
    using pc assms(3) unfolding begin_send_def
    by (intro sys_invI [of _ q]; simp add: sys_inv_defs goto_defs)
qed

lemma begin_flush_inv:
  assumes "sys_inv sys" and pc: "t_pc (tx sys) = At_Idle"
  shows "sys_inv (begin_flush junk sys)"
proof (cases "local_buffer_index (tx_link sys) = 0")
  case True
  then show ?thesis using assms(1) by (simp add: begin_flush_def)
next
  case False
  obtain q where "sys_ring sys q" "sys_stream sys q" "sys_wf sys" "sys_mutex sys"
    using assms(1) by (auto simp: sys_inv_def)
  then show ?thesis
    using pc False unfolding begin_flush_def
    by (intro sys_invI [of _ q]; simp add: sys_inv_defs goto_defs)
qed

lemma begin_receive_inv:
  assumes "sys_inv sys" and pc: "t_pc (rx sys) = At_Idle" and "length buf < 2 ^ 31"
  shows "sys_inv (begin_receive junk buf sys)"
proof -
  obtain q where "sys_ring sys q" "sys_stream sys q" "sys_wf sys" "sys_mutex sys"
    using assms(1) by (auto simp: sys_inv_def)
  then show ?thesis
    using pc assms(3) unfolding begin_receive_def
    by (intro sys_invI [of _ q]; simp add: sys_inv_defs goto_defs)
qed

lemma spurious_inv:
  assumes "sys_inv sys"
  shows "t_pc (tx sys) = At_Wait \<Longrightarrow> sys_inv (tx_goto At_Woken sys)"
    and "t_pc (rx sys) = At_Wait \<Longrightarrow> sys_inv (rx_goto At_Woken sys)"
proof -
  obtain q where q: "sys_ring sys q" "sys_stream sys q" "sys_wf sys" "sys_mutex sys"
    using assms by (auto simp: sys_inv_def)
  then show "t_pc (tx sys) = At_Wait \<Longrightarrow> sys_inv (tx_goto At_Woken sys)"
    by (intro sys_invI [of _ q]; simp add: sys_inv_defs goto_defs)
  show "t_pc (rx sys) = At_Wait \<Longrightarrow> sys_inv (rx_goto At_Woken sys)"
    using q by (intro sys_invI [of _ q]; simp add: sys_inv_defs goto_defs)
qed

lemma smi_step_inv: "smi_step sys sys' \<Longrightarrow> sys_inv sys \<Longrightarrow> sys_inv sys'"
  by (induction rule: smi_step.induct)
    (auto intro: tx_step_inv rx_step_inv begin_send_inv begin_flush_inv begin_receive_inv spurious_inv)

lemma smi_reachable_inv: "smi_reachable sys \<Longrightarrow> sys_inv sys"
  by (induction rule: smi_reachable.induct) (auto intro: sys_start_inv smi_step_inv)

end
