(* ===== verification/QEM_SMI_Live.thy ===== *)
theory QEM_SMI_Live
  imports QEM_SMI_Protocol "HOL-Library.Sublist" "HOL-Library.Code_Target_Nat"
begin

text \<open>
  What the invariant of the two processes gives: the bytes arrive in order and no step leaves
  its buffers, the \<open>memcpy\<close> calls outside the mutex do not race, no wake-up is lost and the
  calls in progress come to an end.
\<close>

section \<open>Every step is defined\<close>

lemma tx_not_fault:
  assumes inv: "sys_inv sys"
  shows "\<not> is_fault (tx_step sys)"
proof -
  let ?t = "tx sys" and ?s = "tx_link sys"
  have wf: "sys_wf sys" using inv by (simp add: sys_inv_def)
  then have lm: "link_mem ?s" by (simp add: sys_wf_def)
  then obtain lb where lb: "local_buffer ?s = Some lb"
    by (auto simp: link_mem_def buffer_of_size_def split: option.splits)
  show ?thesis
  proof (cases "t_pc ?t")
    case At_Loop
    then have len: "t_pos ?t + t_todo ?t = length (t_buffer ?t)" "length (t_buffer ?t) < 2 ^ 31"
      using wf by (auto simp: sys_wf_def)
    have bz: "block_size ?s < 2 ^ 31" "local_buffer_index ?s \<le> block_size ?s"
      using link_mem_bound [OF lm] lm by (auto simp: link_mem_def)
    have small: "c_u32 (local_buffer_index ?s + t_todo ?t) = local_buffer_index ?s + t_todo ?t"
      using bz len by (intro c_u32_small) simp
    show ?thesis
      using send_fill_effect [OF lm, of "t_pos ?t" "t_todo ?t" "t_buffer ?t"]
        send_rest_effect [OF lm, of "t_pos ?t" "t_todo ?t" "t_buffer ?t"] len At_Loop small
      by (cases "block_size ?s < local_buffer_index ?s + t_todo ?t") (auto simp: tx_step_def Let_def)
  next
    case At_Test
    then show ?thesis using load_free [OF lm, of "t_blocks ?t"] by (auto simp: tx_step_def Let_def split: if_splits)
  next
    case At_Copy
    then show ?thesis
      using copy_out_effect [OF lm lb] flush_copy_effect [OF lm lb] by (cases "t_flush ?t") (auto simp: tx_step_def)
  next
    case At_Mark
    then show ?thesis using mark_used_effect [OF lm, of "t_blocks ?t"] by (auto simp: tx_step_def Let_def)
  qed (auto simp: tx_step_def lock_then_def Let_def)
qed

lemma rx_not_fault:
  assumes inv: "sys_inv sys"
  shows "\<not> is_fault (rx_step sys)"
proof -
  let ?t = "rx sys" and ?s = "rx_link sys"
  have wf: "sys_wf sys" using inv by (simp add: sys_inv_def)
  then have lm: "rlink_mem ?s" by (simp add: sys_wf_def)
  show ?thesis
  proof (cases "t_pc ?t")
    case At_Loop
    then have len: "t_pos ?t + t_todo ?t = length (t_buffer ?t)" "length (t_buffer ?t) < 2 ^ 31"
      using wf by (auto simp: sys_wf_def)
    note bz = reader_pending [OF lm]
    have small: "c_u32 (local_buffer_index ?s + t_todo ?t) = local_buffer_index ?s + t_todo ?t"
      using bz len by (intro c_u32_small) simp
    show ?thesis
      using recv_drain_effect [OF lm, of "t_pos ?t" "t_todo ?t" "t_buffer ?t"]
        recv_copy_effect [OF lm, of "t_todo ?t" "t_pos ?t" "t_buffer ?t"] len At_Loop small
      by (cases "block_size ?s < local_buffer_index ?s + t_todo ?t")
        (auto simp: rx_step_def Let_def recv_rest_def)
  next
    case At_Test
    then show ?thesis using load_used [OF lm, of "t_blocks ?t"] by (auto simp: rx_step_def Let_def split: if_splits)
  next
    case At_Copy
    then show ?thesis using copy_in_effect [OF lm] by (auto simp: rx_step_def)
  next
    case At_Mark
    then show ?thesis using mark_free_effect [OF lm, of "t_blocks ?t"] by (auto simp: rx_step_def)
  qed (auto simp: rx_step_def lock_then_def Let_def)
qed

section \<open>Order\<close>

text \<open>
  C1. However the two processes are interleaved, the reader gets the bytes the sender was
  given, in the same order, none twice and none left out: what has been received is at every
  moment a prefix of what has been offered (the padding of flushes included), and no step
  of either process reads or writes outside a buffer.
\<close>

theorem smi_stream_fifo:
  assumes "smi_reachable sys"
  shows "prefix (received sys) (offered sys) \<and> \<not> is_fault (tx_step sys) \<and> \<not> is_fault (rx_step sys)"
proof -
  have inv: "sys_inv sys" using assms by (rule smi_reachable_inv)
  then obtain q where "sys_stream sys q" by (auto simp: sys_inv_def)
  then have "prefix (received sys) (offered sys)" by (simp add: sys_stream_def)
  then show ?thesis using tx_not_fault [OF inv] rx_not_fault [OF inv] by simp
qed

section \<open>Races\<close>

text \<open>
  C8. The copies that the code makes outside the mutex never meet: when both processes are
  at their \<open>memcpy\<close> they work on different blocks. The block mask is only touched by the
  process that holds the mutex, and never by both.
\<close>

theorem smi_no_race:
  assumes "smi_reachable sys"
  shows "(t_pc (tx sys) = At_Copy \<and> t_pc (rx sys) = At_Copy \<longrightarrow>
      next_block (t_link (tx sys)) \<noteq> next_block (t_link (rx sys))) \<and>
    (t_pc (tx sys) \<in> {At_Test, At_Mark} \<longrightarrow> mutex sys = Some Sender \<and> t_pc (rx sys) \<notin> {At_Test, At_Mark}) \<and>
    (t_pc (rx sys) \<in> {At_Test, At_Mark} \<longrightarrow> mutex sys = Some Reader \<and> t_pc (tx sys) \<notin> {At_Test, At_Mark})"
proof -
  have inv: "sys_inv sys" using assms by (rule smi_reachable_inv)
  then obtain q where q: "sys_ring sys q" and mu: "sys_mutex sys" by (auto simp: sys_inv_def)
  have "next_block (t_link (tx sys)) \<noteq> next_block (t_link (rx sys))"
    if "t_pc (tx sys) = At_Copy" "t_pc (rx sys) = At_Copy"
  proof -
    let ?bc = "block_count (t_link (tx sys))"
    have h: "ring_holds ?bc (block_size (t_link (tx sys))) (region sys) (next_block (t_link (rx sys))) q"
      "next_block (t_link (tx sys)) = (next_block (t_link (rx sys)) + length q) mod ?bc"
      "length q < ?bc" "q \<noteq> []"
      using q that by (auto simp: sys_ring_def Let_def)
    show ?thesis
      using ring_holds_write_bit [OF h(1)] h by auto
  qed
  then show ?thesis using mu by (auto simp: sys_mutex_def)
qed

section \<open>No lost wake-up, no deadlock\<close>

text \<open>
  C2. When neither process can move, each of them is outside of a call or waits for what
  only a call of the other one can bring: the sender for room in a full ring while the reader
  is idle, the reader for data in an empty ring while the sender is idle, and then it has got
  everything but what fits in the sender's local buffer. So the two never wait for each other
  and no signal is lost.
\<close>

theorem smi_no_deadlock:
  assumes "smi_reachable sys" and "tx_step sys = Blocked sys" and "rx_step sys = Blocked sys"
  shows "t_pc (tx sys) = At_Idle \<and> t_pc (rx sys) = At_Idle \<or>
    t_pc (tx sys) = At_Wait \<and> t_pc (rx sys) = At_Idle \<and>
      (\<forall>k < block_count (t_link (tx sys)). mask_bit (region sys) k) \<or>
    t_pc (tx sys) = At_Idle \<and> t_pc (rx sys) = At_Wait \<and>
      (\<forall>k < block_count (t_link (tx sys)). \<not> mask_bit (region sys) k) \<and>
      length (offered sys) \<le> length (received sys) + block_size (t_link (tx sys))"
proof -
  have inv: "sys_inv sys" using assms(1) by (rule smi_reachable_inv)
  then obtain q where q: "sys_ring sys q" "sys_stream sys q" and mu: "sys_mutex sys" and wf: "sys_wf sys"
    by (auto simp: sys_inv_def)
  have tx: "mutex sys = None \<Longrightarrow> t_pc (tx sys) \<in> {At_Idle, At_Wait}" "\<not> at_locked (t_pc (tx sys))"
    using assms(2) inv tx_not_fault [OF inv]
    by (cases "t_pc (tx sys)"; auto simp: tx_step_def lock_then_def Let_def split: option.splits if_splits prod.splits)+
  have rx: "mutex sys = None \<Longrightarrow> t_pc (rx sys) \<in> {At_Idle, At_Wait}" "\<not> at_locked (t_pc (rx sys))"
    using assms(3) inv rx_not_fault [OF inv]
    by (cases "t_pc (rx sys)"; auto simp: rx_step_def lock_then_def Let_def split: option.splits if_splits prod.splits)+
  have "mutex sys = None"
    using tx(2) rx(2) mu by (cases "mutex sys") (auto simp: sys_mutex_def intro: smi_party.exhaust)
  then have pcs: "t_pc (tx sys) \<in> {At_Idle, At_Wait}" "t_pc (rx sys) \<in> {At_Idle, At_Wait}"
    using tx(1) rx(1) by auto
  let ?bc = "block_count (t_link (tx sys))"
  have h: "ring_holds ?bc (block_size (t_link (tx sys))) (region sys) (next_block (t_link (rx sys))) q"
    using q(1) by (simp add: sys_ring_def Let_def)
  have full: "t_pc (tx sys) = At_Wait \<Longrightarrow> length q = ?bc" and empty: "t_pc (rx sys) = At_Wait \<Longrightarrow> q = []"
    using q(1) pcs by (auto simp: sys_ring_def Let_def)
  have rest: "length (offered sys) \<le> length (received sys) + block_size (t_link (tx sys))"
    if "t_pc (tx sys) = At_Idle" "t_pc (rx sys) = At_Wait"
  proof -
    have "offered sys = received sys @ take (local_buffer_index (t_link (tx sys))) (local_bytes (t_link (tx sys)))"
      using q(2) that empty wf by (simp add: sys_stream_def rx_pend_def tx_pend_def tx_rest_def sys_wf_def)
    moreover have "local_buffer_index (t_link (tx sys)) \<le> block_size (t_link (tx sys))"
      using wf by (simp add: sys_wf_def link_mem_def tx_link_def)
    ultimately show ?thesis by simp
  qed
  have "length q = ?bc \<Longrightarrow> \<forall>k < ?bc. mask_bit (region sys) k" "q = [] \<Longrightarrow> \<forall>k < ?bc. \<not> mask_bit (region sys) k"
    "0 < ?bc"
    using h by (auto simp: ring_holds_def ring_off_def)
  then show ?thesis using pcs full empty rest by auto
qed

section \<open>Termination\<close>

text \<open>The moves of the two processes that no caller and no spurious wake-up has a part in.\<close>

definition smi_moves :: "smi_sys \<Rightarrow> smi_sys \<Rightarrow> bool" where
  "smi_moves sys sys' \<longleftrightarrow> tx_step sys = Done () sys' \<or> rx_step sys = Done () sys'"

text \<open>
  How far a call is from its end: the steps to the head of the loop, and twelve for each turn
  that may follow. A signal costs its sender more than it gives to the process it wakes.
\<close>

fun pc_rank :: "smi_pc \<Rightarrow> nat" where
  "pc_rank At_Idle = 0"
| "pc_rank At_Loop = 1"
| "pc_rank At_Unlock2 = 2"
| "pc_rank At_Signal = 5"
| "pc_rank At_Mark = 6"
| "pc_rank At_Lock2 = 7"
| "pc_rank At_Copy = 8"
| "pc_rank At_Unlock = 9"
| "pc_rank At_Wait = 9"
| "pc_rank At_Test = 10"
| "pc_rank At_Woken = 11"
| "pc_rank At_Lock = 11"

definition thread_work :: "smi_thread \<Rightarrow> nat" where
  "thread_work t =
     12 * (2 * t_todo t + of_bool (local_buffer_index (t_link t) = block_size (t_link t))) + pc_rank (t_pc t)"

definition smi_work :: "smi_sys \<Rightarrow> nat" where
  "smi_work sys = thread_work (tx sys) + thread_work (rx sys)"

lemmas work_defs = smi_work_def thread_work_def tx_goto_def rx_goto_def tx_put_def rx_put_def
  tx_link_def rx_link_def Let_def

lemma tx_loop_work:
  assumes inv: "sys_inv sys" and pc: "t_pc (tx sys) = At_Loop" and act: "tx_act At_Loop sys = Done () sys'"
  shows "smi_work sys' < smi_work sys"
proof -
  let ?t = "tx sys" and ?s = "tx_link sys"
  have lm: "link_mem ?s" and len: "t_pos ?t + t_todo ?t = length (t_buffer ?t)" "length (t_buffer ?t) < 2 ^ 31"
    using inv pc by (auto simp: sys_inv_def sys_wf_def)
  have bz: "block_size ?s < 2 ^ 31" "local_buffer_index ?s \<le> block_size ?s" "0 < block_size ?s"
    using link_mem_bound [OF lm] lm by (auto simp: link_mem_def smi_geometry_def)
  have small: "c_u32 (local_buffer_index ?s + t_todo ?t) = local_buffer_index ?s + t_todo ?t"
    using bz len by (intro c_u32_small) simp
  have rx: "rx sys' = rx sys"
    using act by (auto simp: Let_def split: if_splits option.splits prod.splits)
  show ?thesis
  proof (cases "block_size ?s < local_buffer_index ?s + t_todo ?t")
    case True
    obtain lb where "tx sys' = ?t\<lparr>t_link := ?s\<lparr>local_buffer := Some lb, local_buffer_index := 0\<rparr>,
        t_todo := t_todo ?t - (block_size ?s - local_buffer_index ?s),
        t_pos := t_pos ?t + (block_size ?s - local_buffer_index ?s), t_pc := At_Lock\<rparr>"
      using send_fill_effect [OF lm, of "t_pos ?t" "t_todo ?t" "t_buffer ?t"] len act True small by (auto simp: Let_def)
    then show ?thesis
      using rx pc True bz by (auto simp: smi_work_def thread_work_def tx_link_def)
  next
    case False
    obtain u where u: "send_rest (t_buffer ?t) (t_todo ?t) (t_pos ?t) ?s = Some u"
      using send_rest_effect [OF lm, of "t_pos ?t" "t_todo ?t" "t_buffer ?t"] len False by auto
    have "tx sys' = ?t\<lparr>t_link := u, t_todo := 0, t_pc := At_Idle\<rparr>"
      using act False small u by (auto simp: Let_def)
    moreover have "t_todo ?t = 0 \<Longrightarrow> u = ?s" using u by (simp add: send_rest_def)
    ultimately show ?thesis
      using rx pc by (cases "t_todo ?t = 0") (auto simp: smi_work_def thread_work_def tx_link_def)
  qed
qed

lemma rx_loop_work:
  assumes inv: "sys_inv sys" and pc: "t_pc (rx sys) = At_Loop" and act: "rx_act At_Loop sys = Done () sys'"
  shows "smi_work sys' < smi_work sys"
proof -
  let ?t = "rx sys" and ?s = "rx_link sys"
  have lm: "rlink_mem ?s" and len: "t_pos ?t + t_todo ?t = length (t_buffer ?t)" "length (t_buffer ?t) < 2 ^ 31"
    using inv pc by (auto simp: sys_inv_def sys_wf_def)
  note bz = reader_pending [OF lm]
  have small: "c_u32 (local_buffer_index ?s + t_todo ?t) = local_buffer_index ?s + t_todo ?t"
    using bz len by (intro c_u32_small) simp
  have tx: "tx sys' = tx sys"
    using act by (auto simp: Let_def split: if_splits option.splits prod.splits)
  show ?thesis
  proof (cases "block_size ?s < local_buffer_index ?s + t_todo ?t")
    case True
    obtain buf where "rx sys' = ?t\<lparr>t_link := ?s\<lparr>local_buffer_index := 0\<rparr>, t_buffer := buf,
        t_todo := t_todo ?t - (block_size ?s - local_buffer_index ?s),
        t_pos := t_pos ?t + (block_size ?s - local_buffer_index ?s), t_pc := At_Lock\<rparr>"
      using recv_drain_effect [OF lm _ _ True, of "t_pos ?t" "t_buffer ?t"] bz(1) len act True small
      by (auto simp: Let_def)
    then show ?thesis
      using tx pc True bz by (auto simp: smi_work_def thread_work_def rx_link_def)
  next
    case False
    then obtain buf u where u: "recv_rest (t_buffer ?t) (t_todo ?t) (t_pos ?t) ?s = Some (buf, u)"
      "rx sys' = ?t\<lparr>t_link := u, t_buffer := buf, t_todo := 0, t_pos := 0, t_pc := At_Idle\<rparr>"
      using act small by (auto simp: Let_def split: option.splits prod.splits)
    have "t_todo ?t = 0 \<Longrightarrow> u = ?s" using u(1) by (simp add: recv_rest_def)
    then show ?thesis
      using tx pc u(2) by (cases "t_todo ?t = 0") (auto simp: smi_work_def thread_work_def rx_link_def)
  qed
qed

lemma tx_step_work:
  assumes inv: "sys_inv sys" and st: "tx_step sys = Done () sys'"
  shows "smi_work sys' < smi_work sys"
proof -
  let ?s = "tx_link sys"
  have lm: "link_mem ?s" using inv by (simp add: sys_inv_def sys_wf_def)
  then obtain lb where lb: "local_buffer ?s = Some lb"
    by (auto simp: link_mem_def buffer_of_size_def split: option.splits)
  have bz: "0 < block_size (t_link (tx sys))" using lm by (simp add: link_mem_def smi_geometry_def tx_link_def)
  have act: "tx_act (t_pc (tx sys)) sys = Done () sys'" using st by (simp only: tx_step_def)
  show ?thesis
  proof (cases "t_pc (tx sys)")
    case At_Loop
    then show ?thesis using act by (intro tx_loop_work [OF inv]) (simp_all only:)
  next
    case At_Copy
    then show ?thesis
      using act copy_out_effect [OF lm lb] flush_copy_effect [OF lm lb]
      by (cases "t_flush (tx sys)") (auto simp: work_defs)
  next
    case At_Mark
    then show ?thesis
      using act mark_used_effect [OF lm, of "t_blocks (tx sys)"] by (auto simp: work_defs)
  qed (use act bz in \<open>auto simp: work_defs lock_then_def split: if_splits option.splits\<close>)
qed

lemma rx_step_work:
  assumes inv: "sys_inv sys" and st: "rx_step sys = Done () sys'"
  shows "smi_work sys' < smi_work sys"
proof -
  let ?s = "rx_link sys"
  have lm: "rlink_mem ?s" using inv by (simp add: sys_inv_def sys_wf_def)
  have act: "rx_act (t_pc (rx sys)) sys = Done () sys'" using st by (simp only: rx_step_def)
  show ?thesis
  proof (cases "t_pc (rx sys)")
    case At_Loop
    then show ?thesis using act by (intro rx_loop_work [OF inv]) (simp_all only:)
  next
    case At_Copy
    then show ?thesis using act copy_in_effect [OF lm] by (auto simp: work_defs)
  next
    case At_Mark
    then show ?thesis
      using act mark_free_effect [OF lm, of "t_blocks (rx sys)"] by (auto simp: work_defs)
  qed (use act in \<open>auto simp: work_defs lock_then_def split: if_splits option.splits\<close>)
qed

text \<open>
  C3. The calls in progress need a bounded number of steps, whatever the scheduler does: a
  run of the two processes without new calls has at most \<open>smi_work\<close> steps, a number linear
  in the bytes still to be moved. With the previous property, it ends in a state in which
  each process has returned or waits for a call of the other.
\<close>

theorem smi_calls_end:
  assumes "smi_reachable sys" and "(smi_moves ^^ n) sys sys'"
  shows "n + smi_work sys' \<le> smi_work sys"
proof -
  have "sys_inv sys' \<and> n + smi_work sys' \<le> smi_work sys"
    using assms(2)
  proof (induction n arbitrary: sys')
    case 0
    then show ?case using smi_reachable_inv [OF assms(1)] by simp
  next
    case (Suc n)
    then obtain u where "(smi_moves ^^ n) sys u" "smi_moves u sys'" by auto
    with Suc.IH [of u] have u: "sys_inv u" "n + smi_work u \<le> smi_work sys" "smi_moves u sys'" by auto
    then have "sys_inv sys'" "smi_work sys' < smi_work u"
      unfolding smi_moves_def by (auto intro: tx_step_inv rx_step_inv tx_step_work rx_step_work)
    then show ?case using u(2) by simp
  qed
  then show ?thesis by simp
qed

section \<open>A run\<close>

text \<open>
  A ring of two blocks of four bytes after the handshake, and a scheduler that lets the
  given processes move.
\<close>

definition demo_end :: smi_link where
  "demo_end =
     \<lparr>console = [], qem_tracing_state = 0, qem_time_start = 0, error_code = QEM_SMI_CONNECTED,
      shared_buffer = Mapped, shared_buffer_data = (Mapped, 8), shared_buffer_size = 16, shm_fd = 3,
      shm = [], local_buffer = Some [0, 0, 0, 0], local_buffer_index = 0, server_sem = True,
      client_sem = True, mon_lock = Mapped, mon_lock_fd = 4, cond_read = Mapped, cond_read_fd = 5,
      cond_write = Mapped, cond_write_fd = 6, next_block = 0, block_count = 2, block_size = 4,
      os_log = []\<rparr>"

definition demo_thread :: "smi_link \<Rightarrow> smi_thread" where
  "demo_thread s = \<lparr>t_link = s, t_pc = At_Idle, t_blocks = 0, t_buffer = [], t_todo = 0, t_pos = 0, t_flush = False\<rparr>"

definition demo_sys :: smi_sys where
  "demo_sys =
     \<lparr>region = [2, 0, 0, 0, 4, 0, 0, 0, 0, 0, 0, 0, 0, 0, 0, 0], mutex = None, tx = demo_thread demo_end,
      rx = demo_thread (demo_end\<lparr>local_buffer_index := 4\<rparr>), offered = [], delivered = []\<rparr>"

primrec smi_sched :: "smi_party list \<Rightarrow> smi_sys \<Rightarrow> smi_sys" where
  "smi_sched [] sys = sys"
| "smi_sched (p # ps) sys =
     (case (case p of Sender \<Rightarrow> tx_step sys | Reader \<Rightarrow> rx_step sys) of
        Done _ sys' \<Rightarrow> smi_sched ps sys' | _ \<Rightarrow> smi_sched ps sys)"

lemma smi_sched_reachable: "smi_reachable sys \<Longrightarrow> smi_reachable (smi_sched ps sys)"
proof (induction ps arbitrary: sys)
  case (Cons p ps)
  then show ?case
    by (cases p) (auto split: run.splits intro: smi_reachable.step tx_moves rx_moves)
qed simp

lemma demo_sys_start: "smi_sys_start demo_sys"
proof -
  have "\<not> mask_bit (region demo_sys) 0" "\<not> mask_bit (region demo_sys) 1" by code_simp+
  then have "\<forall>k < 2. \<not> mask_bit (region demo_sys) k" by (auto simp: less_2_cases_iff)
  then show ?thesis
    by (simp add: smi_sys_start_def demo_sys_def demo_thread_def demo_end_def tx_link_def rx_link_def
        link_mem_def rlink_mem_def smi_geometry_def buffer_of_size_def)
qed

text \<open>The sender has been given some bytes and has moved, then the reader asks for six.\<close>

definition demo_call :: "bytes \<Rightarrow> nat \<Rightarrow> smi_sys" where
  "demo_call data n = begin_receive 0 [0, 0, 0, 0, 0, 0]
     (smi_sched (replicate n Sender) (begin_send data demo_sys))"

lemma smi_sched_sender_rx: "t_pc (rx sys) = At_Idle \<Longrightarrow> t_pc (rx (smi_sched (replicate n Sender) sys)) = At_Idle"
proof (induction n arbitrary: sys)
  case (Suc n)
  have "t_pc (rx sys') = At_Idle" if "tx_step sys = Done () sys'" for sys'
    using that Suc.prems
    by (cases "t_pc (tx sys)")
      (auto simp: tx_step_def lock_then_def tx_goto_def rx_goto_def tx_put_def Let_def
        split: if_splits option.splits prod.splits)
  then show ?case using Suc by (auto split: run.splits)
qed simp

lemma demo_call_reachable:
  assumes "length data < 2 ^ 31"
  shows "smi_reachable (demo_call data n)"
proof -
  have "smi_step demo_sys (begin_send data demo_sys)"
    using assms by (intro smi_step.send) (simp_all add: demo_sys_def demo_thread_def)
  then have "smi_reachable (begin_send data demo_sys)"
    by (rule smi_reachable.step [OF smi_reachable.start [OF demo_sys_start]])
  then have r: "smi_reachable (smi_sched (replicate n Sender) (begin_send data demo_sys))"
    by (rule smi_sched_reachable)
  have "t_pc (rx (smi_sched (replicate n Sender) (begin_send data demo_sys))) = At_Idle"
    by (rule smi_sched_sender_rx) (simp add: begin_send_def demo_sys_def demo_thread_def)
  then show ?thesis
    unfolding demo_call_def by (intro smi_reachable.step [OF r] smi_step.receive) simp_all
qed

definition demo_starved :: smi_sys where
  "demo_starved = smi_sched (replicate 12 Reader) (demo_call [1, 2, 3, 4, 5, 6] 10)"

definition demo_copying :: smi_sys where
  "demo_copying = smi_sched (replicate 4 Reader) (demo_call [1, 2, 3, 4, 5, 6, 7, 8, 9] 13)"

lemma demo_reachable: "smi_reachable demo_starved" "smi_reachable demo_copying"
  unfolding demo_starved_def demo_copying_def by (intro smi_sched_reachable demo_call_reachable; simp)+

theorem smi_stream_fifo_witness:
  "received demo_starved = [1, 2, 3, 4] \<and> offered demo_starved = [1, 2, 3, 4, 5, 6] \<and>
   prefix (received demo_starved) (offered demo_starved)"
proof -
  have "received demo_starved = [1, 2, 3, 4]" "offered demo_starved = [1, 2, 3, 4, 5, 6]"
    by code_simp+
  then show ?thesis using smi_stream_fifo [OF demo_reachable(1)] by blast
qed

theorem smi_no_race_witness:
  "t_pc (tx demo_copying) = At_Copy \<and> t_pc (rx demo_copying) = At_Copy \<and>
   next_block (t_link (tx demo_copying)) \<noteq> next_block (t_link (rx demo_copying))"
proof -
  have "t_pc (tx demo_copying) = At_Copy" "t_pc (rx demo_copying) = At_Copy"
    by code_simp+
  then show ?thesis using smi_no_race [OF demo_reachable(2)] by blast
qed

theorem smi_no_deadlock_witness:
  "t_pc (rx demo_starved) = At_Wait \<and>
   \<not> mask_bit (region demo_starved) 0 \<and> \<not> mask_bit (region demo_starved) 1 \<and>
   length (offered demo_starved) \<le> length (received demo_starved) + 4"
proof -
  have pcs: "t_pc (tx demo_starved) = At_Idle" "t_pc (rx demo_starved) = At_Wait"
    "block_count (t_link (tx demo_starved)) = 2" "block_size (t_link (tx demo_starved)) = 4"
    by code_simp+
  from pcs(1,2) have "tx_step demo_starved = Blocked demo_starved" "rx_step demo_starved = Blocked demo_starved"
    by (simp_all add: tx_step_def rx_step_def)
  from smi_no_deadlock [OF demo_reachable(1) this] pcs show ?thesis by simp
qed

theorem smi_calls_end_witness: "1 + smi_work (smi_sched [Reader] demo_copying) \<le> smi_work demo_copying"
proof -
  have "(case rx_step demo_copying of Done _ _ \<Rightarrow> True | _ \<Rightarrow> False)" by code_simp
  then have "smi_moves demo_copying (smi_sched [Reader] demo_copying)"
    by (auto simp: smi_moves_def split: run.splits)
  then have "(smi_moves ^^ 1) demo_copying (smi_sched [Reader] demo_copying)" by (simp only: relpowp_1)
  from smi_calls_end [OF demo_reachable(2) this] show ?thesis .
qed

end
