(* ===== verification/QEM_Arch.thy ===== *)
theory QEM_Arch
  imports QEM_Backend
begin

text \<open>
  What the helpers of the three guest architectures share: the guest's physical memory, the
  time stamp they read, the guard on \<open>qem_tracing_state\<close> and the call of
  \<open>qem_trace_output\<close>. A helper is a state transformer over a back end, whose
  \<open>qem_trace_output\<close> it takes as the argument \<open>emit\<close>; the tracing state is the back
  end's own global.
\<close>

section \<open>Guest physical memory\<close>

text \<open>
  Physical memory maps an address to a byte. The helpers read 32-bit and 64-bit
  little-endian table entries from it.
\<close>

type_synonym phys_mem = "u64 \<Rightarrow> u8"

definition phys_bytes :: "phys_mem \<Rightarrow> u64 \<Rightarrow> nat \<Rightarrow> bytes" where
  "phys_bytes mem a n = map (\<lambda>i. mem (a + of_nat i)) [0..<n]"

definition ldl_phys :: "phys_mem \<Rightarrow> u64 \<Rightarrow> u32" where
  "ldl_phys mem a = le_word (phys_bytes mem a 4)"

definition ldq_phys :: "phys_mem \<Rightarrow> u64 \<Rightarrow> u64" where
  "ldq_phys mem a = le_word (phys_bytes mem a 8)"

text \<open>A memory that is zero but for some little-endian words, for concrete examples.\<close>

fun mem_of_words :: "(u64 \<times> u32) list \<Rightarrow> phys_mem" where
  "mem_of_words [] a = 0"
| "mem_of_words ((b, w) # ws) a =
     (if a - b < 4 then le_bytes 4 w ! unat (a - b) else mem_of_words ws a)"

section \<open>Time stamp and emission\<close>

text \<open>\<open>rdtsc\<close> leaves the low half of the counter in \<open>a\<close> and the high half in \<open>d\<close>.\<close>

definition tsc_time :: "u32 \<times> u32 \<Rightarrow> u64" where
  "tsc_time t = ucast (fst t) OR push_bit 32 (ucast (snd t))"

definition mk_out :: "u64 \<Rightarrow> u64 \<Rightarrow> u32 \<Rightarrow> u64 \<Rightarrow> u32 \<Rightarrow> out_args" where
  "mk_out virt phys core time flags =
     \<lparr>oa_virt_addr = virt, oa_phys_addr = phys, oa_core = core, oa_time = time,
      oa_flags = flags\<rparr>"

lemma mk_out_sel [simp]:
  "oa_virt_addr (mk_out v p c t f) = v" "oa_phys_addr (mk_out v p c t f) = p"
  "oa_core (mk_out v p c t f) = c" "oa_time (mk_out v p c t f) = t"
  "oa_flags (mk_out v p c t f) = f"
  by (simp_all add: mk_out_def)

lemma tsc_time_halves:
  "ucast (tsc_time (a, d)) = a" "ucast (drop_bit 32 (tsc_time (a, d))) = d"
  by (rule bit_word_eqI;
      auto simp: tsc_time_def bit_simps dest: bit_imp_le_length)+

text \<open>The guard every tracing helper starts with.\<close>

definition traced :: "QEM_TRACE_TTYPE_E \<Rightarrow> 'z tracer_scheme \<Rightarrow> bool" where
  "traced k s = (qem_tracing_state s AND ttype_val k \<noteq> 0)"

text \<open>
  A helper that is guarded by \<open>traced k\<close> and emits \<open>a\<close> is one guest event of the back-end
  contract, so the facts of every interpretation of \<open>trace_backend\<close> apply to it.
\<close>

lemma guarded_emit:
  "(if traced k s then emit a s else Done () s)
     = guest_event qem_tracing_state emit (ttype_val k, a) s"
  by (simp add: traced_def)

text \<open>
  Some helpers also pass a processor state on. \<open>emit_args\<close> runs \<open>qem_trace_output\<close> with
  the arguments such a helper computed, or ends the way the computation ended.
\<close>

fun with_state :: "('a, 's) run \<Rightarrow> 'e \<Rightarrow> ('a, 's \<times> 'e) run" where
  "with_state (Done a s) e = Done a (s, e)"
| "with_state (Exited c s) e = Exited c (s, e)"
| "with_state (Blocked s) e = Blocked (s, e)"
| "with_state (Fault s) e = Fault (s, e)"
| "with_state (Hangs s) e = Hangs (s, e)"

fun emit_args ::
    "(out_args \<Rightarrow> 's \<Rightarrow> (unit, 's) run) \<Rightarrow> (out_args, 'e) run \<Rightarrow> 's \<Rightarrow> (unit, 's \<times> 'e) run" where
  "emit_args emit (Done a e) s = with_state (emit a s) e"
| "emit_args emit (Exited c e) s = Exited c (s, e)"
| "emit_args emit (Blocked e) s = Blocked (s, e)"
| "emit_args emit (Fault e) s = Fault (s, e)"
| "emit_args emit (Hangs e) s = Hangs (s, e)"

fun run_value :: "('a, 's) run \<Rightarrow> 'a option" where
  "run_value (Done a s) = Some a"
| "run_value (Exited c s) = None"
| "run_value (Blocked s) = None"
| "run_value (Fault s) = None"
| "run_value (Hangs s) = None"

section \<open>Access sizes\<close>

text \<open>
  The helpers classify the size of an access by a switch whose default is 8 bits: some of
  them on the number of bytes, some on its logarithm (the \<open>TCGMemOp\<close> size).
\<close>

definition size_of_bytes :: "int \<Rightarrow> QEM_TRACE_DATA_SIZE_E" where
  "size_of_bytes n =
     (if n = 1 then QEM_TRACE_DATA_SIZE_8_BITS
      else if n = 2 then QEM_TRACE_DATA_SIZE_16_BITS
      else if n = 4 then QEM_TRACE_DATA_SIZE_32_BITS
      else if n = 8 then QEM_TRACE_DATA_SIZE_64_BITS
      else QEM_TRACE_DATA_SIZE_8_BITS)"

definition size_of_log :: "int \<Rightarrow> QEM_TRACE_DATA_SIZE_E" where
  "size_of_log n =
     (if n = 0 then QEM_TRACE_DATA_SIZE_8_BITS
      else if n = 1 then QEM_TRACE_DATA_SIZE_16_BITS
      else if n = 2 then QEM_TRACE_DATA_SIZE_32_BITS
      else if n = 3 then QEM_TRACE_DATA_SIZE_64_BITS
      else QEM_TRACE_DATA_SIZE_8_BITS)"

lemma size_switches_agree: "k \<le> 3 \<Longrightarrow> size_of_log (int k) = size_of_bytes (2 ^ k)"
proof -
  assume "k \<le> 3"
  then consider "k = 0" | "k = 1" | "k = 2" | "k = 3" by linarith
  then show ?thesis by cases (simp_all add: size_of_log_def size_of_bytes_def)
qed

section \<open>The value a flag word stands for\<close>

text \<open>A data access of a given direction, and an instruction fetch, with every field spelt out.\<close>

definition access_meta ::
    "QEM_TRACE_ACCESS_TYPE_E \<Rightarrow> QEM_TRACE_DATA_TYPE_E \<Rightarrow> QEM_TRACE_PL_E \<Rightarrow> trace_event \<Rightarrow>
     QEM_TRACE_GRANULARITY_E \<Rightarrow> QEM_TRACE_DATA_SIZE_E \<Rightarrow> QEM_TRACE_COHERENCY_E \<Rightarrow>
     QEM_TRACE_CACHE_LEVEL_E \<Rightarrow> QEM_TRACE_CACHE_INHIBIT_E \<Rightarrow> QEM_TRACE_CACHE_WT_E \<Rightarrow>
     QEM_TRACE_EVENT_EXCLUSIVE_E \<Rightarrow> trace_meta" where
  "access_meta a d p e g z c l i w x =
     \<lparr>tm_access = a, tm_data = d, tm_pl = p, tm_event = e, tm_gran = g, tm_size = z,
      tm_coh = c, tm_level = l, tm_inhib = i, tm_wt = w, tm_excl = x\<rparr>"

lemma access_meta_sel [simp]:
  "tm_access (access_meta a d p e g z c l i w x) = a"
  "tm_data (access_meta a d p e g z c l i w x) = d"
  "tm_pl (access_meta a d p e g z c l i w x) = p"
  "tm_event (access_meta a d p e g z c l i w x) = e"
  "tm_gran (access_meta a d p e g z c l i w x) = g"
  "tm_size (access_meta a d p e g z c l i w x) = z"
  "tm_coh (access_meta a d p e g z c l i w x) = c"
  "tm_level (access_meta a d p e g z c l i w x) = l"
  "tm_inhib (access_meta a d p e g z c l i w x) = i"
  "tm_wt (access_meta a d p e g z c l i w x) = w"
  "tm_excl (access_meta a d p e g z c l i w x) = x"
  by (simp_all add: access_meta_def)

text \<open>The members of an enumeration whose value is zero leave a flag word unchanged.\<close>

lemma zero_values [simp]:
  "access_type_val meta QEM_TRACE_ACCESS_TYPE_READ = 0"
  "data_type_val meta QEM_TRACE_DATA_TYPE_DATA = 0"
  "coherency_val meta QEM_TRACE_COHERENCY_NON_REQ = 0"
  "cache_inhibit_val meta QEM_TRACE_CACHE_INHIBIT_OFF = 0"
  "cache_wt_val meta QEM_TRACE_CACHE_WT_OFF = 0"
  "exclusive_val meta QEM_TRACE_EVENT_NON_EXCLUSIVE = 0"
  "cache_level_val meta QEM_TRACE_CACHE_LEVEL_1 = 0"
  "granularity_val meta QEM_TRACE_GRANULARITY_LINE = 0"
  by (simp_all add: flag_val_defs)

lemmas or_rules = or.assoc or.commute or.left_commute or.left_idem

end
