(* ===== verification/QEM_Arch_i386.thy ===== *)
theory QEM_Arch_i386
  imports QEM_Arch
begin

text \<open>
  The i386 guest: \<^verbatim>\<open>QEMTrace/arch/i386/qem_trace_engine.c\<close> and
  \<^verbatim>\<open>QEMTrace/arch/i386/helper.c\<close>, with QEMU's own page walk
  (\<open>x86_cpu_get_phys_page_debug\<close> of \<^verbatim>\<open>Qemu/target/i386/helper.c\<close>) as the reference
  the tracer's walks are compared with. The build is the 32-bit one, where
  \<open>target_ulong\<close> has 32 bits. A local variable that the C code may read before it is
  written is an argument (\<open>junk\<close>) of the model.
\<close>

section \<open>Processor state\<close>

record i386_env =
  cr0 :: u32
  cr3 :: u32
  cr4 :: u32
  cs_selector :: u32
  in_smm :: bool
  a20_mask :: u32
  i386_cpu_index :: u32

definition CR0_PG_MASK :: u32 where "CR0_PG_MASK = 0x80000000"
definition CR4_PSE_MASK :: u32 where "CR4_PSE_MASK = 0x10"
definition CR4_PAE_MASK :: u32 where "CR4_PAE_MASK = 0x20"
definition PG_PRESENT_MASK :: "'a::len word" where "PG_PRESENT_MASK = 1"
definition PG_PSE_MASK :: "'a::len word" where "PG_PSE_MASK = 0x80"
definition PG_ADDRESS_MASK :: u64 where "PG_ADDRESS_MASK = 0x000FFFFFFFFFF000"

lemmas i386_masks =
  CR0_PG_MASK_def CR4_PSE_MASK_def CR4_PAE_MASK_def PG_PRESENT_MASK_def PG_PSE_MASK_def
  PG_ADDRESS_MASK_def

section \<open>The tracer's page walk\<close>

text \<open>
  The result is the physical address and the value left in \<open>*cache_inhibit\<close>. When the
  directory entry is present and the table entry is not, the C code does not assign
  \<open>*cache_inhibit\<close>.
\<close>

definition qem_get_phys_addr_mem_tracing ::
    "phys_mem \<Rightarrow> i386_env \<Rightarrow> u32 \<Rightarrow> u32 \<Rightarrow> u32 \<times> u32" where
  "qem_get_phys_addr_mem_tracing mem env junk addr =
     (if cr0 env AND CR0_PG_MASK = 0 then (addr, 0)
      else
        let l1 = drop_bit 22 addr;
            l2 = drop_bit 12 (addr AND 0x3FFFFF);
            pgd = cr3 env AND NOT 0xfff;
            pde = ldl_phys mem (ucast (pgd + l1 * 4))
        in if pde AND PG_PRESENT_MASK \<noteq> 0 then
             if pde AND PG_PSE_MASK \<noteq> 0 \<and> cr4 env AND CR4_PSE_MASK \<noteq> 0 then
               ((pde AND 0xFFC00000) OR (addr AND 0x003FFFFF), pde AND 0x00000010)
             else
               let pte = ldl_phys mem (ucast ((pde AND NOT 0xfff) + l2 * 4))
               in if pte AND PG_PRESENT_MASK \<noteq> 0 then
                    ((pte AND 0xFFFFF000) OR (addr AND 0x00000FFF),
                     (pte AND 0x00000040) OR (pde AND 0x00000010))
                  else (0, junk)
           else (addr, 0))"

text \<open>The flag word of a data access; the size is the logarithm of the number of bytes.\<close>

definition qem_get_flags_mem_tracing ::
    "bool \<Rightarrow> i386_env \<Rightarrow> QEM_TRACE_EVENT_E \<Rightarrow> QEM_TRACE_ACCESS_TYPE_E \<Rightarrow>
     QEM_TRACE_DATA_TYPE_E \<Rightarrow> QEM_TRACE_GRANULARITY_E \<Rightarrow> u32 \<Rightarrow> u32 \<Rightarrow> u32" where
  "qem_get_flags_mem_tracing meta env trace_type access_type data_type granularity
       data_size phys_addr =
     (let flags = access_type_val meta access_type OR data_type_val meta data_type OR
                  event_val meta trace_type OR granularity_val meta granularity;
          flags = flags OR (if cs_selector env AND 0x0003 \<noteq> 0 then pl_val meta QEM_TRACE_PL_USER
                            else pl_val meta QEM_TRACE_PL_KERNEL)
      in flags OR data_size_val meta (size_of_log (uint data_size)))"

section \<open>The helpers\<close>

text \<open>
  Bit 30 of \<open>cr0\<close> or the page's own bits inhibit the caches.
\<close>

definition i386_inhibit :: "i386_env \<Rightarrow> u32 \<Rightarrow> QEM_TRACE_CACHE_INHIBIT_E" where
  "i386_inhibit env cache_inhibit =
     (if (cr0 env AND push_bit 30 1) OR cache_inhibit \<noteq> 0 then QEM_TRACE_CACHE_INHIBIT_ON
      else QEM_TRACE_CACHE_INHIBIT_OFF)"

text \<open>
  The walk that \<open>helper_qem_instld_trace\<close> carries inline: both results start at zero
  and an address that is not mapped keeps them.
\<close>

definition instld_walk :: "phys_mem \<Rightarrow> i386_env \<Rightarrow> u32 \<Rightarrow> u32 \<times> u32" where
  "instld_walk mem env current_eip =
     (if cr0 env AND CR0_PG_MASK = 0 then (current_eip, 0)
      else
        let l1 = drop_bit 22 current_eip;
            l2 = drop_bit 12 (current_eip AND 0x3FFFFF);
            pgd = cr3 env AND NOT 0xfff;
            pde = ldl_phys mem (ucast (pgd + l1 * 4))
        in if pde AND PG_PRESENT_MASK \<noteq> 0 then
             if pde AND PG_PSE_MASK \<noteq> 0 \<and> cr4 env AND CR4_PSE_MASK \<noteq> 0 then
               ((pde AND 0xFFC00000) OR (current_eip AND 0x003FFFFF), pde AND 0x00000010)
             else
               let pte = ldl_phys mem (ucast ((pde AND NOT 0xfff) + l2 * 4))
               in if pte AND PG_PRESENT_MASK \<noteq> 0 then
                    ((pte AND 0xFFFFF000) OR (current_eip AND 0x00000FFF),
                     (pte AND 0x00000040) OR (pde AND 0x00000010))
                  else (0, 0)
           else (0, 0))"

definition i386_instld_flags :: "bool \<Rightarrow> i386_env \<Rightarrow> u32 \<Rightarrow> int \<Rightarrow> u32" where
  "i386_instld_flags meta env cache_inhibit sz =
     (let flags = event_val meta QEM_TRACE_EVENT_ACCESS OR
                  access_type_val meta QEM_TRACE_ACCESS_TYPE_READ OR
                  data_type_val meta QEM_TRACE_DATA_TYPE_INST OR
                  granularity_val meta QEM_TRACE_GRANULARITY_NONE;
          flags = flags OR cache_inhibit_val meta (i386_inhibit env cache_inhibit);
          flags = flags OR (if cs_selector env AND 0x0003 \<noteq> 0 then pl_val meta QEM_TRACE_PL_USER
                            else pl_val meta QEM_TRACE_PL_KERNEL)
      in flags OR data_size_val meta (size_of_bytes sz))"

definition i386_instld_args ::
    "qem_config \<Rightarrow> phys_mem \<Rightarrow> i386_env \<Rightarrow> u32 \<times> u32 \<Rightarrow> u32 \<Rightarrow> int \<Rightarrow> out_args" where
  "i386_instld_args cfg mem env tsc current_eip sz =
     (let (phys_addr, cache_inhibit) = instld_walk mem env current_eip
      in mk_out (ucast current_eip) (ucast phys_addr) (i386_cpu_index env) (tsc_time tsc)
           (i386_instld_flags (QEM_TRACE_GATHER_META cfg) env cache_inhibit sz))"

definition i386_helper_qem_instld_trace ::
    "qem_config \<Rightarrow> (out_args \<Rightarrow> 'z tracer_scheme \<Rightarrow> (unit, 'z tracer_scheme) run) \<Rightarrow> phys_mem \<Rightarrow>
     i386_env \<Rightarrow> u32 \<times> u32 \<Rightarrow> u32 \<Rightarrow> int \<Rightarrow> 'z tracer_scheme \<Rightarrow> (unit, 'z tracer_scheme) run" where
  "i386_helper_qem_instld_trace cfg emit mem env tsc current_eip sz s =
     (if traced QEM_TRACE_ITRACE s then emit (i386_instld_args cfg mem env tsc current_eip sz) s
      else Done () s)"

text \<open>
  A data access: \<open>cache_inhibit\<close> is not initialised, and without
  \<open>QEM_TRACE_PHYSICAL_ADDRESS\<close> nothing assigns it.
\<close>

definition i386_data_args ::
    "qem_config \<Rightarrow> phys_mem \<Rightarrow> i386_env \<Rightarrow> u32 \<Rightarrow> u32 \<times> u32 \<Rightarrow> QEM_TRACE_ACCESS_TYPE_E \<Rightarrow> u32 \<Rightarrow>
     u32 \<Rightarrow> out_args" where
  "i386_data_args cfg mem env junk tsc access addr data_size =
     (let (phys_addr, cache_inhibit) =
            (if QEM_TRACE_PHYSICAL_ADDRESS cfg
             then qem_get_phys_addr_mem_tracing mem env junk addr else (addr, junk));
          meta = QEM_TRACE_GATHER_META cfg;
          flags = qem_get_flags_mem_tracing meta env QEM_TRACE_EVENT_ACCESS access
                    QEM_TRACE_DATA_TYPE_DATA QEM_TRACE_GRANULARITY_NONE data_size phys_addr;
          flags = flags OR cache_inhibit_val meta (i386_inhibit env cache_inhibit)
      in mk_out (ucast addr) (ucast phys_addr) (i386_cpu_index env) (tsc_time tsc) flags)"

definition i386_helper_qem_datald_trace ::
    "qem_config \<Rightarrow> (out_args \<Rightarrow> 'z tracer_scheme \<Rightarrow> (unit, 'z tracer_scheme) run) \<Rightarrow> phys_mem \<Rightarrow>
     i386_env \<Rightarrow> u32 \<Rightarrow> u32 \<times> u32 \<Rightarrow> u32 \<Rightarrow> u32 \<Rightarrow> 'z tracer_scheme \<Rightarrow>
     (unit, 'z tracer_scheme) run" where
  "i386_helper_qem_datald_trace cfg emit mem env junk tsc addr data_size s =
     (if traced QEM_TRACE_DTRACE s
      then emit (i386_data_args cfg mem env junk tsc QEM_TRACE_ACCESS_TYPE_READ addr data_size) s
      else Done () s)"

definition i386_helper_qem_datast_trace ::
    "qem_config \<Rightarrow> (out_args \<Rightarrow> 'z tracer_scheme \<Rightarrow> (unit, 'z tracer_scheme) run) \<Rightarrow> phys_mem \<Rightarrow>
     i386_env \<Rightarrow> u32 \<Rightarrow> u32 \<times> u32 \<Rightarrow> u32 \<Rightarrow> u32 \<Rightarrow> 'z tracer_scheme \<Rightarrow>
     (unit, 'z tracer_scheme) run" where
  "i386_helper_qem_datast_trace cfg emit mem env junk tsc addr data_size s =
     (if traced QEM_TRACE_DTRACE s
      then emit (i386_data_args cfg mem env junk tsc QEM_TRACE_ACCESS_TYPE_WRITE addr data_size) s
      else Done () s)"

text \<open>The start, stop and timer helpers hand over to the back end; \<open>type\<close> is narrowed to the
  8-bit tracing state.\<close>

definition i386_helper_qem_start_trace :: "(u8 \<Rightarrow> 's \<Rightarrow> (unit, 's) run) \<Rightarrow> u32 \<Rightarrow> 's \<Rightarrow> (unit, 's) run" where
  "i386_helper_qem_start_trace qem_trace_enable type s = qem_trace_enable (ucast type) s"

definition i386_helper_qem_stop_trace :: "(u8 \<Rightarrow> 's \<Rightarrow> (unit, 's) run) \<Rightarrow> u32 \<Rightarrow> 's \<Rightarrow> (unit, 's) run" where
  "i386_helper_qem_stop_trace qem_trace_disable type s = qem_trace_disable (ucast type) s"

definition i386_helper_qem_trace_start_timer :: "('s \<Rightarrow> (unit, 's) run) \<Rightarrow> 's \<Rightarrow> (unit, 's) run" where
  "i386_helper_qem_trace_start_timer qem_trace_start_timer s = qem_trace_start_timer s"

definition i386_helper_qem_trace_get_timer :: "('s \<Rightarrow> (unit, 's) run) \<Rightarrow> 's \<Rightarrow> (unit, 's) run" where
  "i386_helper_qem_trace_get_timer qem_trace_get_timer s = qem_trace_get_timer s"

section \<open>QEMU's page walk\<close>

definition x86_get_a20_mask :: "i386_env \<Rightarrow> u32" where
  "x86_get_a20_mask env = (if in_smm env then - 1 else a20_mask env)"

text \<open>
  The three ways the walk ends with an entry, as \<open>pte\<close> and \<open>page_size\<close>, or -1. The mask
  is a signed 32-bit integer, so it is sign extended where a 64-bit value meets it.
\<close>

definition x86_walk_pae :: "phys_mem \<Rightarrow> i386_env \<Rightarrow> u64 \<Rightarrow> (u64 \<times> u64) option" where
  "x86_walk_pae mem env addr =
     (let a20 = scast (x86_get_a20_mask env) :: u64;
          pdpe_addr = ucast ((ucast (cr3 env AND NOT 0x1f) + (drop_bit 27 addr AND 0x18)) AND a20) :: u32;
          pdpe = ldq_phys mem (ucast pdpe_addr)
      in if pdpe AND PG_PRESENT_MASK = 0 then None
         else
           let pde_addr = ucast (((pdpe AND PG_ADDRESS_MASK) +
                  push_bit 3 (drop_bit 21 addr AND 0x1ff)) AND a20) :: u32;
               pde = ldq_phys mem (ucast pde_addr)
           in if pde AND PG_PRESENT_MASK = 0 then None
              else
                let (pte, page_size) =
                  (if pde AND PG_PSE_MASK \<noteq> 0 then (pde, 2048 * 1024)
                   else
                     let pte_addr = ucast (((pde AND PG_ADDRESS_MASK) +
                            push_bit 3 (drop_bit 12 addr AND 0x1ff)) AND a20) :: u32
                     in (ldq_phys mem (ucast pte_addr), 4096))
                in if pte AND PG_PRESENT_MASK = 0 then None else Some (pte, page_size))"

definition x86_walk_legacy :: "phys_mem \<Rightarrow> i386_env \<Rightarrow> u64 \<Rightarrow> (u64 \<times> u64) option" where
  "x86_walk_legacy mem env addr =
     (let a20 = scast (x86_get_a20_mask env) :: u64;
          pde_addr = ucast ((ucast (cr3 env AND NOT 0xfff) + (drop_bit 20 addr AND 0xffc)) AND a20) :: u32;
          pde = ldl_phys mem (ucast pde_addr)
      in if pde AND PG_PRESENT_MASK = 0 then None
         else if pde AND PG_PSE_MASK \<noteq> 0 \<and> cr4 env AND CR4_PSE_MASK \<noteq> 0 then
           Some ((ucast pde OR push_bit (32 - 13) (ucast pde AND 0x1fe000)) AND a20, 4096 * 1024)
         else
           let pte_addr = ucast ((ucast (pde AND NOT 0xfff) + (drop_bit 10 addr AND 0xffc)) AND a20) :: u32;
               pte = ldl_phys mem (ucast pte_addr)
           in if pte AND PG_PRESENT_MASK = 0 then None
              else Some (ucast pte AND a20, 4096))"

definition x86_cpu_get_phys_page_debug :: "phys_mem \<Rightarrow> i386_env \<Rightarrow> u64 \<Rightarrow> u64" where
  "x86_cpu_get_phys_page_debug mem env addr =
     (let found =
        (if cr0 env AND CR0_PG_MASK = 0 then Some (addr AND scast (x86_get_a20_mask env), 4096)
         else if cr4 env AND CR4_PAE_MASK \<noteq> 0 then x86_walk_pae mem env addr
         else x86_walk_legacy mem env addr)
      in case found of None \<Rightarrow> - 1
         | Some (pte, page_size) \<Rightarrow>
             let pte = pte AND (PG_ADDRESS_MASK AND NOT (page_size - 1));
                 page_offset = ucast ((addr AND NOT 0xfff) AND (page_size - 1)) :: u32
             in pte OR ucast page_offset)"

section \<open>Bit arithmetic of the walks\<close>

lemma take_bit_32_64: "take_bit 32 (take_bit 64 x + take_bit 64 y) = take_bit 32 (x + y :: int)"
  using take_bit_add [of 32 "take_bit 64 x" "take_bit 64 y"] take_bit_add [of 32 x y]
  by simp

lemma ucast_plus_down: "(ucast (x + y :: u64) :: u32) = ucast x + ucast y"
  by transfer (simp add: take_bit_add take_bit_32_64)

lemma ucast_up_down [simp]: "ucast (ucast (x :: u32) :: u64) = x"
  by (rule bit_word_eqI) (auto simp: bit_unsigned_iff)

text \<open>The literal masks of the sources as shifted masks, whose bits are known.\<close>

lemma mask_consts:
  "(0xFFC :: u64) = push_bit 2 (mask 10)"
  "(0x3FFFFF :: u32) = mask 22" "(0xFFF :: u32) = mask 12" "(0xFFF :: u64) = mask 12"
  "(0x3FFFFF :: u64) = mask 22"
  "(0xFFC00000 :: u32) = push_bit 22 (mask 10)" "(0xFFFFF000 :: u32) = push_bit 12 (mask 20)"
  "(0x000FFFFFFFFFF000 :: u64) = push_bit 12 (mask 40)"
  by (simp_all add: mask_eq_exp_minus_1 push_bit_eq_mult)

lemmas word_bits =
  bit_and_iff bit_or_iff bit_not_iff bit_unsigned_iff bit_drop_bit_eq bit_push_bit_iff
  bit_mask_iff

lemma times4_push: "(x :: u32) * 4 = push_bit 2 x"
  by (simp add: push_bit_eq_mult)

lemma pde_index:
  "ucast (drop_bit 20 (ucast (addr :: u32) :: u64) AND 0xFFC) = drop_bit 22 addr * (4 :: u32)"
  unfolding times4_push mask_consts
  by (rule bit_word_eqI) (auto simp: word_bits dest: bit_imp_le_length)

lemma pte_index:
  "ucast (drop_bit 10 (ucast (addr :: u32) :: u64) AND 0xFFC)
     = drop_bit 12 (addr AND 0x3FFFFF) * (4 :: u32)"
  unfolding times4_push mask_consts
  by (rule bit_word_eqI) (auto simp: word_bits dest: bit_imp_le_length)


text \<open>
  With the address line gate open and 32-bit page tables, the entries QEMU's walk reads are
  the ones the tracer reads.
\<close>

lemma x86_walk_legacy_entries:
  assumes "x86_get_a20_mask env = - 1"
  shows "x86_walk_legacy mem env (ucast addr) =
    (let pde = ldl_phys mem (ucast ((cr3 env AND NOT 0xfff) + drop_bit 22 addr * 4));
         pte = ldl_phys mem (ucast ((pde AND NOT 0xfff) + drop_bit 12 (addr AND 0x3FFFFF) * 4))
     in if pde AND PG_PRESENT_MASK = 0 then None
        else if pde AND PG_PSE_MASK \<noteq> 0 \<and> cr4 env AND CR4_PSE_MASK \<noteq> 0
        then Some (ucast pde OR push_bit 19 (ucast pde AND 0x1fe000), 4096 * 1024)
        else if pte AND PG_PRESENT_MASK = 0 then None else Some (ucast pte, 4096))"
  using assms
  by (simp add: x86_walk_legacy_def Let_def ucast_plus_down pde_index pte_index)

text \<open>The page frames of the two page sizes, cut out of a 64-bit entry or of a 32-bit one.\<close>

lemma frame_4K:
  "ucast (ucast (pte :: u32) AND (PG_ADDRESS_MASK AND NOT (4096 - 1)) OR
      ucast (ucast ((ucast addr AND NOT 0xfff) AND (4096 - 1 :: u64)) :: u32)) OR (addr AND 0xFFF)
    = (pte AND 0xFFFFF000) OR (addr AND 0x00000FFF :: u32)"
proof -
  have c: "(4096 - 1 :: u64) = mask 12" by (simp add: mask_eq_exp_minus_1)
  show ?thesis
    unfolding c mask_consts PG_ADDRESS_MASK_def
    by (rule bit_word_eqI) (auto simp: word_bits)
qed

lemma frame_4M:
  "ucast ((ucast (pde :: u32) OR push_bit 19 (ucast pde AND 0x1fe000)) AND
        (PG_ADDRESS_MASK AND NOT (4096 * 1024 - 1)) OR
      ucast (ucast ((ucast addr AND NOT 0xfff) AND (4096 * 1024 - 1 :: u64)) :: u32)) OR
      (addr AND 0xFFF)
    = (pde AND 0xFFC00000) OR (addr AND 0x003FFFFF :: u32)"
proof -
  have c: "(4096 * 1024 - 1 :: u64) = mask 22" "(0x1fe000 :: u64) = push_bit 13 (mask 8)"
    by (simp_all add: mask_eq_exp_minus_1 push_bit_eq_mult)
  show ?thesis
    unfolding c mask_consts PG_ADDRESS_MASK_def
    by (rule bit_word_eqI) (auto simp: word_bits)
qed

lemma page_not_minus_1:
  "(pte AND (PG_ADDRESS_MASK AND m)) OR
     ucast (ucast ((addr AND NOT 0xfff) AND (k :: u64)) :: u32) \<noteq> (- 1 :: u64)"
proof
  assume "(pte AND (PG_ADDRESS_MASK AND m)) OR
     ucast (ucast ((addr AND NOT 0xfff) AND (k :: u64)) :: u32) = (- 1 :: u64)"
  then have "bit ((pte AND (PG_ADDRESS_MASK AND m)) OR
     ucast (ucast ((addr AND NOT 0xfff) AND (k :: u64)) :: u32)) 0"
    by simp
  then show False unfolding mask_consts PG_ADDRESS_MASK_def by (simp add: word_bits)
qed

section \<open>The tracer's walks against QEMU's\<close>

text \<open>The hypotheses under which the two kinds of walk look at the same tables.\<close>

definition i386_plain_paging :: "i386_env \<Rightarrow> bool" where
  "i386_plain_paging env = (cr4 env AND CR4_PAE_MASK = 0 \<and> x86_get_a20_mask env = - 1)"

lemma walks_paging_off:
  assumes "i386_plain_paging env" and "cr0 env AND CR0_PG_MASK = 0"
  shows "ucast (x86_cpu_get_phys_page_debug mem env (ucast addr)) OR (addr AND 0xFFF) = (addr :: u32)"
proof -
  have c: "(4096 - 1 :: u64) = mask 12" by (simp add: mask_eq_exp_minus_1)
  have "ucast (ucast addr AND (PG_ADDRESS_MASK AND NOT (4096 - 1)) OR
      ucast (ucast ((ucast addr AND NOT 0xfff) AND (4096 - 1 :: u64)) :: u32)) OR (addr AND 0xFFF)
    = (addr :: u32)"
    unfolding c mask_consts PG_ADDRESS_MASK_def
    by (rule bit_word_eqI) (auto simp: word_bits)
  with assms show ?thesis
    by (simp add: x86_cpu_get_phys_page_debug_def i386_plain_paging_def)
qed

lemma walks_paging_on:
  assumes plain: "i386_plain_paging env" and on: "cr0 env AND CR0_PG_MASK \<noteq> 0"
  shows "x86_cpu_get_phys_page_debug mem env (ucast addr) \<noteq> - 1 \<Longrightarrow>
      qem_get_phys_addr_mem_tracing mem env junk addr = instld_walk mem env addr \<and>
      fst (instld_walk mem env addr) =
        ucast (x86_cpu_get_phys_page_debug mem env (ucast addr)) OR (addr AND 0xFFF)"
    and "x86_cpu_get_phys_page_debug mem env (ucast addr) = - 1 \<Longrightarrow>
      instld_walk mem env addr = (0, 0) \<and>
      qem_get_phys_addr_mem_tracing mem env junk addr =
        (if ldl_phys mem (ucast ((cr3 env AND NOT 0xfff) + drop_bit 22 addr * 4)) AND PG_PRESENT_MASK = 0
         then (addr, 0) else (0, junk))"
proof -
  define pde where "pde = ldl_phys mem (ucast ((cr3 env AND NOT 0xfff) + drop_bit 22 addr * 4))"
  define pte where "pte = ldl_phys mem (ucast ((pde AND NOT 0xfff) + drop_bit 12 (addr AND 0x3FFFFF) * 4))"
  define big where "big = (pde AND PG_PSE_MASK \<noteq> 0 \<and> cr4 env AND CR4_PSE_MASK \<noteq> 0)"
  define hit where "hit = (pde AND PG_PRESENT_MASK \<noteq> 0 \<and> (big \<or> pte AND PG_PRESENT_MASK \<noteq> 0))"
  note walks = x86_walk_legacy_entries Let_def pde_def [symmetric] pte_def [symmetric] big_def [symmetric]
  have q: "x86_cpu_get_phys_page_debug mem env (ucast addr) =
      (case x86_walk_legacy mem env (ucast addr) of None \<Rightarrow> - 1
       | Some (pte, page_size) \<Rightarrow> (pte AND (PG_ADDRESS_MASK AND NOT (page_size - 1))) OR
           ucast (ucast ((ucast addr AND NOT 0xfff) AND (page_size - 1)) :: u32))"
    using plain on unfolding x86_cpu_get_phys_page_debug_def i386_plain_paging_def Let_def by simp
  have w: "x86_walk_legacy mem env (ucast addr) =
      (if \<not> hit then None else if big then Some (ucast pde OR push_bit 19 (ucast pde AND 0x1fe000), 4096 * 1024)
       else Some (ucast pte, 4096))"
    using plain unfolding hit_def i386_plain_paging_def by (simp only: walks) simp
  have i: "instld_walk mem env addr =
      (if \<not> hit then (0, 0)
       else if big then ((pde AND 0xFFC00000) OR (addr AND 0x003FFFFF), pde AND 0x00000010)
       else ((pte AND 0xFFFFF000) OR (addr AND 0x00000FFF), (pte AND 0x00000040) OR (pde AND 0x00000010)))"
    using on unfolding hit_def instld_walk_def by (simp only: walks) simp
  have d: "qem_get_phys_addr_mem_tracing mem env junk addr =
      (if \<not> hit then (if pde AND PG_PRESENT_MASK = 0 then (addr, 0) else (0, junk))
       else instld_walk mem env addr)"
    using on unfolding i hit_def qem_get_phys_addr_mem_tracing_def by (simp only: walks) simp
  have m: "x86_cpu_get_phys_page_debug mem env (ucast addr) \<noteq> - 1 \<longleftrightarrow> hit"
    unfolding q w using page_not_minus_1 by (auto split: if_split)
  have f: "hit \<Longrightarrow> fst (instld_walk mem env addr) =
      ucast (x86_cpu_get_phys_page_debug mem env (ucast addr)) OR (addr AND 0xFFF)"
    unfolding q w i using frame_4K [of pte addr] frame_4M [of pde addr] by (cases big) simp_all
  show "x86_cpu_get_phys_page_debug mem env (ucast addr) \<noteq> - 1 \<Longrightarrow>
      qem_get_phys_addr_mem_tracing mem env junk addr = instld_walk mem env addr \<and>
      fst (instld_walk mem env addr) =
        ucast (x86_cpu_get_phys_page_debug mem env (ucast addr)) OR (addr AND 0xFFF)"
    using m f d by simp
  show "x86_cpu_get_phys_page_debug mem env (ucast addr) = - 1 \<Longrightarrow>
      instld_walk mem env addr = (0, 0) \<and>
      qem_get_phys_addr_mem_tracing mem env junk addr =
        (if ldl_phys mem (ucast ((cr3 env AND NOT 0xfff) + drop_bit 22 addr * 4)) AND PG_PRESENT_MASK = 0
         then (addr, 0) else (0, junk))"
    using m i d unfolding pde_def by simp
qed

section \<open>Runs of a guest\<close>

text \<open>
  The helper calls the translated code of a guest makes between two tracer commands, each
  with the processor state, the memory, the counter and the stack contents it meets.
\<close>

record i386_ctx =
  ic_mem :: phys_mem
  ic_env :: i386_env
  ic_junk :: u32
  ic_tsc :: "u32 \<times> u32"

datatype i386_access =
    I386_Fetch i386_ctx u32 int
  | I386_Load i386_ctx u32 u32
  | I386_Store i386_ctx u32 u32

fun i386_step ::
    "qem_config \<Rightarrow> (out_args \<Rightarrow> 'z tracer_scheme \<Rightarrow> (unit, 'z tracer_scheme) run) \<Rightarrow> i386_access \<Rightarrow>
     'z tracer_scheme \<Rightarrow> (unit, 'z tracer_scheme) run" where
  "i386_step cfg emit (I386_Fetch c eip sz) =
     i386_helper_qem_instld_trace cfg emit (ic_mem c) (ic_env c) (ic_tsc c) eip sz"
| "i386_step cfg emit (I386_Load c addr sz) =
     i386_helper_qem_datald_trace cfg emit (ic_mem c) (ic_env c) (ic_junk c) (ic_tsc c) addr sz"
| "i386_step cfg emit (I386_Store c addr sz) =
     i386_helper_qem_datast_trace cfg emit (ic_mem c) (ic_env c) (ic_junk c) (ic_tsc c) addr sz"

fun i386_event :: "qem_config \<Rightarrow> i386_access \<Rightarrow> u8 \<times> out_args" where
  "i386_event cfg (I386_Fetch c eip sz) =
     (ttype_val QEM_TRACE_ITRACE, i386_instld_args cfg (ic_mem c) (ic_env c) (ic_tsc c) eip sz)"
| "i386_event cfg (I386_Load c addr sz) =
     (ttype_val QEM_TRACE_DTRACE,
      i386_data_args cfg (ic_mem c) (ic_env c) (ic_junk c) (ic_tsc c) QEM_TRACE_ACCESS_TYPE_READ addr sz)"
| "i386_event cfg (I386_Store c addr sz) =
     (ttype_val QEM_TRACE_DTRACE,
      i386_data_args cfg (ic_mem c) (ic_env c) (ic_junk c) (ic_tsc c) QEM_TRACE_ACCESS_TYPE_WRITE addr sz)"

lemma i386_step_event:
  "i386_step cfg emit a s = guest_event qem_tracing_state emit (i386_event cfg a) s"
  by (cases a)
     (simp_all add: i386_helper_qem_instld_trace_def i386_helper_qem_datald_trace_def
       i386_helper_qem_datast_trace_def traced_def)

fun i386_steps ::
    "qem_config \<Rightarrow> (out_args \<Rightarrow> 'z tracer_scheme \<Rightarrow> (unit, 'z tracer_scheme) run) \<Rightarrow> i386_access list \<Rightarrow>
     'z tracer_scheme \<Rightarrow> (unit, 'z tracer_scheme) run" where
  "i386_steps cfg emit [] s = Done () s"
| "i386_steps cfg emit (a # as) s =
     bind_run (i386_step cfg emit a s) (\<lambda>_. i386_steps cfg emit as)"

lemma i386_steps_events:
  "i386_steps cfg emit as s = guest_events qem_tracing_state emit (map (i386_event cfg) as) s"
proof (induction as arbitrary: s)
  case Nil
  then show ?case by simp
next
  case (Cons a as)
  then have "i386_steps cfg emit as = guest_events qem_tracing_state emit (map (i386_event cfg) as)"
    by (rule ext)
  then show ?case by (simp add: i386_step_event)
qed

section \<open>Properties\<close>

text \<open>
  C14. With 32-bit page tables and the A20 gate open, the physical address of a data access and
  of an instruction fetch that the tracer computes is the low 32 bits of the address QEMU's
  own page walk gives, for every mapped virtual address, 4 KiB and 4 MiB pages and disabled
  paging included; so the two tracer walks also agree with each other.
\<close>

theorem i386_walks_match_qemu:
  assumes "i386_plain_paging env"
    and "x86_cpu_get_phys_page_debug mem env (ucast addr) \<noteq> - 1"
  shows "fst (qem_get_phys_addr_mem_tracing mem env junk addr) =
      ucast (x86_cpu_get_phys_page_debug mem env (ucast addr)) OR (addr AND 0xFFF) \<and>
    instld_walk mem env addr = qem_get_phys_addr_mem_tracing mem env junk addr"
proof (cases "cr0 env AND CR0_PG_MASK = 0")
  case True
  then show ?thesis
    using walks_paging_off [OF assms(1) True, of mem addr]
    by (simp add: qem_get_phys_addr_mem_tracing_def instld_walk_def)
next
  case False
  from walks_paging_on(1) [OF assms(1) False assms(2), of junk] show ?thesis by simp
qed

text \<open>A machine with one 4 KiB page: directory at 0x1000, table at 0x2000, page at 0x5000.\<close>

definition demo_i386 :: i386_env where
  "demo_i386 = \<lparr>cr0 = 0x80000001, cr3 = 0x1000, cr4 = 0, cs_selector = 0x1b, in_smm = False,
     a20_mask = - 1, i386_cpu_index = 0\<rparr>"

definition demo_i386_mem :: phys_mem where
  "demo_i386_mem = mem_of_words [(0x1004, 0x2003), (0x2008, 0x5003)]"

lemma demo_i386_page:
  "x86_cpu_get_phys_page_debug demo_i386_mem demo_i386 0x402ABC = 0x5000"
  by code_simp

theorem i386_walks_match_qemu_witness:
  "fst (qem_get_phys_addr_mem_tracing demo_i386_mem demo_i386 7 0x402ABC) = 0x5ABC \<and>
   fst (instld_walk demo_i386_mem demo_i386 0x402ABC) = 0x5ABC"
proof -
  have "i386_plain_paging demo_i386"
    by (simp add: i386_plain_paging_def demo_i386_def i386_masks x86_get_a20_mask_def)
  then show ?thesis
    using i386_walks_match_qemu [of demo_i386 demo_i386_mem "0x402ABC" 7]
    by (simp add: demo_i386_page)
qed

text \<open>
  C32. What the tracer's walks give when QEMU's walk finds no page (32-bit tables, A20 open, paging
  on), each as the physical address and the cache-inhibit value. A fetch gets (0, 0). A data access
  gets its own virtual address and 0 when the directory entry is absent; when the directory entry
  is present, so that the table entry is absent, it gets 0 and whatever the uninitialised
  \<open>cache_inhibit\<close> of the helper holds.
\<close>

theorem i386_unmapped_records:
  fixes addr :: u32
  assumes "i386_plain_paging env" and "cr0 env AND CR0_PG_MASK \<noteq> 0"
    and "x86_cpu_get_phys_page_debug mem env (ucast addr) = - 1"
    and "pde = ldl_phys mem (ucast ((cr3 env AND NOT 0xfff) + drop_bit 22 addr * 4))"
  shows "instld_walk mem env addr = (0, 0) \<and>
    qem_get_phys_addr_mem_tracing mem env junk addr = (if pde AND PG_PRESENT_MASK = 0 then (addr, 0) else (0, junk))"
  using walks_paging_on(2) [OF assms(1-3)] unfolding assms(4) .

text \<open>An address whose table entry is absent, and one whose directory entry is.\<close>

lemma demo_i386_unmapped:
  "x86_cpu_get_phys_page_debug demo_i386_mem demo_i386 0x403ABC = - 1"
  "x86_cpu_get_phys_page_debug demo_i386_mem demo_i386 0x800ABC = - 1"
  "ldl_phys demo_i386_mem (ucast ((cr3 demo_i386 AND NOT 0xfff) + drop_bit 22 (0x403ABC :: u32) * 4)) = 0x2003"
  "ldl_phys demo_i386_mem (ucast ((cr3 demo_i386 AND NOT 0xfff) + drop_bit 22 (0x800ABC :: u32) * 4)) = 0"
  by code_simp+

theorem i386_unmapped_records_witness:
  "instld_walk demo_i386_mem demo_i386 0x403ABC = (0, 0) \<and>
   qem_get_phys_addr_mem_tracing demo_i386_mem demo_i386 7 0x403ABC = (0, 7) \<and>
   instld_walk demo_i386_mem demo_i386 0x800ABC = (0, 0) \<and>
   qem_get_phys_addr_mem_tracing demo_i386_mem demo_i386 7 0x800ABC = (0x800ABC, 0)"
proof -
  have p: "i386_plain_paging demo_i386" "cr0 demo_i386 AND CR0_PG_MASK \<noteq> 0"
    by (simp_all add: i386_plain_paging_def demo_i386_def i386_masks x86_get_a20_mask_def)
  from i386_unmapped_records [OF p _ demo_i386_unmapped(3) [symmetric], of 7]
    i386_unmapped_records [OF p _ demo_i386_unmapped(4) [symmetric], of 7]
  show ?thesis by (simp add: demo_i386_unmapped(1,2) PG_PRESENT_MASK_def)
qed

text \<open>The privilege level the helpers report: any requested privilege level but 0 is user.\<close>

definition i386_pl :: "i386_env \<Rightarrow> QEM_TRACE_PL_E" where
  "i386_pl env = (if cs_selector env AND 0x0003 \<noteq> 0 then QEM_TRACE_PL_USER else QEM_TRACE_PL_KERNEL)"

definition i386_page :: "qem_config \<Rightarrow> phys_mem \<Rightarrow> i386_env \<Rightarrow> u32 \<Rightarrow> u32 \<Rightarrow> u32 \<times> u32" where
  "i386_page cfg mem env junk addr =
     (if QEM_TRACE_PHYSICAL_ADDRESS cfg then qem_get_phys_addr_mem_tracing mem env junk addr
      else (addr, junk))"

lemma i386_data_args_flags:
  "oa_flags (i386_data_args cfg mem env junk tsc acc addr sz) =
     flags_of (QEM_TRACE_GATHER_META cfg)
       (access_meta acc QEM_TRACE_DATA_TYPE_DATA (i386_pl env) Ev_Access QEM_TRACE_GRANULARITY_NONE
          (size_of_log (uint sz)) QEM_TRACE_COHERENCY_NON_REQ QEM_TRACE_CACHE_LEVEL_1
          (i386_inhibit env (snd (i386_page cfg mem env junk addr)))
          QEM_TRACE_CACHE_WT_OFF QEM_TRACE_EVENT_NON_EXCLUSIVE)"
  by (cases "i386_page cfg mem env junk addr")
     (simp add: i386_data_args_def i386_page_def qem_get_flags_mem_tracing_def i386_pl_def
       flags_of_def Let_def or_rules split: prod.splits)

lemma i386_instld_args_flags:
  "oa_flags (i386_instld_args cfg mem env tsc eip sz) =
     flags_of (QEM_TRACE_GATHER_META cfg)
       (access_meta QEM_TRACE_ACCESS_TYPE_READ QEM_TRACE_DATA_TYPE_INST (i386_pl env) Ev_Access
          QEM_TRACE_GRANULARITY_NONE (size_of_bytes sz) QEM_TRACE_COHERENCY_NON_REQ
          QEM_TRACE_CACHE_LEVEL_1 (i386_inhibit env (snd (instld_walk mem env eip)))
          QEM_TRACE_CACHE_WT_OFF QEM_TRACE_EVENT_NON_EXCLUSIVE)"
  by (cases "instld_walk mem env eip")
     (simp add: i386_instld_args_def i386_instld_flags_def i386_pl_def
       flags_of_def Let_def or_rules)



text \<open>
  C39. Built without \<open>QEM_TRACE_PHYSICAL_ADDRESS\<close> and with caches enabled in \<open>cr0\<close>, the
  cache-inhibit flag of a data access is whatever an uninitialised stack slot holds: the
  records for the contents 0 and 1 differ.
\<close>

theorem i386_inhibit_uninitialised:
  assumes "\<not> QEM_TRACE_PHYSICAL_ADDRESS cfg" and "QEM_TRACE_GATHER_META cfg"
    and "cr0 env AND push_bit 30 1 = 0"
  shows "oa_flags (i386_data_args cfg mem env 0 tsc acc addr sz) AND QEM_TRACE_CACHE_INHIBIT_MASK True \<noteq>
    oa_flags (i386_data_args cfg mem env 1 tsc acc addr sz) AND QEM_TRACE_CACHE_INHIBIT_MASK True"
  unfolding i386_data_args_flags using assms
  by (simp add: flags_of_fields i386_page_def i386_inhibit_def flag_val_defs)

theorem i386_inhibit_uninitialised_witness:
  "oa_flags (i386_data_args (default_config\<lparr>QEM_TRACE_PHYSICAL_ADDRESS := False\<rparr>) demo_i386_mem demo_i386 0
      (1, 2) QEM_TRACE_ACCESS_TYPE_READ 0x402ABC 2) AND QEM_TRACE_CACHE_INHIBIT_MASK True \<noteq>
    oa_flags (i386_data_args (default_config\<lparr>QEM_TRACE_PHYSICAL_ADDRESS := False\<rparr>) demo_i386_mem demo_i386 1
      (1, 2) QEM_TRACE_ACCESS_TYPE_READ 0x402ABC 2) AND QEM_TRACE_CACHE_INHIBIT_MASK True"
  by (rule i386_inhibit_uninitialised) (simp_all add: default_config_def demo_i386_def)

end
