(* ===== verification/QEM_TCG.thy ===== *)
theory QEM_TCG
  imports QEM_Prelude
begin

text \<open>
  Generated code. A function of a QEMU translator emits code for a guest instruction; it is
  modelled by what the emitted code does when it runs: it changes the processor, accesses
  guest memory and calls the tracing helpers, and it runs to its end or raises a guest
  exception. The accesses and the calls are kept as histories, so that the trace can be
  compared with what the instruction did. Every architecture extends the record of the
  histories by its own state.
\<close>

section \<open>Code\<close>

record ('a, 'c) tcg_log =
  accesses :: "'a list"
  calls :: "'c list"

datatype 's emitted = Runs 's | Raises 's

text \<open>
  Guest memory is the first argument of a piece of code: what the access with a given number
  delivers, or that it faults.
\<close>

type_synonym ('v, 's) code = "(nat \<Rightarrow> 'v option) \<Rightarrow> 's \<Rightarrow> 's emitted"

definition code_then :: "('v, 's) code \<Rightarrow> ('v, 's) code \<Rightarrow> ('v, 's) code" where
  "code_then c d bus s = (case c bus s of Runs s \<Rightarrow> d bus s | Raises s \<Rightarrow> Raises s)"

definition no_code :: "('v, 's) code" where
  "no_code bus s = Runs s"

definition code_list :: "('v, 's) code list \<Rightarrow> ('v, 's) code" where
  "code_list cs = foldr code_then cs no_code"

definition code_if :: "('s \<Rightarrow> bool) \<Rightarrow> ('v, 's) code \<Rightarrow> ('v, 's) code \<Rightarrow> ('v, 's) code" where
  "code_if b c d bus s = (if b s then c bus s else d bus s)"

definition raise_exception :: "('v, 's) code" where
  "raise_exception bus s = Raises s"

definition on_bus ::
    "'a \<Rightarrow> ('v \<Rightarrow> ('a, 'c, 'z) tcg_log_scheme \<Rightarrow> ('a, 'c, 'z) tcg_log_scheme) \<Rightarrow>
     ('v, ('a, 'c, 'z) tcg_log_scheme) code" where
  "on_bus a f bus s =
     (case bus (length (accesses s)) of
        None \<Rightarrow> Raises s
      | Some v \<Rightarrow> Runs (f v (s\<lparr>accesses := accesses s @ [a]\<rparr>)))"

definition gen_command :: "'c \<Rightarrow> ('v, ('a, 'c, 'z) tcg_log_scheme) code" where
  "gen_command c bus s = Runs (s\<lparr>calls := calls s @ [c]\<rparr>)"

lemma code_list_simps [simp]:
  "code_list [] bus s = Runs s"
  "code_list (c # cs) bus s = (case c bus s of Runs s \<Rightarrow> code_list cs bus s | Raises s \<Rightarrow> Raises s)"
  by (simp_all add: code_list_def no_code_def code_then_def [abs_def] split: emitted.splits)

lemma code_list_then:
  "code_list [a, b] = code_then a b"
  "code_list [a, b, c] = code_then (code_list [a, b]) c"
  by (auto simp: fun_eq_iff code_then_def split: emitted.splits)

lemma code_list_Runs: "c bus s = Runs t \<Longrightarrow> code_list (c # cs) bus s = code_list cs bus t"
  by simp

section \<open>The trace and the accesses\<close>

text \<open>The calls and the accesses of a piece of code that started in \<open>s\<close>.\<close>

fun after :: "'s emitted \<Rightarrow> 's" where
  "after (Runs s) = s"
| "after (Raises s) = s"

definition calls_from ::
    "('a, 'c, 'z) tcg_log_scheme \<Rightarrow> ('a, 'c, 'z) tcg_log_scheme emitted \<Rightarrow> 'c list" where
  "calls_from s r = drop (length (calls s)) (calls (after r))"

definition accesses_from ::
    "('a, 'c, 'z) tcg_log_scheme \<Rightarrow> ('a, 'c, 'z) tcg_log_scheme emitted \<Rightarrow> 'a list" where
  "accesses_from s r = drop (length (accesses s)) (accesses (after r))"

text \<open>
  The trace is exact when the calls describe the accesses one by one, where \<open>m\<close> says when a
  call describes an access.
\<close>

definition exactly ::
    "('c \<Rightarrow> 'a \<Rightarrow> bool) \<Rightarrow> ('a, 'c, 'z) tcg_log_scheme \<Rightarrow> ('a, 'c, 'z) tcg_log_scheme emitted \<Rightarrow> bool" where
  "exactly m s r \<longleftrightarrow> list_all2 m (calls_from s r) (accesses_from s r)"

text \<open>Code that is traced exactly whatever the state and the memory.\<close>

definition exact_code :: "('c \<Rightarrow> 'a \<Rightarrow> bool) \<Rightarrow> ('v, ('a, 'c, 'z) tcg_log_scheme) code \<Rightarrow> bool" where
  "exact_code m c \<longleftrightarrow> (\<forall>bus s. \<exists>cl al. calls (after (c bus s)) = calls s @ cl \<and>
     accesses (after (c bus s)) = accesses s @ al \<and> list_all2 m cl al)"

lemma exact_codeD: "exact_code m c \<Longrightarrow> exactly m s (c bus s)"
  unfolding exact_code_def exactly_def calls_from_def accesses_from_def
  by (metis append_eq_conv_conj)

lemma exact_no_code [simp]: "exact_code m no_code"
  by (simp add: exact_code_def no_code_def)

lemma exact_raise: "exact_code m raise_exception"
  by (simp add: exact_code_def raise_exception_def)

lemma exact_then:
  assumes "exact_code m c" and "exact_code m d"
  shows "exact_code m (code_then c d)"
  unfolding exact_code_def
proof (intro allI)
  fix bus s
  obtain cl al where c: "calls (after (c bus s)) = calls s @ cl" "accesses (after (c bus s)) = accesses s @ al"
    "list_all2 m cl al"
    using assms(1) unfolding exact_code_def by blast
  show "\<exists>cl al. calls (after (code_then c d bus s)) = calls s @ cl \<and>
      accesses (after (code_then c d bus s)) = accesses s @ al \<and> list_all2 m cl al"
  proof (cases "c bus s")
    case (Runs t)
    obtain cl' al' where d: "calls (after (d bus t)) = calls t @ cl'" "accesses (after (d bus t)) = accesses t @ al'"
      "list_all2 m cl' al'"
      using assms(2) unfolding exact_code_def by blast
    have "calls (after (code_then c d bus s)) = calls s @ (cl @ cl')"
      "accesses (after (code_then c d bus s)) = accesses s @ (al @ al')"
      using c d Runs by (simp_all add: code_then_def)
    then show ?thesis using c(3) d(3) list_all2_appendI by blast
  next
    case (Raises t)
    then show ?thesis using c by (auto simp: code_then_def)
  qed
qed

lemma exact_code_list: "list_all (exact_code m) cs \<Longrightarrow> exact_code m (code_list cs)"
proof (induction cs)
  case Nil
  then show ?case by (simp add: exact_code_def)
next
  case (Cons c cs)
  have "code_list (c # cs) = code_then c (code_list cs)" by (simp add: code_list_def)
  then show ?case using Cons by (simp add: exact_then)
qed

lemma exact_if: "exact_code m c \<Longrightarrow> exact_code m d \<Longrightarrow> exact_code m (code_if b c d)"
  by (simp add: exact_code_def code_if_def)

end
