(* ===== verification/QEM_i386_Translate.thy ===== *)
theory QEM_i386_Translate
  imports QEM_Arch_i386 QEM_TCG
begin

text \<open>
  The tracing code in QEMU's translator for 32-bit x86 (\<^verbatim>\<open>target/i386/translate.c\<close>) and in
  the accesses that the segmentation helpers make (\<^verbatim>\<open>exec/cpu_ldst_template.h\<close> as
  \<^verbatim>\<open>target/i386/seg_helper.c\<close> includes it), as generated code: the stack, string and
  arithmetic instructions, and the decoder as far as the opcodes of the tracer.
\<close>

section \<open>Code\<close>

text \<open>
  Sizes are those of \<open>TCGMemOp\<close>; a call has the size as binary logarithm. \<open>X_Rmw\<close> is an
  atomic read-modify-write. The variables of the generated code are the eight registers and
  the temporaries; the lazily evaluated condition codes are temporaries too, with the kind of
  the last operation beside them.
\<close>

datatype x86_mo = MO_8 | MO_16 | MO_32

fun mo_log :: "x86_mo \<Rightarrow> nat" where
  "mo_log MO_8 = 0" | "mo_log MO_16 = 1" | "mo_log MO_32 = 2"

definition mo_bits :: "x86_mo \<Rightarrow> nat" where
  "mo_bits ot = 8 * 2 ^ mo_log ot"

definition mo_bytes :: "x86_mo \<Rightarrow> u32" where
  "mo_bytes ot = push_bit (mo_log ot) 1"

datatype x86_arith = OP_ADDL | OP_ORL | OP_ADCL | OP_SBBL | OP_ANDL | OP_SUBL | OP_XORL | OP_CMPL

datatype x86_cc = CC_ADD x86_mo | CC_ADC x86_mo | CC_SBB x86_mo | CC_SUB x86_mo | CC_LOGIC x86_mo
  | CC_INC x86_mo | CC_DEC x86_mo

datatype x86_access = X_Ld u32 nat | X_St u32 nat u32 | X_Rmw u32 nat x86_arith u32

datatype x86_call = X_Fetch u32 nat | X_Load u32 nat | X_Store u32 nat
  | X_Start u8 | X_Stop u8 | X_Start_timer | X_Get_timer

datatype x86v = Reg nat | T0 | T1 | A0 | Tmp0 | Tmp4 | Cc_dst | Cc_src | Cc_src2 | Cc_srcT

record x86_tcg = "(x86_access, x86_call) tcg_log" +
  xregs :: "u32 list"
  xtemps :: "x86v \<Rightarrow> u32"
  cc_op :: x86_cc
  seg_base :: "nat \<Rightarrow> u32"
  df :: u32
  eip :: u32

type_synonym x86_code = "(u32, x86_tcg) code"

definition R_EAX :: nat where "R_EAX = 0"
definition R_ECX :: nat where "R_ECX = 1"
definition R_EDX :: nat where "R_EDX = 2"
definition R_ESP :: nat where "R_ESP = 4"
definition R_EBP :: nat where "R_EBP = 5"
definition R_ESI :: nat where "R_ESI = 6"
definition R_EDI :: nat where "R_EDI = 7"
definition R_ES :: nat where "R_ES = 0"
definition R_SS :: nat where "R_SS = 2"
definition R_DS :: nat where "R_DS = 3"

definition xget :: "x86v \<Rightarrow> x86_tcg \<Rightarrow> u32" where
  "xget v s = (case v of Reg r \<Rightarrow> xregs s ! r | _ \<Rightarrow> xtemps s v)"

definition xset :: "x86v \<Rightarrow> u32 \<Rightarrow> x86_tcg \<Rightarrow> x86_tcg" where
  "xset v x s = (case v of Reg r \<Rightarrow> s\<lparr>xregs := (xregs s)[r := x]\<rparr> | _ \<Rightarrow> s\<lparr>xtemps := (xtemps s)(v := x)\<rparr>)"

text \<open>Code that only computes; an impossible operand size stops the translator.\<close>

definition x86_let :: "x86v \<Rightarrow> (x86_tcg \<Rightarrow> u32) \<Rightarrow> x86_code" where
  "x86_let v f bus s = Runs (xset v (f s) s)"

definition x86_set_cc_op :: "x86_cc \<Rightarrow> x86_code" where
  "x86_set_cc_op op bus s = Runs (s\<lparr>cc_op := op\<rparr>)"

definition x86_jmp :: "u32 \<Rightarrow> x86_code" where
  "x86_jmp pc bus s = Runs (s\<lparr>eip := pc\<rparr>)"

definition tcg_abort :: x86_code where
  "tcg_abort = raise_exception"

text \<open>The instruction context: sizes, segment override, the LOCK prefix and the mode.\<close>

record x86_disas =
  aflag :: x86_mo
  dflag :: x86_mo
  override :: "nat option"
  lock_prefix :: bool
  addseg :: bool
  ss32 :: bool
  code32 :: bool
  vm86 :: bool
  repz_opt :: bool

section \<open>Accesses\<close>

definition gen_qem_instld_trace :: "u32 \<Rightarrow> nat \<Rightarrow> x86_code" where
  "gen_qem_instld_trace cur_eip sz = gen_command (X_Fetch cur_eip sz)"

definition gen_op_ld_v :: "x86_mo \<Rightarrow> x86v \<Rightarrow> x86v \<Rightarrow> x86_code" where
  "gen_op_ld_v idx t0 a0 = code_list
     [\<lambda>bus s. on_bus (X_Ld (xget a0 s) (mo_log idx)) (xset t0) bus s,
      \<lambda>bus s. gen_command (X_Load (xget a0 s) (mo_log idx)) bus s]"

definition gen_op_st_v :: "x86_mo \<Rightarrow> x86v \<Rightarrow> x86v \<Rightarrow> x86_code" where
  "gen_op_st_v idx t0 a0 = code_list
     [\<lambda>bus s. on_bus (X_St (xget a0 s) (mo_log idx) (xget t0 s)) (\<lambda>_. id) bus s,
      \<lambda>bus s. gen_command (X_Store (xget a0 s) (mo_log idx)) bus s]"

text \<open>
  The atomic operations of the LOCK prefix: \<open>fetch\<close> tells whether the target gets the old or
  the new value.
\<close>

fun arith :: "x86_arith \<Rightarrow> u32 \<Rightarrow> u32 \<Rightarrow> u32" where
  "arith OP_ADDL a b = a + b"
| "arith OP_ORL a b = a OR b"
| "arith OP_XORL a b = a XOR b"
| "arith OP_SUBL a b = a - b"
| "arith _ a b = a AND b"

definition x86_atomic :: "bool \<Rightarrow> x86_arith \<Rightarrow> x86_mo \<Rightarrow> x86v \<Rightarrow> x86v \<Rightarrow> x86_code" where
  "x86_atomic fetch op ot dst src bus s =
     on_bus (X_Rmw (xget A0 s) (mo_log ot) op (xget src s))
       (\<lambda>old t. xset dst (if fetch then old else take_bit (mo_bits ot) (arith op old (xget src s))) t) bus s"

text \<open>The accesses of the segmentation helpers, which call the tracing helper first.\<close>

definition cpu_ld_kernel_ra :: "(u32 \<Rightarrow> x86_tcg \<Rightarrow> x86_tcg) \<Rightarrow> nat \<Rightarrow> u32 \<Rightarrow> x86_code" where
  "cpu_ld_kernel_ra f shift ptr = code_list
     [gen_command (X_Load ptr shift), on_bus (X_Ld ptr shift) f]"

definition cpu_st_kernel_ra :: "nat \<Rightarrow> u32 \<Rightarrow> u32 \<Rightarrow> x86_code" where
  "cpu_st_kernel_ra shift ptr v = code_list
     [gen_command (X_Store ptr shift), on_bus (X_St ptr shift v) (\<lambda>_. id)]"

section \<open>Registers and addresses\<close>

definition deposit :: "nat \<Rightarrow> nat \<Rightarrow> u32 \<Rightarrow> u32 \<Rightarrow> u32" where
  "deposit pos len d v = (d AND NOT (push_bit pos (mask len))) OR push_bit pos (take_bit len v)"

definition gen_op_mov_reg_v :: "x86_mo \<Rightarrow> nat \<Rightarrow> x86v \<Rightarrow> x86_code" where
  "gen_op_mov_reg_v ot reg t0 =
     (case ot of
        MO_8 \<Rightarrow> if reg < 4 then x86_let (Reg reg) (\<lambda>s. deposit 0 8 (xget (Reg reg) s) (xget t0 s))
                else x86_let (Reg (reg - 4)) (\<lambda>s. deposit 8 8 (xget (Reg (reg - 4)) s) (xget t0 s))
      | MO_16 \<Rightarrow> x86_let (Reg reg) (\<lambda>s. deposit 0 16 (xget (Reg reg) s) (xget t0 s))
      | MO_32 \<Rightarrow> x86_let (Reg reg) (xget t0))"

definition gen_op_mov_v_reg :: "x86_mo \<Rightarrow> x86v \<Rightarrow> nat \<Rightarrow> x86_code" where
  "gen_op_mov_v_reg ot t0 reg =
     (if ot = MO_8 \<and> 4 \<le> reg then x86_let t0 (\<lambda>s. take_bit 8 (drop_bit 8 (xget (Reg (reg - 4)) s)))
      else x86_let t0 (xget (Reg reg)))"

definition gen_op_add_reg_im :: "x86_mo \<Rightarrow> nat \<Rightarrow> u32 \<Rightarrow> x86_code" where
  "gen_op_add_reg_im ot reg val = code_list
     [x86_let Tmp0 (\<lambda>s. xget (Reg reg) s + val), gen_op_mov_reg_v ot reg Tmp0]"

definition gen_op_add_reg_T0 :: "x86_mo \<Rightarrow> nat \<Rightarrow> x86_code" where
  "gen_op_add_reg_T0 ot reg = code_list
     [x86_let Tmp0 (\<lambda>s. xget (Reg reg) s + xget T0 s), gen_op_mov_reg_v ot reg Tmp0]"

definition gen_lea_v_seg :: "x86_disas \<Rightarrow> x86_mo \<Rightarrow> x86v \<Rightarrow> nat \<Rightarrow> nat option \<Rightarrow> x86_code" where
  "gen_lea_v_seg ctx af a0 def_seg ovr_seg =
     (let seg = (if ovr_seg = None \<and> addseg ctx then Some def_seg else ovr_seg)
      in case af of
        MO_32 \<Rightarrow> (case seg of
            None \<Rightarrow> x86_let A0 (xget a0)
          | Some g \<Rightarrow> x86_let A0 (\<lambda>s. xget a0 s + seg_base s g))
      | MO_16 \<Rightarrow> code_then (x86_let A0 (\<lambda>s. take_bit 16 (xget a0 s)))
          (case seg of
             None \<Rightarrow> no_code
           | Some g \<Rightarrow> x86_let A0 (\<lambda>s. xget A0 s + seg_base s g))
      | MO_8 \<Rightarrow> tcg_abort)"

definition gen_string_movl_A0_ESI :: "x86_disas \<Rightarrow> x86_code" where
  "gen_string_movl_A0_ESI ctx = gen_lea_v_seg ctx (aflag ctx) (Reg R_ESI) R_DS (override ctx)"

definition gen_string_movl_A0_EDI :: "x86_disas \<Rightarrow> x86_code" where
  "gen_string_movl_A0_EDI ctx = gen_lea_v_seg ctx (aflag ctx) (Reg R_EDI) R_ES None"

definition gen_op_movl_T0_Dshift :: "x86_mo \<Rightarrow> x86_code" where
  "gen_op_movl_T0_Dshift ot = x86_let T0 (\<lambda>s. push_bit (mo_log ot) (df s))"

definition mo_stacksize :: "x86_disas \<Rightarrow> x86_mo" where
  "mo_stacksize ctx = (if ss32 ctx then MO_32 else MO_16)"

definition gen_stack_update :: "x86_disas \<Rightarrow> u32 \<Rightarrow> x86_code" where
  "gen_stack_update ctx addend = gen_op_add_reg_im (mo_stacksize ctx) R_ESP addend"

section \<open>Arithmetic\<close>

text \<open>
  The operand is a register or, with None, memory at \<open>A0\<close>. \<open>carry\<close> is the carry flag that
  \<open>gen_compute_eflags_c\<close> computes from the condition codes.
\<close>

definition gen_op_st_rm_T0_A0 :: "x86_mo \<Rightarrow> nat option \<Rightarrow> x86_code" where
  "gen_op_st_rm_T0_A0 idx d =
     (case d of None \<Rightarrow> gen_op_st_v idx T0 A0 | Some r \<Rightarrow> gen_op_mov_reg_v idx r T0)"

definition gen_op_update1_cc :: x86_code where
  "gen_op_update1_cc = x86_let Cc_dst (xget T0)"

definition gen_op_update2_cc :: x86_code where
  "gen_op_update2_cc = code_list [x86_let Cc_src (xget T1), x86_let Cc_dst (xget T0)]"

definition gen_op_update3_cc :: "x86v \<Rightarrow> x86_code" where
  "gen_op_update3_cc reg = code_list
     [x86_let Cc_src2 (xget reg), x86_let Cc_src (xget T1), x86_let Cc_dst (xget T0)]"

definition gen_op_body :: "(x86_tcg \<Rightarrow> u32) \<Rightarrow> x86_disas \<Rightarrow> x86_arith \<Rightarrow> x86_mo \<Rightarrow> nat option \<Rightarrow> x86_code" where
  "gen_op_body carry ctx op ot d =
     (case op of
        OP_ADCL \<Rightarrow> code_list
          [x86_let Tmp4 carry,
           (if lock_prefix ctx then code_list
              [x86_let T0 (\<lambda>s. xget Tmp4 s + xget T1 s), x86_atomic False OP_ADDL ot T0 T0]
            else code_list
              [x86_let T0 (\<lambda>s. xget T0 s + xget T1 s), x86_let T0 (\<lambda>s. xget T0 s + xget Tmp4 s),
               gen_op_st_rm_T0_A0 ot d]),
           gen_op_update3_cc Tmp4, x86_set_cc_op (CC_ADC ot)]
      | OP_SBBL \<Rightarrow> code_list
          [x86_let Tmp4 carry,
           (if lock_prefix ctx then code_list
              [x86_let T0 (\<lambda>s. xget T1 s + xget Tmp4 s), x86_let T0 (\<lambda>s. - xget T0 s),
               x86_atomic False OP_ADDL ot T0 T0]
            else code_list
              [x86_let T0 (\<lambda>s. xget T0 s - xget T1 s), x86_let T0 (\<lambda>s. xget T0 s - xget Tmp4 s),
               gen_op_st_rm_T0_A0 ot d]),
           gen_op_update3_cc Tmp4, x86_set_cc_op (CC_SBB ot)]
      | OP_ADDL \<Rightarrow> code_list
          [(if lock_prefix ctx then x86_atomic False OP_ADDL ot T0 T1
            else code_list [x86_let T0 (\<lambda>s. xget T0 s + xget T1 s), gen_op_st_rm_T0_A0 ot d]),
           gen_op_update2_cc, x86_set_cc_op (CC_ADD ot)]
      | OP_SUBL \<Rightarrow> code_list
          [(if lock_prefix ctx then code_list
              [x86_let T0 (\<lambda>s. - xget T1 s), x86_atomic True OP_ADDL ot Cc_srcT T0,
               x86_let T0 (\<lambda>s. xget Cc_srcT s - xget T1 s)]
            else code_list
              [x86_let Cc_srcT (xget T0), x86_let T0 (\<lambda>s. xget T0 s - xget T1 s), gen_op_st_rm_T0_A0 ot d]),
           gen_op_update2_cc, x86_set_cc_op (CC_SUB ot)]
      | OP_CMPL \<Rightarrow> code_list
          [x86_let Cc_src (xget T1), x86_let Cc_srcT (xget T0), x86_let Cc_dst (\<lambda>s. xget T0 s - xget T1 s),
           x86_set_cc_op (CC_SUB ot)]
      | _ \<Rightarrow> code_list
          [(if lock_prefix ctx then x86_atomic False op ot T0 T1
            else code_list [x86_let T0 (\<lambda>s. arith op (xget T0 s) (xget T1 s)), gen_op_st_rm_T0_A0 ot d]),
           gen_op_update1_cc, x86_set_cc_op (CC_LOGIC ot)])"

definition gen_op :: "(x86_tcg \<Rightarrow> u32) \<Rightarrow> x86_disas \<Rightarrow> x86_arith \<Rightarrow> x86_mo \<Rightarrow> nat option \<Rightarrow> x86_code" where
  "gen_op carry ctx op ot d =
     (case d of
        Some r \<Rightarrow> if lock_prefix ctx then raise_exception
          else code_list [gen_op_mov_v_reg ot T0 r, gen_op_body carry ctx op ot d]
      | None \<Rightarrow> code_list
          [(if lock_prefix ctx then no_code else gen_op_ld_v ot T0 A0), gen_op_body carry ctx op ot d])"

definition gen_inc :: "(x86_tcg \<Rightarrow> u32) \<Rightarrow> x86_disas \<Rightarrow> x86_mo \<Rightarrow> nat option \<Rightarrow> int \<Rightarrow> x86_code" where
  "gen_inc carry ctx ot d c = code_list
     [(if lock_prefix ctx then code_list
         [x86_let T0 (\<lambda>_. if 0 < c then 1 else - 1), x86_atomic False OP_ADDL ot T0 T0]
       else code_list
         [(case d of Some r \<Rightarrow> gen_op_mov_v_reg ot T0 r | None \<Rightarrow> gen_op_ld_v ot T0 A0),
          x86_let T0 (\<lambda>s. xget T0 s + (if 0 < c then 1 else - 1)),
          gen_op_st_rm_T0_A0 ot d]),
      x86_let Cc_src carry, x86_let Cc_dst (xget T0),
      x86_set_cc_op (if 0 < c then CC_INC ot else CC_DEC ot)]"

section \<open>String instructions\<close>

definition gen_movs :: "x86_disas \<Rightarrow> x86_mo \<Rightarrow> x86_code" where
  "gen_movs ctx ot = code_list
     [gen_string_movl_A0_ESI ctx, gen_op_ld_v ot T0 A0,
      gen_string_movl_A0_EDI ctx, gen_op_st_v ot T0 A0,
      gen_op_movl_T0_Dshift ot, gen_op_add_reg_T0 (aflag ctx) R_ESI, gen_op_add_reg_T0 (aflag ctx) R_EDI]"

definition gen_stos :: "x86_disas \<Rightarrow> x86_mo \<Rightarrow> x86_code" where
  "gen_stos ctx ot = code_list
     [gen_op_mov_v_reg MO_32 T0 R_EAX, gen_string_movl_A0_EDI ctx, gen_op_st_v ot T0 A0,
      gen_op_movl_T0_Dshift ot, gen_op_add_reg_T0 (aflag ctx) R_EDI]"

definition gen_lods :: "x86_disas \<Rightarrow> x86_mo \<Rightarrow> x86_code" where
  "gen_lods ctx ot = code_list
     [gen_string_movl_A0_ESI ctx, gen_op_ld_v ot T0 A0, gen_op_mov_reg_v ot R_EAX T0,
      gen_op_movl_T0_Dshift ot, gen_op_add_reg_T0 (aflag ctx) R_ESI]"

definition gen_scas :: "(x86_tcg \<Rightarrow> u32) \<Rightarrow> x86_disas \<Rightarrow> x86_mo \<Rightarrow> x86_code" where
  "gen_scas carry ctx ot = code_list
     [gen_string_movl_A0_EDI ctx, gen_op_ld_v ot T1 A0, gen_op carry ctx OP_CMPL ot (Some R_EAX),
      gen_op_movl_T0_Dshift ot, gen_op_add_reg_T0 (aflag ctx) R_EDI]"

definition gen_cmps :: "(x86_tcg \<Rightarrow> u32) \<Rightarrow> x86_disas \<Rightarrow> x86_mo \<Rightarrow> x86_code" where
  "gen_cmps carry ctx ot = code_list
     [gen_string_movl_A0_EDI ctx, gen_op_ld_v ot T1 A0,
      gen_string_movl_A0_ESI ctx, gen_op carry ctx OP_CMPL ot None,
      gen_op_movl_T0_Dshift ot, gen_op_add_reg_T0 (aflag ctx) R_ESI, gen_op_add_reg_T0 (aflag ctx) R_EDI]"

text \<open>
  \<open>port\<close> is what the device at a port delivers; INS first stores a zero. What a device does with
  the output of OUTS is outside the model, as are I/O breakpoints and instruction counting.
\<close>

definition gen_ins :: "(u32 \<Rightarrow> u32) \<Rightarrow> x86_disas \<Rightarrow> x86_mo \<Rightarrow> x86_code" where
  "gen_ins port ctx ot = code_list
     [gen_string_movl_A0_EDI ctx,
      x86_let T0 (\<lambda>_. 0), gen_op_st_v ot T0 A0,
      x86_let T0 (\<lambda>s. port (xget (Reg R_EDX) s AND 0xffff)), gen_op_st_v ot T0 A0,
      gen_op_movl_T0_Dshift ot, gen_op_add_reg_T0 (aflag ctx) R_EDI]"

definition gen_outs :: "x86_disas \<Rightarrow> x86_mo \<Rightarrow> x86_code" where
  "gen_outs ctx ot = code_list
     [gen_string_movl_A0_ESI ctx, gen_op_ld_v ot T0 A0,
      gen_op_movl_T0_Dshift ot, gen_op_add_reg_T0 (aflag ctx) R_ESI]"

text \<open>
  One turn of a repeated string instruction: it leaves to the next instruction when the
  counter is 0 and otherwise jumps back to itself, or leaves at once when the counter has
  become 0 and \<open>repz_opt\<close> is set.
\<close>

definition ecx_zero :: "x86_disas \<Rightarrow> x86_tcg \<Rightarrow> bool" where
  "ecx_zero ctx s \<longleftrightarrow> take_bit (mo_bits (aflag ctx)) (xget (Reg R_ECX) s) = 0"

definition gen_repz :: "x86_code \<Rightarrow> x86_disas \<Rightarrow> u32 \<Rightarrow> u32 \<Rightarrow> x86_code" where
  "gen_repz op ctx cur_eip next_eip =
     code_if (ecx_zero ctx) (x86_jmp next_eip)
       (code_list
         [op, gen_op_add_reg_im (aflag ctx) R_ECX (- 1),
          code_if (\<lambda>s. repz_opt ctx \<and> ecx_zero ctx s) (x86_jmp next_eip) (x86_jmp cur_eip)])"

text \<open>The form for SCAS and CMPS, which also leaves when the comparison says so.\<close>

definition gen_repz2 :: "x86_code \<Rightarrow> x86_disas \<Rightarrow> x86_mo \<Rightarrow> u32 \<Rightarrow> u32 \<Rightarrow> bool \<Rightarrow> x86_code" where
  "gen_repz2 op ctx ot cur_eip next_eip nz =
     code_if (ecx_zero ctx) (x86_jmp next_eip)
       (code_list
         [op, gen_op_add_reg_im (aflag ctx) R_ECX (- 1),
          code_if (\<lambda>s. (take_bit (mo_bits ot) (xget Cc_dst s) = 0) = nz \<or> repz_opt ctx \<and> ecx_zero ctx s)
            (x86_jmp next_eip) (x86_jmp cur_eip)])"

section \<open>Stack instructions\<close>

definition gen_push_v :: "x86_disas \<Rightarrow> x86v \<Rightarrow> x86_code" where
  "gen_push_v ctx val =
     (let new_esp = (if addseg ctx then Tmp4 else A0)
      in code_list
        [x86_let A0 (\<lambda>s. xget (Reg R_ESP) s - mo_bytes (dflag ctx)),
         (if addseg ctx then x86_let Tmp4 (xget A0) else no_code),
         gen_lea_v_seg ctx (mo_stacksize ctx) A0 R_SS None,
         gen_op_st_v (dflag ctx) val A0,
         gen_op_mov_reg_v (mo_stacksize ctx) R_ESP new_esp])"

definition gen_pop_T0 :: "x86_disas \<Rightarrow> x86_code" where
  "gen_pop_T0 ctx = code_list
     [gen_lea_v_seg ctx (mo_stacksize ctx) (Reg R_ESP) R_SS None, gen_op_ld_v (dflag ctx) T0 A0]"

definition gen_pop_update :: "x86_disas \<Rightarrow> x86_mo \<Rightarrow> x86_code" where
  "gen_pop_update ctx ot = gen_stack_update ctx (mo_bytes ot)"

definition gen_pusha :: "x86_disas \<Rightarrow> x86_code" where
  "gen_pusha ctx = code_list
     (concat (map (\<lambda>i.
        [x86_let A0 (\<lambda>s. xget (Reg R_ESP) s + of_int (int i - 8) * mo_bytes (dflag ctx)),
         gen_lea_v_seg ctx (mo_stacksize ctx) A0 R_SS None,
         gen_op_st_v (dflag ctx) (Reg (7 - i)) A0]) [0..<8]) @
      [gen_stack_update ctx (- 8 * mo_bytes (dflag ctx))])"

definition gen_popa :: "x86_disas \<Rightarrow> x86_code" where
  "gen_popa ctx = code_list
     (concat (map (\<lambda>i.
        if 7 - i = R_ESP then []
        else
          [x86_let A0 (\<lambda>s. xget (Reg R_ESP) s + of_nat i * mo_bytes (dflag ctx)),
           gen_lea_v_seg ctx (mo_stacksize ctx) A0 R_SS None,
           gen_op_ld_v (dflag ctx) T0 A0,
           gen_op_mov_reg_v (dflag ctx) (7 - i) T0]) [0..<8]) @
      [gen_stack_update ctx (8 * mo_bytes (dflag ctx))])"

definition gen_enter :: "x86_disas \<Rightarrow> u32 \<Rightarrow> nat \<Rightarrow> x86_code" where
  "gen_enter ctx esp_addend level =
     (let d_ot = dflag ctx; a_ot = mo_stacksize ctx; sz = mo_bytes d_ot; level = level mod 32
      in code_list
        ([x86_let T1 (\<lambda>s. xget (Reg R_ESP) s - sz),
          gen_lea_v_seg ctx a_ot T1 R_SS None, gen_op_st_v d_ot (Reg R_EBP) A0] @
         (if level \<noteq> 0 then
            concat (map (\<lambda>i.
              [x86_let A0 (\<lambda>s. xget (Reg R_EBP) s - sz * of_nat i),
               gen_lea_v_seg ctx a_ot A0 R_SS None, gen_op_ld_v d_ot Tmp0 A0,
               x86_let A0 (\<lambda>s. xget T1 s - sz * of_nat i),
               gen_lea_v_seg ctx a_ot A0 R_SS None, gen_op_st_v d_ot Tmp0 A0]) [1..<level]) @
            [x86_let A0 (\<lambda>s. xget T1 s - sz * of_nat level),
             gen_lea_v_seg ctx a_ot A0 R_SS None, gen_op_st_v d_ot T1 A0]
          else []) @
         [gen_op_mov_reg_v a_ot R_EBP T1,
          x86_let T1 (\<lambda>s. xget T1 s - (esp_addend + sz * of_nat level)),
          gen_op_mov_reg_v a_ot R_ESP T1]))"

definition gen_leave :: "x86_disas \<Rightarrow> x86_code" where
  "gen_leave ctx = code_list
     [gen_lea_v_seg ctx (mo_stacksize ctx) (Reg R_EBP) R_SS None, gen_op_ld_v (dflag ctx) T0 A0,
      x86_let T1 (\<lambda>s. xget (Reg R_EBP) s + mo_bytes (dflag ctx)),
      gen_op_mov_reg_v (dflag ctx) R_EBP T0, gen_op_mov_reg_v (mo_stacksize ctx) R_ESP T1]"

section \<open>The trace and the accesses\<close>

text \<open>A call describes an access: same address, size and direction.\<close>

fun x86_matches :: "x86_call \<Rightarrow> x86_access \<Rightarrow> bool" where
  "x86_matches (X_Load a n) (X_Ld b m) \<longleftrightarrow> a = b \<and> n = m"
| "x86_matches (X_Store a n) (X_St b m v) \<longleftrightarrow> a = b \<and> n = m"
| "x86_matches _ _ \<longleftrightarrow> False"

datatype x86_string = S_movs | S_stos | S_lods | S_scas | S_cmps | S_ins | S_outs

datatype x86_insn =
    I_string x86_string x86_mo | I_rep x86_string x86_mo bool
  | I_push x86v | I_pop | I_pusha | I_popa | I_enter u32 nat | I_leave
  | I_op x86_arith x86_mo "nat option" | I_inc x86_mo "nat option" int

fun gen_string :: "(x86_tcg \<Rightarrow> u32) \<Rightarrow> (u32 \<Rightarrow> u32) \<Rightarrow> x86_disas \<Rightarrow> x86_string \<Rightarrow> x86_mo \<Rightarrow> x86_code" where
  "gen_string carry port ctx S_movs ot = gen_movs ctx ot"
| "gen_string carry port ctx S_stos ot = gen_stos ctx ot"
| "gen_string carry port ctx S_lods ot = gen_lods ctx ot"
| "gen_string carry port ctx S_scas ot = gen_scas carry ctx ot"
| "gen_string carry port ctx S_cmps ot = gen_cmps carry ctx ot"
| "gen_string carry port ctx S_ins ot = gen_ins port ctx ot"
| "gen_string carry port ctx S_outs ot = gen_outs ctx ot"

fun gen_x86 :: "(x86_tcg \<Rightarrow> u32) \<Rightarrow> (u32 \<Rightarrow> u32) \<Rightarrow> x86_disas \<Rightarrow> u32 \<Rightarrow> u32 \<Rightarrow> x86_insn \<Rightarrow> x86_code" where
  "gen_x86 carry port ctx cur nxt (I_string i ot) = gen_string carry port ctx i ot"
| "gen_x86 carry port ctx cur nxt (I_rep i ot nz) =
     (if i = S_scas \<or> i = S_cmps then gen_repz2 (gen_string carry port ctx i ot) ctx ot cur nxt nz
      else gen_repz (gen_string carry port ctx i ot) ctx cur nxt)"
| "gen_x86 carry port ctx cur nxt (I_push v) = gen_push_v ctx v"
| "gen_x86 carry port ctx cur nxt I_pop = code_list [gen_pop_T0 ctx, gen_pop_update ctx (dflag ctx)]"
| "gen_x86 carry port ctx cur nxt I_pusha = gen_pusha ctx"
| "gen_x86 carry port ctx cur nxt I_popa = gen_popa ctx"
| "gen_x86 carry port ctx cur nxt (I_enter n level) = gen_enter ctx n level"
| "gen_x86 carry port ctx cur nxt I_leave = gen_leave ctx"
| "gen_x86 carry port ctx cur nxt (I_op op ot d) = gen_op carry ctx op ot d"
| "gen_x86 carry port ctx cur nxt (I_inc ot d c) = gen_inc carry ctx ot d c"

text \<open>The instructions that become an atomic operation.\<close>

fun is_atomic :: "x86_disas \<Rightarrow> x86_insn \<Rightarrow> bool" where
  "is_atomic ctx (I_op op ot None) \<longleftrightarrow> lock_prefix ctx \<and> op \<noteq> OP_CMPL"
| "is_atomic ctx (I_inc ot d c) \<longleftrightarrow> lock_prefix ctx"
| "is_atomic ctx _ \<longleftrightarrow> False"

lemma xset_log [simp]: "calls (xset v x s) = calls s" "accesses (xset v x s) = accesses s"
  by (auto simp: xset_def split: x86v.splits)

lemma xget_xset: "v \<noteq> w \<Longrightarrow> xget v (xset w x s) = xget v s"
  by (cases v; cases w; simp add: xget_def xset_def)

lemma xget_log [simp]: "xget v (s\<lparr>accesses := as\<rparr>) = xget v s" "xget v (s\<lparr>calls := cs\<rparr>) = xget v s"
  by (simp_all add: xget_def split: x86v.splits)

lemma exact_compute:
  "exact_code x86_matches (x86_let v f)" "exact_code x86_matches (x86_set_cc_op op)"
  "exact_code x86_matches (x86_jmp pc)" "exact_code x86_matches tcg_abort"
  by (simp_all add: exact_code_def x86_let_def x86_set_cc_op_def x86_jmp_def tcg_abort_def raise_exception_def)

lemma exact_st: "exact_code x86_matches (gen_op_st_v ot v a)"
  by (simp add: exact_code_def gen_op_st_v_def on_bus_def gen_command_def split: option.splits)

lemma exact_ld: "v \<noteq> a \<Longrightarrow> exact_code x86_matches (gen_op_ld_v ot v a)"
  by (auto simp: exact_code_def gen_op_ld_v_def on_bus_def gen_command_def xget_xset split: option.splits)

lemma exact_regs:
  "exact_code x86_matches (gen_op_mov_reg_v ot r v)" "exact_code x86_matches (gen_op_mov_v_reg ot v r)"
  "exact_code x86_matches (gen_op_add_reg_im ot r c)" "exact_code x86_matches (gen_op_add_reg_T0 ot r)"
  "exact_code x86_matches (gen_lea_v_seg ctx af v g seg)"
  unfolding gen_op_mov_reg_v_def gen_op_mov_v_reg_def gen_op_add_reg_im_def gen_op_add_reg_T0_def gen_lea_v_seg_def Let_def
  by (auto intro!: exact_code_list exact_compute exact_then exact_no_code split: x86_mo.splits option.splits)

lemmas exact_rules = exact_compute exact_st exact_ld exact_regs exact_code_list exact_if exact_raise exact_no_code

lemma exact_address:
  "exact_code x86_matches (gen_string_movl_A0_ESI ctx)" "exact_code x86_matches (gen_string_movl_A0_EDI ctx)"
  "exact_code x86_matches (gen_op_movl_T0_Dshift ot)" "exact_code x86_matches (gen_stack_update ctx c)"
  by (simp_all add: gen_string_movl_A0_ESI_def gen_string_movl_A0_EDI_def gen_op_movl_T0_Dshift_def
      gen_stack_update_def exact_rules)

lemma exact_arith:
  assumes "\<not> lock_prefix ctx \<or> op = OP_CMPL"
  shows "exact_code x86_matches (gen_op_body carry ctx op ot d)"
  using assms unfolding gen_op_body_def gen_op_st_rm_T0_A0_def gen_op_update1_cc_def gen_op_update2_cc_def gen_op_update3_cc_def
  by (auto intro!: exact_rules split: x86_arith.splits option.splits)

lemma exact_gen_op:
  assumes "d \<noteq> None \<or> \<not> lock_prefix ctx \<or> op = OP_CMPL"
  shows "exact_code x86_matches (gen_op carry ctx op ot d)"
  using assms unfolding gen_op_def by (auto intro!: exact_rules exact_arith split: option.splits)

lemma exact_string: "exact_code x86_matches (gen_string carry port ctx i ot)"
  by (cases i) (auto simp: gen_movs_def gen_stos_def gen_lods_def gen_scas_def gen_cmps_def gen_ins_def gen_outs_def
      intro!: exact_rules exact_address exact_gen_op)

lemma exact_repeat: "exact_code x86_matches (gen_x86 carry port ctx cur nxt (I_rep i ot nz))"
  by (auto simp: gen_repz_def gen_repz2_def simp del: gen_string.simps intro!: exact_rules exact_string)

lemma exact_stack:
  "exact_code x86_matches (gen_push_v ctx v)"
  "exact_code x86_matches (code_list [gen_pop_T0 ctx, gen_pop_update ctx ot])"
  "exact_code x86_matches (gen_pusha ctx)"
  "exact_code x86_matches (gen_popa ctx)"
  "exact_code x86_matches (gen_enter ctx n level)"
  "exact_code x86_matches (gen_leave ctx)"
  unfolding gen_push_v_def gen_pop_T0_def gen_pop_update_def gen_pusha_def gen_popa_def gen_enter_def gen_leave_def Let_def
  by (auto simp: list_all_iff intro!: exact_rules exact_address)

text \<open>An atomic operation makes one access, unless it faults, and no call.\<close>

lemma silent_atomic:
  assumes "is_atomic ctx i"
  shows "calls_from s (gen_x86 carry port ctx cur nxt i bus s) = []"
    and "accesses_from s (gen_x86 carry port ctx cur nxt i bus s) = [] \<longleftrightarrow> bus (length (accesses s)) = None"
proof -
  have "calls_from s (gen_x86 carry port ctx cur nxt i bus s) = [] \<and>
    (accesses_from s (gen_x86 carry port ctx cur nxt i bus s) = [] \<longleftrightarrow> bus (length (accesses s)) = None)"
  proof (cases i)
    case (I_op op ot d)
    then have "d = None" "lock_prefix ctx" "op \<noteq> OP_CMPL" using assms by (cases d; simp)+
    then show ?thesis
      unfolding I_op by (cases op) (simp_all add: gen_op_def gen_op_body_def no_code_def x86_let_def x86_atomic_def
          on_bus_def gen_op_update1_cc_def gen_op_update2_cc_def gen_op_update3_cc_def x86_set_cc_op_def
          calls_from_def accesses_from_def split: option.splits)
  next
    case (I_inc ot d c)
    then show ?thesis
      using assms by (simp add: gen_inc_def x86_let_def x86_atomic_def on_bus_def x86_set_cc_op_def
          calls_from_def accesses_from_def split: option.splits)
  qed (use assms in simp_all)
  then show "calls_from s (gen_x86 carry port ctx cur nxt i bus s) = []"
    "accesses_from s (gen_x86 carry port ctx cur nxt i bus s) = [] \<longleftrightarrow> bus (length (accesses s)) = None"
    by blast+
qed

lemma exact_x86:
  assumes "\<not> is_atomic ctx i"
  shows "exact_code x86_matches (gen_x86 carry port ctx cur nxt i)"
proof (cases i)
  case (I_op op ot d)
  then show ?thesis using assms by (cases d) (auto intro!: exact_gen_op)
next
  case (I_inc ot d c)
  then show ?thesis
    using assms by (auto simp: gen_inc_def gen_op_st_rm_T0_A0_def intro!: exact_rules split: option.splits)
qed (use exact_string exact_repeat exact_stack in \<open>simp_all del: gen_string.simps\<close>)

text \<open>
  C10. The stack, string and arithmetic instructions of i386 are traced exactly, one call after
  every access with the address and size of the access, whatever the registers, the segments
  and the point at which an access faults, with one exception: the arithmetic instructions with
  a LOCK prefix, whose atomic access to memory leaves no record.
\<close>

theorem i386_trace_exact_iff:
  "exactly x86_matches s (gen_x86 carry port ctx cur nxt i bus s) \<longleftrightarrow>
     \<not> (is_atomic ctx i \<and> bus (length (accesses s)) \<noteq> None)"
proof (cases "is_atomic ctx i")
  case True
  then show ?thesis using silent_atomic [OF True] by (simp add: exactly_def)
next
  case False
  then show ?thesis using exact_codeD [OF exact_x86 [OF False]] by simp
qed

section \<open>Accesses of the segmentation helpers\<close>

text \<open>These are traced before they are made, so that a fault leaves a record without an access.\<close>

lemma i386_kernel_exact_iff:
  "exactly x86_matches s (cpu_ld_kernel_ra f shift ptr bus s) \<longleftrightarrow> bus (length (accesses s)) \<noteq> None"
  "exactly x86_matches s (cpu_st_kernel_ra shift ptr v bus s) \<longleftrightarrow> bus (length (accesses s)) \<noteq> None"
  if "\<And>x t. calls (f x t) = calls t \<and> accesses (f x t) = accesses t"
  using that by (simp_all add: exactly_def calls_from_def accesses_from_def cpu_ld_kernel_ra_def cpu_st_kernel_ra_def
      gen_command_def on_bus_def split: option.splits)

section \<open>The decoder\<close>

text \<open>
  \<open>code\<close> is the instruction memory, with None where a page is not mapped. The decoder keeps
  the number of bytes it has consumed; the fetch of byte 16 ends it, with a page fault if that
  byte is on another, unmapped page. A page fault leaves the translator at once, so that none of
  the code emitted so far is run.
\<close>

datatype 'a x86_dec = Dec 'a nat | Page_fault | Too_long | Illegal_op

fun dec_bind :: "'a x86_dec \<Rightarrow> ('a \<Rightarrow> nat \<Rightarrow> 'b x86_dec) \<Rightarrow> 'b x86_dec" where
  "dec_bind (Dec a n) f = f a n"
| "dec_bind Page_fault f = Page_fault"
| "dec_bind Too_long f = Too_long"
| "dec_bind Illegal_op f = Illegal_op"

definition x86_ldub_code :: "(u32 \<Rightarrow> u8 option) \<Rightarrow> u32 \<Rightarrow> nat \<Rightarrow> u8 x86_dec" where
  "x86_ldub_code code pc_start n =
     (let pc = pc_start + of_nat n
      in if 15 < n + 1 then
           if (pc XOR (pc - 1)) AND 0xFFFFF000 \<noteq> 0 \<and> code (pc AND 0xFFFFF000) = None then Page_fault
           else Too_long
         else case code pc of None \<Rightarrow> Page_fault | Some b \<Rightarrow> Dec b (n + 1))"

definition PREFIX_REPZ :: u8 where "PREFIX_REPZ = 0x01"
definition PREFIX_REPNZ :: u8 where "PREFIX_REPNZ = 0x02"
definition PREFIX_LOCK :: u8 where "PREFIX_LOCK = 0x04"
definition PREFIX_DATA :: u8 where "PREFIX_DATA = 0x08"
definition PREFIX_ADR :: u8 where "PREFIX_ADR = 0x10"
definition PREFIX_VEX :: u8 where "PREFIX_VEX = 0x20"

text \<open>The prefixes seen so far, the segment override and the fields of a VEX prefix.\<close>

record x86_prefixes =
  prefixes :: u8
  seg_override :: "nat option"
  vex_v :: u8
  vex_l :: u8

definition x86_prefix :: "u8 \<Rightarrow> (x86_prefixes \<Rightarrow> x86_prefixes) option" where
  "x86_prefix b =
     (if b = 0xf3 then Some (\<lambda>p. p\<lparr>prefixes := prefixes p OR PREFIX_REPZ\<rparr>)
      else if b = 0xf2 then Some (\<lambda>p. p\<lparr>prefixes := prefixes p OR PREFIX_REPNZ\<rparr>)
      else if b = 0xf0 then Some (\<lambda>p. p\<lparr>prefixes := prefixes p OR PREFIX_LOCK\<rparr>)
      else if b = 0x2e then Some (\<lambda>p. p\<lparr>seg_override := Some 1\<rparr>)
      else if b = 0x36 then Some (\<lambda>p. p\<lparr>seg_override := Some 2\<rparr>)
      else if b = 0x3e then Some (\<lambda>p. p\<lparr>seg_override := Some 3\<rparr>)
      else if b = 0x26 then Some (\<lambda>p. p\<lparr>seg_override := Some 0\<rparr>)
      else if b = 0x64 then Some (\<lambda>p. p\<lparr>seg_override := Some 4\<rparr>)
      else if b = 0x65 then Some (\<lambda>p. p\<lparr>seg_override := Some 5\<rparr>)
      else if b = 0x66 then Some (\<lambda>p. p\<lparr>prefixes := prefixes p OR PREFIX_DATA\<rparr>)
      else if b = 0x67 then Some (\<lambda>p. p\<lparr>prefixes := prefixes p OR PREFIX_ADR\<rparr>)
      else None)"

definition pp_prefix :: "u8 \<Rightarrow> u8" where
  "pp_prefix v = (if v AND 3 = 1 then PREFIX_DATA else if v AND 3 = 2 then PREFIX_REPZ
     else if v AND 3 = 3 then PREFIX_REPNZ else 0)"

text \<open>A VEX prefix, or LES and LDS. The opcode is a number below 512; two-byte opcodes start at 256.\<close>

definition x86_vex ::
    "(u32 \<Rightarrow> u8 option) \<Rightarrow> x86_disas \<Rightarrow> u32 \<Rightarrow> u8 \<Rightarrow> x86_prefixes \<Rightarrow> nat \<Rightarrow> (nat \<times> x86_prefixes) x86_dec" where
  "x86_vex code ctx pc_start b p n =
     (if \<not> code32 ctx \<or> vm86 ctx then Dec (unat b, p) n
      else dec_bind (x86_ldub_code code pc_start n) (\<lambda>vex2 m.
        if vex2 AND 0xc0 \<noteq> 0xc0 then Dec (unat b, p) (m - 1)
        else if prefixes p AND (PREFIX_REPZ OR PREFIX_REPNZ OR PREFIX_LOCK OR PREFIX_DATA) \<noteq> 0 then Illegal_op
        else
          let fin = (\<lambda>op vex3. (op, p\<lparr>vex_v := drop_bit 3 (NOT vex3) AND 0xf, vex_l := drop_bit 2 vex3 AND 1,
                 prefixes := prefixes p OR pp_prefix vex3 OR PREFIX_VEX\<rparr>))
          in if b = 0xc5 then
               dec_bind (x86_ldub_code code pc_start m) (\<lambda>op k. Dec (fin (unat op + 256) vex2) k)
             else
               dec_bind (x86_ldub_code code pc_start m) (\<lambda>vex3 k.
                 if vex2 AND 0x1f = 1 then
                   dec_bind (x86_ldub_code code pc_start k) (\<lambda>op j. Dec (fin (unat op + 256) vex3) j)
                 else if vex2 AND 0x1f = 2 then Dec (fin 0x138 vex3) k
                 else if vex2 AND 0x1f = 3 then Dec (fin 0x13a vex3) k
                 else Illegal_op)))"

function x86_opcode ::
    "(u32 \<Rightarrow> u8 option) \<Rightarrow> x86_disas \<Rightarrow> u32 \<Rightarrow> x86_prefixes \<Rightarrow> nat \<Rightarrow> (nat \<times> x86_prefixes) x86_dec" where
  "x86_opcode code ctx pc_start p n =
     (case x86_ldub_code code pc_start n of
        Dec b m \<Rightarrow>
          (case x86_prefix b of
             Some f \<Rightarrow> x86_opcode code ctx pc_start (f p) m
           | None \<Rightarrow> if b = 0xc5 \<or> b = 0xc4 then x86_vex code ctx pc_start b p m else Dec (unat b, p) m)
      | Page_fault \<Rightarrow> Page_fault
      | Too_long \<Rightarrow> Too_long
      | Illegal_op \<Rightarrow> Illegal_op)"
  by pat_completeness auto
termination
  by (relation "measure (\<lambda>(_, _, _, _, n). 16 - n)")
    (auto simp: x86_ldub_code_def Let_def split: if_splits option.splits)

declare x86_opcode.simps [simp del]

text \<open>The sizes from the prefixes, and the opcodes of the tracer.\<close>

definition x86_context :: "x86_disas \<Rightarrow> x86_prefixes \<Rightarrow> x86_disas" where
  "x86_context ctx p = ctx
     \<lparr>dflag := (if code32 ctx \<noteq> (prefixes p AND PREFIX_DATA \<noteq> 0) then MO_32 else MO_16),
      aflag := (if code32 ctx \<noteq> (prefixes p AND PREFIX_ADR \<noteq> 0) then MO_32 else MO_16),
      override := seg_override p,
      lock_prefix := prefixes p AND PREFIX_LOCK \<noteq> 0\<rparr>"

definition x86_custom_inst :: "nat \<Rightarrow> x86_call option" where
  "x86_custom_inst b =
     (if b = 0x1A6 then Some (X_Start (ttype_val QEM_TRACE_ALLTRACE))
      else if b = 0x1A7 then Some (X_Stop (ttype_val QEM_TRACE_ALLTRACE))
      else if b = 0x17A then Some X_Start_timer
      else if b = 0x17B then Some X_Get_timer
      else None)"

text \<open>
  The translation of one instruction. \<open>rest\<close> is the decoder of all other opcodes: it gets the
  context, the opcode and the number of bytes consumed, and gives the code and the length. An
  instruction that is too long or illegal is traced and then raises an exception.
\<close>

datatype x86_translated = Translated x86_code nat | Undefined x86_code | Fetch_faults

definition disas_insn ::
    "(x86_disas \<Rightarrow> nat \<Rightarrow> nat \<Rightarrow> (x86_code \<times> nat) x86_dec) \<Rightarrow> (u32 \<Rightarrow> u8 option) \<Rightarrow> x86_disas \<Rightarrow> u32 \<Rightarrow> x86_translated" where
  "disas_insn rest code ctx pc_start =
     (let trace = gen_qem_instld_trace pc_start 0;
          p0 = \<lparr>prefixes = 0, seg_override = None, vex_v = 0, vex_l = 0\<rparr>;
          body = dec_bind (x86_opcode code ctx pc_start p0 0) (\<lambda>(b, p) n.
            dec_bind (if b = 0x0f then dec_bind (x86_ldub_code code pc_start n) (\<lambda>op m. Dec (unat op + 256) m)
                      else Dec b n) (\<lambda>b m.
              case x86_custom_inst b of
                Some c \<Rightarrow> dec_bind (x86_ldub_code code pc_start m) (\<lambda>_ k.
                  dec_bind (x86_ldub_code code pc_start k) (\<lambda>_ j. Dec (gen_command c, j) j))
              | None \<Rightarrow> rest (x86_context ctx p) b m))
      in case body of
           Dec (c, len) _ \<Rightarrow> Translated (code_list [trace, c]) len
         | Page_fault \<Rightarrow> Fetch_faults
         | _ \<Rightarrow> Undefined (code_list [trace, raise_exception]))"

text \<open>An instruction in memory, and what the decoder makes of its prefixes.\<close>

fun code_at :: "(u32 \<Rightarrow> u8 option) \<Rightarrow> u32 \<Rightarrow> nat \<Rightarrow> u8 list \<Rightarrow> bool" where
  "code_at code pc n [] \<longleftrightarrow> True"
| "code_at code pc n (b # bs) \<longleftrightarrow> code (pc + of_nat n) = Some b \<and> code_at code pc (Suc n) bs"

lemma ldub_at: "code (pc + of_nat n) = Some b \<Longrightarrow> n < 15 \<Longrightarrow> x86_ldub_code code pc n = Dec b (Suc n)"
  by (simp add: x86_ldub_code_def Let_def)

lemma opcode_prefixes:
  assumes "code_at code pc n (ps @ bs)" and "list_all (\<lambda>b. x86_prefix b \<noteq> None) ps" and "n + length ps \<le> 15"
  shows "\<exists>q. x86_opcode code ctx pc p n = x86_opcode code ctx pc q (n + length ps) \<and>
    code_at code pc (n + length ps) bs"
  using assms
proof (induction ps arbitrary: n p)
  case (Cons b ps)
  then obtain f where f: "x86_prefix b = Some f" by auto
  have "x86_ldub_code code pc n = Dec b (Suc n)" using Cons.prems by (intro ldub_at) auto
  then have "x86_opcode code ctx pc p n = x86_opcode code ctx pc (f p) (Suc n)"
    using f by (subst x86_opcode.simps) simp
  moreover obtain q where "x86_opcode code ctx pc (f p) (Suc n) = x86_opcode code ctx pc q (Suc n + length ps)"
    "code_at code pc (Suc n + length ps) bs"
    using Cons.IH [of "Suc n" "f p"] Cons.prems by auto
  ultimately show ?case by (intro exI [of _ q]) simp
qed auto

text \<open>The second bytes of the opcodes of the tracer, and their calls.\<close>

definition x86_trace_commands :: "(u8 \<times> x86_call) list" where
  "x86_trace_commands = [(0xA6, X_Start 3), (0xA7, X_Stop 3), (0x7A, X_Start_timer), (0x7B, X_Get_timer)]"

lemma custom_inst_commands: "x86_custom_inst (unat op + 256) = map_of x86_trace_commands op"
  by (simp add: x86_custom_inst_def x86_trace_commands_def word_unat_eq_iff [of op])

text \<open>
  C22. A tracer command of an i386 guest, 0F and one of four second bytes followed by two bytes
  that are ignored, is recognised behind any sequence of legacy prefixes that leaves the
  instruction within 15 bytes: its code traces the fetch, with size 0, then makes the call of the
  command and nothing else, and the instruction is as long as its bytes. No other two-byte opcode
  is a command; the separate commands for instruction and data tracing that the other
  architectures have are not there.
\<close>

theorem i386_commands_decoded:
  assumes "list_all (\<lambda>b. x86_prefix b \<noteq> None) ps" and "length ps \<le> 11"
    and "code_at code pc 0 (ps @ [0x0F, op, x, y])"
  shows "case map_of x86_trace_commands op of
      Some call \<Rightarrow> \<exists>c. disas_insn rest code ctx pc = Translated c (length ps + 4) \<and>
        (\<forall>bus s. c bus s = Runs (s\<lparr>calls := calls s @ [X_Fetch pc 0, call]\<rparr>))
    | None \<Rightarrow> x86_custom_inst (unat op + 256) = None"
proof (cases "map_of x86_trace_commands op")
  case None
  then show ?thesis by (simp add: custom_inst_commands)
next
  case (Some call)
  let ?n = "length ps" and ?p = "\<lparr>prefixes = 0, seg_override = None, vex_v = 0, vex_l = 0\<rparr>"
  obtain q where q: "x86_opcode code ctx pc ?p 0 = x86_opcode code ctx pc q ?n"
    "code_at code pc ?n [0x0F, op, x, y]"
    using opcode_prefixes [OF assms(3,1), of ctx ?p] assms(2) by auto
  have b: "x86_ldub_code code pc ?n = Dec 0x0F (Suc ?n)" "x86_ldub_code code pc (Suc ?n) = Dec op (Suc (Suc ?n))"
    "x86_ldub_code code pc (Suc (Suc ?n)) = Dec x (Suc (Suc (Suc ?n)))"
    "x86_ldub_code code pc (Suc (Suc (Suc ?n))) = Dec y (Suc (Suc (Suc (Suc ?n))))"
    using q(2) assms(2) by (auto intro!: ldub_at)
  have "x86_opcode code ctx pc q ?n = Dec (15, q) (Suc ?n)"
    by (subst x86_opcode.simps) (simp add: b x86_prefix_def)
  then have "disas_insn rest code ctx pc =
      Translated (code_list [gen_qem_instld_trace pc 0, gen_command call]) (?n + 4)"
    using Some by (simp add: disas_insn_def q(1) b custom_inst_commands Let_def)
  then show ?thesis
    using Some by (simp add: gen_qem_instld_trace_def gen_command_def)
qed

theorem i386_commands_decoded_witness:
  "\<exists>c. disas_insn (\<lambda>_ _ _. Illegal_op)
        ((\<lambda>_. None)(0x1000 := Some 0x66, 0x1001 := Some 0x0F, 0x1002 := Some 0xA6, 0x1003 := Some 0, 0x1004 := Some 0))
        \<lparr>aflag = MO_32, dflag = MO_32, override = None, lock_prefix = False, addseg = False, ss32 = True,
         code32 = True, vm86 = False, repz_opt = True\<rparr> 0x1000 = Translated c 5 \<and>
     (\<forall>bus s. c bus s = Runs (s\<lparr>calls := calls s @ [X_Fetch 0x1000 0, X_Start 3]\<rparr>))"
proof -
  let ?code = "(\<lambda>_. None)(0x1000 := Some 0x66, 0x1001 := Some 0x0F, 0x1002 := Some 0xA6, 0x1003 := Some 0, 0x1004 := Some 0)"
  have "list_all (\<lambda>b. x86_prefix b \<noteq> None) [0x66]" "length [0x66 :: u8] \<le> 11"
    "code_at ?code 0x1000 0 ([0x66] @ [0x0F, 0xA6, 0, 0])"
    by (simp_all add: x86_prefix_def)
  from i386_commands_decoded [OF this] show ?thesis by (simp add: x86_trace_commands_def)
qed

section \<open>Repeated instructions\<close>

text \<open>
  The processor runs a repeated instruction again as long as it jumps to itself, each time from
  its start, at most \<open>n\<close> times.
\<close>

fun run_again :: "nat \<Rightarrow> u32 \<Rightarrow> x86_code \<Rightarrow> x86_code" where
  "run_again 0 cur c = no_code"
| "run_again (Suc n) cur c = code_then c (code_if (\<lambda>s. eip s = cur) (run_again n cur c) no_code)"

definition rep_insn :: "x86_disas \<Rightarrow> (u32 \<Rightarrow> u32) \<Rightarrow> x86_string \<Rightarrow> x86_mo \<Rightarrow> u32 \<Rightarrow> u32 \<Rightarrow> x86_code" where
  "rep_insn ctx port i ot cur nxt = code_list
     [gen_qem_instld_trace cur 0, gen_x86 (\<lambda>_. 0) port ctx cur nxt (I_rep i ot False)]"

fun is_fetch :: "x86_call \<Rightarrow> bool" where
  "is_fetch (X_Fetch a n) = True" | "is_fetch _ = False"

text \<open>Code that runs to its end, with every access delivering a value, and does not touch the counter or trace a fetch.\<close>

definition keeps :: "(nat \<Rightarrow> u32) \<Rightarrow> x86_code \<Rightarrow> bool" where
  "keeps vals c \<longleftrightarrow> (\<forall>s. length (xregs s) = 8 \<longrightarrow> (\<exists>t cl. c (\<lambda>k. Some (vals k)) s = Runs t \<and> length (xregs t) = 8 \<and>
     xregs t ! R_ECX = xregs s ! R_ECX \<and> calls t = calls s @ cl \<and> filter is_fetch cl = []))"

lemma keeps_Cons:
  assumes "keeps vals c" and "keeps vals (code_list cs)"
  shows "keeps vals (code_list (c # cs))"
  unfolding keeps_def
proof (intro allI impI)
  fix s :: x86_tcg
  assume "length (xregs s) = 8"
  then obtain t cl where t: "c (\<lambda>k. Some (vals k)) s = Runs t" "length (xregs t) = 8" "xregs t ! R_ECX = xregs s ! R_ECX"
    "calls t = calls s @ cl" "filter is_fetch cl = []"
    using assms(1) unfolding keeps_def by blast
  obtain u cm where "code_list cs (\<lambda>k. Some (vals k)) t = Runs u" "length (xregs u) = 8" "xregs u ! R_ECX = xregs t ! R_ECX"
    "calls u = calls t @ cm" "filter is_fetch cm = []"
    using assms(2) t(2) unfolding keeps_def by blast
  then show "\<exists>t cl. code_list (c # cs) (\<lambda>k. Some (vals k)) s = Runs t \<and> length (xregs t) = 8 \<and>
      xregs t ! R_ECX = xregs s ! R_ECX \<and> calls t = calls s @ cl \<and> filter is_fetch cl = []"
    using t by (intro exI [of _ u] exI [of _ "cl @ cm"]) simp
qed

lemma keeps_basic:
  "keeps vals (code_list [])" "keeps vals no_code"
  "v \<noteq> Reg R_ECX \<Longrightarrow> keeps vals (x86_let v f)"
  by (auto simp: keeps_def no_code_def x86_let_def xset_def split: x86v.splits)

lemma keeps_access:
  "v \<noteq> Reg R_ECX \<Longrightarrow> keeps vals (gen_op_ld_v ot v a)" "keeps vals (gen_op_st_v ot v a)"
  by (auto simp: keeps_def gen_op_ld_v_def gen_op_st_v_def on_bus_def gen_command_def xset_def split: x86v.splits)

lemma keeps_mov_reg:
  assumes "r \<in> {R_EAX, R_ESI, R_EDI}"
  shows "keeps vals (gen_op_mov_reg_v ot r v)"
proof -
  have "Reg r \<noteq> Reg R_ECX" "Reg (r - 4) \<noteq> Reg R_ECX" using assms by (auto simp: R_EAX_def R_ESI_def R_EDI_def R_ECX_def)
  then show ?thesis by (cases ot) (simp_all add: gen_op_mov_reg_v_def keeps_basic)
qed

lemma keeps_regs:
  "r \<in> {R_EAX, R_ESI, R_EDI} \<Longrightarrow> keeps vals (gen_op_add_reg_T0 ot r)"
  "keeps vals (gen_op_mov_v_reg ot T0 r)"
  unfolding gen_op_add_reg_T0_def gen_op_mov_v_reg_def
  by (simp_all add: keeps_Cons keeps_basic keeps_mov_reg)

lemma keeps_lea: "keeps vals (gen_lea_v_seg ctx MO_32 w g seg)"
  unfolding gen_lea_v_seg_def Let_def by (simp add: keeps_basic split: option.splits)

lemma keeps_string:
  assumes "aflag ctx = MO_32" and "i \<noteq> S_scas \<and> i \<noteq> S_cmps"
  shows "keeps vals (gen_string carry port ctx i ot)"
proof -
  have a: "keeps vals (gen_string_movl_A0_ESI ctx)" "keeps vals (gen_string_movl_A0_EDI ctx)"
    "keeps vals (gen_op_movl_T0_Dshift ot)"
    using assms(1) by (simp_all add: gen_string_movl_A0_ESI_def gen_string_movl_A0_EDI_def gen_op_movl_T0_Dshift_def
        keeps_lea keeps_basic)
  show ?thesis
    using assms(2) by (cases i) (simp_all add: gen_movs_def gen_stos_def gen_lods_def gen_ins_def gen_outs_def
        keeps_Cons keeps_basic keeps_access keeps_regs keeps_mov_reg a)
qed

lemma rep_turn_nonzero:
  assumes "aflag ctx = MO_32" and "length (xregs t) = 8" and "xregs t ! R_ECX = w"
  shows "code_list [gen_op_add_reg_im (aflag ctx) R_ECX (- 1),
      code_if (\<lambda>s. repz_opt ctx \<and> ecx_zero ctx s) (x86_jmp nxt) (x86_jmp cur)] bus t =
    Runs (t\<lparr>xtemps := (xtemps t)(Tmp0 := w - 1), xregs := (xregs t)[R_ECX := w - 1],
      eip := (if repz_opt ctx \<and> w = 1 then nxt else cur)\<rparr>)"
  using assms by (simp add: code_if_def ecx_zero_def xget_def x86_jmp_def gen_op_add_reg_im_def gen_op_mov_reg_v_def
      x86_let_def xset_def R_ECX_def mo_bits_def take_bit_word_eq_self)

lemma of_nat_word_small:
  assumes "n < 2 ^ 32"
  shows "(of_nat n :: u32) = 0 \<longleftrightarrow> n = 0" "(of_nat n :: u32) = 1 \<longleftrightarrow> n = 1"
proof -
  have "unat (of_nat n :: u32) = n" using assms by (simp add: unsigned_of_nat take_bit_nat_eq_self)
  then show "(of_nat n :: u32) = 0 \<longleftrightarrow> n = 0" "(of_nat n :: u32) = 1 \<longleftrightarrow> n = 1"
    by (simp_all only: word_unat_eq_iff [of "of_nat n"] unsigned_0 unsigned_1)
qed

lemma rep_turn:
  assumes "aflag ctx = MO_32" and "i \<noteq> S_scas \<and> i \<noteq> S_cmps" and "length (xregs s) = 8"
    and "xregs s ! R_ECX = of_nat n" and "n < 2 ^ 32"
  shows "\<exists>t cl. rep_insn ctx port i ot cur nxt (\<lambda>k. Some (vals k)) s = Runs t \<and> length (xregs t) = 8 \<and>
    xregs t ! R_ECX = of_nat (n - 1) \<and> calls t = calls s @ X_Fetch cur 0 # cl \<and> filter is_fetch cl = [] \<and>
    eip t = (if n = 0 \<or> n = 1 \<and> repz_opt ctx then nxt else cur)"
proof -
  let ?s = "s\<lparr>calls := calls s @ [X_Fetch cur 0]\<rparr>" and ?op = "gen_string (\<lambda>_. 0) port ctx i ot"
  have rep: "rep_insn ctx port i ot cur nxt (\<lambda>k. Some (vals k)) s = gen_repz ?op ctx cur nxt (\<lambda>k. Some (vals k)) ?s"
    using assms(2) by (simp add: rep_insn_def gen_qem_instld_trace_def gen_command_def del: gen_string.simps
        split: emitted.splits)
  have zero: "ecx_zero ctx ?s \<longleftrightarrow> n = 0"
    using assms(1,4) of_nat_word_small(1) [OF assms(5)] by (simp add: ecx_zero_def xget_def mo_bits_def take_bit_word_eq_self)
  show ?thesis
  proof (cases "n = 0")
    case True
    then show ?thesis using assms zero unfolding rep by (simp add: gen_repz_def code_if_def x86_jmp_def)
  next
    case False
    obtain t cl where t: "?op (\<lambda>k. Some (vals k)) ?s = Runs t" "length (xregs t) = 8"
      "xregs t ! R_ECX = of_nat n" "calls t = calls ?s @ cl" "filter is_fetch cl = []"
      using keeps_string [OF assms(1,2), of vals "\<lambda>_. 0" port ot, unfolded keeps_def, THEN spec [of _ ?s]] assms(3,4)
      by auto
    have pred: "(of_nat n :: u32) - 1 = of_nat (n - 1)" using False by (cases n) simp_all
    have "gen_repz ?op ctx cur nxt (\<lambda>k. Some (vals k)) ?s = code_list [gen_op_add_reg_im (aflag ctx) R_ECX (- 1),
        code_if (\<lambda>s. repz_opt ctx \<and> ecx_zero ctx s) (x86_jmp nxt) (x86_jmp cur)] (\<lambda>k. Some (vals k)) t"
      using zero False unfolding gen_repz_def code_if_def [of "ecx_zero ctx"] by (simp only: if_False code_list_Runs [where c = ?op, OF t(1)])
    then show ?thesis
      unfolding rep rep_turn_nonzero [OF assms(1) t(2,3)] pred of_nat_word_small(2) [OF assms(5)]
      using t(2,4,5) False by (auto simp: R_ECX_def)
  qed
qed

lemma run_again_turn:
  "c bus s = Runs t \<Longrightarrow> eip t = cur \<Longrightarrow> run_again (Suc n) cur c bus s = run_again n cur c bus t"
  "c bus s = Runs t \<Longrightarrow> eip t \<noteq> cur \<Longrightarrow> run_again (Suc n) cur c bus s = Runs t"
  by (simp_all add: code_then_def code_if_def no_code_def)

declare run_again.simps [simp del]

lemma rep_runs:
  assumes "aflag ctx = MO_32" and "i \<noteq> S_scas \<and> i \<noteq> S_cmps" and "length (xregs s) = 8"
    and "xregs s ! R_ECX = of_nat n" and "n < 2 ^ 32" and "cur \<noteq> nxt"
  shows "\<exists>t cl. run_again (Suc n) cur (rep_insn ctx port i ot cur nxt) (\<lambda>k. Some (vals k)) s = Runs t \<and> eip t = nxt \<and>
    xregs t ! R_ECX = 0 \<and> calls t = calls s @ cl \<and>
    length (filter is_fetch cl) = (if repz_opt ctx then max 1 n else n + 1)"
  using assms(3-5)
proof (induction n arbitrary: s)
  case 0
  let ?c = "rep_insn ctx port i ot cur nxt"
  obtain t cl where t: "rep_insn ctx port i ot cur nxt (\<lambda>k. Some (vals k)) s = Runs t" "eip t = nxt"
    "xregs t ! R_ECX = 0" "calls t = calls s @ X_Fetch cur 0 # cl" "filter is_fetch cl = []"
    using rep_turn [OF assms(1,2) 0, of port ot cur nxt vals] by auto
  show ?case
    using t assms(6) by (intro exI [of _ t] exI [of _ "X_Fetch cur 0 # cl"]) (simp add: run_again_turn(2) [where c = ?c, OF t(1)])
next
  case (Suc n)
  let ?c = "rep_insn ctx port i ot cur nxt"
  obtain t cl where t: "rep_insn ctx port i ot cur nxt (\<lambda>k. Some (vals k)) s = Runs t" "length (xregs t) = 8"
    "xregs t ! R_ECX = of_nat n" "calls t = calls s @ X_Fetch cur 0 # cl" "filter is_fetch cl = []"
    "eip t = (if n = 0 \<and> repz_opt ctx then nxt else cur)"
    using rep_turn [OF assms(1,2) Suc.prems, of port ot cur nxt vals] by auto
  show ?case
  proof (cases "n = 0 \<and> repz_opt ctx")
    case True
    then show ?thesis
      using t assms(6) by (intro exI [of _ t] exI [of _ "X_Fetch cur 0 # cl"]) (simp add: run_again_turn(2) [where c = ?c, OF t(1)])
  next
    case False
    obtain u cm where u: "run_again (Suc n) cur (rep_insn ctx port i ot cur nxt) (\<lambda>k. Some (vals k)) t = Runs u" "eip u = nxt"
      "xregs u ! R_ECX = 0" "calls u = calls t @ cm"
      "length (filter is_fetch cm) = (if repz_opt ctx then max 1 n else n + 1)"
      using Suc.IH [OF t(2,3)] Suc.prems(3) by auto
    have "run_again (Suc (Suc n)) cur (rep_insn ctx port i ot cur nxt) (\<lambda>k. Some (vals k)) s = Runs u"
      using t(6) False u(1) run_again_turn(1) [where c = ?c, OF t(1)] by simp
    moreover have "length (filter is_fetch (X_Fetch cur 0 # cl @ cm)) = (if repz_opt ctx then max 1 (Suc n) else Suc n + 1)"
      using u(5) t(5) False by (auto simp: max_def)
    ultimately show ?thesis using t(4) u(2-4)
      by (intro exI [of _ u] exI [of _ "X_Fetch cur 0 # cl @ cm"]) (simp only: append.simps append_assoc)
  qed
qed

text \<open>
  C25. REP MOVS, STOS, LODS, INS and OUTS with 32-bit addressing, none of whose accesses faults,
  jump to themselves after every turn, so their fetch is traced once per turn and not once per
  instruction: with a counter of n such an instruction ends after at most n + 1 turns, with the
  counter 0 and at the next instruction, and the trace has n fetches of it (one if n is 0) when
  the translator leaves as soon as the counter is 0, and n + 1 otherwise. (REP SCAS and CMPS, which
  may also end by their comparison, and 16-bit counters are not covered.)
\<close>

theorem i386_rep_fetches:
  assumes "aflag ctx = MO_32" and "i \<noteq> S_scas \<and> i \<noteq> S_cmps" and "length (xregs s) = 8"
    and "xregs s ! R_ECX = of_nat n" and "n < 2 ^ 32" and "cur \<noteq> nxt"
  shows "\<exists>t. run_again (Suc n) cur (rep_insn ctx port i ot cur nxt) (\<lambda>k. Some (vals k)) s = Runs t \<and> eip t = nxt \<and>
    xregs t ! R_ECX = 0 \<and>
    length (filter is_fetch (calls_from s (Runs t))) = (if repz_opt ctx then max 1 n else n + 1)"
  using rep_runs [OF assms, of port ot vals] by (auto simp: calls_from_def)

theorem i386_rep_fetches_witness:
  "\<exists>t. run_again 6 0x1000 (rep_insn \<lparr>aflag = MO_32, dflag = MO_32, override = None, lock_prefix = False,
        addseg = False, ss32 = True, code32 = True, vm86 = False, repz_opt = False\<rparr> (\<lambda>_. 0) S_movs MO_8 0x1000 0x1002)
      (\<lambda>_. Some 7)
      \<lparr>accesses = [], calls = [], xregs = [0, 5, 0, 0, 0, 0, 0x2000, 0x3000], xtemps = (\<lambda>_. 0), cc_op = CC_ADD MO_8,
       seg_base = (\<lambda>_. 0), df = 1, eip = 0x1000\<rparr> = Runs t \<and>
     length (filter is_fetch (calls t)) = 6"
proof -
  let ?ctx = "\<lparr>aflag = MO_32, dflag = MO_32, override = None, lock_prefix = False, addseg = False, ss32 = True,
    code32 = True, vm86 = False, repz_opt = False\<rparr>"
  let ?s = "\<lparr>accesses = [], calls = [], xregs = [0, 5, 0, 0, 0, 0, 0x2000, 0x3000], xtemps = (\<lambda>_. 0), cc_op = CC_ADD MO_8,
    seg_base = (\<lambda>_. 0), df = 1, eip = 0x1000\<rparr> :: x86_tcg"
  have "aflag ?ctx = MO_32" "S_movs \<noteq> S_scas \<and> S_movs \<noteq> S_cmps" "length (xregs ?s) = 8"
    "xregs ?s ! R_ECX = of_nat 5" "(5 :: nat) < 2 ^ 32" "(0x1000 :: u32) \<noteq> 0x1002"
    by (simp_all add: R_ECX_def)
  from i386_rep_fetches [OF this, of "\<lambda>_. 0" MO_8 "\<lambda>_. 7"] show ?thesis
    by (auto simp: calls_from_def)
qed

end
