(* ===== verification/QEM_PPC_MMU.thy ===== *)
theory QEM_PPC_MMU
  imports QEM_Arch
begin

text \<open>
  The software-managed MMUs of QEMU's PowerPC target that the tracer calls
  (\<^verbatim>\<open>Qemu/target/ppc/mmu_helper.c\<close>, with the BookE 2.06 helpers of
  \<^verbatim>\<open>Qemu/target/ppc/cpu.h\<close> and the hashed page table of \<^verbatim>\<open>mmu-hash32.c\<close>), for the
  32-bit build. A lookup passes the processor state on, because some lookups update a TLB
  entry or a special purpose register. \<open>cpu_abort\<close>, \<open>abort\<close> and a failed \<open>assert\<close> end
  the process; an index out of an array and a shift by a negative amount are faults.
\<close>

section \<open>State\<close>

datatype powerpc_mmu_t =
    POWERPC_MMU_UNKNOWN | POWERPC_MMU_32B | POWERPC_MMU_SOFT_6xx | POWERPC_MMU_SOFT_74xx
  | POWERPC_MMU_SOFT_4xx | POWERPC_MMU_SOFT_4xx_Z | POWERPC_MMU_REAL | POWERPC_MMU_MPC8xx
  | POWERPC_MMU_BOOKE | POWERPC_MMU_BOOKE206 | POWERPC_MMU_601

datatype ppc_access =
    ACCESS_USER | ACCESS_SUPER | ACCESS_CODE | ACCESS_INT | ACCESS_FLOAT | ACCESS_RES
  | ACCESS_EXT | ACCESS_CACHE

record ppc6xx_tlb_t =
  pte0 :: u32
  pte1 :: u32
  tlb6_EPN :: u32

record ppcemb_tlb_t =
  emb_RPN :: u64
  emb_EPN :: u32
  emb_PID :: u32
  emb_size :: u32
  emb_prot :: u32
  emb_attr :: u32

record ppcmas_tlb_t =
  mas8 :: u32
  mas1 :: u32
  mas2 :: u64
  mas7_3 :: u64

record mmu_ctx_t =
  raddr :: u64
  ctx_eaddr :: u64
  prot :: u32
  hash0 :: u64
  hash1 :: u64
  ptem :: u32
  key :: int
  nx :: int

text \<open>
  The part of \<open>CPUPPCState\<close> the lookups use. The TLB is a union in C; which of the three
  lists is in use follows from \<open>mmu_model\<close>.
\<close>

record ppc_env =
  gpr :: "u32 list"
  msr :: u32
  spr :: "nat \<Rightarrow> u32"
  sr :: "u32 list"
  IBATu :: "u32 list"
  IBATl :: "u32 list"
  DBATu :: "u32 list"
  DBATl :: "u32 list"
  nb_BATs :: nat
  nb_tlb :: nat
  tlb_per_way :: nat
  nb_ways :: nat
  id_tlbs :: nat
  nb_pids :: nat
  tlb6 :: "ppc6xx_tlb_t list"
  tlbe :: "ppcemb_tlb_t list"
  tlbm :: "ppcmas_tlb_t list"
  pb :: "u32 list"
  mmu_model :: powerpc_mmu_t
  ppc_cpu_index :: u32

type_synonym 'a ppc_run = "('a, ppc_env) run"

text \<open>The exit status of a process that calls \<open>abort\<close>.\<close>

definition cpu_abort :: "ppc_env \<Rightarrow> 'a ppc_run" where
  "cpu_abort env = Exited 134 env"

definition at_index :: "'b list \<Rightarrow> nat \<Rightarrow> ('b \<Rightarrow> 'a ppc_run) \<Rightarrow> ppc_env \<Rightarrow> 'a ppc_run" where
  "at_index xs i f env = (if i < length xs then f (xs ! i) else Fault env)"

section \<open>Constants\<close>

definition PAGE_READ :: u32 where "PAGE_READ = 1"
definition PAGE_WRITE :: u32 where "PAGE_WRITE = 2"
definition PAGE_EXEC :: u32 where "PAGE_EXEC = 4"
definition PAGE_VALID :: u32 where "PAGE_VALID = 8"

definition TARGET_PAGE_MASK :: "'a::len word" where "TARGET_PAGE_MASK = NOT 0xfff"
definition PTE_PTEM_MASK :: u32 where "PTE_PTEM_MASK = 0x7FFFFFBF"
definition PTE_CHECK_MASK :: u32 where "PTE_CHECK_MASK = TARGET_PAGE_MASK OR 0x7B"

definition SPR_BOOKE_PID :: nat where "SPR_BOOKE_PID = 0x030"
definition SPR_BOOKE_PID1 :: nat where "SPR_BOOKE_PID1 = 0x279"
definition SPR_BOOKE_PID2 :: nat where "SPR_BOOKE_PID2 = 0x27A"
definition SPR_BOOKE_TLB0CFG :: nat where "SPR_BOOKE_TLB0CFG = 0x2B0"
definition SPR_BOOKE_EPLC :: nat where "SPR_BOOKE_EPLC = 0x3B3"
definition SPR_BOOKE_EPSC :: nat where "SPR_BOOKE_EPSC = 0x3B4"
definition SPR_40x_ZPR :: nat where "SPR_40x_ZPR = 0x3B0"
definition SPR_40x_PID :: nat where "SPR_40x_PID = 0x3B1"
definition SPR_40x_ESR :: nat where "SPR_40x_ESR = 0x3D4"
definition SPR_SDR1 :: nat where "SPR_SDR1 = 0x019"

definition MAS1_TSIZE_MASK :: u32 where "MAS1_TSIZE_MASK = push_bit 7 0x1f"
definition MAS1_TS :: u32 where "MAS1_TS = push_bit 12 1"
definition MAS1_TID_MASK :: u32 where "MAS1_TID_MASK = push_bit 16 0x3fff"
definition MAS1_VALID :: u32 where "MAS1_VALID = 0x80000000"
definition MAS2_EPN_MASK :: u64 where "MAS2_EPN_MASK = push_bit 12 (- 1)"
definition MAS3_UX :: u64 where "MAS3_UX = 0x20"
definition MAS3_SX :: u64 where "MAS3_SX = 0x10"
definition MAS3_UW :: u64 where "MAS3_UW = 0x08"
definition MAS3_SW :: u64 where "MAS3_SW = 0x04"
definition MAS3_UR :: u64 where "MAS3_UR = 0x02"
definition MAS3_SR :: u64 where "MAS3_SR = 0x01"
definition TLBnCFG_N_ENTRY :: u32 where "TLBnCFG_N_ENTRY = 0x00000fff"
definition BOOKE206_MAX_TLBN :: nat where "BOOKE206_MAX_TLBN = 4"
definition PPC_TLB_EPID_LOAD :: int where "PPC_TLB_EPID_LOAD = 8"
definition PPC_TLB_EPID_STORE :: int where "PPC_TLB_EPID_STORE = 9"

lemmas page_bits = PAGE_READ_def PAGE_WRITE_def PAGE_EXEC_def PAGE_VALID_def

text \<open>The bits of the machine state register that the macros \<open>msr_pr\<close> and so on select.\<close>

definition msr_bit :: "nat \<Rightarrow> ppc_env \<Rightarrow> u32" where
  "msr_bit n env = drop_bit n (msr env) AND 1"

abbreviation msr_cm :: "ppc_env \<Rightarrow> u32" where "msr_cm \<equiv> msr_bit 31"
abbreviation msr_pr :: "ppc_env \<Rightarrow> u32" where "msr_pr \<equiv> msr_bit 14"
abbreviation msr_ir :: "ppc_env \<Rightarrow> u32" where "msr_ir \<equiv> msr_bit 5"
abbreviation msr_dr :: "ppc_env \<Rightarrow> u32" where "msr_dr \<equiv> msr_bit 4"
abbreviation msr_ds :: "ppc_env \<Rightarrow> u32" where "msr_ds \<equiv> msr_bit 4"
abbreviation msr_pe :: "ppc_env \<Rightarrow> u32" where "msr_pe \<equiv> msr_bit 3"
abbreviation msr_px :: "ppc_env \<Rightarrow> u32" where "msr_px \<equiv> msr_bit 2"

section \<open>Page protection\<close>

definition pte_is_valid :: "u32 \<Rightarrow> bool" where
  "pte_is_valid p = (p AND 0x80000000 \<noteq> 0)"

definition pp_check :: "int \<Rightarrow> u32 \<Rightarrow> int \<Rightarrow> u32" where
  "pp_check k pp nxv =
     (let access =
        (if k = 0 then
           (if pp = 0 \<or> pp = 1 \<or> pp = 2 then PAGE_WRITE OR PAGE_READ
            else if pp = 3 then PAGE_READ else 0)
         else
           (if pp = 0 then 0 else if pp = 1 \<or> pp = 3 then PAGE_READ
            else if pp = 2 then PAGE_READ OR PAGE_WRITE else 0))
      in if nxv = 0 then access OR PAGE_EXEC else access)"

definition check_prot :: "u32 \<Rightarrow> int \<Rightarrow> ppc_access \<Rightarrow> int" where
  "check_prot p rw access_type =
     (if access_type = ACCESS_CODE then (if p AND PAGE_EXEC \<noteq> 0 then 0 else - 2)
      else if rw \<noteq> 0 then (if p AND PAGE_WRITE \<noteq> 0 then 0 else - 2)
      else (if p AND PAGE_READ \<noteq> 0 then 0 else - 2))"

section \<open>6xx and 74xx: block registers, segments and software TLB\<close>

definition ppc6xx_tlb_pte_check ::
    "mmu_ctx_t \<Rightarrow> u32 \<Rightarrow> u32 \<Rightarrow> u32 \<Rightarrow> int \<Rightarrow> ppc_access \<Rightarrow> int \<times> mmu_ctx_t" where
  "ppc6xx_tlb_pte_check ctx p0 p1 h rw type =
     (let pteh = drop_bit 6 p0 AND 1
      in if pte_is_valid p0 \<and> h = pteh \<and> p0 AND PTE_PTEM_MASK = ptem ctx then
           if raddr ctx \<noteq> - 1 \<and>
              raddr ctx AND ucast PTE_CHECK_MASK \<noteq> ucast (p1 AND PTE_CHECK_MASK)
           then (- 3, ctx)
           else
             let access = pp_check (key ctx) (p1 AND 3) (nx ctx)
             in (check_prot access rw type, ctx\<lparr>raddr := ucast p1, prot := access\<rparr>)
         else (- 1, ctx))"

text \<open>\<open>pte_update_flags\<close> with the new \<open>pte1\<close> and context (its result is not used).\<close>

definition pte_update_flags :: "mmu_ctx_t \<Rightarrow> u32 \<Rightarrow> int \<Rightarrow> int \<Rightarrow> mmu_ctx_t \<times> u32" where
  "pte_update_flags ctx p1 ret rw =
     (let p1 = (if p1 AND 0x100 = 0 then p1 OR 0x100 else p1)
      in if p1 AND 0x80 = 0 then
           (if rw = 1 \<and> ret = 0 then (ctx, p1 OR 0x80)
            else (ctx\<lparr>prot := prot ctx AND NOT PAGE_WRITE\<rparr>, p1))
         else (ctx, p1))"

definition ppc6xx_tlb_getnum :: "ppc_env \<Rightarrow> u32 \<Rightarrow> nat \<Rightarrow> bool \<Rightarrow> nat" where
  "ppc6xx_tlb_getnum env eaddr way is_code =
     unat (drop_bit 12 eaddr AND (of_nat (tlb_per_way env) - 1)) + tlb_per_way env * way +
     (if is_code \<and> id_tlbs env = 1 then nb_tlb env else 0)"

text \<open>
  The loop over the ways: the result is \<open>None\<close> when an index is out of range, otherwise the
  return value so far, the entry to update and the context.
\<close>

fun ppc6xx_scan ::
    "ppc_env \<Rightarrow> u32 \<Rightarrow> int \<Rightarrow> ppc_access \<Rightarrow> nat list \<Rightarrow> int \<times> nat option \<times> mmu_ctx_t \<Rightarrow>
     (int \<times> nat option \<times> mmu_ctx_t) option" where
  "ppc6xx_scan env eaddr rw type [] r = Some r"
| "ppc6xx_scan env eaddr rw type (way # ways) (ret, best, ctx) =
     (let nr = ppc6xx_tlb_getnum env eaddr way (type = ACCESS_CODE)
      in if nr \<ge> length (tlb6 env) then None
         else
           let tlb = tlb6 env ! nr
           in if eaddr AND TARGET_PAGE_MASK \<noteq> tlb6_EPN tlb
              then ppc6xx_scan env eaddr rw type ways (ret, best, ctx)
              else
                let (c, ctx') = ppc6xx_tlb_pte_check ctx (pte0 tlb) (pte1 tlb) 0 rw type
                in if c = - 3 then Some (- 1, None, ctx')
                   else if c = - 2 then ppc6xx_scan env eaddr rw type ways (- 2, Some nr, ctx')
                   else if c = 0 then Some (0, Some nr, ctx')
                   else ppc6xx_scan env eaddr rw type ways (ret, best, ctx'))"

definition ppc6xx_tlb_check ::
    "mmu_ctx_t \<Rightarrow> u32 \<Rightarrow> int \<Rightarrow> ppc_access \<Rightarrow> ppc_env \<Rightarrow> (int \<times> mmu_ctx_t) ppc_run" where
  "ppc6xx_tlb_check ctx eaddr rw access_type env =
     (case ppc6xx_scan env eaddr rw access_type [0..<nb_ways env] (- 1, None, ctx) of
        None \<Rightarrow> Fault env
      | Some (ret, None, ctx') \<Rightarrow> Done (ret, ctx') env
      | Some (ret, Some best, ctx') \<Rightarrow>
          let tlb = tlb6 env ! best;
              (ctx'', p1) = pte_update_flags ctx' (pte1 tlb) ret rw
          in Done (ret, ctx'') (env\<lparr>tlb6 := (tlb6 env)[best := tlb\<lparr>pte1 := p1\<rparr>]\<rparr>))"

definition bat_size_prot :: "ppc_env \<Rightarrow> u32 \<Rightarrow> u32 \<Rightarrow> u32 \<times> bool \<times> u32" where
  "bat_size_prot env BATu BATl =
     (let bl = push_bit 15 (BATu AND 0x00001FFC)
      in if (msr_pr env = 0 \<and> BATu AND 2 \<noteq> 0) \<or> (msr_pr env \<noteq> 0 \<and> BATu AND 1 \<noteq> 0) then
           let pp = BATl AND 3;
               prt = (if pp \<noteq> 0
                      then (if pp = 2 then PAGE_READ OR PAGE_EXEC OR PAGE_WRITE
                            else PAGE_READ OR PAGE_EXEC)
                      else 0)
           in (bl, True, prt)
         else (bl, False, 0))"

fun bat_scan ::
    "ppc_env \<Rightarrow> u32 \<Rightarrow> int \<Rightarrow> ppc_access \<Rightarrow> (u32 \<times> u32) list \<Rightarrow> mmu_ctx_t \<Rightarrow> int \<times> mmu_ctx_t" where
  "bat_scan env virtual rw type [] ctx = (- 1, ctx)"
| "bat_scan env virtual rw type ((BATu, BATl) # bats) ctx =
     (let BEPIu = BATu AND 0xF0000000;
          BEPIl = BATu AND 0x0FFE0000;
          (bl, valid, prt) = bat_size_prot env BATu BATl
      in if virtual AND 0xF0000000 = BEPIu \<and> (virtual AND 0x0FFE0000) AND NOT bl = BEPIl \<and> valid
         then
           let r = (BATl AND 0xF0000000) OR
                   ((virtual AND 0x0FFE0000 AND bl) OR (BATl AND 0x0FFE0000)) OR
                   (virtual AND 0x0001F000)
           in (check_prot prt rw type, ctx\<lparr>raddr := ucast r, prot := prt\<rparr>)
         else bat_scan env virtual rw type bats ctx)"

definition get_bat_6xx_tlb ::
    "mmu_ctx_t \<Rightarrow> u32 \<Rightarrow> int \<Rightarrow> ppc_access \<Rightarrow> ppc_env \<Rightarrow> (int \<times> mmu_ctx_t) ppc_run" where
  "get_bat_6xx_tlb ctx virtual rw type env =
     (let (BATut, BATlt) = (if type = ACCESS_CODE then (IBATu env, IBATl env)
                            else (DBATu env, DBATl env))
      in if nb_BATs env > length BATut \<or> nb_BATs env > length BATlt then Fault env
         else Done (bat_scan env virtual rw type (take (nb_BATs env) (zip BATut BATlt)) ctx) env)"

definition get_segment_6xx_tlb ::
    "mmu_ctx_t \<Rightarrow> u32 \<Rightarrow> int \<Rightarrow> ppc_access \<Rightarrow> ppc_env \<Rightarrow> (int \<times> mmu_ctx_t) ppc_run" where
  "get_segment_6xx_tlb ctx eaddr rw type env =
     at_index (sr env) (unat (drop_bit 28 eaddr)) (\<lambda>s.
       let pr = msr_pr env;
           k = (if (s AND 0x20000000 \<noteq> 0 \<and> pr \<noteq> 0) \<or> (s AND 0x40000000 \<noteq> 0 \<and> pr = 0) then 1 else 0);
           ds = s AND 0x80000000 \<noteq> 0;
           nxv = (if s AND 0x10000000 \<noteq> 0 then 1 else 0);
           vsid = s AND 0x00FFFFFF;
           pgidx = drop_bit 12 (eaddr AND 0x0FFFFFFF);
           hash = ucast (vsid XOR pgidx) :: u64;
           ctx1 = ctx\<lparr>ctx_eaddr := ucast eaddr, key := k, nx := nxv,
                      ptem := push_bit 7 vsid OR drop_bit 10 pgidx\<rparr>
       in if \<not> ds then
            if type \<noteq> ACCESS_CODE \<or> nxv = 0 then
              ppc6xx_tlb_check (ctx1\<lparr>hash0 := hash, hash1 := NOT hash, raddr := - 1\<rparr>)
                eaddr rw type env
            else Done (- 3, ctx1) env
          else if drop_bit 20 (s AND 0x1FF00000) = 0x07f then
            Done (0, ctx1\<lparr>raddr := ucast (push_bit 28 (s AND 0xF) OR (eaddr AND 0x0FFFFFFF)),
                          prot := PAGE_READ OR PAGE_WRITE OR PAGE_EXEC\<rparr>) env
          else
            case type of
              ACCESS_INT \<Rightarrow>
                if (rw = 1 \<or> k \<noteq> 1) \<and> (rw = 0 \<or> k \<noteq> 0)
                then Done (2, ctx1\<lparr>raddr := ucast eaddr\<rparr>) env
                else Done (- 2, ctx1) env
            | ACCESS_CACHE \<Rightarrow> Done (0, ctx1\<lparr>raddr := ucast eaddr\<rparr>) env
            | _ \<Rightarrow> Done (- 4, ctx1) env) env"

section \<open>Embedded TLBs: 40x and BookE\<close>

text \<open>The real address on a hit, \<open>None\<close> for the return value -1.\<close>

definition ppcemb_tlb_check :: "ppcemb_tlb_t \<Rightarrow> u32 \<Rightarrow> u32 \<Rightarrow> bool \<Rightarrow> u64 option" where
  "ppcemb_tlb_check tlb address pid ext =
     (if emb_prot tlb AND PAGE_VALID = 0 then None
      else
        let msk = NOT (emb_size tlb - 1)
        in if emb_PID tlb \<noteq> 0 \<and> emb_PID tlb \<noteq> pid then None
           else if address AND msk \<noteq> emb_EPN tlb then None
           else
             let r = (emb_RPN tlb AND ucast msk) OR ucast (address AND NOT msk)
             in Some (if ext then r OR push_bit 32 (emb_RPN tlb AND 0xF) else r))"

text \<open>
  The zone protection of one matching entry: return value, protection bits and, when it is
  written, the value of the exception syndrome register.
\<close>

definition zone_check ::
    "ppc_env \<Rightarrow> ppcemb_tlb_t \<Rightarrow> int \<Rightarrow> ppc_access \<Rightarrow> int \<times> u32 \<times> u32 option" where
  "zone_check env tlb rw access_type =
     (let zsel = unat (drop_bit 4 (emb_attr tlb) AND 0xF);
          zpr = drop_bit (30 - 2 * zsel) (spr env SPR_40x_ZPR) AND 3;
          pr = msr_pr env;
          ret = check_prot (emb_prot tlb) rw access_type;
          perms = (ret, emb_prot tlb, if ret = - 2 then Some 0 else None);
          granted = (0, PAGE_READ OR PAGE_WRITE OR PAGE_EXEC, None)
      in if zpr = 2 then (if pr \<noteq> 0 then perms else granted)
         else if zpr = 3 then granted
         else if zpr = 0 \<and> pr \<noteq> 0 then (- 2, 0, Some (push_bit 22 1))
         else perms)"

definition set_esr :: "u32 option \<Rightarrow> ppc_env \<Rightarrow> ppc_env" where
  "set_esr v env =
     (case v of None \<Rightarrow> env | Some x \<Rightarrow> env\<lparr>spr := (spr env)(SPR_40x_ESR := x)\<rparr>)"

fun mmu40x_scan ::
    "u32 \<Rightarrow> int \<Rightarrow> ppc_access \<Rightarrow> nat list \<Rightarrow> int \<Rightarrow> mmu_ctx_t \<Rightarrow> ppc_env \<Rightarrow>
     (int \<times> mmu_ctx_t) ppc_run" where
  "mmu40x_scan address rw type [] ret ctx env = Done (ret, ctx) env"
| "mmu40x_scan address rw type (i # is) ret ctx env =
     at_index (tlbe env) i (\<lambda>tlb.
       case ppcemb_tlb_check tlb address (spr env SPR_40x_PID) False of
         None \<Rightarrow> mmu40x_scan address rw type is ret ctx env
       | Some r \<Rightarrow>
           let (ret', p, esr) = zone_check env tlb rw type;
               env' = set_esr esr env
           in if ret' \<ge> 0 then Done (0, ctx\<lparr>prot := p, raddr := r\<rparr>) env'
              else mmu40x_scan address rw type is ret' (ctx\<lparr>prot := p\<rparr>) env') env"

definition mmu40x_get_physical_address ::
    "mmu_ctx_t \<Rightarrow> u32 \<Rightarrow> int \<Rightarrow> ppc_access \<Rightarrow> ppc_env \<Rightarrow> (int \<times> mmu_ctx_t) ppc_run" where
  "mmu40x_get_physical_address ctx address rw access_type env =
     mmu40x_scan address rw access_type [0..<nb_tlb env] (- 1) ctx env"

text \<open>\<open>mmubooke_check_tlb\<close>: return value, and the values of \<open>*raddr\<close> and \<open>*prot\<close> afterwards.\<close>

definition mmubooke_check_tlb ::
    "ppc_env \<Rightarrow> ppcemb_tlb_t \<Rightarrow> u64 \<Rightarrow> u32 \<Rightarrow> u32 \<Rightarrow> int \<Rightarrow> ppc_access \<Rightarrow> int \<times> u64 \<times> u32" where
  "mmubooke_check_tlb env tlb ra pr0 address rw access_type =
     (let pid0 = ppcemb_tlb_check tlb address (spr env SPR_BOOKE_PID) (nb_pids env = 0);
          pid1 = (if spr env SPR_BOOKE_PID1 \<noteq> 0
                  then ppcemb_tlb_check tlb address (spr env SPR_BOOKE_PID1) False else None);
          pid2 = (if spr env SPR_BOOKE_PID2 \<noteq> 0
                  then ppcemb_tlb_check tlb address (spr env SPR_BOOKE_PID2) False else None);
          found = (if pid0 \<noteq> None then pid0 else if pid1 \<noteq> None then pid1 else pid2)
      in case found of None \<Rightarrow> (- 1, ra, pr0)
         | Some r \<Rightarrow>
             let prot2 = (if msr_pr env \<noteq> 0 then emb_prot tlb AND 0xF
                          else drop_bit 4 (emb_prot tlb) AND 0xF)
             in if access_type = ACCESS_CODE then
                  if msr_ir env \<noteq> emb_attr tlb AND 1 then (- 1, r, pr0)
                  else if prot2 AND PAGE_EXEC \<noteq> 0 then (0, r, prot2) else (- 3, r, prot2)
                else
                  if msr_dr env \<noteq> emb_attr tlb AND 1 then (- 1, r, pr0)
                  else if (rw = 0 \<and> prot2 AND PAGE_READ \<noteq> 0) \<or> (rw \<noteq> 0 \<and> prot2 AND PAGE_WRITE \<noteq> 0)
                  then (0, r, prot2) else (- 2, r, prot2))"

fun mmubooke_scan ::
    "u32 \<Rightarrow> int \<Rightarrow> ppc_access \<Rightarrow> nat list \<Rightarrow> int \<times> u64 \<times> u32 \<Rightarrow> ppc_env \<Rightarrow>
     (int \<times> u64 \<times> u32) ppc_run" where
  "mmubooke_scan address rw type [] r env = Done r env"
| "mmubooke_scan address rw type (i # is) (ret, ra, p) env =
     at_index (tlbe env) i (\<lambda>tlb.
       let r = mmubooke_check_tlb env tlb ra p address rw type
       in if fst r \<noteq> - 1 then Done r env else mmubooke_scan address rw type is r env) env"

definition mmubooke_get_physical_address ::
    "mmu_ctx_t \<Rightarrow> u32 \<Rightarrow> int \<Rightarrow> ppc_access \<Rightarrow> ppc_env \<Rightarrow> (int \<times> mmu_ctx_t) ppc_run" where
  "mmubooke_get_physical_address ctx address rw access_type env =
     bind_run (mmubooke_scan address rw access_type [0..<nb_tlb env] (- 1, - 1, prot ctx) env)
       (\<lambda>(ret, ra, p) env.
          Done (ret, if ret \<ge> 0 then ctx\<lparr>prot := p, raddr := ra\<rparr> else ctx\<lparr>prot := p\<rparr>) env)"

section \<open>BookE 2.06\<close>

text \<open>Count trailing zeros; 32 for 0.\<close>

definition ctz32 :: "u32 \<Rightarrow> nat" where
  "ctz32 x = length (takeWhile (\<lambda>i. \<not> bit x i) [0..<32])"

definition booke206_tlb_size :: "ppc_env \<Rightarrow> nat \<Rightarrow> nat" where
  "booke206_tlb_size env tlbn = unat (spr env (SPR_BOOKE_TLB0CFG + tlbn) AND TLBnCFG_N_ENTRY)"

definition booke206_tlb_ways :: "ppc_env \<Rightarrow> nat \<Rightarrow> nat" where
  "booke206_tlb_ways env tlbn = unat (drop_bit 24 (spr env (SPR_BOOKE_TLB0CFG + tlbn)))"

text \<open>
  The index of the entry that can hold an address in a way; \<open>None\<close> is the null pointer. The
  shift by \<open>tlb_bits - ways_bits\<close> is a fault when it is negative or not below 32.
\<close>

definition booke206_get_tlbm :: "ppc_env \<Rightarrow> nat \<Rightarrow> u32 \<Rightarrow> nat \<Rightarrow> nat option ppc_run" where
  "booke206_get_tlbm env tlbn ea way =
     (let ways = booke206_tlb_ways env tlbn;
          ways_bits = ctz32 (of_nat ways);
          tlb_bits = ctz32 (of_nat (booke206_tlb_size env tlbn))
      in if tlb_bits < ways_bits \<or> tlb_bits - ways_bits \<ge> 32 then Fault env
         else
           let w = of_nat way AND (of_nat ways - 1) :: u32;
               e = drop_bit 12 ea AND (push_bit (tlb_bits - ways_bits) 1 - 1);
               r = unat (push_bit ways_bits e OR w)
           in if r \<ge> booke206_tlb_size env tlbn then Done None env
              else Done (Some (r + sum_list (map (booke206_tlb_size env) [0..<tlbn]))) env)"

definition booke206_tlb_to_page_size :: "ppcmas_tlb_t \<Rightarrow> u64" where
  "booke206_tlb_to_page_size tlb =
     push_bit (unat (drop_bit 7 (mas1 tlb AND MAS1_TSIZE_MASK))) 1024"

definition ppcmas_tlb_check :: "ppc_env \<Rightarrow> ppcmas_tlb_t \<Rightarrow> u32 \<Rightarrow> u32 \<Rightarrow> u64 option" where
  "ppcmas_tlb_check env tlb address pid =
     (if mas1 tlb AND MAS1_VALID = 0 then None
      else
        let msk = NOT (booke206_tlb_to_page_size tlb - 1);
            tlb_pid = drop_bit 16 (mas1 tlb AND MAS1_TID_MASK)
        in if tlb_pid \<noteq> 0 \<and> tlb_pid \<noteq> pid then None
           else if ucast address AND msk \<noteq> mas2 tlb AND MAS2_EPN_MASK then None
           else Some ((mas7_3 tlb AND msk) OR (ucast address AND NOT msk)))"

definition is_epid_mmu :: "int \<Rightarrow> bool" where
  "is_epid_mmu mmu_idx = (mmu_idx = PPC_TLB_EPID_STORE \<or> mmu_idx = PPC_TLB_EPID_LOAD)"

text \<open>Whether an external process identifier is used, that identifier, and the two bits.\<close>

definition mmubooke206_get_as :: "ppc_env \<Rightarrow> int \<Rightarrow> bool \<times> u32 \<times> bool \<times> bool" where
  "mmubooke206_get_as env mmu_idx =
     (if is_epid_mmu mmu_idx then
        let epidr = (if mmu_idx = PPC_TLB_EPID_STORE then spr env SPR_BOOKE_EPSC
                     else spr env SPR_BOOKE_EPLC)
        in (True, epidr AND 0xFF, epidr AND 0x40000000 \<noteq> 0, epidr AND 0x80000000 \<noteq> 0)
      else (False, 0, msr_ds env \<noteq> 0, msr_pr env \<noteq> 0))"

definition mas_prot :: "bool \<Rightarrow> ppcmas_tlb_t \<Rightarrow> u32" where
  "mas_prot pr tlb =
     (if pr then
        (if mas7_3 tlb AND MAS3_UR \<noteq> 0 then PAGE_READ else 0) OR
        (if mas7_3 tlb AND MAS3_UW \<noteq> 0 then PAGE_WRITE else 0) OR
        (if mas7_3 tlb AND MAS3_UX \<noteq> 0 then PAGE_EXEC else 0)
      else
        (if mas7_3 tlb AND MAS3_SR \<noteq> 0 then PAGE_READ else 0) OR
        (if mas7_3 tlb AND MAS3_SW \<noteq> 0 then PAGE_WRITE else 0) OR
        (if mas7_3 tlb AND MAS3_SX \<noteq> 0 then PAGE_EXEC else 0))"

definition mmubooke206_check_tlb ::
    "ppcmas_tlb_t \<Rightarrow> u64 \<Rightarrow> u32 \<Rightarrow> u32 \<Rightarrow> int \<Rightarrow> ppc_access \<Rightarrow> int \<Rightarrow> ppc_env \<Rightarrow>
     (int \<times> u64 \<times> u32) ppc_run" where
  "mmubooke206_check_tlb tlb ra pr0 address rw access_type mmu_idx env =
     (let (use_epid, epid, asp, pr) = mmubooke206_get_as env mmu_idx;
          pid0 = ppcmas_tlb_check env tlb address (spr env SPR_BOOKE_PID);
          pid1 = (if spr env SPR_BOOKE_PID1 \<noteq> 0
                  then ppcmas_tlb_check env tlb address (spr env SPR_BOOKE_PID1) else None);
          pid2 = (if spr env SPR_BOOKE_PID2 \<noteq> 0
                  then ppcmas_tlb_check env tlb address (spr env SPR_BOOKE_PID2) else None);
          found = (if use_epid then ppcmas_tlb_check env tlb address epid
                   else if pid0 \<noteq> None then pid0 else if pid1 \<noteq> None then pid1 else pid2);
          ts = drop_bit 12 (mas1 tlb AND MAS1_TS)
      in case found of None \<Rightarrow> Done (- 1, ra, pr0) env
         | Some r \<Rightarrow>
             let prot2 = mas_prot pr tlb
             in if access_type = ACCESS_CODE then
                  if use_epid then cpu_abort env
                  else if msr_ir env \<noteq> ts then Done (- 1, r, pr0) env
                  else if prot2 AND PAGE_EXEC \<noteq> 0 then Done (0, r, prot2) env
                  else Done (- 3, r, prot2) env
                else
                  if (if asp then 1 else 0) \<noteq> ts then Done (- 1, r, pr0) env
                  else if (rw = 0 \<and> prot2 AND PAGE_READ \<noteq> 0) \<or> (rw \<noteq> 0 \<and> prot2 AND PAGE_WRITE \<noteq> 0)
                  then Done (0, r, prot2) env
                  else Done (- 2, r, prot2) env)"

text \<open>The pairs of TLB number and way the nested loops visit, in order.\<close>

definition booke206_slots :: "ppc_env \<Rightarrow> (nat \<times> nat) list" where
  "booke206_slots env =
     concat (map (\<lambda>i. map (Pair i) [0..<booke206_tlb_ways env i]) [0..<BOOKE206_MAX_TLBN])"

fun mmubooke206_scan ::
    "u32 \<Rightarrow> int \<Rightarrow> ppc_access \<Rightarrow> int \<Rightarrow> (nat \<times> nat) list \<Rightarrow> int \<times> u64 \<times> u32 \<Rightarrow> ppc_env \<Rightarrow>
     (int \<times> u64 \<times> u32) ppc_run" where
  "mmubooke206_scan address rw type mmu_idx [] r env = Done r env"
| "mmubooke206_scan address rw type mmu_idx ((i, j) # slots) (ret, ra, p) env =
     bind_run (booke206_get_tlbm env i address j) (\<lambda>e env.
       case e of None \<Rightarrow> mmubooke206_scan address rw type mmu_idx slots (ret, ra, p) env
       | Some n \<Rightarrow> at_index (tlbm env) n (\<lambda>tlb.
           bind_run (mmubooke206_check_tlb tlb ra p address rw type mmu_idx env) (\<lambda>r env.
             if fst r \<noteq> - 1 then Done r env
             else mmubooke206_scan address rw type mmu_idx slots r env)) env)"

definition mmubooke206_get_physical_address ::
    "mmu_ctx_t \<Rightarrow> u32 \<Rightarrow> int \<Rightarrow> ppc_access \<Rightarrow> int \<Rightarrow> ppc_env \<Rightarrow> (int \<times> mmu_ctx_t) ppc_run" where
  "mmubooke206_get_physical_address ctx address rw access_type mmu_idx env =
     bind_run (mmubooke206_scan address rw access_type mmu_idx (booke206_slots env)
         (- 1, - 1, prot ctx) env)
       (\<lambda>(ret, ra, p) env.
          Done (ret, if ret \<ge> 0 then ctx\<lparr>prot := p, raddr := ra\<rparr> else ctx\<lparr>prot := p\<rparr>) env)"

section \<open>The MMU dispatch\<close>

definition check_physical ::
    "mmu_ctx_t \<Rightarrow> u32 \<Rightarrow> int \<Rightarrow> ppc_env \<Rightarrow> (int \<times> mmu_ctx_t) ppc_run" where
  "check_physical ctx eaddr rw env =
     (let ctx1 = ctx\<lparr>raddr := ucast eaddr, prot := PAGE_READ OR PAGE_EXEC\<rparr>;
          rwx = ctx1\<lparr>prot := prot ctx1 OR PAGE_WRITE\<rparr>
      in case mmu_model env of
           POWERPC_MMU_SOFT_6xx \<Rightarrow> Done (0, rwx) env
         | POWERPC_MMU_SOFT_74xx \<Rightarrow> Done (0, rwx) env
         | POWERPC_MMU_SOFT_4xx \<Rightarrow> Done (0, rwx) env
         | POWERPC_MMU_REAL \<Rightarrow> Done (0, rwx) env
         | POWERPC_MMU_BOOKE \<Rightarrow> Done (0, rwx) env
         | POWERPC_MMU_SOFT_4xx_Z \<Rightarrow>
             if msr_pe env \<noteq> 0 then
               at_index (pb env) 3 (\<lambda>pb3.
                 let pb0 = pb env ! 0; pb1 = pb env ! 1; pb2 = pb env ! 2;
                     in_plb = (if (pb0 < pb1 \<and> eaddr \<ge> pb0 \<and> eaddr < pb1) \<or>
                                  (pb2 < pb3 \<and> eaddr \<ge> pb2 \<and> eaddr < pb3) then 1 else 0)
                 in if in_plb XOR msr_px env \<noteq> 0
                    then Done (if rw = 1 then - 2 else 0, ctx1) env
                    else Done (0, rwx) env) env
             else Done (0, ctx1) env
         | _ \<Rightarrow> cpu_abort env)"

definition real_mode :: "ppc_access \<Rightarrow> ppc_env \<Rightarrow> bool" where
  "real_mode access_type env =
     ((access_type = ACCESS_CODE \<and> msr_ir env = 0) \<or> (access_type \<noteq> ACCESS_CODE \<and> msr_dr env = 0))"

definition get_physical_address_wtlb ::
    "mmu_ctx_t \<Rightarrow> u32 \<Rightarrow> int \<Rightarrow> ppc_access \<Rightarrow> int \<Rightarrow> ppc_env \<Rightarrow> (int \<times> mmu_ctx_t) ppc_run" where
  "get_physical_address_wtlb ctx eaddr rw access_type mmu_idx env =
     (let soft6 =
        (if real_mode access_type env then check_physical ctx eaddr rw env
         else
           bind_run (if nb_BATs env \<noteq> 0 then get_bat_6xx_tlb ctx eaddr rw access_type env
                     else Done (- 1, ctx) env)
             (\<lambda>(ret, ctx) env.
                if ret < 0 then get_segment_6xx_tlb ctx eaddr rw access_type env
                else Done (ret, ctx) env));
          soft4 =
        (if real_mode access_type env then check_physical ctx eaddr rw env
         else mmu40x_get_physical_address ctx eaddr rw access_type env)
      in case mmu_model env of
           POWERPC_MMU_SOFT_6xx \<Rightarrow> soft6
         | POWERPC_MMU_SOFT_74xx \<Rightarrow> soft6
         | POWERPC_MMU_SOFT_4xx \<Rightarrow> soft4
         | POWERPC_MMU_SOFT_4xx_Z \<Rightarrow> soft4
         | POWERPC_MMU_BOOKE \<Rightarrow> mmubooke_get_physical_address ctx eaddr rw access_type env
         | POWERPC_MMU_BOOKE206 \<Rightarrow>
             mmubooke206_get_physical_address ctx eaddr rw access_type mmu_idx env
         | POWERPC_MMU_MPC8xx \<Rightarrow> cpu_abort env
         | POWERPC_MMU_REAL \<Rightarrow>
             if real_mode access_type env
             then bind_run (check_physical ctx eaddr rw env) (\<lambda>(ret, ctx) env. Done (- 1, ctx) env)
             else cpu_abort env
         | _ \<Rightarrow> cpu_abort env)"

definition get_physical_address ::
    "mmu_ctx_t \<Rightarrow> u32 \<Rightarrow> int \<Rightarrow> ppc_access \<Rightarrow> ppc_env \<Rightarrow> (int \<times> mmu_ctx_t) ppc_run" where
  "get_physical_address ctx eaddr rw access_type env =
     get_physical_address_wtlb ctx eaddr rw access_type 0 env"

section \<open>The hashed page table\<close>

text \<open>Big-endian 32-bit loads from guest memory.\<close>

definition ldl_be_phys :: "phys_mem \<Rightarrow> u64 \<Rightarrow> u32" where
  "ldl_be_phys mem a = le_word (rev (phys_bytes mem a 4))"

definition ppc_hash32_pp_prot :: "bool \<Rightarrow> u32 \<Rightarrow> bool \<Rightarrow> ppc_env \<Rightarrow> u32 ppc_run" where
  "ppc_hash32_pp_prot k pp nxv env =
     bind_run
       (if \<not> k then
          (if pp = 0 \<or> pp = 1 \<or> pp = 2 then Done (PAGE_READ OR PAGE_WRITE) env
           else if pp = 3 then Done PAGE_READ env else cpu_abort env)
        else
          (if pp = 0 then Done 0 env
           else if pp = 1 \<or> pp = 3 then Done PAGE_READ env
           else if pp = 2 then Done (PAGE_READ OR PAGE_WRITE) env else cpu_abort env))
       (\<lambda>p env. Done (if \<not> nxv then p OR PAGE_EXEC else p) env)"

definition hash32_bat_size :: "ppc_env \<Rightarrow> u32 \<Rightarrow> u32 \<Rightarrow> u32" where
  "hash32_bat_size env batu batl =
     (if (msr_pr env \<noteq> 0 \<and> batu AND 1 = 0) \<or> (msr_pr env = 0 \<and> batu AND 2 = 0) then 0
      else 0xfffe0000 AND NOT (push_bit 15 (batu AND 0x00001ffc)))"

definition hash32_bat_prot :: "u32 \<Rightarrow> u32 \<Rightarrow> u32" where
  "hash32_bat_prot batu batl =
     (let pp = batl AND 3
      in if pp \<noteq> 0
         then (if pp = 2 then PAGE_READ OR PAGE_EXEC OR PAGE_WRITE else PAGE_READ OR PAGE_EXEC)
         else 0)"

definition hash32_bat_601_size :: "u32 \<Rightarrow> u32 \<Rightarrow> u32" where
  "hash32_bat_601_size batu batl =
     (if batl AND 0x40 = 0 then 0 else 0xfffe0000 AND NOT (push_bit 17 (batl AND 0x3f)))"

definition hash32_bat_601_prot :: "u32 \<Rightarrow> u32 \<Rightarrow> ppc_env \<Rightarrow> u32 ppc_run" where
  "hash32_bat_601_prot batu batl env =
     ppc_hash32_pp_prot (if msr_pr env = 0 then batu AND 0x8 \<noteq> 0 else batu AND 0x4 \<noteq> 0)
       (batu AND 3) False env"

text \<open>The real address and the protection of the first block that matches, if any.\<close>

fun hash32_bat_scan :: "u32 \<Rightarrow> (u32 \<times> u32) list \<Rightarrow> ppc_env \<Rightarrow> (u64 \<times> u32) option ppc_run" where
  "hash32_bat_scan ea [] env = Done None env"
| "hash32_bat_scan ea ((batu, batl) # bats) env =
     (let m601 = (mmu_model env = POWERPC_MMU_601);
          msk = (if m601 then hash32_bat_601_size batu batl else hash32_bat_size env batu batl)
      in if msk \<noteq> 0 \<and> ea AND msk = batu AND 0xfffe0000 then
           let ra = ucast ((batl AND msk) OR (ea AND NOT msk)) AND TARGET_PAGE_MASK :: u64
           in bind_run (if m601 then hash32_bat_601_prot batu batl env
                        else Done (hash32_bat_prot batu batl) env)
                (\<lambda>p env. Done (Some (ra, p)) env)
         else hash32_bat_scan ea bats env)"

definition ppc_hash32_bat_lookup :: "u32 \<Rightarrow> int \<Rightarrow> ppc_env \<Rightarrow> (u64 \<times> u32) option ppc_run" where
  "ppc_hash32_bat_lookup ea rwx env =
     (let (BATut, BATlt) = (if rwx = 2 then (IBATu env, IBATl env) else (DBATu env, DBATl env))
      in if nb_BATs env > length BATut \<or> nb_BATs env > length BATlt then Fault env
         else hash32_bat_scan ea (take (nb_BATs env) (zip BATut BATlt)) env)"

definition ppc_hash32_hpt_base :: "ppc_env \<Rightarrow> u64" where
  "ppc_hash32_hpt_base env = ucast (spr env SPR_SDR1) AND 0xFFFF0000"

definition ppc_hash32_hpt_mask :: "ppc_env \<Rightarrow> u64" where
  "ppc_hash32_hpt_mask env = push_bit 16 (ucast (spr env SPR_SDR1) AND 0x1FF) OR 0xFFFF"

definition ppc_hash32_load_hpte0 :: "phys_mem \<Rightarrow> ppc_env \<Rightarrow> u64 \<Rightarrow> u32" where
  "ppc_hash32_load_hpte0 mem env pte_offset = ldl_be_phys mem (ppc_hash32_hpt_base env + pte_offset)"

definition ppc_hash32_load_hpte1 :: "phys_mem \<Rightarrow> ppc_env \<Rightarrow> u64 \<Rightarrow> u32" where
  "ppc_hash32_load_hpte1 mem env pte_offset =
     ldl_be_phys mem (ppc_hash32_hpt_base env + pte_offset + 4)"

definition get_pteg_offset32 :: "ppc_env \<Rightarrow> u64 \<Rightarrow> u64" where
  "get_pteg_offset32 env hash = (hash * 64) AND ucast (ucast (ppc_hash32_hpt_mask env) :: u32)"

fun ppc_hash32_pteg_search ::
    "phys_mem \<Rightarrow> ppc_env \<Rightarrow> bool \<Rightarrow> u32 \<Rightarrow> nat \<Rightarrow> u64 \<Rightarrow> (u64 \<times> u32 \<times> u32) option" where
  "ppc_hash32_pteg_search mem env secondary tag 0 pte_offset = None"
| "ppc_hash32_pteg_search mem env secondary tag (Suc n) pte_offset =
     (let p0 = ppc_hash32_load_hpte0 mem env pte_offset;
          p1 = ppc_hash32_load_hpte1 mem env pte_offset
      in if p0 AND 0x80000000 \<noteq> 0 \<and> secondary = (p0 AND 0x40 \<noteq> 0) \<and>
            (p0 XOR tag) AND 0x7fffffbf = 0
         then Some (pte_offset, p0, p1)
         else ppc_hash32_pteg_search mem env secondary tag n (pte_offset + 8))"

definition ppc_hash32_htab_lookup ::
    "phys_mem \<Rightarrow> ppc_env \<Rightarrow> u32 \<Rightarrow> u32 \<Rightarrow> (u64 \<times> u32 \<times> u32) option" where
  "ppc_hash32_htab_lookup mem env s eaddr =
     (let vsid = s AND 0x00ffffff;
          pgidx = drop_bit 12 (eaddr AND 0x0FFFFFFF);
          hash = ucast (vsid XOR pgidx) :: u64;
          tag = push_bit 7 vsid OR drop_bit 10 pgidx
      in case ppc_hash32_pteg_search mem env False tag 8 (get_pteg_offset32 env hash) of
           Some r \<Rightarrow> Some r
         | None \<Rightarrow> ppc_hash32_pteg_search mem env True tag 8 (get_pteg_offset32 env (NOT hash)))"

definition ppc_hash32_pte_raddr :: "u32 \<Rightarrow> u32 \<Rightarrow> u64" where
  "ppc_hash32_pte_raddr p1 eaddr =
     (ucast (p1 AND 0xfffff000) AND TARGET_PAGE_MASK) OR (ucast eaddr AND NOT TARGET_PAGE_MASK)"

definition ppc_hash32_get_phys_page_debug :: "phys_mem \<Rightarrow> u32 \<Rightarrow> ppc_env \<Rightarrow> u64 ppc_run" where
  "ppc_hash32_get_phys_page_debug mem eaddr env =
     (if msr_dr env = 0 then Done (ucast eaddr) env
      else
        bind_run (if nb_BATs env \<noteq> 0 then ppc_hash32_bat_lookup eaddr 0 env else Done None env)
          (\<lambda>b env. case b of Some (ra, _) \<Rightarrow> Done ra env
             | None \<Rightarrow> at_index (sr env) (unat (drop_bit 28 eaddr)) (\<lambda>s.
                 if s AND 0x80000000 \<noteq> 0 then Done (- 1) env
                 else case ppc_hash32_htab_lookup mem env s eaddr of
                        None \<Rightarrow> Done (- 1) env
                      | Some (_, _, p1) \<Rightarrow>
                          Done (ppc_hash32_pte_raddr p1 eaddr AND TARGET_PAGE_MASK) env) env))"

definition ppc_cpu_get_phys_page_debug ::
    "phys_mem \<Rightarrow> mmu_ctx_t \<Rightarrow> u32 \<Rightarrow> ppc_env \<Rightarrow> u64 ppc_run" where
  "ppc_cpu_get_phys_page_debug mem ctx addr env =
     (if mmu_model env = POWERPC_MMU_32B \<or> mmu_model env = POWERPC_MMU_601
      then ppc_hash32_get_phys_page_debug mem addr env
      else
        bind_run (get_physical_address ctx addr 0 ACCESS_INT env) (\<lambda>(ret, ctx) env.
          if ret \<noteq> 0 then
            bind_run (get_physical_address ctx addr 0 ACCESS_CODE env) (\<lambda>(ret, ctx) env.
              if ret \<noteq> 0 then Done (- 1) env else Done (raddr ctx AND TARGET_PAGE_MASK) env)
          else Done (raddr ctx AND TARGET_PAGE_MASK) env))"

end
