(* ===== verification/QEM_Arch_PPC.thy ===== *)
theory QEM_Arch_PPC
  imports QEM_PPC_MMU
begin

text \<open>
  The PowerPC guest: \<^verbatim>\<open>QEMTrace/arch/ppc/qem_trace_engine.c\<close> (the translation the tracer
  makes for every event, a variant of QEMU's own) and \<^verbatim>\<open>QEMTrace/arch/ppc/helper.c\<close> (one
  helper per traced instruction kind), for the 32-bit build. The values of local variables
  that C does not initialise (\<open>wt_enable\<close> and the MMU context) are arguments.
\<close>

section \<open>Translation for a trace event\<close>

text \<open>\<open>write_through_enabled\<close>, \<open>cache_inhibit\<close> and \<open>coherency_enabled\<close>.\<close>

record ppc_info =
  wt_enable :: int
  cache_inhibit :: int
  coherency :: int

definition SPR_Exxx_L1CSR0 :: nat where "SPR_Exxx_L1CSR0 = 0x3F2"
definition SPR_Exxx_L1CSR1 :: nat where "SPR_Exxx_L1CSR1 = 0x3F3"
definition L1CSR0_DCE :: u32 where "L1CSR0_DCE = 1"
definition L1CSR1_ICE :: u32 where "L1CSR1_ICE = 1"

text \<open>
  The loops of \<open>mmubooke206_get_info\<close>: the return value, \<open>raddr\<close>, \<open>ctx->prot\<close> and the entry
  the pointer \<open>tlb\<close> is left at.
\<close>

fun booke206_info_scan ::
    "u32 \<Rightarrow> int \<Rightarrow> ppc_access \<Rightarrow> (nat \<times> nat) list \<Rightarrow> int \<times> u64 \<times> u32 \<Rightarrow> ppcmas_tlb_t option \<Rightarrow>
     ppc_env \<Rightarrow> ((int \<times> u64 \<times> u32) \<times> ppcmas_tlb_t option) ppc_run" where
  "booke206_info_scan address rw type [] r cur env = Done (r, cur) env"
| "booke206_info_scan address rw type ((i, j) # slots) (ret, ra, p) cur env =
     bind_run (booke206_get_tlbm env i address j) (\<lambda>e env.
       case e of None \<Rightarrow> booke206_info_scan address rw type slots (ret, ra, p) None env
       | Some n \<Rightarrow> at_index (tlbm env) n (\<lambda>tlb.
           bind_run (mmubooke206_check_tlb tlb ra p address rw type 0 env) (\<lambda>r env.
             if fst r \<noteq> - 1 then Done (r, Some tlb) env
             else booke206_info_scan address rw type slots r (Some tlb) env)) env)"

definition mas2_bit :: "nat \<Rightarrow> ppcmas_tlb_t \<Rightarrow> int" where
  "mas2_bit n tlb = uint (drop_bit n (mas2 tlb) AND 1)"

definition booke206_info :: "ppc_env \<Rightarrow> ppcmas_tlb_t \<Rightarrow> ppc_access \<Rightarrow> ppc_info" where
  "booke206_info env tlb real_access_type =
     \<lparr>wt_enable = mas2_bit 4 tlb,
      cache_inhibit =
        (if real_access_type = ACCESS_CODE then
           (if spr env SPR_Exxx_L1CSR1 AND L1CSR1_ICE = 0 then 1 else mas2_bit 3 tlb)
         else
           (if spr env SPR_Exxx_L1CSR0 AND L1CSR0_DCE = 0 then 1 else mas2_bit 3 tlb)),
      coherency = mas2_bit 2 tlb\<rparr>"

definition mmubooke206_get_info ::
    "mmu_ctx_t \<Rightarrow> u32 \<Rightarrow> int \<Rightarrow> ppc_access \<Rightarrow> ppc_access \<Rightarrow> ppc_info \<Rightarrow> ppc_env \<Rightarrow>
     (int \<times> mmu_ctx_t \<times> ppc_info) ppc_run" where
  "mmubooke206_get_info ctx address rw access_type real_access_type info env =
     bind_run (booke206_info_scan address rw access_type (booke206_slots env)
         (- 1, - 1, prot ctx) None env)
       (\<lambda>((ret, ra, p), cur) env.
          if ret \<ge> 0 then
            (case cur of None \<Rightarrow> Fault env
             | Some tlb \<Rightarrow> Done (ret, ctx\<lparr>prot := p, raddr := ra\<rparr>,
                                booke206_info env tlb real_access_type) env)
          else Done (ret, ctx\<lparr>prot := p\<rparr>, info) env)"

definition keep_info :: "ppc_info \<Rightarrow> (int \<times> mmu_ctx_t) ppc_run \<Rightarrow> (int \<times> mmu_ctx_t \<times> ppc_info) ppc_run" where
  "keep_info info r = bind_run r (\<lambda>(ret, ctx) env. Done (ret, ctx, info) env)"

definition qem_ppc_get_info_addr_mem_trace_internal ::
    "mmu_ctx_t \<Rightarrow> u32 \<Rightarrow> int \<Rightarrow> ppc_access \<Rightarrow> ppc_access \<Rightarrow> ppc_info \<Rightarrow> ppc_env \<Rightarrow>
     (int \<times> mmu_ctx_t \<times> ppc_info) ppc_run" where
  "qem_ppc_get_info_addr_mem_trace_internal ctx eaddr rw access_type real_access_type info env =
     (let soft6 =
        (if real_mode access_type env then check_physical ctx eaddr rw env
         else
           bind_run (if nb_BATs env \<noteq> 0 then get_bat_6xx_tlb ctx eaddr rw access_type env
                     else Done (- 1, ctx) env)
             (\<lambda>(ret, ctx) env.
                if ret < 0 then get_segment_6xx_tlb ctx eaddr rw access_type env
                else Done (ret, ctx) env));
          soft4 =
        (if real_mode access_type env then check_physical ctx eaddr rw env
         else mmu40x_get_physical_address ctx eaddr rw access_type env)
      in case mmu_model env of
           POWERPC_MMU_SOFT_6xx \<Rightarrow> keep_info info soft6
         | POWERPC_MMU_SOFT_74xx \<Rightarrow> keep_info info soft6
         | POWERPC_MMU_SOFT_4xx \<Rightarrow> keep_info info soft4
         | POWERPC_MMU_SOFT_4xx_Z \<Rightarrow> keep_info info soft4
         | POWERPC_MMU_BOOKE \<Rightarrow>
             keep_info info (mmubooke_get_physical_address ctx eaddr rw access_type env)
         | POWERPC_MMU_BOOKE206 \<Rightarrow>
             mmubooke206_get_info ctx eaddr rw access_type real_access_type info env
         | POWERPC_MMU_MPC8xx \<Rightarrow> cpu_abort env
         | POWERPC_MMU_REAL \<Rightarrow>
             if real_mode access_type env
             then bind_run (check_physical ctx eaddr rw env) (\<lambda>(ret, ctx) env. Done (- 1, ctx, info) env)
             else cpu_abort env
         | _ \<Rightarrow> cpu_abort env)"

text \<open>The physical address and the three attributes; -1 is the initial value of each but
  \<open>write_through_enabled\<close>, which the caller leaves uninitialised.\<close>

definition qem_ppc_get_info_addr_mem_trace ::
    "qem_config \<Rightarrow> mmu_ctx_t \<Rightarrow> int \<Rightarrow> u32 \<Rightarrow> ppc_access \<Rightarrow> ppc_env \<Rightarrow> (u32 \<times> ppc_info) ppc_run" where
  "qem_ppc_get_info_addr_mem_trace cfg ctx wt addr real_access_type env =
     (let info = \<lparr>wt_enable = wt, cache_inhibit = - 1, coherency = - 1\<rparr>;
          phys = (\<lambda>ctx. if QEM_TRACE_PHYSICAL_ADDRESS cfg then ucast (raddr ctx) else addr)
      in bind_run (qem_ppc_get_info_addr_mem_trace_internal ctx addr 0 ACCESS_INT real_access_type info env)
           (\<lambda>(ret, ctx, info) env.
              if ret \<noteq> 0 then
                bind_run (qem_ppc_get_info_addr_mem_trace_internal ctx addr 0 ACCESS_CODE real_access_type info env)
                  (\<lambda>(ret, ctx, info) env.
                     if ret \<noteq> 0 then Done (- 1, info) env else Done (phys ctx, info) env)
              else Done (phys ctx, info) env))"

section \<open>Flags\<close>

text \<open>
  The macro \<open>GET_ENV_FLAGS\<close> without the time stamp: the privilege level is bit 17 of the
  machine state register, and an attribute counts only when it is exactly 1.
\<close>

definition ppc_pl :: "ppc_env \<Rightarrow> QEM_TRACE_PL_E" where
  "ppc_pl env = (if msr env AND push_bit 17 1 \<noteq> 0 then QEM_TRACE_PL_USER else QEM_TRACE_PL_KERNEL)"

definition ppc_GET_ENV_FLAGS :: "bool \<Rightarrow> ppc_env \<Rightarrow> ppc_info \<Rightarrow> int \<Rightarrow> u32 \<Rightarrow> u32" where
  "ppc_GET_ENV_FLAGS meta env info sz flags =
     (let flags = flags OR pl_val meta (ppc_pl env);
          flags = flags OR data_size_val meta (size_of_bytes sz);
          flags = flags OR coherency_val meta
            (if coherency info = 1 then QEM_TRACE_COHERENCY_REQ else QEM_TRACE_COHERENCY_NON_REQ);
          flags = flags OR cache_inhibit_val meta
            (if cache_inhibit info = 1 then QEM_TRACE_CACHE_INHIBIT_ON else QEM_TRACE_CACHE_INHIBIT_OFF)
      in flags OR cache_wt_val meta
            (if wt_enable info = 1 then QEM_TRACE_CACHE_WT_ON else QEM_TRACE_CACHE_WT_OFF))"

definition level_switch :: "int \<Rightarrow> QEM_TRACE_CACHE_LEVEL_E" where
  "level_switch level =
     (if level = 0 then QEM_TRACE_CACHE_LEVEL_1 else if level = 1 then QEM_TRACE_CACHE_LEVEL_2
      else if level = 2 then QEM_TRACE_CACHE_LEVEL_3 else QEM_TRACE_CACHE_LEVEL_ALL)"

section \<open>Emission\<close>

text \<open>
  What a helper finds on its stack and in the counter when it runs, with the build
  configuration.
\<close>

record ppc_frame =
  pf_cfg :: qem_config
  pf_ctx :: mmu_ctx_t
  pf_wt :: int
  pf_tsc :: "u32 \<times> u32"

text \<open>
  The tail every helper has in common: with metadata, translate the address, then add the
  flags that depend on it (\<open>extra\<close> is what the helper adds between the two) and take the time
  stamp; without, the physical address is the virtual one and the time stamp is 0.
\<close>

definition ppc_event_args ::
    "ppc_frame \<Rightarrow> u32 \<Rightarrow> ppc_access \<Rightarrow> int \<Rightarrow> u32 \<Rightarrow> u32 \<Rightarrow> ppc_env \<Rightarrow> out_args ppc_run" where
  "ppc_event_args fr virt_addr acc sz flags extra env =
     (if QEM_TRACE_GATHER_META (pf_cfg fr) then
        bind_run (qem_ppc_get_info_addr_mem_trace (pf_cfg fr) (pf_ctx fr) (pf_wt fr) virt_addr acc env)
          (\<lambda>(haddr, info) env.
             Done (mk_out (ucast virt_addr) (ucast haddr) (ppc_cpu_index env) (tsc_time (pf_tsc fr))
                     (ppc_GET_ENV_FLAGS True env info sz (flags OR extra))) env)
      else
        Done (mk_out (ucast virt_addr) (ucast virt_addr) (ppc_cpu_index env) 0 flags) env)"

type_synonym 'z ppc_helper =
  "(out_args \<Rightarrow> 'z tracer_scheme \<Rightarrow> (unit, 'z tracer_scheme) run) \<Rightarrow> ppc_frame \<Rightarrow>
   'z tracer_scheme \<times> ppc_env \<Rightarrow> (unit, 'z tracer_scheme \<times> ppc_env) run"

definition ppc_traced ::
    "QEM_TRACE_TTYPE_E \<Rightarrow> (out_args \<Rightarrow> 'z tracer_scheme \<Rightarrow> (unit, 'z tracer_scheme) run) \<Rightarrow>
     (ppc_env \<Rightarrow> out_args ppc_run) \<Rightarrow> 'z tracer_scheme \<times> ppc_env \<Rightarrow>
     (unit, 'z tracer_scheme \<times> ppc_env) run" where
  "ppc_traced k emit args st =
     (if traced k (fst st) then emit_args emit (args (snd st)) (fst st) else Done () st)"

section \<open>Access helpers\<close>

definition ppc_helper_qem_instld_trace :: "u32 \<Rightarrow> int \<Rightarrow> 'z ppc_helper" where
  "ppc_helper_qem_instld_trace virt_addr sz emit fr st =
     (let m = QEM_TRACE_GATHER_META (pf_cfg fr)
      in ppc_traced QEM_TRACE_ITRACE emit (ppc_event_args fr virt_addr ACCESS_CODE sz
           (event_val m QEM_TRACE_EVENT_ACCESS OR access_type_val m QEM_TRACE_ACCESS_TYPE_READ OR data_type_val m QEM_TRACE_DATA_TYPE_INST) 0) st)"

definition ppc_helper_qem_datast_trace_direct :: "u32 \<Rightarrow> int \<Rightarrow> 'z ppc_helper" where
  "ppc_helper_qem_datast_trace_direct virt_addr sz emit fr st =
     (let m = QEM_TRACE_GATHER_META (pf_cfg fr)
      in ppc_traced QEM_TRACE_DTRACE emit (ppc_event_args fr virt_addr ACCESS_INT sz
           (event_val m QEM_TRACE_EVENT_ACCESS OR access_type_val m QEM_TRACE_ACCESS_TYPE_WRITE OR data_type_val m QEM_TRACE_DATA_TYPE_DATA) 0) st)"

definition ppc_helper_qem_datast_ex_trace_direct :: "u32 \<Rightarrow> int \<Rightarrow> 'z ppc_helper" where
  "ppc_helper_qem_datast_ex_trace_direct virt_addr sz emit fr st =
     (let m = QEM_TRACE_GATHER_META (pf_cfg fr)
      in ppc_traced QEM_TRACE_DTRACE emit (ppc_event_args fr virt_addr ACCESS_INT sz
           (event_val m QEM_TRACE_EVENT_ACCESS OR access_type_val m QEM_TRACE_ACCESS_TYPE_WRITE OR data_type_val m QEM_TRACE_DATA_TYPE_DATA OR exclusive_val m QEM_TRACE_EVENT_EXCLUSIVE) 0) st)"

definition ppc_helper_qem_datald_trace_direct :: "u32 \<Rightarrow> int \<Rightarrow> 'z ppc_helper" where
  "ppc_helper_qem_datald_trace_direct virt_addr sz emit fr st =
     (let m = QEM_TRACE_GATHER_META (pf_cfg fr)
      in ppc_traced QEM_TRACE_DTRACE emit (ppc_event_args fr virt_addr ACCESS_INT sz
           (event_val m QEM_TRACE_EVENT_ACCESS OR access_type_val m QEM_TRACE_ACCESS_TYPE_READ OR data_type_val m QEM_TRACE_DATA_TYPE_DATA) 0) st)"

definition ppc_helper_qem_datald_ex_trace_direct :: "u32 \<Rightarrow> int \<Rightarrow> 'z ppc_helper" where
  "ppc_helper_qem_datald_ex_trace_direct virt_addr sz emit fr st =
     (let m = QEM_TRACE_GATHER_META (pf_cfg fr)
      in ppc_traced QEM_TRACE_DTRACE emit (ppc_event_args fr virt_addr ACCESS_INT sz
           (event_val m QEM_TRACE_EVENT_ACCESS OR access_type_val m QEM_TRACE_ACCESS_TYPE_READ OR data_type_val m QEM_TRACE_DATA_TYPE_DATA OR exclusive_val m QEM_TRACE_EVENT_EXCLUSIVE) 0) st)"

text \<open>
  The effective address is a register plus an immediate, or the sum of two registers; both
  wrap at 32 bits. A register number out of range is a fault.
\<close>

definition ppc_reg :: "nat \<Rightarrow> (u32 \<Rightarrow> (unit, 's \<times> ppc_env) run) \<Rightarrow> 's \<times> ppc_env \<Rightarrow> (unit, 's \<times> ppc_env) run" where
  "ppc_reg r f st = (if r < length (gpr (snd st)) then f (gpr (snd st) ! r) else Fault st)"

definition ppc_helper_qem_datast_trace :: "u32 \<Rightarrow> nat \<Rightarrow> int \<Rightarrow> 'z ppc_helper" where
  "ppc_helper_qem_datast_trace simm reg sz emit fr st =
     (if traced QEM_TRACE_DTRACE (fst st) then
        ppc_reg reg (\<lambda>a. ppc_helper_qem_datast_trace_direct (a + simm) sz emit fr st) st
      else Done () st)"

definition ppc_helper_qem_datast_ex_trace :: "u32 \<Rightarrow> nat \<Rightarrow> int \<Rightarrow> 'z ppc_helper" where
  "ppc_helper_qem_datast_ex_trace simm reg sz emit fr st =
     (if traced QEM_TRACE_DTRACE (fst st) then
        ppc_reg reg (\<lambda>a. ppc_helper_qem_datast_ex_trace_direct (a + simm) sz emit fr st) st
      else Done () st)"

definition ppc_helper_qem_datast_ex_trace_trad :: "nat \<Rightarrow> nat \<Rightarrow> int \<Rightarrow> 'z ppc_helper" where
  "ppc_helper_qem_datast_ex_trace_trad reg0 reg1 sz emit fr st =
     (if traced QEM_TRACE_DTRACE (fst st) then
        ppc_reg reg0 (\<lambda>a. ppc_reg reg1 (\<lambda>b. ppc_helper_qem_datast_ex_trace_direct (a + b) sz emit fr st) st) st
      else Done () st)"

definition ppc_helper_qem_datast_trace_trad :: "nat \<Rightarrow> nat \<Rightarrow> int \<Rightarrow> 'z ppc_helper" where
  "ppc_helper_qem_datast_trace_trad reg0 reg1 sz emit fr st =
     (if traced QEM_TRACE_DTRACE (fst st) then
        ppc_reg reg0 (\<lambda>a. ppc_reg reg1 (\<lambda>b. ppc_helper_qem_datast_trace_direct (a + b) sz emit fr st) st) st
      else Done () st)"

definition ppc_helper_qem_datald_trace :: "u32 \<Rightarrow> nat \<Rightarrow> int \<Rightarrow> 'z ppc_helper" where
  "ppc_helper_qem_datald_trace simm reg sz emit fr st =
     (if traced QEM_TRACE_DTRACE (fst st) then
        ppc_reg reg (\<lambda>a. ppc_helper_qem_datald_trace_direct (a + simm) sz emit fr st) st
      else Done () st)"

definition ppc_helper_qem_datald_ex_trace :: "u32 \<Rightarrow> nat \<Rightarrow> int \<Rightarrow> 'z ppc_helper" where
  "ppc_helper_qem_datald_ex_trace simm reg sz emit fr st =
     (if traced QEM_TRACE_DTRACE (fst st) then
        ppc_reg reg (\<lambda>a. ppc_helper_qem_datald_ex_trace_direct (a + simm) sz emit fr st) st
      else Done () st)"

definition ppc_helper_qem_datald_trace_trad :: "nat \<Rightarrow> nat \<Rightarrow> int \<Rightarrow> 'z ppc_helper" where
  "ppc_helper_qem_datald_trace_trad reg0 reg1 sz emit fr st =
     (if traced QEM_TRACE_DTRACE (fst st) then
        ppc_reg reg0 (\<lambda>a. ppc_reg reg1 (\<lambda>b. ppc_helper_qem_datald_trace_direct (a + b) sz emit fr st) st) st
      else Done () st)"

definition ppc_helper_qem_datald_ex_trace_trad :: "nat \<Rightarrow> nat \<Rightarrow> int \<Rightarrow> 'z ppc_helper" where
  "ppc_helper_qem_datald_ex_trace_trad reg0 reg1 sz emit fr st =
     (if traced QEM_TRACE_DTRACE (fst st) then
        ppc_reg reg0 (\<lambda>a. ppc_reg reg1 (\<lambda>b. ppc_helper_qem_datald_ex_trace_direct (a + b) sz emit fr st) st) st
      else Done () st)"

section \<open>Commands\<close>

definition ppc_helper_qem_start_trace :: "(u8 \<Rightarrow> 's \<Rightarrow> (unit, 's) run) \<Rightarrow> u32 \<Rightarrow> 's \<Rightarrow> (unit, 's) run" where
  "ppc_helper_qem_start_trace qem_trace_enable type s = qem_trace_enable (ucast type) s"

definition ppc_helper_qem_stop_trace :: "(u8 \<Rightarrow> 's \<Rightarrow> (unit, 's) run) \<Rightarrow> u32 \<Rightarrow> 's \<Rightarrow> (unit, 's) run" where
  "ppc_helper_qem_stop_trace qem_trace_disable type s = qem_trace_disable (ucast type) s"

definition ppc_helper_qem_trace_start_timer :: "('s \<Rightarrow> (unit, 's) run) \<Rightarrow> 's \<Rightarrow> (unit, 's) run" where
  "ppc_helper_qem_trace_start_timer qem_trace_start_timer s = qem_trace_start_timer s"

definition ppc_helper_qem_trace_get_timer :: "('s \<Rightarrow> (unit, 's) run) \<Rightarrow> 's \<Rightarrow> (unit, 's) run" where
  "ppc_helper_qem_trace_get_timer qem_trace_get_timer s = qem_trace_get_timer s"

section \<open>Cache management helpers\<close>

text \<open>
  The granularity arrives as the value of the enumeration. The size of a cache event is 1 and
  the flags the metadata build adds are the cache level and, for some of them, the exclusive
  mark.
\<close>

definition excl_flag :: "bool \<Rightarrow> int \<Rightarrow> u32" where
  "excl_flag m exclusive = (if exclusive = 1 then exclusive_val m QEM_TRACE_EVENT_EXCLUSIVE else 0)"

definition ppc_helper_qem_dcache_flush_inval :: "nat \<Rightarrow> nat \<Rightarrow> int \<Rightarrow> u32 \<Rightarrow> 'z ppc_helper" where
  "ppc_helper_qem_dcache_flush_inval reg0 reg1 level granularity emit fr st =
     (let m = QEM_TRACE_GATHER_META (pf_cfg fr)
      in if traced QEM_TRACE_DTRACE (fst st) then
           ppc_reg reg0 (\<lambda>a. ppc_reg reg1 (\<lambda>b.
             emit_args emit (ppc_event_args fr (a + b) ACCESS_INT 1
               (event_val m QEM_TRACE_EVENT_FLUSH OR event_val m QEM_TRACE_EVENT_INVALIDATE OR data_type_val m QEM_TRACE_DATA_TYPE_DATA OR granularity)
               (cache_level_val m (level_switch level)) (snd st)) (fst st)) st) st
         else Done () st)"

definition ppc_helper_qem_dcache_inval :: "nat \<Rightarrow> nat \<Rightarrow> int \<Rightarrow> u32 \<Rightarrow> 'z ppc_helper" where
  "ppc_helper_qem_dcache_inval reg0 reg1 level granularity emit fr st =
     (let m = QEM_TRACE_GATHER_META (pf_cfg fr)
      in if traced QEM_TRACE_DTRACE (fst st) then
           ppc_reg reg0 (\<lambda>a. ppc_reg reg1 (\<lambda>b.
             emit_args emit (ppc_event_args fr (a + b) ACCESS_INT 1
               (event_val m QEM_TRACE_EVENT_INVALIDATE OR data_type_val m QEM_TRACE_DATA_TYPE_DATA OR granularity)
               (cache_level_val m (level_switch level)) (snd st)) (fst st)) st) st
         else Done () st)"

definition ppc_helper_qem_dcache_flush :: "nat \<Rightarrow> nat \<Rightarrow> int \<Rightarrow> u32 \<Rightarrow> int \<Rightarrow> 'z ppc_helper" where
  "ppc_helper_qem_dcache_flush reg0 reg1 level granularity exclusive emit fr st =
     (let m = QEM_TRACE_GATHER_META (pf_cfg fr)
      in if traced QEM_TRACE_DTRACE (fst st) then
           ppc_reg reg0 (\<lambda>a. ppc_reg reg1 (\<lambda>b.
             emit_args emit (ppc_event_args fr (a + b) ACCESS_INT 1
               (event_val m QEM_TRACE_EVENT_FLUSH OR data_type_val m QEM_TRACE_DATA_TYPE_DATA OR granularity)
               (excl_flag m exclusive OR cache_level_val m (level_switch level)) (snd st)) (fst st)) st) st
         else Done () st)"

definition ppc_helper_qem_dcache_prefetch_non_inibited :: "nat \<Rightarrow> nat \<Rightarrow> int \<Rightarrow> u32 \<Rightarrow> int \<Rightarrow> 'z ppc_helper" where
  "ppc_helper_qem_dcache_prefetch_non_inibited reg0 reg1 level granularity exclusive emit fr st =
     (let m = QEM_TRACE_GATHER_META (pf_cfg fr)
      in if traced QEM_TRACE_DTRACE (fst st) then
           ppc_reg reg0 (\<lambda>a. ppc_reg reg1 (\<lambda>b.
             emit_args emit (ppc_event_args fr (a + b) ACCESS_INT 1
               (event_val m QEM_TRACE_EVENT_PREFETCH OR access_type_val m QEM_TRACE_ACCESS_TYPE_READ OR data_type_val m QEM_TRACE_DATA_TYPE_DATA)
               (excl_flag m exclusive) (snd st)) (fst st)) st) st
         else Done () st)"

definition ppc_helper_qem_dcache_lock :: "nat \<Rightarrow> nat \<Rightarrow> int \<Rightarrow> u32 \<Rightarrow> int \<Rightarrow> 'z ppc_helper" where
  "ppc_helper_qem_dcache_lock reg0 reg1 level granularity exclusive emit fr st =
     (let m = QEM_TRACE_GATHER_META (pf_cfg fr)
      in if traced QEM_TRACE_DTRACE (fst st) then
           ppc_reg reg0 (\<lambda>a. ppc_reg reg1 (\<lambda>b.
             emit_args emit (ppc_event_args fr (a + b) ACCESS_INT 1
               (event_val m QEM_TRACE_EVENT_LOCK OR data_type_val m QEM_TRACE_DATA_TYPE_DATA OR granularity)
               (excl_flag m exclusive OR cache_level_val m (level_switch level)) (snd st)) (fst st)) st) st
         else Done () st)"

definition ppc_helper_qem_dcache_unlock :: "nat \<Rightarrow> nat \<Rightarrow> int \<Rightarrow> u32 \<Rightarrow> 'z ppc_helper" where
  "ppc_helper_qem_dcache_unlock reg0 reg1 level granularity emit fr st =
     (let m = QEM_TRACE_GATHER_META (pf_cfg fr)
      in if traced QEM_TRACE_DTRACE (fst st) then
           ppc_reg reg0 (\<lambda>a. ppc_reg reg1 (\<lambda>b.
             emit_args emit (ppc_event_args fr (a + b) ACCESS_INT 1
               (event_val m QEM_TRACE_EVENT_UNLOCK OR data_type_val m QEM_TRACE_DATA_TYPE_DATA OR granularity)
               (cache_level_val m (level_switch level)) (snd st)) (fst st)) st) st
         else Done () st)"

definition ppc_helper_qem_icache_inval :: "nat \<Rightarrow> nat \<Rightarrow> int \<Rightarrow> u32 \<Rightarrow> 'z ppc_helper" where
  "ppc_helper_qem_icache_inval reg0 reg1 level granularity emit fr st =
     (let m = QEM_TRACE_GATHER_META (pf_cfg fr)
      in if traced QEM_TRACE_ITRACE (fst st) then
           ppc_reg reg0 (\<lambda>a. ppc_reg reg1 (\<lambda>b.
             emit_args emit (ppc_event_args fr (a + b) ACCESS_CODE 1
               (event_val m QEM_TRACE_EVENT_INVALIDATE OR data_type_val m QEM_TRACE_DATA_TYPE_INST OR granularity)
               (cache_level_val m (level_switch level)) (snd st)) (fst st)) st) st
         else Done () st)"

definition ppc_helper_qem_icache_flush :: "nat \<Rightarrow> nat \<Rightarrow> int \<Rightarrow> u32 \<Rightarrow> 'z ppc_helper" where
  "ppc_helper_qem_icache_flush reg0 reg1 level granularity emit fr st =
     (let m = QEM_TRACE_GATHER_META (pf_cfg fr)
      in if traced QEM_TRACE_ITRACE (fst st) then
           ppc_reg reg0 (\<lambda>a. ppc_reg reg1 (\<lambda>b.
             emit_args emit (ppc_event_args fr (a + b) ACCESS_CODE 1
               (event_val m QEM_TRACE_EVENT_FLUSH OR data_type_val m QEM_TRACE_DATA_TYPE_INST OR granularity)
               (cache_level_val m (level_switch level)) (snd st)) (fst st)) st) st
         else Done () st)"

definition ppc_helper_qem_icache_lock :: "nat \<Rightarrow> nat \<Rightarrow> int \<Rightarrow> u32 \<Rightarrow> int \<Rightarrow> 'z ppc_helper" where
  "ppc_helper_qem_icache_lock reg0 reg1 level granularity exclusive emit fr st =
     (let m = QEM_TRACE_GATHER_META (pf_cfg fr)
      in if traced QEM_TRACE_ITRACE (fst st) then
           ppc_reg reg0 (\<lambda>a. ppc_reg reg1 (\<lambda>b.
             emit_args emit (ppc_event_args fr (a + b) ACCESS_CODE 1
               (event_val m QEM_TRACE_EVENT_LOCK OR data_type_val m QEM_TRACE_DATA_TYPE_INST OR granularity)
               (excl_flag m exclusive OR cache_level_val m (level_switch level)) (snd st)) (fst st)) st) st
         else Done () st)"

definition ppc_helper_qem_icache_unlock :: "nat \<Rightarrow> nat \<Rightarrow> int \<Rightarrow> u32 \<Rightarrow> 'z ppc_helper" where
  "ppc_helper_qem_icache_unlock reg0 reg1 level granularity emit fr st =
     (let m = QEM_TRACE_GATHER_META (pf_cfg fr)
      in if traced QEM_TRACE_ITRACE (fst st) then
           ppc_reg reg0 (\<lambda>a. ppc_reg reg1 (\<lambda>b.
             emit_args emit (ppc_event_args fr (a + b) ACCESS_CODE 1
               (event_val m QEM_TRACE_EVENT_UNLOCK OR data_type_val m QEM_TRACE_DATA_TYPE_INST OR granularity)
               (cache_level_val m (level_switch level)) (snd st)) (fst st)) st) st
         else Done () st)"

definition ppc_helper_qem_icbt :: "nat \<Rightarrow> nat \<Rightarrow> int \<Rightarrow> 'z ppc_helper" where
  "ppc_helper_qem_icbt reg0 reg1 level emit fr st =
     (let m = QEM_TRACE_GATHER_META (pf_cfg fr)
      in if traced QEM_TRACE_ITRACE (fst st) then
           (if level \<noteq> 1 then Done () st
            else ppc_reg reg0 (\<lambda>a. ppc_reg reg1 (\<lambda>b.
              emit_args emit (ppc_event_args fr (a + b) ACCESS_CODE 1
                (event_val m QEM_TRACE_EVENT_PREFETCH OR access_type_val m QEM_TRACE_ACCESS_TYPE_READ OR
                 data_type_val m QEM_TRACE_DATA_TYPE_INST OR cache_level_val m QEM_TRACE_CACHE_LEVEL_2)
                0 (snd st)) (fst st)) st) st)
         else Done () st)"

definition ppc_helper_qem_dcbz_trace_trad :: "nat \<Rightarrow> nat \<Rightarrow> int \<Rightarrow> 'z ppc_helper" where
  "ppc_helper_qem_dcbz_trace_trad reg0 reg1 sz emit fr st =
     (let m = QEM_TRACE_GATHER_META (pf_cfg fr)
      in if traced QEM_TRACE_DTRACE (fst st) then
           ppc_reg reg0 (\<lambda>a. ppc_reg reg1 (\<lambda>b.
             emit_args emit (ppc_event_args fr (a + b) ACCESS_INT sz
               (event_val m QEM_TRACE_EVENT_DCBZ OR access_type_val m QEM_TRACE_ACCESS_TYPE_READ OR
                data_type_val m QEM_TRACE_DATA_TYPE_DATA)
               0 (snd st)) (fst st)) st) st
         else Done () st)"

text \<open>
  Flash invalidation of a whole cache: address 0, no translation, all attributes off.
\<close>

definition ppc_flash_args :: "ppc_frame \<Rightarrow> QEM_TRACE_DATA_TYPE_E \<Rightarrow> ppc_env \<Rightarrow> out_args ppc_run" where
  "ppc_flash_args fr dt env =
     (let m = QEM_TRACE_GATHER_META (pf_cfg fr);
          flags = event_val m QEM_TRACE_EVENT_INVALIDATE OR data_type_val m dt OR
                  granularity_val m QEM_TRACE_GRANULARITY_GLOBAL OR cache_level_val m QEM_TRACE_CACHE_LEVEL_1;
          info = \<lparr>wt_enable = 0, cache_inhibit = 0, coherency = 0\<rparr>
      in Done (if m then mk_out 0 0 (ppc_cpu_index env) (tsc_time (pf_tsc fr))
                           (ppc_GET_ENV_FLAGS True env info 1 flags)
               else mk_out 0 0 (ppc_cpu_index env) 0 flags) env)"

definition ppc_helper_qem_flash_inval_icache :: "'z ppc_helper" where
  "ppc_helper_qem_flash_inval_icache  emit fr st =
     ppc_traced QEM_TRACE_ITRACE emit (ppc_flash_args fr QEM_TRACE_DATA_TYPE_INST) st"

definition ppc_helper_qem_flash_inval_dcache :: "'z ppc_helper" where
  "ppc_helper_qem_flash_inval_dcache  emit fr st =
     ppc_traced QEM_TRACE_DTRACE emit (ppc_flash_args fr QEM_TRACE_DATA_TYPE_DATA) st"

section \<open>Register dumps\<close>

text \<open>
  The 32-bit build prints the register with \<open>%016u\<close> followed by the letter x: a decimal
  number.
\<close>

definition ppc_dump :: "string \<Rightarrow> nat \<Rightarrow> u32 \<Rightarrow> string" where
  "ppc_dump what n v =
     what @ '' '' @ dec_nat n @ newline @ [CHR 0x09] @ ''0x'' @ pad0 16 (dec_nat (unat v)) @ ''x'' @ newline"

definition ppc_helper_qem_printf_env_spr ::
    "nat \<Rightarrow> 'z tracer_scheme \<times> ppc_env \<Rightarrow> (unit, 'z tracer_scheme \<times> ppc_env) run" where
  "ppc_helper_qem_printf_env_spr sprn st =
     Done () (c_printf (ppc_dump ''SPRN'' sprn (spr (snd st) sprn)) (fst st), snd st)"

definition ppc_helper_qem_printf_env_gpr ::
    "nat \<Rightarrow> 'z tracer_scheme \<times> ppc_env \<Rightarrow> (unit, 'z tracer_scheme \<times> ppc_env) run" where
  "ppc_helper_qem_printf_env_gpr gprn st =
     ppc_reg gprn (\<lambda>v. Done () (c_printf (ppc_dump ''GPRN'' gprn v) (fst st), snd st)) st"

section \<open>The tracer's translation against QEMU's\<close>

definition drop_info :: "(int \<times> mmu_ctx_t \<times> ppc_info) ppc_run \<Rightarrow> (int \<times> mmu_ctx_t) ppc_run" where
  "drop_info r = bind_run r (\<lambda>(ret, ctx, info) env. Done (ret, ctx) env)"

lemma bind_run_Done_right: "bind_run m (\<lambda>a s. Done a s) = m"
  by (cases m) auto

lemma drop_keep_info [simp]: "drop_info (keep_info info r) = r"
  by (cases r) (auto simp: drop_info_def keep_info_def)

lemma drop_info_abort [simp]: "drop_info (cpu_abort env) = cpu_abort env"
  by (simp add: drop_info_def cpu_abort_def)

lemma get_tlbm_env [simp]:
  "booke206_get_tlbm env i a j = Done e env' \<Longrightarrow> env' = env"
  by (auto simp: booke206_get_tlbm_def Let_def split: if_splits)

lemma check_tlb206_env [simp]:
  "mmubooke206_check_tlb tlb ra p a rw ty idx env = Done r env' \<Longrightarrow> env' = env"
  by (auto simp: mmubooke206_check_tlb_def cpu_abort_def Let_def split: prod.splits option.splits if_splits)

text \<open>The tracer's copy of the BookE 2.06 loops finds what QEMU's loops find.\<close>

lemma info_scan_scan:
  "bind_run (booke206_info_scan address rw type slots r cur env) (\<lambda>(r, cur) env. Done r env)
     = mmubooke206_scan address rw type 0 slots r env"
proof (induction slots arbitrary: r cur env)
  case Nil
  then show ?case by simp
next
  case (Cons ij slots)
  obtain i j ret ra p where e: "ij = (i, j)" "r = (ret, ra, p)" by (metis prod_cases3 surj_pair)
  show ?case
  proof (cases "booke206_get_tlbm env i address j")
    case (Done x env1)
    then have x: "env1 = env" by simp
    show ?thesis
    proof (cases x)
      case None
      then show ?thesis using Done x Cons.IH by (simp add: e)
    next
      case (Some n)
      show ?thesis
      proof (cases "n < length (tlbm env)")
        case True
        show ?thesis
          using Done x Some True Cons.IH
          by (cases "mmubooke206_check_tlb (tlbm env ! n) ra p address rw type 0 env")
             (auto simp: e at_index_def)
      next
        case False
        then show ?thesis using Done x Some by (simp add: e at_index_def)
      qed
    qed
  qed (simp_all add: e)
qed

text \<open>A hit leaves the pointer at a valid entry, and no lookup changes the processor state.\<close>

lemma info_scan_hit:
  assumes "booke206_info_scan address rw type slots r cur env = Done (r', cur') env'"
    and "fst r = - 1"
  shows "env' = env \<and> (fst r' = - 1 \<or> (\<exists>tlb ra p. cur' = Some tlb \<and> tlb \<in> set (tlbm env) \<and>
    mmubooke206_check_tlb tlb ra p address rw type 0 env = Done r' env))"
  using assms
proof (induction slots arbitrary: r cur)
  case Nil
  then show ?case by auto
next
  case (Cons ij slots)
  obtain i j ret ra p where e: "ij = (i, j)" "r = (ret, ra, p)" by (metis prod_cases3 surj_pair)
  from Cons.prems obtain x where x: "booke206_get_tlbm env i address j = Done x env"
    by (auto simp: e bind_run_Done_iff dest: get_tlbm_env)
  show ?case
  proof (cases x)
    case None
    with Cons.prems x have "booke206_info_scan address rw type slots r None env = Done (r', cur') env'"
      by (simp add: e)
    with Cons.prems(2) show ?thesis by (intro Cons.IH)
  next
    case (Some n)
    with Cons.prems x obtain r1 where r1: "n < length (tlbm env)"
      "mmubooke206_check_tlb (tlbm env ! n) ra p address rw type 0 env = Done r1 env"
      by (auto simp: e at_index_def bind_run_Done_iff dest: check_tlb206_env split: if_splits)
    show ?thesis
    proof (cases "fst r1 = - 1")
      case True
      with Cons.prems x Some r1
      have "booke206_info_scan address rw type slots r1 (Some (tlbm env ! n)) env = Done (r', cur') env'"
        by (simp add: e at_index_def)
      with True show ?thesis by (intro Cons.IH)
    next
      case False
      with Cons.prems x Some r1 show ?thesis
        by (auto simp: e at_index_def intro!: exI [of _ ra] exI [of _ p])
    qed
  qed
qed

lemma get_info_206:
  "drop_info (mmubooke206_get_info ctx address rw ty real info env)
     = mmubooke206_get_physical_address ctx address rw ty 0 env"
proof (cases "booke206_info_scan address rw ty (booke206_slots env) (- 1, - 1, prot ctx) None env")
  case (Done x env1)
  obtain ret ra p cur where x: "x = ((ret, ra, p), cur)" by (metis surj_pair)
  from info_scan_hit [OF Done [unfolded x]] have h: "ret = - 1 \<or> (\<exists>tlb. cur = Some tlb)" by auto
  have "mmubooke206_scan address rw ty 0 (booke206_slots env) (- 1, - 1, prot ctx) env = Done (ret, ra, p) env1"
    unfolding info_scan_scan [of _ _ _ _ _ None, symmetric] Done x by simp
  then show ?thesis
    using Done x h
    by (auto simp: drop_info_def mmubooke206_get_info_def mmubooke206_get_physical_address_def)
qed (simp_all add: drop_info_def mmubooke206_get_info_def mmubooke206_get_physical_address_def
       info_scan_scan [of _ _ _ _ _ None, symmetric])

lemma internal_is_wtlb:
  "drop_info (qem_ppc_get_info_addr_mem_trace_internal ctx eaddr rw acc real info env)
     = get_physical_address_wtlb ctx eaddr rw acc 0 env"
proof (cases "mmu_model env")
  case POWERPC_MMU_REAL
  then show ?thesis
    by (cases "check_physical ctx eaddr rw env")
       (auto simp: qem_ppc_get_info_addr_mem_trace_internal_def get_physical_address_wtlb_def
         drop_info_def cpu_abort_def)
qed (simp_all add: qem_ppc_get_info_addr_mem_trace_internal_def get_physical_address_wtlb_def get_info_206)

lemma get_physical_address_internal:
  "get_physical_address ctx eaddr rw acc env
     = drop_info (qem_ppc_get_info_addr_mem_trace_internal ctx eaddr rw acc real info env)"
  by (simp add: internal_is_wtlb get_physical_address_def)

lemma page_mask_ucast: "ucast (x AND TARGET_PAGE_MASK :: u64) AND TARGET_PAGE_MASK = (ucast x AND TARGET_PAGE_MASK :: u32)"
proof -
  have c: "(0xfff :: u64) = mask 12" "(0xfff :: u32) = mask 12" by (simp_all add: mask_eq_exp_minus_1)
  show ?thesis
    unfolding TARGET_PAGE_MASK_def c
    by (rule bit_word_eqI) (auto simp: bit_and_iff bit_not_iff bit_unsigned_iff bit_mask_iff)
qed

lemma ucast_minus_1 [simp]: "ucast (- 1 :: u64) = (- 1 :: u32)"
  by (rule bit_word_eqI) (simp add: bit_unsigned_iff)

text \<open>The tracer's answer cut down to the page, next to QEMU's debug lookup.\<close>

definition ppc_traced_page :: "qem_config \<Rightarrow> mmu_ctx_t \<Rightarrow> int \<Rightarrow> u32 \<Rightarrow> ppc_access \<Rightarrow> ppc_env \<Rightarrow> u32 ppc_run" where
  "ppc_traced_page cfg ctx wt addr real env =
     bind_run (qem_ppc_get_info_addr_mem_trace cfg ctx wt addr real env)
       (\<lambda>(phys, info) env. Done (phys AND TARGET_PAGE_MASK) env)"

definition ppc_debug_page :: "phys_mem \<Rightarrow> mmu_ctx_t \<Rightarrow> u32 \<Rightarrow> ppc_env \<Rightarrow> u32 ppc_run" where
  "ppc_debug_page mem ctx addr env =
     bind_run (ppc_cpu_get_phys_page_debug mem ctx addr env)
       (\<lambda>q env. Done (ucast q AND TARGET_PAGE_MASK) env)"

section \<open>What a trace event does to the guest\<close>

text \<open>
  A translation may set the referenced bit of a software TLB entry and may write the
  exception syndrome register of a 40x; it changes nothing else of the processor.
\<close>

definition touch :: "ppc6xx_tlb_t \<Rightarrow> ppc6xx_tlb_t" where
  "touch t = t\<lparr>pte1 := pte1 t OR 0x100\<rparr>"

definition lookup_frame :: "ppc_env \<Rightarrow> ppc_env \<Rightarrow> bool" where
  "lookup_frame env env' =
     (env' = env\<lparr>tlb6 := tlb6 env', spr := spr env'\<rparr> \<and>
      map touch (tlb6 env') = map touch (tlb6 env) \<and>
      (spr env')(SPR_40x_ESR := 0) = (spr env)(SPR_40x_ESR := 0))"

lemma lookup_frame_refl [simp]: "lookup_frame env env"
  by (simp add: lookup_frame_def)

lemma lookup_frame_trans:
  assumes "lookup_frame e1 e2" and "lookup_frame e2 e3"
  shows "lookup_frame e1 e3"
proof -
  from assms have e2: "e2 = e1\<lparr>tlb6 := tlb6 e2, spr := spr e2\<rparr>"
    and e3: "e3 = e2\<lparr>tlb6 := tlb6 e3, spr := spr e3\<rparr>" by (auto simp: lookup_frame_def)
  have "e3 = e1\<lparr>tlb6 := tlb6 e2, spr := spr e2\<rparr>\<lparr>tlb6 := tlb6 e3, spr := spr e3\<rparr>"
    by (subst e2 [symmetric]) (rule e3)
  then have "e3 = e1\<lparr>tlb6 := tlb6 e3, spr := spr e3\<rparr>" by simp
  with assms show ?thesis by (auto simp: lookup_frame_def)
qed

lemma lookup_frame_bind:
  assumes "lookup_frame env (run_state m)"
    and "\<And>a e. m = Done a e \<Longrightarrow> lookup_frame env e \<Longrightarrow> lookup_frame e (run_state (f a e))"
  shows "lookup_frame env (run_state (bind_run m f))"
proof (cases m)
  case (Done a e)
  with assms(1) have "lookup_frame env e" by simp
  with Done assms(2) [of a e] lookup_frame_trans [of env e] show ?thesis by simp
qed (use assms in auto)

lemma at_index_frame:
  "(\<And>x. lookup_frame env (run_state (f x))) \<Longrightarrow> lookup_frame env (run_state (at_index xs i f env))"
  by (simp add: at_index_def)

lemma check_physical_frame: "run_state (check_physical ctx a rw env) = env"
  by (simp add: check_physical_def at_index_def cpu_abort_def Let_def split: powerpc_mmu_t.split)

lemma get_bat_frame: "run_state (get_bat_6xx_tlb ctx a rw ty env) = env"
  by (simp add: get_bat_6xx_tlb_def split: prod.split)

lemma update_entry_touch:
  assumes "p = pte1 (xs ! i) \<or> p = pte1 (xs ! i) OR 0x100"
  shows "map touch (xs[i := (xs ! i)\<lparr>pte1 := p\<rparr>]) = map touch xs"
proof (cases "i < length xs")
  case True
  have "touch ((xs ! i)\<lparr>pte1 := p\<rparr>) = touch (xs ! i)"
    using assms by (auto simp: touch_def or.assoc)
  then show ?thesis using True by (simp add: map_update list_update_same_conv)
qed (simp add: list_update_beyond)

lemma update_flags_read:
  "snd (pte_update_flags ctx p ret 0) = p \<or> snd (pte_update_flags ctx p ret 0) = p OR 0x100"
  by (simp add: pte_update_flags_def Let_def)

lemma tlb6_check_frame: "lookup_frame env (run_state (ppc6xx_tlb_check ctx a 0 ty env))"
proof (cases "ppc6xx_scan env a 0 ty [0..<nb_ways env] (- 1, None, ctx)")
  case None
  then show ?thesis by (simp add: ppc6xx_tlb_check_def)
next
  case (Some r)
  obtain ret best ctx' where r: "r = (ret, best, ctx')" by (metis surj_pair)
  show ?thesis
  proof (cases best)
    case None
    with Some r show ?thesis by (simp add: ppc6xx_tlb_check_def)
  next
    case b: (Some i)
    obtain ctx'' p where p: "pte_update_flags ctx' (pte1 (tlb6 env ! i)) ret 0 = (ctx'', p)" by force
    with update_flags_read [of ctx' "pte1 (tlb6 env ! i)" ret]
    have "map touch ((tlb6 env)[i := (tlb6 env ! i)\<lparr>pte1 := p\<rparr>]) = map touch (tlb6 env)"
      by (intro update_entry_touch) simp
    with Some r b p show ?thesis by (simp add: ppc6xx_tlb_check_def lookup_frame_def)
  qed
qed

lemma segment_frame: "lookup_frame env (run_state (get_segment_6xx_tlb ctx a 0 ty env))"
  unfolding get_segment_6xx_tlb_def Let_def
  by (rule at_index_frame) (simp add: tlb6_check_frame split: ppc_access.split)

lemma set_esr_frame [simp]: "lookup_frame env (set_esr v env)"
  by (simp add: set_esr_def lookup_frame_def split: option.split)

lemma mmu40x_frame: "lookup_frame env (run_state (mmu40x_scan a rw ty is ret ctx env))"
proof (induction "is" arbitrary: ret ctx env)
  case Nil
  then show ?case by simp
next
  case (Cons i "is")
  show ?case
    unfolding mmu40x_scan.simps
    by (rule at_index_frame)
       (auto simp: Let_def Cons.IH split: option.split prod.split intro: lookup_frame_trans [OF set_esr_frame Cons.IH])
qed

lemma mmubooke_scan_frame: "run_state (mmubooke_scan a rw ty is r env) = env"
  by (induction a rw ty "is" r env rule: mmubooke_scan.induct) (auto simp: at_index_def Let_def)

lemma mmubooke_frame: "run_state (mmubooke_get_physical_address ctx a rw ty env) = env"
  unfolding mmubooke_get_physical_address_def
  by (rule bind_run_state_inv [where I = "\<lambda>e. e = env"])
     (use mmubooke_scan_frame [of a rw ty "[0..<nb_tlb env]" "(- 1, - 1, prot ctx)" env] in
       \<open>auto split: prod.split\<close>)

lemma get_tlbm_state: "run_state (booke206_get_tlbm env i a j) = env"
  unfolding booke206_get_tlbm_def Let_def
  by (simp only: if_distrib [of run_state] run_state.simps if_cancel)

lemma check_tlb206_state: "run_state (mmubooke206_check_tlb tlb ra p a rw ty idx env) = env"
proof -
  have k: "run_state (case found of None \<Rightarrow> Done (- 1, ra, p) env | Some r \<Rightarrow> f r) = env"
    if "\<And>r. run_state (f r) = env" for found :: "u64 option" and f :: "u64 \<Rightarrow> (int \<times> u64 \<times> u32) ppc_run"
    using that by (cases found) auto
  obtain u e a pr where g: "mmubooke206_get_as env idx = (u, e, a, pr)" by (metis surj_pair)
  show ?thesis
    unfolding mmubooke206_check_tlb_def Let_def g prod.case
    by (rule k) (simp only: cpu_abort_def if_distrib [of run_state] run_state.simps if_cancel)
qed

lemma info_scan_state: "run_state (booke206_info_scan a rw ty slots r cur env) = env"
proof (induction slots arbitrary: r cur)
  case Nil
  then show ?case by simp
next
  case (Cons ij slots)
  obtain i j ret ra p where e: "ij = (i, j)" "r = (ret, ra, p)" by (metis prod_cases3 surj_pair)
  have c: "run_state (bind_run (mmubooke206_check_tlb tlb ra p a rw ty 0 env) (\<lambda>r env.
      if fst r \<noteq> - 1 then Done (r, Some tlb) env else booke206_info_scan a rw ty slots r (Some tlb) env)) = env" for tlb
    by (rule bind_run_state_inv [where I = "\<lambda>x. x = env"]) (auto simp: check_tlb206_state Cons.IH dest: check_tlb206_env)
  show ?case
    unfolding e booke206_info_scan.simps
    by (rule bind_run_state_inv [where I = "\<lambda>x. x = env"])
       (auto simp: get_tlbm_state Cons.IH at_index_def c dest: get_tlbm_env split: option.split)
qed

lemma get_info_206_state: "run_state (mmubooke206_get_info ctx a rw ty real info env) = env"
  unfolding mmubooke206_get_info_def
  by (rule bind_run_state_inv [where I = "\<lambda>x. x = env"])
     (use info_scan_state [of a rw ty "booke206_slots env" "(- 1, - 1, prot ctx)" None env] in
       \<open>auto split: option.split\<close>)

lemma keep_info_frame:
  "lookup_frame env (run_state r) \<Longrightarrow> lookup_frame env (run_state (keep_info info r))"
  by (cases r) (auto simp: keep_info_def split: prod.split)

lemma internal_frame:
  "lookup_frame env (run_state (qem_ppc_get_info_addr_mem_trace_internal ctx a 0 acc real info env))"
proof -
  have s6: "lookup_frame env (run_state (if real_mode acc env then check_physical ctx a 0 env
      else bind_run (if nb_BATs env \<noteq> 0 then get_bat_6xx_tlb ctx a 0 acc env else Done (- 1, ctx) env)
             (\<lambda>(ret, ctx) env. if ret < 0 then get_segment_6xx_tlb ctx a 0 acc env else Done (ret, ctx) env)))"
    by (auto simp: check_physical_frame get_bat_frame segment_frame intro!: lookup_frame_bind split: prod.split)
  have s4: "lookup_frame env (run_state (if real_mode acc env then check_physical ctx a 0 env
      else mmu40x_get_physical_address ctx a 0 acc env))"
    by (simp add: check_physical_frame mmu40x_get_physical_address_def mmu40x_frame)
  have re: "lookup_frame env (run_state (bind_run (check_physical ctx a 0 env) (\<lambda>(ret, ctx) env. Done (- 1 :: int, ctx, info) env)))"
    by (auto simp: check_physical_frame intro!: lookup_frame_bind split: prod.split)
  show ?thesis
    using s6 s4 re
    by (auto simp: qem_ppc_get_info_addr_mem_trace_internal_def Let_def keep_info_frame mmubooke_frame
        get_info_206_state cpu_abort_def split: powerpc_mmu_t.split)
qed

text \<open>
  C15. For every MMU model but the two with a hashed page table, the tracer's translation of an
  address is QEMU's debug translation: both end the same way (success, failure, abort of the
  process), leave the processor in the same state and give the same physical page.
\<close>

theorem ppc_translation_matches_qemu:
  assumes "mmu_model env \<noteq> POWERPC_MMU_32B" and "mmu_model env \<noteq> POWERPC_MMU_601"
    and "QEM_TRACE_PHYSICAL_ADDRESS cfg"
  shows "ppc_traced_page cfg ctx wt addr real env = ppc_debug_page mem ctx addr env"
proof -
  define info where "info = \<lparr>wt_enable = wt, cache_inhibit = - 1, coherency = - 1\<rparr>"
  let ?I = "\<lambda>acc ctx info env. qem_ppc_get_info_addr_mem_trace_internal ctx addr 0 acc real info env"
  note defs = ppc_traced_page_def ppc_debug_page_def ppc_cpu_get_phys_page_debug_def
    qem_ppc_get_info_addr_mem_trace_def info_def [symmetric] Let_def drop_info_def page_mask_ucast
  show ?thesis
  proof (cases "?I ACCESS_INT ctx info env")
    case (Done x env1)
    obtain ret ctx1 info1 where x: "x = (ret, ctx1, info1)" by (metis surj_pair)
    show ?thesis
    proof (cases "ret = 0")
      case True
      then show ?thesis
        using assms Done by (simp add: defs x get_physical_address_internal [of _ _ _ ACCESS_INT _ real info])
    next
      case False
      then show ?thesis
        using assms Done
        by (cases "?I ACCESS_CODE ctx1 info1 env1")
           (auto simp: defs x get_physical_address_internal [of _ _ _ ACCESS_INT _ real info]
             get_physical_address_internal [of _ _ _ ACCESS_CODE _ real info1])
    qed
  qed (use assms in \<open>simp_all add: defs get_physical_address_internal [of _ _ _ ACCESS_INT _ real info]\<close>)
qed

text \<open>
  A core with one 4 KiB page in a BookE 2.06 TLB of one entry: effective page 0x10000000, real
  page 0x5000, memory coherence required, write-through, data cache enabled.
\<close>

definition demo_ctx :: mmu_ctx_t where
  "demo_ctx = \<lparr>raddr = 0, ctx_eaddr = 0, prot = 0, hash0 = 0, hash1 = 0, ptem = 0, key = 0, nx = 0\<rparr>"

definition demo_ppc :: ppc_env where
  "demo_ppc = \<lparr>gpr = replicate 32 0, msr = 0,
     spr = (\<lambda>n. if n = SPR_BOOKE_TLB0CFG then 0x01000001 else if n = SPR_Exxx_L1CSR0 then 1 else 0),
     sr = replicate 32 0, IBATu = replicate 8 0, IBATl = replicate 8 0, DBATu = replicate 8 0,
     DBATl = replicate 8 0, nb_BATs = 0, nb_tlb = 1, tlb_per_way = 1, nb_ways = 1, id_tlbs = 0,
     nb_pids = 1, tlb6 = [], tlbe = [],
     tlbm = [\<lparr>mas8 = 0, mas1 = 0x80000100, mas2 = 0x10000014, mas7_3 = 0x5015\<rparr>],
     pb = replicate 4 0, mmu_model = POWERPC_MMU_BOOKE206, ppc_cpu_index = 0\<rparr>"

lemma demo_ppc_lookup:
  "run_value (qem_ppc_get_info_addr_mem_trace default_config demo_ctx 0 0x10000ABC ACCESS_INT demo_ppc) =
     Some (0x5ABC, \<lparr>wt_enable = 1, cache_inhibit = 0, coherency = 1\<rparr>)"
  by code_simp

theorem ppc_translation_matches_qemu_witness:
  "run_value (ppc_debug_page (\<lambda>_. 0) demo_ctx 0x10000ABC demo_ppc) = Some 0x5000"
proof -
  have "ppc_traced_page default_config demo_ctx 0 0x10000ABC ACCESS_INT demo_ppc =
      ppc_debug_page (\<lambda>_. 0) demo_ctx 0x10000ABC demo_ppc"
    by (rule ppc_translation_matches_qemu) (simp_all add: demo_ppc_def default_config_def)
  moreover have "run_value (ppc_traced_page default_config demo_ctx 0 0x10000ABC ACCESS_INT demo_ppc) = Some 0x5000"
    using demo_ppc_lookup unfolding ppc_traced_page_def
    by (cases "qem_ppc_get_info_addr_mem_trace default_config demo_ctx 0 0x10000ABC ACCESS_INT demo_ppc")
       (auto simp: TARGET_PAGE_MASK_def)
  ultimately show ?thesis by simp
qed

lemma trace_lookup_frame:
  "lookup_frame env (run_state (qem_ppc_get_info_addr_mem_trace cfg ctx wt addr real env))"
  unfolding qem_ppc_get_info_addr_mem_trace_def Let_def
  by (intro lookup_frame_bind internal_frame)
     (auto intro!: lookup_frame_bind internal_frame split: prod.split)

text \<open>
  C18. Tracing is almost invisible to the guest: whatever way a translation ends, the processor
  state differs from the one before at most in the referenced bits of the software TLB and
  in the exception syndrome register of the 40x.
\<close>

theorem ppc_tracing_frame:
  "lookup_frame env (run_state (ppc_event_args fr virt_addr acc sz flags extra env))"
  unfolding ppc_event_args_def
  by (auto intro!: lookup_frame_bind trace_lookup_frame split: prod.split)

text \<open>A hit of the check of one BookE 2.06 entry.\<close>

definition mas_mask :: "ppcmas_tlb_t \<Rightarrow> u64" where
  "mas_mask tlb = NOT (booke206_tlb_to_page_size tlb - 1)"

definition mas_maps :: "ppcmas_tlb_t \<Rightarrow> u32 \<Rightarrow> u64 \<Rightarrow> bool" where
  "mas_maps tlb addr ra =
     (mas1 tlb AND MAS1_VALID \<noteq> 0 \<and> ucast addr AND mas_mask tlb = mas2 tlb AND MAS2_EPN_MASK \<and>
      ra = (mas7_3 tlb AND mas_mask tlb) OR (ucast addr AND NOT (mas_mask tlb)))"

lemma ppcmas_tlb_check_maps: "ppcmas_tlb_check env tlb addr pid = Some ra \<Longrightarrow> mas_maps tlb addr ra"
  by (auto simp: ppcmas_tlb_check_def mas_maps_def mas_mask_def Let_def split: if_splits)

lemma check_tlb206_hit:
  assumes "mmubooke206_check_tlb tlb ra p addr rw ty 0 env = Done (ret, ra', p') env" and "ret \<ge> 0"
  shows "ret = 0 \<and> mas_maps tlb addr ra'"
proof -
  have g: "mmubooke206_get_as env 0 = (False, 0, msr_ds env \<noteq> 0, msr_pr env \<noteq> 0)"
    by (simp add: mmubooke206_get_as_def is_epid_mmu_def PPC_TLB_EPID_LOAD_def PPC_TLB_EPID_STORE_def)
  have "ret = 0 \<and> (\<exists>pid. ppcmas_tlb_check env tlb addr pid = Some ra')"
    using assms unfolding mmubooke206_check_tlb_def Let_def g prod.case
    by (auto simp: cpu_abort_def split: option.splits if_splits)
  then show ?thesis using ppcmas_tlb_check_maps by blast
qed

lemma internal_206:
  assumes m: "mmu_model env = POWERPC_MMU_BOOKE206"
    and r: "qem_ppc_get_info_addr_mem_trace_internal ctx a rw acc real info env = Done (ret, ctx', info') env'"
  shows "env' = env \<and> (ret < 0 \<and> info' = info \<or>
    ret = 0 \<and> (\<exists>tlb\<in>set (tlbm env). mas_maps tlb a (raddr ctx') \<and> info' = booke206_info env tlb real))"
proof -
  from m r have g: "mmubooke206_get_info ctx a rw acc real info env = Done (ret, ctx', info') env'"
    by (simp add: qem_ppc_get_info_addr_mem_trace_internal_def)
  then have e: "env' = env" using get_info_206_state [of ctx a rw acc real info env] by simp
  from g obtain ra p cur env1 where
    sc: "booke206_info_scan a rw acc (booke206_slots env) (- 1, - 1, prot ctx) None env = Done ((ret, ra, p), cur) env1"
    and k: "(if ret \<ge> 0 then (case cur of None \<Rightarrow> Fault env1 | Some tlb \<Rightarrow> Done (ret, ctx\<lparr>prot := p, raddr := ra\<rparr>, booke206_info env1 tlb real) env1)
        else Done (ret, ctx\<lparr>prot := p\<rparr>, info) env1) = Done (ret, ctx', info') env'"
    by (auto simp: mmubooke206_get_info_def bind_run_Done_iff split: if_splits option.splits)
  from info_scan_hit [OF sc] have h: "env1 = env"
    "ret = - 1 \<or> (\<exists>tlb r p'. cur = Some tlb \<and> tlb \<in> set (tlbm env) \<and>
       mmubooke206_check_tlb tlb r p' a rw acc 0 env = Done (ret, ra, p) env)" by auto
  show ?thesis
  proof (cases "ret \<ge> 0")
    case True
    with h(2) obtain tlb r p' where t: "cur = Some tlb" "tlb \<in> set (tlbm env)"
      "mmubooke206_check_tlb tlb r p' a rw acc 0 env = Done (ret, ra, p) env" by auto
    from check_tlb206_hit [OF t(3) True] k True t h(1) show ?thesis
      by (auto intro!: bexI [of _ tlb])
  next
    case False
    with k e show ?thesis by simp
  qed
qed

text \<open>
  C17. On a BookE 2.06 core a traced address comes from a valid TLB entry that maps its page,
  with the page offset kept, and the three attributes are the write-through, inhibit and
  coherence bits of that entry (the inhibit attribute being forced by a disabled cache); when
  no entry maps the address, the physical address is all ones and the attributes are the
  initial ones.
\<close>

theorem ppc_206_attributes:
  assumes "mmu_model env = POWERPC_MMU_BOOKE206" and "QEM_TRACE_PHYSICAL_ADDRESS cfg"
    and "qem_ppc_get_info_addr_mem_trace cfg ctx wt addr real env = Done (phys, info) env'"
  shows "env' = env \<and>
    (phys = - 1 \<and> info = \<lparr>wt_enable = wt, cache_inhibit = - 1, coherency = - 1\<rparr> \<or>
     (\<exists>tlb\<in>set (tlbm env). \<exists>ra. mas_maps tlb addr ra \<and> phys = ucast ra \<and>
        info = booke206_info env tlb real))"
proof -
  define i0 where "i0 = \<lparr>wt_enable = wt, cache_inhibit = - 1, coherency = - 1\<rparr>"
  from assms(3) obtain ret1 ctx1 info1 env1 where
    r1: "qem_ppc_get_info_addr_mem_trace_internal ctx addr 0 ACCESS_INT real i0 env = Done (ret1, ctx1, info1) env1"
    and k: "(if ret1 \<noteq> 0 then bind_run (qem_ppc_get_info_addr_mem_trace_internal ctx1 addr 0 ACCESS_CODE real info1 env1)
        (\<lambda>(ret, ctx, info) env. if ret \<noteq> 0 then Done (- 1, info) env else Done (ucast (raddr ctx), info) env)
        else Done (ucast (raddr ctx1), info1) env1) = Done (phys, info) env'"
    using assms(2) by (auto simp: qem_ppc_get_info_addr_mem_trace_def i0_def Let_def bind_run_Done_iff)
  note h1 = internal_206 [OF assms(1) r1]
  show ?thesis
  proof (cases "ret1 = 0")
    case True
    with h1 k show ?thesis by auto
  next
    case False
    with k obtain ret2 ctx2 info2 env2 where
      r2: "qem_ppc_get_info_addr_mem_trace_internal ctx1 addr 0 ACCESS_CODE real info1 env1 = Done (ret2, ctx2, info2) env2"
      and k2: "(if ret2 \<noteq> 0 then Done (- 1, info2) env2 else Done (ucast (raddr ctx2), info2) env2) = Done (phys, info) env'"
      by (auto simp: bind_run_Done_iff)
    from h1 False have e: "env1 = env" "info1 = i0" by auto
    from internal_206 [OF assms(1) r2 [unfolded e(1)]] k2 e show ?thesis
      by (auto simp: i0_def split: if_splits)
  qed
qed

theorem ppc_206_attributes_witness:
  "\<exists>tlb\<in>set (tlbm demo_ppc). \<exists>ra. mas_maps tlb 0x10000ABC ra \<and> ucast ra = (0x5ABC :: u32) \<and>
     wt_enable (booke206_info demo_ppc tlb ACCESS_INT) = 1"
proof -
  let ?r = "qem_ppc_get_info_addr_mem_trace default_config demo_ctx 0 0x10000ABC ACCESS_INT demo_ppc"
  from demo_ppc_lookup obtain env' where d:
    "?r = Done (0x5ABC, \<lparr>wt_enable = 1, cache_inhibit = 0, coherency = 1\<rparr>) env'"
    by (cases ?r) auto
  have "mmu_model demo_ppc = POWERPC_MMU_BOOKE206" "QEM_TRACE_PHYSICAL_ADDRESS default_config"
    by (simp_all add: demo_ppc_def default_config_def)
  from ppc_206_attributes [OF this d] show ?thesis by auto (metis ppc_info.select_convs(1))
qed

lemma internal_keeps_info:
  assumes "mmu_model env \<noteq> POWERPC_MMU_BOOKE206"
    and "qem_ppc_get_info_addr_mem_trace_internal ctx a rw acc real info env = Done (ret, ctx', info') env'"
  shows "info' = info"
  using assms
  by (auto simp: qem_ppc_get_info_addr_mem_trace_internal_def keep_info_def cpu_abort_def Let_def
      bind_run_Done_iff split: powerpc_mmu_t.splits if_splits)

lemma lookup_frame_model: "lookup_frame e e' \<Longrightarrow> mmu_model e' = mmu_model e"
  unfolding lookup_frame_def by (metis ppc_env.ext_inject ppc_env.surjective ppc_env.update_convs(3,15))

text \<open>
  C35. On every other MMU model no attribute of the page reaches the trace: cache inhibition
  and coherence are off for every address, and the write-through flag is whatever the
  uninitialised local variable \<open>wt_enable\<close> of the helper holds.
\<close>

theorem ppc_other_attributes:
  assumes "mmu_model env \<noteq> POWERPC_MMU_BOOKE206"
    and "qem_ppc_get_info_addr_mem_trace cfg ctx wt addr real env = Done (phys, info) env'"
  shows "info = \<lparr>wt_enable = wt, cache_inhibit = - 1, coherency = - 1\<rparr>"
proof -
  define i0 where "i0 = \<lparr>wt_enable = wt, cache_inhibit = - 1, coherency = - 1\<rparr>"
  from assms(2) obtain ret1 ctx1 info1 env1 where
    r1: "qem_ppc_get_info_addr_mem_trace_internal ctx addr 0 ACCESS_INT real i0 env = Done (ret1, ctx1, info1) env1"
    and k: "info = info1 \<or> (\<exists>ret ctx2 env2.
      qem_ppc_get_info_addr_mem_trace_internal ctx1 addr 0 ACCESS_CODE real info1 env1 = Done (ret, ctx2, info) env2)"
    by (auto simp: qem_ppc_get_info_addr_mem_trace_def i0_def Let_def bind_run_Done_iff split: if_splits)
  have i1: "info1 = i0" by (rule internal_keeps_info [OF assms(1) r1])
  have "mmu_model env1 = mmu_model env"
    using internal_frame [of env ctx addr ACCESS_INT real i0] r1 by (auto dest: lookup_frame_model)
  with k i1 internal_keeps_info [of env1] assms(1) show ?thesis unfolding i0_def by metis
qed

text \<open>A core with a 6xx software TLB that maps the page 0x1000 to 0x7000.\<close>

definition demo_6xx :: ppc_env where
  "demo_6xx = demo_ppc\<lparr>mmu_model := POWERPC_MMU_SOFT_6xx, msr := 0x30,
     tlb6 := [\<lparr>pte0 = 0x80000000, pte1 = 0x7012, tlb6_EPN = 0x1000\<rparr>]\<rparr>"

lemma demo_6xx_lookup:
  "run_value (qem_ppc_get_info_addr_mem_trace default_config demo_ctx 1 0x1234 ACCESS_INT demo_6xx) =
     Some (0x7012, \<lparr>wt_enable = 1, cache_inhibit = - 1, coherency = - 1\<rparr>)"
  "run_value (qem_ppc_get_info_addr_mem_trace default_config demo_ctx 1 0x1FFC ACCESS_INT demo_6xx) =
     Some (0x7012, \<lparr>wt_enable = 1, cache_inhibit = - 1, coherency = - 1\<rparr>)"
  by code_simp+

theorem ppc_other_attributes_witness:
  "\<exists>phys info env'. qem_ppc_get_info_addr_mem_trace default_config demo_ctx 1 0x1234 ACCESS_INT demo_6xx =
     Done (phys, info) env' \<and> wt_enable info = 1"
proof -
  let ?r = "qem_ppc_get_info_addr_mem_trace default_config demo_ctx 1 0x1234 ACCESS_INT demo_6xx"
  from demo_6xx_lookup(1) obtain info env' where d: "?r = Done (0x7012, info) env'" by (cases ?r) auto
  have "mmu_model demo_6xx \<noteq> POWERPC_MMU_BOOKE206" by (simp add: demo_6xx_def)
  from ppc_other_attributes [OF this d] d show ?thesis by auto
qed

text \<open>Addresses of the same page are the same to the lookups of a 6xx.\<close>

definition same_page :: "u32 \<Rightarrow> u32 \<Rightarrow> bool" where
  "same_page a b \<longleftrightarrow> a AND TARGET_PAGE_MASK = b AND TARGET_PAGE_MASK"

lemma same_page_mask:
  assumes "same_page a b" and "m AND TARGET_PAGE_MASK = m"
  shows "a AND m = b AND m"
proof -
  have "x AND m = (x AND TARGET_PAGE_MASK) AND m" for x
    using assms(2) by (simp only: and.assoc and.commute [of TARGET_PAGE_MASK m])
  from this [of a] this [of b] assms(1) show ?thesis unfolding same_page_def by (simp only:)
qed

lemma same_page_drop:
  assumes "same_page a b" and "12 \<le> n"
  shows "drop_bit n a = drop_bit n b"
proof -
  have c: "(0xfff :: u32) = mask 12" by (simp add: mask_eq_exp_minus_1)
  have "drop_bit n x = drop_bit n (x AND TARGET_PAGE_MASK)" for x :: u32
    unfolding TARGET_PAGE_MASK_def c
    by (rule bit_word_eqI) (use assms(2) in \<open>auto simp: bit_drop_bit_eq bit_and_iff bit_not_iff bit_mask_iff dest: bit_imp_le_length\<close>)
  from this [of a] this [of b] assms(1) show ?thesis unfolding same_page_def by (simp only:)
qed

lemma same_page_masks:
  assumes "same_page a b"
  shows "a AND 0xF0000000 = b AND 0xF0000000" "a AND 0x0FFE0000 = b AND 0x0FFE0000" "a AND 0x0001F000 = b AND 0x0001F000"
    "drop_bit 12 (a AND 0x0FFFFFFF) = drop_bit 12 (b AND 0x0FFFFFFF)"
proof -
  show "a AND 0xF0000000 = b AND 0xF0000000" "a AND 0x0FFE0000 = b AND 0x0FFE0000" "a AND 0x0001F000 = b AND 0x0001F000"
    by (rule same_page_mask [OF assms], simp add: TARGET_PAGE_MASK_def)+
  have "drop_bit 12 a = drop_bit 12 b" by (rule same_page_drop [OF assms]) simp
  then show "drop_bit 12 (a AND 0x0FFFFFFF) = drop_bit 12 (b AND 0x0FFFFFFF)" by (simp only: drop_bit_and)
qed

lemma same_page_block:
  assumes "same_page a b"
  shows "a AND (0x0FFE0000 AND x) = b AND (0x0FFE0000 AND x)"
  using same_page_masks(2) [OF assms] by (simp only: and.assoc [symmetric])

lemma scan_same_page:
  assumes "same_page a b"
  shows "ppc6xx_scan env a rw ty ways r = ppc6xx_scan env b rw ty ways r"
proof (induction ways arbitrary: r)
  case Nil
  then show ?case by simp
next
  case (Cons w ways)
  obtain ret best ctx where r: "r = (ret, best, ctx)" by (metis surj_pair)
  have d: "drop_bit 12 a = drop_bit 12 b" by (rule same_page_drop [OF assms]) simp
  have g: "ppc6xx_tlb_getnum env a w c = ppc6xx_tlb_getnum env b w c" for c
    unfolding ppc6xx_tlb_getnum_def d ..
  show ?case
    unfolding r ppc6xx_scan.simps g assms [unfolded same_page_def] Cons.IH ..
qed

lemma bat_same_page:
  assumes "same_page a b"
  shows "bat_scan env a rw ty bats ctx = bat_scan env b rw ty bats ctx"
  by (induction bats) (auto simp: Let_def same_page_masks [OF assms] same_page_block [OF assms] split: prod.split)

text \<open>\<open>ctx_eaddr\<close> is never read: another value there gives the same lookup.\<close>

abbreviation at_eaddr :: "u64 \<Rightarrow> (int \<times> mmu_ctx_t) ppc_run \<Rightarrow> (int \<times> mmu_ctx_t) ppc_run" where
  "at_eaddr x r \<equiv> bind_run r (\<lambda>(ret, ctx) env. Done (ret, ctx\<lparr>ctx_eaddr := x\<rparr>) env)"

lemma pte_check_eaddr:
  "ppc6xx_tlb_pte_check (ctx\<lparr>ctx_eaddr := x\<rparr>) p0 p1 h rw ty =
     (let (c, ctx') = ppc6xx_tlb_pte_check ctx p0 p1 h rw ty in (c, ctx'\<lparr>ctx_eaddr := x\<rparr>))"
  by (simp add: ppc6xx_tlb_pte_check_def Let_def)

lemma scan_eaddr:
  "ppc6xx_scan env a rw ty ways (ret, best, ctx\<lparr>ctx_eaddr := x\<rparr>) =
     map_option (\<lambda>(ret, best, ctx). (ret, best, ctx\<lparr>ctx_eaddr := x\<rparr>)) (ppc6xx_scan env a rw ty ways (ret, best, ctx))"
proof (induction ways arbitrary: ret best ctx)
  case Nil
  then show ?case by simp
next
  case (Cons w ways)
  obtain c ctx' where p: "ppc6xx_tlb_pte_check ctx (pte0 (tlb6 env ! ppc6xx_tlb_getnum env a w (ty = ACCESS_CODE)))
    (pte1 (tlb6 env ! ppc6xx_tlb_getnum env a w (ty = ACCESS_CODE))) 0 rw ty = (c, ctx')" by force
  show ?case
    unfolding ppc6xx_scan.simps Let_def pte_check_eaddr p prod.case Cons.IH
    by (simp only: if_distrib [of "map_option _"] option.map prod.case)
qed

lemma tlb_check_eaddr:
  "ppc6xx_tlb_check (ctx\<lparr>ctx_eaddr := x\<rparr>) a rw ty env = at_eaddr x (ppc6xx_tlb_check ctx a rw ty env)"
proof (cases "ppc6xx_scan env a rw ty [0..<nb_ways env] (- 1, None, ctx)")
  case None
  then show ?thesis by (simp add: ppc6xx_tlb_check_def scan_eaddr)
next
  case (Some r)
  obtain ret best ctx' where r: "r = (ret, best, ctx')" by (metis surj_pair)
  show ?thesis
  proof (cases best)
    case None
    then show ?thesis by (simp add: ppc6xx_tlb_check_def scan_eaddr Some r)
  next
    case b: (Some i)
    obtain ctx2 p where u: "pte_update_flags ctx' (pte1 (tlb6 env ! i)) ret rw = (ctx2, p)" by force
    then have "pte_update_flags (ctx'\<lparr>ctx_eaddr := x\<rparr>) (pte1 (tlb6 env ! i)) ret rw = (ctx2\<lparr>ctx_eaddr := x\<rparr>, p)"
      unfolding pte_update_flags_def Let_def by (auto split: if_splits)
    then show ?thesis using u by (simp add: ppc6xx_tlb_check_def scan_eaddr Some r b Let_def)
  qed
qed

lemma tlb_check_context:
  "at_eaddr x (ppc6xx_tlb_check (ctx\<lparr>ctx_eaddr := y, key := k, nx := n, ptem := p, hash0 := h, hash1 := g, raddr := r\<rparr>) a rw ty env) =
   ppc6xx_tlb_check (ctx\<lparr>ctx_eaddr := x, key := k, nx := n, ptem := p, hash0 := h, hash1 := g, raddr := r\<rparr>) a rw ty env"
proof -
  have "ctx\<lparr>ctx_eaddr := x, key := k, nx := n, ptem := p, hash0 := h, hash1 := g, raddr := r\<rparr> =
      (ctx\<lparr>ctx_eaddr := y, key := k, nx := n, ptem := p, hash0 := h, hash1 := g, raddr := r\<rparr>)\<lparr>ctx_eaddr := x\<rparr>"
    by simp
  then show ?thesis by (simp only: tlb_check_eaddr)
qed

lemma segment_same_page:
  assumes "same_page a b" and "sr env ! unat (drop_bit 28 a) AND 0x80000000 = 0"
  shows "get_segment_6xx_tlb (ctx\<lparr>ctx_eaddr := x\<rparr>) b rw ty env = at_eaddr (ucast b) (get_segment_6xx_tlb ctx a rw ty env)"
proof -
  have t: "ppc6xx_tlb_check c a rw ty env = ppc6xx_tlb_check c b rw ty env" for c
    unfolding ppc6xx_tlb_check_def by (simp only: scan_same_page [OF assms(1)])
  have d: "drop_bit 28 a = drop_bit 28 b" by (rule same_page_drop [OF assms(1)]) simp
  show ?thesis
    using assms(2) unfolding get_segment_6xx_tlb_def Let_def at_index_def d t same_page_masks(4) [OF assms(1)]
    by (cases "unat (drop_bit 28 b) < length (sr env)";
        cases "ty \<noteq> ACCESS_CODE \<or> sr env ! unat (drop_bit 28 b) AND 0x10000000 = 0")
      (simp_all add: tlb_check_context split del: if_split)
qed

lemma bat_eaddr: "bat_scan env a rw ty bats (ctx\<lparr>ctx_eaddr := x\<rparr>) =
    (let (ret, ctx') = bat_scan env a rw ty bats ctx in (ret, ctx'\<lparr>ctx_eaddr := x\<rparr>))"
  by (induction bats) (auto simp: Let_def split: prod.split)

lemma get_bat_same_page:
  assumes "same_page a b"
  shows "get_bat_6xx_tlb (ctx\<lparr>ctx_eaddr := x\<rparr>) b rw ty env = at_eaddr x (get_bat_6xx_tlb ctx a rw ty env)"
  unfolding get_bat_6xx_tlb_def bat_same_page [OF assms] bat_eaddr
  by (auto simp: Let_def split: prod.split)

text \<open>The translation of another address of the page leaves another \<open>ctx_eaddr\<close> and is otherwise the same.\<close>

lemma internal_same_page:
  assumes "mmu_model env = POWERPC_MMU_SOFT_6xx \<or> mmu_model env = POWERPC_MMU_SOFT_74xx"
    and "\<not> real_mode ty env" and "same_page a b" and "sr env ! unat (drop_bit 28 a) AND 0x80000000 = 0"
  shows "\<exists>y. qem_ppc_get_info_addr_mem_trace_internal (ctx\<lparr>ctx_eaddr := x\<rparr>) b rw ty real info env =
    bind_run (qem_ppc_get_info_addr_mem_trace_internal ctx a rw ty real info env)
      (\<lambda>(ret, ctx, info) env. Done (ret, ctx\<lparr>ctx_eaddr := y\<rparr>, info) env)"
proof -
  let ?bat = "if nb_BATs env \<noteq> 0 then get_bat_6xx_tlb ctx a rw ty env else Done (- 1, ctx) env"
  let ?bat' = "if nb_BATs env \<noteq> 0 then get_bat_6xx_tlb (ctx\<lparr>ctx_eaddr := x\<rparr>) b rw ty env else Done (- 1, ctx\<lparr>ctx_eaddr := x\<rparr>) env"
  let ?next = "\<lambda>a (ret, ctx) env. if ret < 0 then get_segment_6xx_tlb ctx a rw ty env else Done (ret, ctx) env"
  have bat: "?bat' = at_eaddr x ?bat" using get_bat_same_page [OF assms(3)] by simp
  have run: "qem_ppc_get_info_addr_mem_trace_internal c d rw ty real info env =
      keep_info info (bind_run (if nb_BATs env \<noteq> 0 then get_bat_6xx_tlb c d rw ty env else Done (- 1, c) env) (?next d))" for c d
    using assms(1,2) by (auto simp: qem_ppc_get_info_addr_mem_trace_internal_def Let_def)
  have env: "run_state ?bat = env" by (simp add: get_bat_frame)
  show ?thesis
  proof (cases ?bat)
    case (Done rc e)
    obtain ret c where rc: "rc = (ret, c)" by force
    have e: "e = env" using env Done by simp
    let ?y = "if ret < 0 then ucast b else x"
    have "bind_run ?bat' (?next b) = at_eaddr ?y (bind_run ?bat (?next a))"
      unfolding bat Done rc e using segment_same_page [OF assms(3,4)] by simp
    then show ?thesis unfolding run by (intro exI [of _ ?y]) (cases "bind_run ?bat (?next a)"; auto simp: keep_info_def)
  qed (simp_all only: run bat keep_info_def bind_run.simps simp_thms)
qed

text \<open>
  C36. On the 6xx and 74xx cores with translation on, outside direct-store segments, the page
  offset is lost: any two addresses of a page are traced at the same physical address, with the
  same attributes, whether a block register or the software TLB maps them or nothing does. The
  translation leaves the page frame, for the TLB the raw second word of the entry, in \<open>raddr\<close>,
  to which QEMU adds the offset and the tracer does not.
\<close>

theorem ppc_6xx_offset_lost:
  assumes "mmu_model env = POWERPC_MMU_SOFT_6xx \<or> mmu_model env = POWERPC_MMU_SOFT_74xx"
    and "msr_dr env \<noteq> 0" and "msr_ir env \<noteq> 0" and "QEM_TRACE_PHYSICAL_ADDRESS cfg"
    and "a AND TARGET_PAGE_MASK = b AND TARGET_PAGE_MASK"
    and "sr env ! unat (drop_bit 28 a) AND 0x80000000 = 0"
  shows "qem_ppc_get_info_addr_mem_trace cfg ctx wt a real env = qem_ppc_get_info_addr_mem_trace cfg ctx wt b real env"
proof -
  let ?i = "\<lparr>wt_enable = wt, cache_inhibit = - 1, coherency = - 1\<rparr>"
  let ?t = "\<lambda>ctx a ty info env. qem_ppc_get_info_addr_mem_trace_internal ctx a 0 ty real info env"
  have sp: "same_page a b" using assms(5) by (simp add: same_page_def)
  have on: "\<not> real_mode ty env" for ty using assms(2,3) by (simp add: real_mode_def)
  obtain y where y: "?t ctx b ACCESS_INT ?i env =
      bind_run (?t ctx a ACCESS_INT ?i env) (\<lambda>(ret, ctx, info) env. Done (ret, ctx\<lparr>ctx_eaddr := y\<rparr>, info) env)"
    using internal_same_page [OF assms(1) on sp assms(6), where ctx = ctx and x = "ctx_eaddr ctx" and rw = 0 and ty = ACCESS_INT
        and real = real and info = ?i] by auto
  show ?thesis
  proof (cases "?t ctx a ACCESS_INT ?i env")
    case (Done r e)
    obtain ret c info where r: "r = (ret, c, info)" by (metis surj_pair)
    have "lookup_frame env e" using internal_frame [of env ctx a ACCESS_INT real ?i] Done by simp
    then have e: "e = env\<lparr>tlb6 := tlb6 e, spr := spr e\<rparr>" by (simp add: lookup_frame_def)
    have same: "mmu_model e = mmu_model env" "msr e = msr env" "sr e = sr env" by (subst e, simp)+
    have on': "\<not> real_mode ty e" for ty using on [of ty] same(2) by (simp add: real_mode_def msr_bit_def)
    obtain z where "?t (c\<lparr>ctx_eaddr := y\<rparr>) b ACCESS_CODE info e =
        bind_run (?t c a ACCESS_CODE info e) (\<lambda>(ret, ctx, info) env. Done (ret, ctx\<lparr>ctx_eaddr := z\<rparr>, info) env)"
      using internal_same_page [where env = e and ty = ACCESS_CODE and a = a and b = b and ctx = c and x = y and rw = 0
          and real = real and info = info]
        assms(1,6) on' sp same by auto
    then show ?thesis
      using y Done r assms(4) unfolding qem_ppc_get_info_addr_mem_trace_def Let_def
      by (cases "?t c a ACCESS_CODE info e") (auto split: prod.split)
  qed (simp_all add: qem_ppc_get_info_addr_mem_trace_def y)
qed

theorem ppc_6xx_offset_lost_witness:
  "run_value (qem_ppc_get_info_addr_mem_trace default_config demo_ctx 1 0x1FFC ACCESS_INT demo_6xx) =
     Some (0x7012, \<lparr>wt_enable = 1, cache_inhibit = - 1, coherency = - 1\<rparr>)"
proof -
  have "mmu_model demo_6xx = POWERPC_MMU_SOFT_6xx \<or> mmu_model demo_6xx = POWERPC_MMU_SOFT_74xx"
    "msr_dr demo_6xx \<noteq> 0" "msr_ir demo_6xx \<noteq> 0" "QEM_TRACE_PHYSICAL_ADDRESS default_config"
    "(0x1234 :: u32) AND TARGET_PAGE_MASK = 0x1FFC AND TARGET_PAGE_MASK"
    "sr demo_6xx ! unat (drop_bit 28 (0x1234 :: u32)) AND 0x80000000 = 0"
    by code_simp+
  from ppc_6xx_offset_lost [OF this, of demo_ctx 1 ACCESS_INT] demo_6xx_lookup(1) show ?thesis by simp
qed

text \<open>
  C34. With the hashed page table of the 32B and 601 models, the unfinished MPC8xx and an
  unknown model, tracing any address ends the process by \<open>cpu_abort\<close>; QEMU's own debug
  lookup does not abort on the hashed page table with translation off.
\<close>

theorem ppc_unsupported_models_abort:
  assumes "mmu_model env \<in> {POWERPC_MMU_32B, POWERPC_MMU_601, POWERPC_MMU_MPC8xx, POWERPC_MMU_UNKNOWN}"
  shows "qem_ppc_get_info_addr_mem_trace cfg ctx wt addr real env = Exited 134 env \<and>
    (mmu_model env \<in> {POWERPC_MMU_32B, POWERPC_MMU_601} \<and> msr_dr env = 0 \<longrightarrow>
     ppc_cpu_get_phys_page_debug mem ctx addr env = Done (ucast addr) env)"
  using assms
  by (auto simp: qem_ppc_get_info_addr_mem_trace_def qem_ppc_get_info_addr_mem_trace_internal_def
      cpu_abort_def ppc_cpu_get_phys_page_debug_def ppc_hash32_get_phys_page_debug_def)

theorem ppc_unsupported_models_abort_witness:
  "qem_ppc_get_info_addr_mem_trace default_config demo_ctx 0 0x1234 ACCESS_INT
     (demo_ppc\<lparr>mmu_model := POWERPC_MMU_32B\<rparr>) = Exited 134 (demo_ppc\<lparr>mmu_model := POWERPC_MMU_32B\<rparr>)"
  using ppc_unsupported_models_abort [of "demo_ppc\<lparr>mmu_model := POWERPC_MMU_32B\<rparr>"] by simp

end
