(* ===== verification/QEM_PPC_Events.thy ===== *)
theory QEM_PPC_Events
  imports QEM_Arch_PPC
begin

text \<open>
  The record each PowerPC helper produces, against one table: what the trace format says
  about every traced operation (class, effective address, size and the fields of the flag
  word). The theorem at the end states for all of them at once that the helper hands the back
  end exactly the record of the table.
\<close>

section \<open>What each helper records\<close>

text \<open>
  The traced operations of a guest, one constructor per helper that emits an event, and the
  helper that the translated code calls for it.
\<close>

datatype ppc_op =
    P_Fetch u32 int
  | P_Store u32 int | P_StoreEx u32 int | P_Load u32 int | P_LoadEx u32 int
  | P_StoreImm u32 nat int | P_StoreExImm u32 nat int | P_StoreExIdx nat nat int
  | P_StoreIdx nat nat int | P_LoadImm u32 nat int | P_LoadExImm u32 nat int
  | P_LoadIdx nat nat int | P_LoadExIdx nat nat int
  | P_DFlushInval nat nat int QEM_TRACE_GRANULARITY_E | P_DInval nat nat int QEM_TRACE_GRANULARITY_E
  | P_DFlush nat nat int QEM_TRACE_GRANULARITY_E int | P_DPrefetch nat nat int QEM_TRACE_GRANULARITY_E int
  | P_DLock nat nat int QEM_TRACE_GRANULARITY_E int | P_DUnlock nat nat int QEM_TRACE_GRANULARITY_E
  | P_IInval nat nat int QEM_TRACE_GRANULARITY_E | P_IFlush nat nat int QEM_TRACE_GRANULARITY_E
  | P_ILock nat nat int QEM_TRACE_GRANULARITY_E int | P_IUnlock nat nat int QEM_TRACE_GRANULARITY_E
  | P_Icbt nat nat | P_Dcbz nat nat int | P_FlashI | P_FlashD

fun ppc_op_helper :: "ppc_op \<Rightarrow> 'z ppc_helper" where
  "ppc_op_helper (P_Fetch a n) = ppc_helper_qem_instld_trace a n"
| "ppc_op_helper (P_Store a n) = ppc_helper_qem_datast_trace_direct a n"
| "ppc_op_helper (P_StoreEx a n) = ppc_helper_qem_datast_ex_trace_direct a n"
| "ppc_op_helper (P_Load a n) = ppc_helper_qem_datald_trace_direct a n"
| "ppc_op_helper (P_LoadEx a n) = ppc_helper_qem_datald_ex_trace_direct a n"
| "ppc_op_helper (P_StoreImm i r n) = ppc_helper_qem_datast_trace i r n"
| "ppc_op_helper (P_StoreExImm i r n) = ppc_helper_qem_datast_ex_trace i r n"
| "ppc_op_helper (P_StoreExIdx r q n) = ppc_helper_qem_datast_ex_trace_trad r q n"
| "ppc_op_helper (P_StoreIdx r q n) = ppc_helper_qem_datast_trace_trad r q n"
| "ppc_op_helper (P_LoadImm i r n) = ppc_helper_qem_datald_trace i r n"
| "ppc_op_helper (P_LoadExImm i r n) = ppc_helper_qem_datald_ex_trace i r n"
| "ppc_op_helper (P_LoadIdx r q n) = ppc_helper_qem_datald_trace_trad r q n"
| "ppc_op_helper (P_LoadExIdx r q n) = ppc_helper_qem_datald_ex_trace_trad r q n"
| "ppc_op_helper (P_DFlushInval r q l g) = ppc_helper_qem_dcache_flush_inval r q l (granularity_val True g)"
| "ppc_op_helper (P_DInval r q l g) = ppc_helper_qem_dcache_inval r q l (granularity_val True g)"
| "ppc_op_helper (P_DFlush r q l g x) = ppc_helper_qem_dcache_flush r q l (granularity_val True g) x"
| "ppc_op_helper (P_DPrefetch r q l g x) = ppc_helper_qem_dcache_prefetch_non_inibited r q l (granularity_val True g) x"
| "ppc_op_helper (P_DLock r q l g x) = ppc_helper_qem_dcache_lock r q l (granularity_val True g) x"
| "ppc_op_helper (P_DUnlock r q l g) = ppc_helper_qem_dcache_unlock r q l (granularity_val True g)"
| "ppc_op_helper (P_IInval r q l g) = ppc_helper_qem_icache_inval r q l (granularity_val True g)"
| "ppc_op_helper (P_IFlush r q l g) = ppc_helper_qem_icache_flush r q l (granularity_val True g)"
| "ppc_op_helper (P_ILock r q l g x) = ppc_helper_qem_icache_lock r q l (granularity_val True g) x"
| "ppc_op_helper (P_IUnlock r q l g) = ppc_helper_qem_icache_unlock r q l (granularity_val True g)"
| "ppc_op_helper (P_Icbt r q) = ppc_helper_qem_icbt r q 1"
| "ppc_op_helper (P_Dcbz r q n) = ppc_helper_qem_dcbz_trace_trad r q n"
| "ppc_op_helper P_FlashI = ppc_helper_qem_flash_inval_icache"
| "ppc_op_helper P_FlashD = ppc_helper_qem_flash_inval_dcache"

text \<open>
  What the trace format says about an operation: its class, effective address, size, and the
  fields that do not depend on the page or the processor mode.
\<close>

record ppc_spec =
  ps_class :: QEM_TRACE_TTYPE_E
  ps_regs :: "nat list"
  ps_disp :: u32
  ps_size :: int
  ps_access :: QEM_TRACE_ACCESS_TYPE_E
  ps_data :: QEM_TRACE_DATA_TYPE_E
  ps_event :: trace_event
  ps_gran :: QEM_TRACE_GRANULARITY_E
  ps_level :: QEM_TRACE_CACHE_LEVEL_E
  ps_excl :: QEM_TRACE_EVENT_EXCLUSIVE_E

definition excl_of :: "bool \<Rightarrow> QEM_TRACE_EVENT_EXCLUSIVE_E" where
  "excl_of x = (if x then QEM_TRACE_EVENT_EXCLUSIVE else QEM_TRACE_EVENT_NON_EXCLUSIVE)"

definition access_spec :: "nat list \<Rightarrow> u32 \<Rightarrow> int \<Rightarrow> QEM_TRACE_ACCESS_TYPE_E \<Rightarrow> bool \<Rightarrow> ppc_spec" where
  "access_spec rs d n a x =
     \<lparr>ps_class = QEM_TRACE_DTRACE, ps_regs = rs, ps_disp = d, ps_size = n, ps_access = a,
      ps_data = QEM_TRACE_DATA_TYPE_DATA, ps_event = Ev_Access, ps_gran = QEM_TRACE_GRANULARITY_LINE,
      ps_level = QEM_TRACE_CACHE_LEVEL_1, ps_excl = excl_of x\<rparr>"

definition cache_spec ::
    "bool \<Rightarrow> nat \<Rightarrow> nat \<Rightarrow> trace_event \<Rightarrow> QEM_TRACE_GRANULARITY_E \<Rightarrow> QEM_TRACE_CACHE_LEVEL_E \<Rightarrow> bool \<Rightarrow>
     ppc_spec" where
  "cache_spec inst r q e g l x =
     \<lparr>ps_class = (if inst then QEM_TRACE_ITRACE else QEM_TRACE_DTRACE), ps_regs = [r, q], ps_disp = 0,
      ps_size = 1, ps_access = QEM_TRACE_ACCESS_TYPE_READ,
      ps_data = (if inst then QEM_TRACE_DATA_TYPE_INST else QEM_TRACE_DATA_TYPE_DATA), ps_event = e,
      ps_gran = g, ps_level = l, ps_excl = excl_of x\<rparr>"

fun ppc_op_spec :: "ppc_op \<Rightarrow> ppc_spec" where
  "ppc_op_spec (P_Fetch a n) = (access_spec [] a n QEM_TRACE_ACCESS_TYPE_READ False)
     \<lparr>ps_class := QEM_TRACE_ITRACE, ps_data := QEM_TRACE_DATA_TYPE_INST\<rparr>"
| "ppc_op_spec (P_Store a n) = access_spec [] a n QEM_TRACE_ACCESS_TYPE_WRITE False"
| "ppc_op_spec (P_StoreEx a n) = access_spec [] a n QEM_TRACE_ACCESS_TYPE_WRITE True"
| "ppc_op_spec (P_Load a n) = access_spec [] a n QEM_TRACE_ACCESS_TYPE_READ False"
| "ppc_op_spec (P_LoadEx a n) = access_spec [] a n QEM_TRACE_ACCESS_TYPE_READ True"
| "ppc_op_spec (P_StoreImm i r n) = access_spec [r] i n QEM_TRACE_ACCESS_TYPE_WRITE False"
| "ppc_op_spec (P_StoreExImm i r n) = access_spec [r] i n QEM_TRACE_ACCESS_TYPE_WRITE True"
| "ppc_op_spec (P_StoreExIdx r q n) = access_spec [r, q] 0 n QEM_TRACE_ACCESS_TYPE_WRITE True"
| "ppc_op_spec (P_StoreIdx r q n) = access_spec [r, q] 0 n QEM_TRACE_ACCESS_TYPE_WRITE False"
| "ppc_op_spec (P_LoadImm i r n) = access_spec [r] i n QEM_TRACE_ACCESS_TYPE_READ False"
| "ppc_op_spec (P_LoadExImm i r n) = access_spec [r] i n QEM_TRACE_ACCESS_TYPE_READ True"
| "ppc_op_spec (P_LoadIdx r q n) = access_spec [r, q] 0 n QEM_TRACE_ACCESS_TYPE_READ False"
| "ppc_op_spec (P_LoadExIdx r q n) = access_spec [r, q] 0 n QEM_TRACE_ACCESS_TYPE_READ True"
| "ppc_op_spec (P_DFlushInval r q l g) = cache_spec False r q Ev_FlushInval g (level_switch l) False"
| "ppc_op_spec (P_DInval r q l g) = cache_spec False r q Ev_Invalidate g (level_switch l) False"
| "ppc_op_spec (P_DFlush r q l g x) = cache_spec False r q Ev_Flush g (level_switch l) (x = 1)"
| "ppc_op_spec (P_DPrefetch r q l g x) =
     cache_spec False r q Ev_Prefetch QEM_TRACE_GRANULARITY_LINE QEM_TRACE_CACHE_LEVEL_1 (x = 1)"
| "ppc_op_spec (P_DLock r q l g x) = cache_spec False r q Ev_Lock g (level_switch l) (x = 1)"
| "ppc_op_spec (P_DUnlock r q l g) = cache_spec False r q Ev_Unlock g (level_switch l) False"
| "ppc_op_spec (P_IInval r q l g) = cache_spec True r q Ev_Invalidate g (level_switch l) False"
| "ppc_op_spec (P_IFlush r q l g) = cache_spec True r q Ev_Flush g (level_switch l) False"
| "ppc_op_spec (P_ILock r q l g x) = cache_spec True r q Ev_Lock g (level_switch l) (x = 1)"
| "ppc_op_spec (P_IUnlock r q l g) = cache_spec True r q Ev_Unlock g (level_switch l) False"
| "ppc_op_spec (P_Icbt r q) =
     cache_spec True r q Ev_Prefetch QEM_TRACE_GRANULARITY_LINE QEM_TRACE_CACHE_LEVEL_2 False"
| "ppc_op_spec (P_Dcbz r q n) =
     (cache_spec False r q Ev_Dcbz QEM_TRACE_GRANULARITY_LINE QEM_TRACE_CACHE_LEVEL_1 False)\<lparr>ps_size := n\<rparr>"
| "ppc_op_spec P_FlashI = (cache_spec True 0 0 Ev_Invalidate QEM_TRACE_GRANULARITY_GLOBAL QEM_TRACE_CACHE_LEVEL_1 False)\<lparr>ps_regs := []\<rparr>"
| "ppc_op_spec P_FlashD = (cache_spec False 0 0 Ev_Invalidate QEM_TRACE_GRANULARITY_GLOBAL QEM_TRACE_CACHE_LEVEL_1 False)\<lparr>ps_regs := []\<rparr>"

definition ppc_op_addr :: "ppc_op \<Rightarrow> ppc_env \<Rightarrow> u32" where
  "ppc_op_addr op env = sum_list (map ((!) (gpr env)) (ps_regs (ppc_op_spec op))) + ps_disp (ppc_op_spec op)"

text \<open>The flash operations translate nothing; every other one translates its address.\<close>

definition ppc_op_translate :: "ppc_op \<Rightarrow> ppc_frame \<Rightarrow> ppc_env \<Rightarrow> (u32 \<times> ppc_info) ppc_run" where
  "ppc_op_translate op fr env =
     (if op = P_FlashI \<or> op = P_FlashD then Done (0, \<lparr>wt_enable = 0, cache_inhibit = 0, coherency = 0\<rparr>) env
      else qem_ppc_get_info_addr_mem_trace (pf_cfg fr) (pf_ctx fr) (pf_wt fr) (ppc_op_addr op env)
             (if ps_class (ppc_op_spec op) = QEM_TRACE_ITRACE then ACCESS_CODE else ACCESS_INT) env)"

definition ppc_op_meta :: "ppc_op \<Rightarrow> ppc_env \<Rightarrow> ppc_info \<Rightarrow> trace_meta" where
  "ppc_op_meta op env info =
     (let sp = ppc_op_spec op
      in access_meta (ps_access sp) (ps_data sp) (ppc_pl env) (ps_event sp) (ps_gran sp)
           (size_of_bytes (ps_size sp))
           (if coherency info = 1 then QEM_TRACE_COHERENCY_REQ else QEM_TRACE_COHERENCY_NON_REQ)
           (ps_level sp)
           (if cache_inhibit info = 1 then QEM_TRACE_CACHE_INHIBIT_ON else QEM_TRACE_CACHE_INHIBIT_OFF)
           (if wt_enable info = 1 then QEM_TRACE_CACHE_WT_ON else QEM_TRACE_CACHE_WT_OFF)
           (ps_excl sp))"

definition ppc_op_args :: "ppc_op \<Rightarrow> ppc_frame \<Rightarrow> u32 \<Rightarrow> ppc_info \<Rightarrow> ppc_env \<Rightarrow> ppc_env \<Rightarrow> out_args" where
  "ppc_op_args op fr phys info env env' =
     mk_out (ucast (ppc_op_addr op env)) (ucast phys) (ppc_cpu_index env') (tsc_time (pf_tsc fr))
       (flags_of True (ppc_op_meta op env' info))"

section \<open>Helpers against the table\<close>

lemma ppc_env_flags_of:
  "ppc_GET_ENV_FLAGS True env info sz f =
     f OR (pl_val True (ppc_pl env) OR (data_size_val True (size_of_bytes sz) OR
      (coherency_val True (if coherency info = 1 then QEM_TRACE_COHERENCY_REQ else QEM_TRACE_COHERENCY_NON_REQ) OR
      (cache_inhibit_val True (if cache_inhibit info = 1 then QEM_TRACE_CACHE_INHIBIT_ON else QEM_TRACE_CACHE_INHIBIT_OFF) OR
       cache_wt_val True (if wt_enable info = 1 then QEM_TRACE_CACHE_WT_ON else QEM_TRACE_CACHE_WT_OFF)))))"
  by (simp add: ppc_GET_ENV_FLAGS_def Let_def or.assoc)

lemma event_args_Done:
  assumes "QEM_TRACE_GATHER_META (pf_cfg fr)"
    and "qem_ppc_get_info_addr_mem_trace (pf_cfg fr) (pf_ctx fr) (pf_wt fr) a acc env = Done (phys, info) env'"
  shows "ppc_event_args fr a acc sz fl ex env =
    Done (mk_out (ucast a) (ucast phys) (ppc_cpu_index env') (tsc_time (pf_tsc fr))
      (ppc_GET_ENV_FLAGS True env' info sz (fl OR ex))) env'"
  using assms by (simp add: ppc_event_args_def)

lemmas ppc_helper_defs =
  ppc_helper_qem_instld_trace_def ppc_helper_qem_datast_trace_direct_def
  ppc_helper_qem_datast_ex_trace_direct_def ppc_helper_qem_datald_trace_direct_def
  ppc_helper_qem_datald_ex_trace_direct_def ppc_helper_qem_datast_trace_def
  ppc_helper_qem_datast_ex_trace_def ppc_helper_qem_datast_ex_trace_trad_def
  ppc_helper_qem_datast_trace_trad_def ppc_helper_qem_datald_trace_def
  ppc_helper_qem_datald_ex_trace_def ppc_helper_qem_datald_trace_trad_def
  ppc_helper_qem_datald_ex_trace_trad_def ppc_helper_qem_dcache_flush_inval_def
  ppc_helper_qem_dcache_inval_def ppc_helper_qem_dcache_flush_def
  ppc_helper_qem_dcache_prefetch_non_inibited_def ppc_helper_qem_dcache_lock_def
  ppc_helper_qem_dcache_unlock_def ppc_helper_qem_icache_inval_def ppc_helper_qem_icache_flush_def
  ppc_helper_qem_icache_lock_def ppc_helper_qem_icache_unlock_def ppc_helper_qem_icbt_def
  ppc_helper_qem_dcbz_trace_trad_def ppc_helper_qem_flash_inval_icache_def
  ppc_helper_qem_flash_inval_dcache_def ppc_traced_def ppc_reg_def

text \<open>
  C16. In the metadata build every PowerPC helper, called for an operation of an enabled class
  whose address translates, hands the back end one record: the effective address (which wraps
  at 32 bits), the translated address, the core, the time stamp, and a flag word that is the
  classification of the operation together with the privilege level and the page's
  attributes.
\<close>

theorem ppc_helper_records:
  assumes "QEM_TRACE_GATHER_META (pf_cfg fr)" and "traced (ps_class (ppc_op_spec op)) s"
    and "list_all (\<lambda>r. r < length (gpr env)) (ps_regs (ppc_op_spec op))"
    and "ppc_op_translate op fr env = Done (phys, info) env'"
  shows "ppc_op_helper op emit fr (s, env) =
    with_state (emit (ppc_op_args op fr phys info env env') s) env'"
  using assms
  by (cases op)
     (simp_all add: ppc_helper_defs ppc_op_translate_def ppc_op_addr_def ppc_op_args_def access_spec_def
       cache_spec_def event_args_Done add.commute ppc_env_flags_of flags_of_def ppc_op_meta_def Let_def
       excl_of_def excl_flag_def ppc_flash_args_def or_rules)

definition demo_frame :: ppc_frame where
  "demo_frame = \<lparr>pf_cfg = default_config, pf_ctx = demo_ctx, pf_wt = 0, pf_tsc = (7, 0)\<rparr>"

definition demo_tracer :: tracer where
  "demo_tracer = \<lparr>console = [], qem_tracing_state = 1, qem_time_start = 0\<rparr>"

text \<open>A back end that keeps the physical address of the last record.\<close>

definition demo_emit :: "out_args \<Rightarrow> tracer \<Rightarrow> (unit, tracer) run" where
  "demo_emit a s = Done () (s\<lparr>qem_time_start := oa_phys_addr a\<rparr>)"

theorem ppc_helper_records_witness:
  "\<exists>env'. ppc_op_helper (P_Load 0x10000ABC 4) demo_emit demo_frame (demo_tracer, demo_ppc) =
     Done () (demo_tracer\<lparr>qem_time_start := 0x5ABC\<rparr>, env')"
proof -
  let ?r = "qem_ppc_get_info_addr_mem_trace default_config demo_ctx 0 0x10000ABC ACCESS_INT demo_ppc"
  from demo_ppc_lookup obtain info env' where d: "?r = Done (0x5ABC, info) env'" by (cases ?r) auto
  have "ppc_op_translate (P_Load 0x10000ABC 4) demo_frame demo_ppc = Done (0x5ABC, info) env'"
    using d by (simp add: ppc_op_translate_def ppc_op_addr_def access_spec_def demo_frame_def)
  from ppc_helper_records [OF _ _ _ this, of demo_tracer demo_emit]
  have "ppc_op_helper (P_Load 0x10000ABC 4) demo_emit demo_frame (demo_tracer, demo_ppc) =
      with_state (demo_emit (ppc_op_args (P_Load 0x10000ABC 4) demo_frame 0x5ABC info demo_ppc env') demo_tracer) env'"
    by (simp add: demo_frame_def default_config_def demo_tracer_def traced_def access_spec_def)
  then show ?thesis by (simp add: demo_emit_def ppc_op_args_def)
qed

text \<open>
  C33. A helper of a class that is not being traced does nothing: no translation, no record,
  no change of the processor or of the tracer.
\<close>

theorem ppc_helper_disabled:
  assumes "\<not> traced (ps_class (ppc_op_spec op)) (fst st)"
  shows "ppc_op_helper op emit fr st = Done () st"
  using assms
  by (cases op) (simp_all add: ppc_helper_defs access_spec_def cache_spec_def Let_def)

theorem ppc_helper_disabled_witness:
  "ppc_op_helper (P_Fetch 0x100 4) demo_emit demo_frame (demo_tracer, demo_ppc) = Done () (demo_tracer, demo_ppc)"
  by (rule ppc_helper_disabled) (simp add: access_spec_def traced_def demo_tracer_def)

end
