(* ===== verification/QEM_PPC_Translate.thy ===== *)
theory QEM_PPC_Translate
  imports QEM_PPC_Events QEM_TCG
begin

text \<open>
  The tracing code in QEMU's PowerPC translator (\<^verbatim>\<open>target/ppc/translate.c\<close> and
  \<^verbatim>\<open>target/ppc/mem_helper.c\<close>), for 32-bit targets, as generated code over the processor
  state of the MMU model.
\<close>

section \<open>Fields of an instruction\<close>

definition opc_field :: "nat \<Rightarrow> nat \<Rightarrow> u32 \<Rightarrow> nat" where
  "opc_field shift nb opcode = unat (drop_bit shift opcode AND mask nb)"

definition rD :: "u32 \<Rightarrow> nat" where "rD = opc_field 21 5"
definition rS :: "u32 \<Rightarrow> nat" where "rS = opc_field 21 5"
definition rA :: "u32 \<Rightarrow> nat" where "rA = opc_field 16 5"
definition rB :: "u32 \<Rightarrow> nat" where "rB = opc_field 11 5"
definition NB :: "u32 \<Rightarrow> nat" where "NB = opc_field 11 5"

definition SIMM :: "u32 \<Rightarrow> u32" where
  "SIMM opcode = signed_take_bit 15 opcode"

lemma opc_field_bound: "opc_field shift 5 opcode < 32"
proof -
  have "opc_field shift 5 opcode = take_bit 5 (unat (drop_bit shift opcode))"
    by (simp only: opc_field_def take_bit_eq_mask [symmetric] unsigned_take_bit_eq)
  then show ?thesis using take_bit_nat_less_exp [of 5] by simp
qed

lemma reg_bounds [simp]: "rD opcode < 32" "rS opcode < 32" "rA opcode < 32" "rB opcode < 32"
  by (simp_all add: rD_def rS_def rA_def rB_def opc_field_bound)

section \<open>Code\<close>

text \<open>
  The state of the generated code: the processor, the temporaries, the reservation, the
  condition and fixed-point exception registers, and the histories. \<open>Ld\<close> and \<open>St\<close> are guest
  memory accesses with address, size and, for a store, the value of its source; \<open>Cas\<close> is a
  compare-and-exchange, with the expected and the new value, and \<open>Zero\<close> clears a cache line in
  the memory of the host. A call of a tracing helper is kept with the effective address that the
  helper computes from the registers at that moment. \<open>host_ram\<close> tells for which addresses
  \<open>tlb_vaddr_to_host\<close> finds writable memory of the host.
\<close>

datatype guest_access = Ld u32 int | St u32 int u32 | Cas u32 int u32 u32 | Zero u32 int

datatype ppc_call = Trace ppc_op u32 | Start_trace u8 | Stop_trace u8 | Start_timer | Get_timer

record tcg_state = "(guest_access, ppc_call) tcg_log" +
  cpu :: ppc_env
  temps :: "nat \<Rightarrow> u32"
  reserve_addr :: u32
  reserve_val :: u32
  cr0 :: u32
  xer :: u32
  so :: u32
  dcache_line_size :: u32
  host_ram :: "u32 \<Rightarrow> bool"

datatype tcgv = Gpr nat | Tmp nat | Reserve | Reserve_val

fun tcg_get :: "tcgv \<Rightarrow> tcg_state \<Rightarrow> u32" where
  "tcg_get (Gpr r) s = gpr (cpu s) ! r"
| "tcg_get (Tmp k) s = temps s k"
| "tcg_get Reserve s = reserve_addr s"
| "tcg_get Reserve_val s = reserve_val s"

fun tcg_set :: "tcgv \<Rightarrow> u32 \<Rightarrow> tcg_state \<Rightarrow> tcg_state" where
  "tcg_set (Gpr r) v s = s\<lparr>cpu := (cpu s)\<lparr>gpr := (gpr (cpu s))[r := v]\<rparr>\<rparr>"
| "tcg_set (Tmp k) v s = s\<lparr>temps := (temps s)(k := v)\<rparr>"
| "tcg_set Reserve v s = s\<lparr>reserve_addr := v\<rparr>"
| "tcg_set Reserve_val v s = s\<lparr>reserve_val := v\<rparr>"

type_synonym ppc_code = "(u32, tcg_state) code"

definition tcg_gen_movi :: "tcgv \<Rightarrow> u32 \<Rightarrow> ppc_code" where
  "tcg_gen_movi v c bus s = Runs (tcg_set v c s)"

definition tcg_gen_mov :: "tcgv \<Rightarrow> tcgv \<Rightarrow> ppc_code" where
  "tcg_gen_mov v w bus s = Runs (tcg_set v (tcg_get w s) s)"

definition tcg_gen_addi :: "tcgv \<Rightarrow> tcgv \<Rightarrow> u32 \<Rightarrow> ppc_code" where
  "tcg_gen_addi v w c bus s = Runs (tcg_set v (tcg_get w s + c) s)"

definition tcg_gen_add :: "tcgv \<Rightarrow> tcgv \<Rightarrow> tcgv \<Rightarrow> ppc_code" where
  "tcg_gen_add v w x bus s = Runs (tcg_set v (tcg_get w s + tcg_get x s) s)"

definition tcg_gen_qemu_ld :: "tcgv \<Rightarrow> tcgv \<Rightarrow> int \<Rightarrow> ppc_code" where
  "tcg_gen_qemu_ld v addr sz bus s = on_bus (Ld (tcg_get addr s) sz) (tcg_set v) bus s"

definition tcg_gen_qemu_st :: "tcgv \<Rightarrow> tcgv \<Rightarrow> int \<Rightarrow> ppc_code" where
  "tcg_gen_qemu_st v addr sz bus s = on_bus (St (tcg_get addr s) sz (tcg_get v s)) (\<lambda>_. id) bus s"

definition gen_call :: "ppc_op \<Rightarrow> ppc_code" where
  "gen_call op bus s = Runs (s\<lparr>calls := calls s @ [Trace op (ppc_op_addr op (cpu s))]\<rparr>)"

section \<open>Calls of the helpers\<close>

definition ppc_gen_qem_instld_trace :: "u32 \<Rightarrow> int \<Rightarrow> ppc_code" where
  "ppc_gen_qem_instld_trace cur_eip sz = gen_call (P_Fetch cur_eip sz)"

definition gen_qem_datald_trace :: "u32 \<Rightarrow> nat \<Rightarrow> int \<Rightarrow> ppc_code" where
  "gen_qem_datald_trace simm reg sz = gen_call (P_LoadImm simm reg sz)"

definition gen_qem_datald_ex_trace :: "u32 \<Rightarrow> nat \<Rightarrow> int \<Rightarrow> ppc_code" where
  "gen_qem_datald_ex_trace simm reg sz = gen_call (P_LoadExImm simm reg sz)"

definition gen_qem_datald_trace_trad :: "nat \<Rightarrow> nat \<Rightarrow> int \<Rightarrow> ppc_code" where
  "gen_qem_datald_trace_trad reg0 reg1 sz = gen_call (P_LoadIdx reg0 reg1 sz)"

definition gen_qem_datald_ex_trace_trad :: "nat \<Rightarrow> nat \<Rightarrow> int \<Rightarrow> ppc_code" where
  "gen_qem_datald_ex_trace_trad reg0 reg1 sz = gen_call (P_LoadExIdx reg0 reg1 sz)"

definition gen_qem_datast_trace :: "u32 \<Rightarrow> nat \<Rightarrow> int \<Rightarrow> ppc_code" where
  "gen_qem_datast_trace simm reg sz = gen_call (P_StoreImm simm reg sz)"

definition gen_qem_datast_ex_trace :: "u32 \<Rightarrow> nat \<Rightarrow> int \<Rightarrow> ppc_code" where
  "gen_qem_datast_ex_trace simm reg sz = gen_call (P_StoreExImm simm reg sz)"

definition gen_qem_datast_trace_trad :: "nat \<Rightarrow> nat \<Rightarrow> int \<Rightarrow> ppc_code" where
  "gen_qem_datast_trace_trad reg0 reg1 sz = gen_call (P_StoreIdx reg0 reg1 sz)"

definition gen_qem_datast_ex_trace_trad :: "nat \<Rightarrow> nat \<Rightarrow> int \<Rightarrow> ppc_code" where
  "gen_qem_datast_ex_trace_trad reg0 reg1 sz = gen_call (P_StoreExIdx reg0 reg1 sz)"

definition gen_qem_dcbz_trace_trad :: "nat \<Rightarrow> nat \<Rightarrow> int \<Rightarrow> ppc_code" where
  "gen_qem_dcbz_trace_trad reg0 reg1 sz = gen_call (P_Dcbz reg0 reg1 sz)"

text \<open>
  The operations of the load and store macros that 32-bit targets have, with the byte count
  that the tracing function of the same name passes.
\<close>

datatype ldop = ld8u | ld16u | ld16s | ld32u | ld32s | ld16ur | ld32ur

datatype stop = st8 | st16 | st32 | st16r | st32r

fun ldop_size :: "ldop \<Rightarrow> int" where
  "ldop_size ld8u = 1" | "ldop_size ld16u = 2" | "ldop_size ld16s = 2" | "ldop_size ld32u = 4"
| "ldop_size ld32s = 4" | "ldop_size ld16ur = 2" | "ldop_size ld32ur = 4"

fun stop_size :: "stop \<Rightarrow> int" where
  "stop_size st8 = 1" | "stop_size st16 = 2" | "stop_size st32 = 4" | "stop_size st16r = 2"
| "stop_size st32r = 4"

fun gen_qem_datald_trace_ldop :: "ldop \<Rightarrow> u32 \<Rightarrow> nat \<Rightarrow> ppc_code" where
  "gen_qem_datald_trace_ldop ld8u simm reg = gen_qem_datald_trace simm reg 1"
| "gen_qem_datald_trace_ldop ld16u simm reg = gen_qem_datald_trace simm reg 2"
| "gen_qem_datald_trace_ldop ld16ur simm reg = gen_qem_datald_trace simm reg 2"
| "gen_qem_datald_trace_ldop ld16s simm reg = gen_qem_datald_trace simm reg 2"
| "gen_qem_datald_trace_ldop ld32u simm reg = gen_qem_datald_trace simm reg 4"
| "gen_qem_datald_trace_ldop ld32ur simm reg = gen_qem_datald_trace simm reg 4"
| "gen_qem_datald_trace_ldop ld32s simm reg = gen_qem_datald_trace simm reg 4"

fun gen_qem_datast_trace_stop :: "stop \<Rightarrow> u32 \<Rightarrow> nat \<Rightarrow> ppc_code" where
  "gen_qem_datast_trace_stop st8 simm reg = gen_qem_datast_trace simm reg 1"
| "gen_qem_datast_trace_stop st16 simm reg = gen_qem_datast_trace simm reg 2"
| "gen_qem_datast_trace_stop st16r simm reg = gen_qem_datast_trace simm reg 2"
| "gen_qem_datast_trace_stop st32 simm reg = gen_qem_datast_trace simm reg 4"
| "gen_qem_datast_trace_stop st32r simm reg = gen_qem_datast_trace simm reg 4"

section \<open>Effective addresses\<close>

text \<open>The part of \<open>DisasContext\<close> the functions below use.\<close>

record disas =
  opcode :: u32
  dis_pr :: bool
  le_mode :: bool

definition gen_addr_imm_index :: "disas \<Rightarrow> tcgv \<Rightarrow> u32 \<Rightarrow> ppc_code" where
  "gen_addr_imm_index ctx EA maskl =
     (let simm = SIMM (opcode ctx) AND NOT maskl
      in if rA (opcode ctx) = 0 then tcg_gen_movi EA simm
         else if simm \<noteq> 0 then tcg_gen_addi EA (Gpr (rA (opcode ctx))) simm
         else tcg_gen_mov EA (Gpr (rA (opcode ctx))))"

definition gen_addr_reg_index :: "disas \<Rightarrow> tcgv \<Rightarrow> ppc_code" where
  "gen_addr_reg_index ctx EA =
     (if rA (opcode ctx) = 0 then tcg_gen_mov EA (Gpr (rB (opcode ctx)))
      else tcg_gen_add EA (Gpr (rA (opcode ctx))) (Gpr (rB (opcode ctx))))"

definition gen_addr_register :: "disas \<Rightarrow> tcgv \<Rightarrow> ppc_code" where
  "gen_addr_register ctx EA =
     (if rA (opcode ctx) = 0 then tcg_gen_movi EA 0 else tcg_gen_mov EA (Gpr (rA (opcode ctx))))"

definition CHK_SV :: "disas \<Rightarrow> ppc_code \<Rightarrow> ppc_code" where
  "CHK_SV ctx rest = (if dis_pr ctx then raise_exception else rest)"

section \<open>Integer loads and stores\<close>

definition gen_qemu_ldop :: "ldop \<Rightarrow> disas \<Rightarrow> tcgv \<Rightarrow> tcgv \<Rightarrow> ppc_code" where
  "gen_qemu_ldop ldop ctx v addr = code_list
     [tcg_gen_qemu_ld v addr (ldop_size ldop),
      gen_qem_datald_trace_ldop ldop (SIMM (opcode ctx)) (rA (opcode ctx))]"

definition gen_qemu_qem_notrace_ld8u :: "disas \<Rightarrow> tcgv \<Rightarrow> tcgv \<Rightarrow> ppc_code" where
  "gen_qemu_qem_notrace_ld8u ctx v addr = tcg_gen_qemu_ld v addr 1"

definition gen_qemu_stop :: "stop \<Rightarrow> disas \<Rightarrow> tcgv \<Rightarrow> tcgv \<Rightarrow> ppc_code" where
  "gen_qemu_stop stop ctx v addr = code_list
     [tcg_gen_qemu_st v addr (stop_size stop),
      gen_qem_datast_trace_stop stop (SIMM (opcode ctx)) (rA (opcode ctx))]"

definition gen_qemu_qem_notrace_st8 :: "disas \<Rightarrow> tcgv \<Rightarrow> tcgv \<Rightarrow> ppc_code" where
  "gen_qemu_qem_notrace_st8 ctx v addr = tcg_gen_qemu_st v addr 1"

definition GEN_LD :: "ldop \<Rightarrow> disas \<Rightarrow> ppc_code" where
  "GEN_LD ldop ctx = code_list
     [gen_addr_imm_index ctx (Tmp 0) 0,
      gen_qemu_ldop ldop ctx (Gpr (rD (opcode ctx))) (Tmp 0)]"

definition GEN_LDU :: "ldop \<Rightarrow> disas \<Rightarrow> ppc_code" where
  "GEN_LDU ldop ctx =
     (if rA (opcode ctx) = 0 \<or> rA (opcode ctx) = rD (opcode ctx) then raise_exception
      else code_list
        [gen_addr_imm_index ctx (Tmp 0) 0,
         gen_qemu_ldop ldop ctx (Gpr (rD (opcode ctx))) (Tmp 0),
         tcg_gen_mov (Gpr (rA (opcode ctx))) (Tmp 0)])"

definition GEN_LDUX :: "ldop \<Rightarrow> disas \<Rightarrow> ppc_code" where
  "GEN_LDUX ldop ctx =
     (if rA (opcode ctx) = 0 \<or> rA (opcode ctx) = rD (opcode ctx) then raise_exception
      else code_list
        [gen_addr_reg_index ctx (Tmp 0),
         gen_qemu_ldop ldop ctx (Gpr (rD (opcode ctx))) (Tmp 0),
         tcg_gen_mov (Gpr (rA (opcode ctx))) (Tmp 0)])"

definition GEN_LDX :: "ldop \<Rightarrow> disas \<Rightarrow> ppc_code" where
  "GEN_LDX ldop ctx = code_list
     [gen_addr_reg_index ctx (Tmp 0),
      gen_qemu_ldop ldop ctx (Gpr (rD (opcode ctx))) (Tmp 0)]"

definition GEN_LDEPX :: "int \<Rightarrow> disas \<Rightarrow> ppc_code" where
  "GEN_LDEPX sz ctx = CHK_SV ctx (code_list
     [gen_addr_reg_index ctx (Tmp 0),
      tcg_gen_qemu_ld (Gpr (rD (opcode ctx))) (Tmp 0) sz])"

definition GEN_ST :: "stop \<Rightarrow> disas \<Rightarrow> ppc_code" where
  "GEN_ST stop ctx = code_list
     [gen_addr_imm_index ctx (Tmp 0) 0,
      gen_qemu_stop stop ctx (Gpr (rS (opcode ctx))) (Tmp 0)]"

definition GEN_STU :: "stop \<Rightarrow> disas \<Rightarrow> ppc_code" where
  "GEN_STU stop ctx =
     (if rA (opcode ctx) = 0 then raise_exception
      else code_list
        [gen_addr_imm_index ctx (Tmp 0) 0,
         gen_qemu_stop stop ctx (Gpr (rS (opcode ctx))) (Tmp 0),
         tcg_gen_mov (Gpr (rA (opcode ctx))) (Tmp 0)])"

definition GEN_STUX :: "stop \<Rightarrow> disas \<Rightarrow> ppc_code" where
  "GEN_STUX stop ctx =
     (if rA (opcode ctx) = 0 then raise_exception
      else code_list
        [gen_addr_reg_index ctx (Tmp 0),
         gen_qemu_stop stop ctx (Gpr (rS (opcode ctx))) (Tmp 0),
         tcg_gen_mov (Gpr (rA (opcode ctx))) (Tmp 0)])"

definition GEN_STX :: "stop \<Rightarrow> disas \<Rightarrow> ppc_code" where
  "GEN_STX stop ctx = code_list
     [gen_addr_reg_index ctx (Tmp 0),
      gen_qemu_stop stop ctx (Gpr (rS (opcode ctx))) (Tmp 0)]"

definition GEN_STEPX :: "int \<Rightarrow> disas \<Rightarrow> ppc_code" where
  "GEN_STEPX sz ctx = CHK_SV ctx (code_list
     [gen_addr_reg_index ctx (Tmp 0),
      tcg_gen_qemu_st (Gpr (rD (opcode ctx))) (Tmp 0) sz])"

section \<open>Load and store multiple and strings\<close>

text \<open>
  The helpers of these instructions access memory themselves and call the tracing helper
  with the address. Values are those of the guest: \<open>needs_byteswap\<close> turns them into the byte
  order of the target, in which the bus has them.
\<close>

definition cpu_ld :: "nat \<Rightarrow> u32 \<Rightarrow> int \<Rightarrow> ppc_code" where
  "cpu_ld reg addr sz = on_bus (Ld addr sz) (tcg_set (Gpr reg))"

definition cpu_st :: "(u32 \<Rightarrow> u32) \<Rightarrow> nat \<Rightarrow> u32 \<Rightarrow> int \<Rightarrow> ppc_code" where
  "cpu_st f reg addr sz bus s = on_bus (St addr sz (f (tcg_get (Gpr reg) s))) (\<lambda>_. id) bus s"

function helper_lmw :: "u32 \<Rightarrow> nat \<Rightarrow> ppc_code" where
  "helper_lmw addr reg =
     (if reg < 32 then code_list
        [cpu_ld reg addr 4, gen_call (P_Load addr 4), helper_lmw (addr + 4) (Suc reg)]
      else no_code)"
  by auto
termination by (relation "measure (\<lambda>(_, reg). 32 - reg)") auto

function helper_stmw :: "u32 \<Rightarrow> nat \<Rightarrow> ppc_code" where
  "helper_stmw addr reg =
     (if reg < 32 then code_list
        [cpu_st id reg addr 4, gen_call (P_Store addr 4), helper_stmw (addr + 4) (Suc reg)]
      else no_code)"
  by auto
termination by (relation "measure (\<lambda>(_, reg). 32 - reg)") auto

declare helper_lmw.simps [simp del] helper_stmw.simps [simp del]

fun lsw_bytes :: "nat \<Rightarrow> nat \<Rightarrow> u32 \<Rightarrow> nat \<Rightarrow> ppc_code" where
  "lsw_bytes 0 sh addr reg = no_code"
| "lsw_bytes (Suc nb) sh addr reg = code_list
     [on_bus (Ld addr 1) (\<lambda>v s. tcg_set (Gpr reg) (tcg_get (Gpr reg) s OR push_bit sh v) s),
      gen_call (P_Load addr 4), lsw_bytes nb (sh - 8) (addr + 1) reg]"

fun do_lsw :: "u32 \<Rightarrow> nat \<Rightarrow> nat \<Rightarrow> ppc_code" where
  "do_lsw addr nb reg =
     (if 3 < nb then code_list
        [cpu_ld reg addr 4, gen_call (P_Load addr 4), do_lsw (addr + 4) (nb - 4) ((reg + 1) mod 32)]
      else if 0 < nb then code_list
        [tcg_gen_movi (Gpr reg) 0, lsw_bytes nb 24 addr reg]
      else no_code)"

definition helper_lsw :: "u32 \<Rightarrow> nat \<Rightarrow> nat \<Rightarrow> ppc_code" where
  "helper_lsw = do_lsw"

definition lsw_reg_in_range :: "nat \<Rightarrow> nat \<Rightarrow> nat \<Rightarrow> bool" where
  "lsw_reg_in_range start nregs rx \<longleftrightarrow>
     (start + nregs \<le> 32 \<and> start \<le> rx \<and> rx < start + nregs) \<or>
     (32 < start + nregs \<and> (start \<le> rx \<or> rx < start + nregs - 32))"

definition xer_bc :: "tcg_state \<Rightarrow> nat" where
  "xer_bc s = unat (xer s AND 0x7F)"

definition helper_lswx :: "u32 \<Rightarrow> nat \<Rightarrow> nat \<Rightarrow> nat \<Rightarrow> ppc_code" where
  "helper_lswx addr reg ra rb bus s =
     (if xer_bc s \<noteq> 0 then
        let num_used_regs = (xer_bc s + 3) div 4
        in if ra \<noteq> 0 \<and> lsw_reg_in_range reg num_used_regs ra \<or> lsw_reg_in_range reg num_used_regs rb
           then raise_exception bus s
           else do_lsw addr (xer_bc s) reg bus s
      else Runs s)"

fun stsw_bytes :: "nat \<Rightarrow> nat \<Rightarrow> u32 \<Rightarrow> nat \<Rightarrow> ppc_code" where
  "stsw_bytes 0 sh addr reg = no_code"
| "stsw_bytes (Suc nb) sh addr reg = code_list
     [cpu_st (\<lambda>v. drop_bit sh v AND 0xFF) reg addr 1, gen_call (P_Store addr 4),
      stsw_bytes nb (sh - 8) (addr + 1) reg]"

fun helper_stsw :: "u32 \<Rightarrow> nat \<Rightarrow> nat \<Rightarrow> ppc_code" where
  "helper_stsw addr nb reg =
     (if 3 < nb then code_list
        [cpu_st id reg addr 4, gen_call (P_Store addr 4), helper_stsw (addr + 4) (nb - 4) ((reg + 1) mod 32)]
      else if 0 < nb then stsw_bytes nb 24 addr reg
      else no_code)"

declare do_lsw.simps [simp del] helper_stsw.simps [simp del]

text \<open>A helper called with the effective address in a temporary.\<close>

definition with_addr :: "tcgv \<Rightarrow> (u32 \<Rightarrow> ppc_code) \<Rightarrow> ppc_code" where
  "with_addr v f bus s = f (tcg_get v s) bus s"

definition gen_lmw :: "disas \<Rightarrow> ppc_code" where
  "gen_lmw ctx =
     (if le_mode ctx then raise_exception
      else code_list
        [gen_addr_imm_index ctx (Tmp 0) 0, with_addr (Tmp 0) (\<lambda>a. helper_lmw a (rD (opcode ctx)))])"

definition gen_stmw :: "disas \<Rightarrow> ppc_code" where
  "gen_stmw ctx =
     (if le_mode ctx then raise_exception
      else code_list
        [gen_addr_imm_index ctx (Tmp 0) 0, with_addr (Tmp 0) (\<lambda>a. helper_stmw a (rS (opcode ctx)))])"

definition gen_lswi :: "disas \<Rightarrow> ppc_code" where
  "gen_lswi ctx =
     (let nb = (if NB (opcode ctx) = 0 then 32 else NB (opcode ctx)); start = rD (opcode ctx)
      in if le_mode ctx \<or> lsw_reg_in_range start ((nb + 3) div 4) (rA (opcode ctx)) then raise_exception
         else code_list
           [gen_addr_register ctx (Tmp 0), with_addr (Tmp 0) (\<lambda>a. helper_lsw a nb start)])"

definition gen_lswx :: "disas \<Rightarrow> ppc_code" where
  "gen_lswx ctx =
     (if le_mode ctx then raise_exception
      else code_list
        [gen_addr_reg_index ctx (Tmp 0),
         with_addr (Tmp 0) (\<lambda>a. helper_lswx a (rD (opcode ctx)) (rA (opcode ctx)) (rB (opcode ctx)))])"

definition gen_stswi :: "disas \<Rightarrow> ppc_code" where
  "gen_stswi ctx =
     (let nb = (if NB (opcode ctx) = 0 then 32 else NB (opcode ctx))
      in if le_mode ctx then raise_exception
         else code_list
           [gen_addr_register ctx (Tmp 0), with_addr (Tmp 0) (\<lambda>a. helper_stsw a nb (rS (opcode ctx)))])"

definition gen_stswx :: "disas \<Rightarrow> ppc_code" where
  "gen_stswx ctx =
     (if le_mode ctx then raise_exception
      else code_list
        [gen_addr_reg_index ctx (Tmp 0),
         with_addr (Tmp 0) (\<lambda>a bus s. helper_stsw a (xer_bc s) (rS (opcode ctx)) bus s)])"

section \<open>Reservations\<close>

definition gen_load_locked :: "int \<Rightarrow> disas \<Rightarrow> ppc_code" where
  "gen_load_locked sz ctx = code_list
     [gen_addr_reg_index ctx (Tmp 0),
      tcg_gen_qemu_ld (Gpr (rD (opcode ctx))) (Tmp 0) sz,
      tcg_gen_mov Reserve (Tmp 0),
      tcg_gen_mov Reserve_val (Gpr (rD (opcode ctx))),
      gen_qem_datald_ex_trace_trad (rA (opcode ctx)) (rB (opcode ctx)) sz]"

definition tcg_gen_atomic_cmpxchg :: "tcgv \<Rightarrow> tcgv \<Rightarrow> tcgv \<Rightarrow> tcgv \<Rightarrow> int \<Rightarrow> ppc_code" where
  "tcg_gen_atomic_cmpxchg v addr cmp new sz bus s =
     on_bus (Cas (tcg_get addr s) sz (tcg_get cmp s) (tcg_get new s)) (tcg_set v) bus s"

definition set_cr0 :: "(tcg_state \<Rightarrow> u32) \<Rightarrow> ppc_code" where
  "set_cr0 f bus s = Runs (s\<lparr>cr0 := f s\<rparr>)"

definition gen_conditional_store :: "int \<Rightarrow> disas \<Rightarrow> ppc_code" where
  "gen_conditional_store sz ctx = code_list
     [gen_addr_reg_index ctx (Tmp 0),
      code_if (\<lambda>s. tcg_get (Tmp 0) s \<noteq> tcg_get Reserve s)
        (set_cr0 so)
        (code_list
          [tcg_gen_atomic_cmpxchg (Tmp 0) Reserve Reserve_val (Gpr (rS (opcode ctx))) sz,
           set_cr0 (\<lambda>s. (if tcg_get (Tmp 0) s = tcg_get Reserve_val s then 2 else 0) OR so s),
           gen_qem_datast_ex_trace_trad (rA (opcode ctx)) (rB (opcode ctx)) sz]),
      tcg_gen_movi Reserve (- 1)]"

section \<open>Cache management\<close>

text \<open>The call of a cache helper with the two address registers, the level field and the line granularity.\<close>

definition cache_call :: "(nat \<Rightarrow> nat \<Rightarrow> int \<Rightarrow> QEM_TRACE_GRANULARITY_E \<Rightarrow> ppc_op) \<Rightarrow> disas \<Rightarrow> ppc_code" where
  "cache_call f ctx =
     gen_call (f (rA (opcode ctx)) (rB (opcode ctx)) (int (rS (opcode ctx))) QEM_TRACE_GRANULARITY_LINE)"

definition gen_dcbf :: "disas \<Rightarrow> ppc_code" where
  "gen_dcbf ctx = code_list
     [gen_addr_reg_index ctx (Tmp 0), gen_qemu_qem_notrace_ld8u ctx (Tmp 0) (Tmp 0),
      cache_call P_DFlushInval ctx]"

definition gen_dcbfep :: "disas \<Rightarrow> ppc_code" where
  "gen_dcbfep ctx = CHK_SV ctx (code_list
     [gen_addr_reg_index ctx (Tmp 0), tcg_gen_qemu_ld (Tmp 0) (Tmp 0) 1,
      cache_call P_DFlushInval ctx])"

definition gen_dcbi :: "disas \<Rightarrow> ppc_code" where
  "gen_dcbi ctx = CHK_SV ctx (code_list
     [gen_addr_reg_index ctx (Tmp 0), gen_qemu_qem_notrace_ld8u ctx (Tmp 1) (Tmp 0),
      gen_qemu_qem_notrace_st8 ctx (Tmp 1) (Tmp 0), cache_call P_DInval ctx])"

definition gen_dcbst :: "disas \<Rightarrow> ppc_code" where
  "gen_dcbst ctx = code_list
     [gen_addr_reg_index ctx (Tmp 0), gen_qemu_qem_notrace_ld8u ctx (Tmp 0) (Tmp 0),
      cache_call P_DFlushInval ctx]"

definition gen_dcbstep :: "disas \<Rightarrow> ppc_code" where
  "gen_dcbstep ctx = code_list
     [gen_addr_reg_index ctx (Tmp 0), tcg_gen_qemu_ld (Tmp 0) (Tmp 0) 1,
      cache_call P_DFlushInval ctx]"

definition gen_dcbt :: "disas \<Rightarrow> ppc_code" where
  "gen_dcbt ctx = cache_call (\<lambda>r q l g. P_DPrefetch r q l g 0) ctx"

definition gen_dcbtep :: "disas \<Rightarrow> ppc_code" where
  "gen_dcbtep ctx = cache_call (\<lambda>r q l g. P_DPrefetch r q l g 0) ctx"

definition gen_dcbtst :: "disas \<Rightarrow> ppc_code" where
  "gen_dcbtst ctx = cache_call (\<lambda>r q l g. P_DPrefetch r q l g 1) ctx"

definition gen_dcbtstep :: "disas \<Rightarrow> ppc_code" where
  "gen_dcbtstep ctx = cache_call (\<lambda>r q l g. P_DPrefetch r q l g 1) ctx"

definition gen_dcbtls :: "disas \<Rightarrow> ppc_code" where
  "gen_dcbtls ctx = code_list
     [\<lambda>bus s. Runs (s\<lparr>cpu := (cpu s)\<lparr>spr := (spr (cpu s))(SPR_Exxx_L1CSR0 :=
        spr (cpu s) SPR_Exxx_L1CSR0 OR 0x400)\<rparr>\<rparr>),
      cache_call (\<lambda>r q l g. P_DLock r q l g 0) ctx]"

definition gen_dcbtstls :: "disas \<Rightarrow> ppc_code" where
  "gen_dcbtstls ctx = cache_call (\<lambda>r q l g. P_DLock r q l g 1) ctx"

definition gen_dcblc :: "disas \<Rightarrow> ppc_code" where
  "gen_dcblc ctx = cache_call P_DUnlock ctx"

definition gen_icbtls :: "disas \<Rightarrow> ppc_code" where
  "gen_icbtls ctx = cache_call (\<lambda>r q l g. P_ILock r q l g 0) ctx"

definition gen_icblc :: "disas \<Rightarrow> ppc_code" where
  "gen_icblc ctx = cache_call P_IUnlock ctx"

text \<open>The slow path of zeroing a line: \<open>n\<close> stores of 8 bytes, each of which may fault.\<close>

fun dcbz_slow :: "u32 \<Rightarrow> nat \<Rightarrow> ppc_code" where
  "dcbz_slow addr 0 = no_code"
| "dcbz_slow addr (Suc n) = code_list [on_bus (St addr 8 0) (\<lambda>_. id), dcbz_slow (addr + 8) n]"

definition dcbz_common :: "u32 \<Rightarrow> ppc_code" where
  "dcbz_common addr bus s =
     (let line = NOT (dcache_line_size s - 1); addr = addr AND line;
          s = (if reserve_addr s AND line = addr AND line then s\<lparr>reserve_addr := - 1\<rparr> else s)
      in if host_ram s addr
         then Runs (s\<lparr>accesses := accesses s @ [Zero addr (int (unat (dcache_line_size s)))]\<rparr>)
         else dcbz_slow addr ((unat (dcache_line_size s) + 7) div 8) bus s)"

definition gen_dcbz :: "disas \<Rightarrow> ppc_code" where
  "gen_dcbz ctx = code_list
     [gen_addr_reg_index ctx (Tmp 0), with_addr (Tmp 0) dcbz_common,
      gen_qem_dcbz_trace_trad (rA (opcode ctx)) (rB (opcode ctx)) 1]"

definition gen_dcbzep :: "disas \<Rightarrow> ppc_code" where
  "gen_dcbzep ctx = code_list
     [gen_addr_reg_index ctx (Tmp 0), with_addr (Tmp 0) dcbz_common,
      gen_qem_dcbz_trace_trad (rA (opcode ctx)) (rB (opcode ctx)) 1]"

definition helper_icbi :: "u32 \<Rightarrow> ppc_code" where
  "helper_icbi addr bus s = on_bus (Ld (addr AND NOT (dcache_line_size s - 1)) 4) (\<lambda>_. id) bus s"

definition gen_icbi :: "disas \<Rightarrow> ppc_code" where
  "gen_icbi ctx = code_list
     [gen_addr_reg_index ctx (Tmp 0), with_addr (Tmp 0) helper_icbi, cache_call P_IInval ctx]"

definition gen_icbiep :: "disas \<Rightarrow> ppc_code" where
  "gen_icbiep ctx = code_list
     [gen_addr_reg_index ctx (Tmp 0), with_addr (Tmp 0) helper_icbi, cache_call P_IInval ctx]"

definition gen_dcba :: "disas \<Rightarrow> ppc_code" where
  "gen_dcba ctx = gen_qem_datast_trace_trad (rA (opcode ctx)) (rB (opcode ctx)) 1"

definition gen_clf :: "disas \<Rightarrow> ppc_code" where
  "gen_clf ctx = code_list [cache_call (\<lambda>r q l g. P_DFlush r q l g 0) ctx, cache_call P_IFlush ctx]"

definition gen_cli :: "disas \<Rightarrow> ppc_code" where
  "gen_cli ctx = code_list [cache_call P_DInval ctx, cache_call P_IInval ctx, CHK_SV ctx no_code]"

definition gen_dclst :: "disas \<Rightarrow> ppc_code" where
  "gen_dclst ctx = gen_qem_datast_trace_trad (rA (opcode ctx)) (rB (opcode ctx)) 1"

definition gen_dccci :: "disas \<Rightarrow> ppc_code" where
  "gen_dccci ctx = CHK_SV ctx no_code"

definition gen_dcread :: "disas \<Rightarrow> ppc_code" where
  "gen_dcread ctx = CHK_SV ctx (code_list
     [gen_addr_reg_index ctx (Tmp 0), gen_qemu_ldop ld32u ctx (Tmp 1) (Tmp 0),
      tcg_gen_mov (Gpr (rD (opcode ctx))) (Tmp 0)])"

text \<open>The helper of the following instructions does nothing unless the level field is 1.\<close>

definition gen_icbt_40x :: "disas \<Rightarrow> ppc_code" where
  "gen_icbt_40x ctx =
     (if rS (opcode ctx) = 1 then gen_call (P_Icbt (rA (opcode ctx)) (rB (opcode ctx))) else no_code)"

definition gen_iccci :: "disas \<Rightarrow> ppc_code" where
  "gen_iccci ctx = CHK_SV ctx (code_list
     [gen_call (P_DInval (rA (opcode ctx)) (rB (opcode ctx)) (int (rS (opcode ctx))) QEM_TRACE_GRANULARITY_SET),
      gen_call (P_IInval (rA (opcode ctx)) (rB (opcode ctx)) (int (rS (opcode ctx))) QEM_TRACE_GRANULARITY_SET)])"

definition gen_icread :: "disas \<Rightarrow> ppc_code" where
  "gen_icread ctx = CHK_SV ctx no_code"

definition gen_icbt_440 :: "disas \<Rightarrow> ppc_code" where
  "gen_icbt_440 ctx =
     (if rS (opcode ctx) = 1 then gen_call (P_Icbt (rA (opcode ctx)) (rB (opcode ctx))) else no_code)"

section \<open>Translation of an instruction\<close>

text \<open>
  The commands of the tracer are opcodes of their own. Every other opcode goes to the handler
  of the table that QEMU builds for the processor model; the table is an argument.
\<close>

definition custom_inst :: "u32 \<Rightarrow> ppc_code option" where
  "custom_inst opc =
     (if opc = QEM_TRACE_START_OP then Some (gen_command (Start_trace (ttype_val QEM_TRACE_ALLTRACE)))
      else if opc = QEM_TRACE_DSTART_OP then Some (gen_command (Start_trace (ttype_val QEM_TRACE_DTRACE)))
      else if opc = QEM_TRACE_ISTART_OP then Some (gen_command (Start_trace (ttype_val QEM_TRACE_ITRACE)))
      else if opc = QEM_TRACE_STOP_OP then Some (gen_command (Stop_trace (ttype_val QEM_TRACE_ALLTRACE)))
      else if opc = QEM_TRACE_DSTOP_OP then Some (gen_command (Stop_trace (ttype_val QEM_TRACE_DTRACE)))
      else if opc = QEM_TRACE_ISTOP_OP then Some (gen_command (Stop_trace (ttype_val QEM_TRACE_ITRACE)))
      else if opc = QEM_TRACE_START_TIMER_OP then Some (gen_command Start_timer)
      else if opc = QEM_TRACE_GET_TIMER_OP then Some (gen_command Get_timer)
      else if opc = QEM_TRACE_FLASH_INV_INST_OP then Some (gen_call P_FlashI)
      else if opc = QEM_TRACE_FLASH_INV_DATA_OP then Some (gen_call P_FlashD)
      else None)"

record opc_handler =
  inval1 :: u32
  inval2 :: u32
  is_spe :: bool
  is_gen_invalid :: bool
  handler :: "disas \<Rightarrow> ppc_code"

definition Rc :: "u32 \<Rightarrow> nat" where "Rc = opc_field 0 1"

definition ppc_tr_translate_insn :: "(u32 \<Rightarrow> opc_handler) \<Rightarrow> u32 \<Rightarrow> disas \<Rightarrow> ppc_code" where
  "ppc_tr_translate_insn opcodes pc_next ctx = code_list
     [ppc_gen_qem_instld_trace pc_next 4,
      (case custom_inst (opcode ctx) of
         Some c \<Rightarrow> c
       | None \<Rightarrow>
           let h = opcodes (opcode ctx);
               inval = (if is_spe h \<and> Rc (opcode ctx) \<noteq> 0 then inval2 h else inval1 h)
           in if \<not> is_gen_invalid h \<and> opcode ctx AND inval \<noteq> 0 then raise_exception
              else handler h ctx)]"

end
