(* ===== verification/QEM_PPC_Hooks.thy ===== *)
theory QEM_PPC_Hooks
  imports QEM_PPC_Translate
begin

text \<open>
  What the trace of a PowerPC instruction says, compared with what the instruction does:
  integer loads and stores, multiple and string accesses, reservations, cache instructions and
  the opcodes of the tracer.
\<close>

section \<open>The trace and the accesses\<close>

text \<open>
  A call of a tracing helper describes an access: same address, size and direction, recorded as
  an access to data, and with the exclusive mark \<open>ex\<close>, which tells whether the accesses are those
  of a reservation.
\<close>

definition describes :: "bool \<Rightarrow> ppc_op \<Rightarrow> int \<Rightarrow> QEM_TRACE_ACCESS_TYPE_E \<Rightarrow> bool" where
  "describes ex op n a \<longleftrightarrow>
     (let p = ppc_op_spec op
      in ps_class p = QEM_TRACE_DTRACE \<and> ps_data p = QEM_TRACE_DATA_TYPE_DATA \<and> ps_event p = Ev_Access \<and>
         ps_size p = n \<and> ps_access p = a \<and> ps_excl p = excl_of ex)"

fun call_matches :: "bool \<Rightarrow> ppc_call \<Rightarrow> guest_access \<Rightarrow> bool" where
  "call_matches ex (Trace op addr) (Ld a n) \<longleftrightarrow> addr = a \<and> describes ex op n QEM_TRACE_ACCESS_TYPE_READ"
| "call_matches ex (Trace op addr) (St a n v) \<longleftrightarrow> addr = a \<and> describes ex op n QEM_TRACE_ACCESS_TYPE_WRITE"
| "call_matches ex (Trace op addr) (Cas a n e v) \<longleftrightarrow> addr = a \<and> describes ex op n QEM_TRACE_ACCESS_TYPE_WRITE"
| "call_matches _ _ _ \<longleftrightarrow> False"

definition traced_exactly :: "tcg_state \<Rightarrow> tcg_state emitted \<Rightarrow> bool" where
  "traced_exactly = exactly (call_matches False)"

definition reserved_exactly :: "tcg_state \<Rightarrow> tcg_state emitted \<Rightarrow> bool" where
  "reserved_exactly = exactly (call_matches True)"

lemma describes_ops [simp]:
  "describes ex (P_Load x m) n a \<longleftrightarrow> \<not> ex \<and> m = n \<and> a = QEM_TRACE_ACCESS_TYPE_READ"
  "describes ex (P_Store x m) n a \<longleftrightarrow> \<not> ex \<and> m = n \<and> a = QEM_TRACE_ACCESS_TYPE_WRITE"
  "describes ex (P_LoadImm i r m) n a \<longleftrightarrow> \<not> ex \<and> m = n \<and> a = QEM_TRACE_ACCESS_TYPE_READ"
  "describes ex (P_StoreImm i r m) n a \<longleftrightarrow> \<not> ex \<and> m = n \<and> a = QEM_TRACE_ACCESS_TYPE_WRITE"
  "describes ex (P_LoadExIdx r q m) n a \<longleftrightarrow> ex \<and> m = n \<and> a = QEM_TRACE_ACCESS_TYPE_READ"
  "describes ex (P_StoreExIdx r q m) n a \<longleftrightarrow> ex \<and> m = n \<and> a = QEM_TRACE_ACCESS_TYPE_WRITE"
  by (auto simp: describes_def access_spec_def excl_of_def)

text \<open>The integer loads and stores with one access.\<close>

datatype ppc_insn =
    I_ld ldop | I_ldu ldop | I_ldx ldop | I_ldux ldop
  | I_st stop | I_stu stop | I_stx stop | I_stux stop

fun gen_insn :: "ppc_insn \<Rightarrow> disas \<Rightarrow> ppc_code" where
  "gen_insn (I_ld l) = GEN_LD l"
| "gen_insn (I_ldu l) = GEN_LDU l"
| "gen_insn (I_ldx l) = GEN_LDX l"
| "gen_insn (I_ldux l) = GEN_LDUX l"
| "gen_insn (I_st t) = GEN_ST t"
| "gen_insn (I_stu t) = GEN_STU t"
| "gen_insn (I_stx t) = GEN_STX t"
| "gen_insn (I_stux t) = GEN_STUX t"

fun is_load :: "ppc_insn \<Rightarrow> bool" where
  "is_load (I_ld l) = True" | "is_load (I_ldu l) = True" | "is_load (I_ldx l) = True"
| "is_load (I_ldux l) = True" | "is_load _ = False"

fun is_indexed :: "ppc_insn \<Rightarrow> bool" where
  "is_indexed (I_ldx l) = True" | "is_indexed (I_ldux l) = True" | "is_indexed (I_stx t) = True"
| "is_indexed (I_stux t) = True" | "is_indexed _ = False"

fun is_update :: "ppc_insn \<Rightarrow> bool" where
  "is_update (I_ldu l) = True" | "is_update (I_ldux l) = True" | "is_update (I_stu t) = True"
| "is_update (I_stux t) = True" | "is_update _ = False"

fun insn_size :: "ppc_insn \<Rightarrow> int" where
  "insn_size (I_ld l) = ldop_size l" | "insn_size (I_ldu l) = ldop_size l"
| "insn_size (I_ldx l) = ldop_size l" | "insn_size (I_ldux l) = ldop_size l"
| "insn_size (I_st t) = stop_size t" | "insn_size (I_stu t) = stop_size t"
| "insn_size (I_stx t) = stop_size t" | "insn_size (I_stux t) = stop_size t"

text \<open>The effective address, the forms the architecture forbids, and the traced address.\<close>

definition insn_addr :: "ppc_insn \<Rightarrow> u32 \<Rightarrow> u32 list \<Rightarrow> u32" where
  "insn_addr i opc rs =
     (if rA opc = 0 then 0 else rs ! rA opc) + (if is_indexed i then rs ! rB opc else SIMM opc)"

definition insn_invalid :: "ppc_insn \<Rightarrow> u32 \<Rightarrow> bool" where
  "insn_invalid i opc \<longleftrightarrow> is_update i \<and> (rA opc = 0 \<or> is_load i \<and> rA opc = rD opc)"

definition insn_traced_addr :: "ppc_insn \<Rightarrow> u32 \<Rightarrow> u32 list \<Rightarrow> u32 \<Rightarrow> u32" where
  "insn_traced_addr i opc rs v = (if is_load i \<and> rA opc = rD opc then v else rs ! rA opc) + SIMM opc"

lemma datald_trace_ldop [simp]:
  "gen_qem_datald_trace_ldop l simm reg = gen_call (P_LoadImm simm reg (ldop_size l))"
  by (cases l) (simp_all add: gen_qem_datald_trace_def)

lemma datast_trace_stop [simp]:
  "gen_qem_datast_trace_stop t simm reg = gen_call (P_StoreImm simm reg (stop_size t))"
  by (cases t) (simp_all add: gen_qem_datast_trace_def)

lemma addr_code [simp]:
  "gen_addr_imm_index ctx (Tmp k) 0 bus s =
     Runs (s\<lparr>temps := (temps s)(k := (if rA (opcode ctx) = 0 then 0 else gpr (cpu s) ! rA (opcode ctx)) + SIMM (opcode ctx))\<rparr>)"
  "gen_addr_reg_index ctx (Tmp k) bus s =
     Runs (s\<lparr>temps := (temps s)(k := (if rA (opcode ctx) = 0 then 0 else gpr (cpu s) ! rA (opcode ctx)) + gpr (cpu s) ! rB (opcode ctx))\<rparr>)"
  "gen_addr_register ctx (Tmp k) bus s =
     Runs (s\<lparr>temps := (temps s)(k := (if rA (opcode ctx) = 0 then 0 else gpr (cpu s) ! rA (opcode ctx)))\<rparr>)"
  by (simp_all add: gen_addr_imm_index_def gen_addr_reg_index_def gen_addr_register_def Let_def
      tcg_gen_movi_def tcg_gen_addi_def tcg_gen_mov_def tcg_gen_add_def)

lemmas code_defs = gen_qemu_ldop_def gen_qemu_stop_def tcg_gen_qemu_ld_def tcg_gen_qemu_st_def
  on_bus_def gen_call_def tcg_gen_mov_def raise_exception_def

lemmas form_defs = GEN_LD_def GEN_LDU_def GEN_LDX_def GEN_LDUX_def GEN_ST_def GEN_STU_def GEN_STX_def
  GEN_STUX_def

lemma insn_result:
  assumes "length (gpr (cpu s)) = 32"
  shows "accesses_from s (gen_insn i ctx bus s) =
      (if insn_invalid i (opcode ctx) \<or> bus (length (accesses s)) = None then []
       else [if is_load i then Ld (insn_addr i (opcode ctx) (gpr (cpu s))) (insn_size i)
         else St (insn_addr i (opcode ctx) (gpr (cpu s))) (insn_size i) (gpr (cpu s) ! rS (opcode ctx))])"
    and "calls_from s (gen_insn i ctx bus s) =
      (if insn_invalid i (opcode ctx) \<or> bus (length (accesses s)) = None then []
       else [Trace ((if is_load i then P_LoadImm else P_StoreImm) (SIMM (opcode ctx)) (rA (opcode ctx)) (insn_size i))
         (insn_traced_addr i (opcode ctx) (gpr (cpu s)) (the (bus (length (accesses s)))))])"
  using assms
  by (cases i; simp add: accesses_from_def calls_from_def form_defs code_defs insn_invalid_def insn_addr_def
      insn_traced_addr_def ppc_op_addr_def access_spec_def split: option.splits)+

text \<open>
  C11. What the trace of a PowerPC integer load or store says, against what the instruction
  does. The trace is exact if and only if no access was made or the traced address is the
  effective one: for the forms with an immediate this is so when rA is not 0 and, for a load
  without update, rA is not the target register; the call comes after the access and reads
  the registers again, so a load into rA is traced at the loaded value plus the immediate, and
  with rA = 0 the contents of register 0 are added. The indexed forms are traced with the low
  half of the opcode in place of rB.
\<close>

theorem ppc_trace_exact_iff:
  assumes "length (gpr (cpu s)) = 32"
  shows "traced_exactly s (gen_insn i ctx bus s) \<longleftrightarrow>
    insn_invalid i (opcode ctx) \<or> bus (length (accesses s)) = None \<or>
    (if is_load i \<and> rA (opcode ctx) = rD (opcode ctx) then the (bus (length (accesses s)))
     else gpr (cpu s) ! rA (opcode ctx)) + SIMM (opcode ctx) =
    (if rA (opcode ctx) = 0 then 0 else gpr (cpu s) ! rA (opcode ctx)) +
    (if is_indexed i then gpr (cpu s) ! rB (opcode ctx) else SIMM (opcode ctx))"
  unfolding traced_exactly_def exactly_def insn_result [OF assms]
  by (auto simp: insn_traced_addr_def insn_addr_def access_spec_def)

text \<open>A small guest: all registers are 0 and every access delivers 7.\<close>

definition demo_tcg :: tcg_state where
  "demo_tcg = \<lparr>accesses = [], calls = [], cpu = demo_ppc, temps = (\<lambda>_. 0), reserve_addr = 0, reserve_val = 0, cr0 = 0, xer = 0,
     so = 0, dcache_line_size = 32, host_ram = (\<lambda>_. True)\<rparr>"

theorem ppc_trace_exact_iff_witness:
  "traced_exactly demo_tcg (gen_insn (I_ld ld32u) \<lparr>opcode = 0x80640008, dis_pr = False, le_mode = False\<rparr>
     (\<lambda>_. Some 7) demo_tcg) \<and>
   \<not> traced_exactly demo_tcg (gen_insn (I_ld ld32u) \<lparr>opcode = 0x80840008, dis_pr = False, le_mode = False\<rparr>
     (\<lambda>_. Some 7) demo_tcg) \<and>
   \<not> traced_exactly demo_tcg (gen_insn (I_ldx ld32u) \<lparr>opcode = 0x7C64282E, dis_pr = False, le_mode = False\<rparr>
     (\<lambda>_. Some 7) demo_tcg)"
proof -
  have len: "length (gpr (cpu demo_tcg)) = 32" by (simp add: demo_tcg_def demo_ppc_def)
  have regs: "gpr (cpu demo_tcg) ! r = 0" if "r < 32" for r using that by (simp add: demo_tcg_def demo_ppc_def)
  have fields: "rA 0x80640008 = 4" "rD 0x80640008 = 3" "rA 0x80840008 = 4" "rD 0x80840008 = 4"
    "rA 0x7C64282E = 4" "rB 0x7C64282E = 5" "rD 0x7C64282E = 3" "SIMM 0x7C64282E = 0x282E"
    by code_simp+
  show ?thesis
    by (simp add: ppc_trace_exact_iff [OF len] fields regs insn_invalid_def del: gen_insn.simps)
qed

section \<open>Several accesses\<close>

lemma exact_pair:
  "exact_code (call_matches False) (code_list [cpu_ld reg addr 4, gen_call (P_Load addr 4)])"
  "exact_code (call_matches False) (code_list [cpu_st f reg addr 4, gen_call (P_Store addr 4)])"
  by (auto simp: exact_code_def cpu_ld_def cpu_st_def on_bus_def gen_call_def ppc_op_addr_def access_spec_def
      split: option.splits)

lemma exact_lmw: "exact_code (call_matches False) (helper_lmw addr reg)"
proof (induction addr reg rule: helper_lmw.induct)
  case (1 addr reg)
  then show ?case
    by (subst helper_lmw.simps) (auto simp: code_list_then(2) intro!: exact_then exact_pair simp del: code_list_simps)
qed

lemma exact_stmw: "exact_code (call_matches False) (helper_stmw addr reg)"
proof (induction addr reg rule: helper_stmw.induct)
  case (1 addr reg)
  then show ?case
    by (subst helper_stmw.simps) (auto simp: code_list_then(2) intro!: exact_then exact_pair simp del: code_list_simps)
qed

lemma exact_with_addr:
  assumes "\<And>a. exact_code (call_matches False) (f a)"
  shows "exact_code (call_matches False) (code_list [gen_addr_imm_index ctx (Tmp 0) 0, with_addr (Tmp 0) f])"
proof -
  have "exact_code (call_matches False) (gen_addr_imm_index ctx (Tmp 0) 0)" by (simp add: exact_code_def)
  moreover have "exact_code (call_matches False) (with_addr (Tmp 0) f)" using assms by (simp add: exact_code_def with_addr_def)
  ultimately show ?thesis by (simp only: exact_then code_list_then(1))
qed

text \<open>
  C12. Load and store multiple are traced exactly: one record per word, with its address, size
  and direction, in the order of the accesses, also when an access in the middle faults and
  for every choice of registers, because their helpers trace the address itself.
\<close>

theorem ppc_multiple_exact:
  "traced_exactly s (gen_lmw ctx bus s) \<and> traced_exactly s (gen_stmw ctx bus s)"
  unfolding traced_exactly_def
proof (intro conjI exact_codeD)
  show "exact_code (call_matches False) (gen_lmw ctx)"
    unfolding gen_lmw_def by (cases "le_mode ctx") (simp_all only: if_True if_False exact_raise exact_with_addr exact_lmw)
  show "exact_code (call_matches False) (gen_stmw ctx)"
    unfolding gen_stmw_def by (cases "le_mode ctx") (simp_all only: if_True if_False exact_raise exact_with_addr exact_stmw)
qed

text \<open>
  The string helpers: what they have called and accessed when they run to the end. Every
  record has size 4, also those of the bytes at the end.
\<close>

definition string_result :: "nat \<Rightarrow> tcg_state \<Rightarrow> tcg_state \<Rightarrow> bool" where
  "string_result nb s t \<longleftrightarrow> (\<exists>cl al. calls t = calls s @ cl \<and> accesses t = accesses s @ al \<and>
     (list_all2 (call_matches False) cl al \<longleftrightarrow> nb mod 4 = 0))"

lemma lsw_bytes_runs:
  assumes "lsw_bytes nb sh addr reg bus s = Runs t"
  shows "\<exists>cl al. calls t = calls s @ cl \<and> accesses t = accesses s @ al \<and>
    (list_all2 (call_matches False) cl al \<longleftrightarrow> nb = 0)"
  using assms
proof (induction nb sh addr reg arbitrary: s rule: lsw_bytes.induct)
  case (1 sh addr reg)
  then show ?case by (simp add: no_code_def)
next
  case (2 nb sh addr reg)
  let ?v = "the (bus (length (accesses s)))"
  obtain u where u: "lsw_bytes nb (sh - 8) (addr + 1) reg bus u = Runs t"
    "calls u = calls s @ [Trace (P_Load addr 4) addr]" "accesses u = accesses s @ [Ld addr 1]"
    using 2(2) by (auto simp: on_bus_def gen_call_def ppc_op_addr_def access_spec_def split: option.splits emitted.splits)
  obtain cl al where "calls t = calls u @ cl" "accesses t = accesses u @ al" using 2(1) [OF u(1)] by blast
  then show ?case
    using u(2,3) by (intro exI [of _ "Trace (P_Load addr 4) addr # cl"] exI [of _ "Ld addr 1 # al"])
      (simp add: access_spec_def)
qed

lemma stsw_bytes_runs:
  assumes "stsw_bytes nb sh addr reg bus s = Runs t"
  shows "\<exists>cl al. calls t = calls s @ cl \<and> accesses t = accesses s @ al \<and>
    (list_all2 (call_matches False) cl al \<longleftrightarrow> nb = 0)"
  using assms
proof (induction nb sh addr reg arbitrary: s rule: stsw_bytes.induct)
  case (1 sh addr reg)
  then show ?case by (simp add: no_code_def)
next
  case (2 nb sh addr reg)
  obtain u v where u: "stsw_bytes nb (sh - 8) (addr + 1) reg bus u = Runs t"
    "calls u = calls s @ [Trace (P_Store addr 4) addr]" "accesses u = accesses s @ [St addr 1 v]"
    using 2(2) by (auto simp: cpu_st_def on_bus_def gen_call_def ppc_op_addr_def access_spec_def
        split: option.splits emitted.splits)
  obtain cl al where "calls t = calls u @ cl" "accesses t = accesses u @ al" using 2(1) [OF u(1)] by blast
  then show ?case
    using u(2,3) by (intro exI [of _ "Trace (P_Store addr 4) addr # cl"] exI [of _ "St addr 1 v # al"])
      (simp add: access_spec_def)
qed

lemma string_result_word:
  assumes "string_result (nb - 4) u t" and "3 < nb" and "call_matches False c a"
    and "calls u = calls s @ [c]" and "accesses u = accesses s @ [a]"
  shows "string_result nb s t"
proof -
  obtain cl al where r: "calls t = calls u @ cl" "accesses t = accesses u @ al"
    "list_all2 (call_matches False) cl al \<longleftrightarrow> (nb - 4) mod 4 = 0"
    using assms(1) by (auto simp: string_result_def)
  have "nb mod 4 = (nb - 4) mod 4" using assms(2) le_mod_geq [of 4 nb] by linarith
  then have "list_all2 (call_matches False) (c # cl) (a # al) \<longleftrightarrow> nb mod 4 = 0"
    using r(3) assms(3) by (simp only: list_all2_Cons simp_thms)
  moreover have "calls t = calls s @ (c # cl)" "accesses t = accesses s @ (a # al)"
    using r(1,2) assms(4,5) by (simp_all only: append.simps append_assoc)
  ultimately show ?thesis unfolding string_result_def by (intro exI conjI)
qed

lemma do_lsw_runs: "do_lsw addr nb reg bus s = Runs t \<Longrightarrow> string_result nb s t"
proof (induction addr nb reg arbitrary: s rule: do_lsw.induct)
  case (1 addr nb reg)
  show ?case
  proof (cases "3 < nb")
    case True
    obtain u where u: "do_lsw (addr + 4) (nb - 4) ((reg + 1) mod 32) bus u = Runs t"
      "calls u = calls s @ [Trace (P_Load addr 4) addr]" "accesses u = accesses s @ [Ld addr 4]"
      using 1(2) True
      by (subst (asm) do_lsw.simps)
        (auto simp: cpu_ld_def on_bus_def gen_call_def ppc_op_addr_def access_spec_def
          split: option.splits emitted.splits)
    show ?thesis
      by (rule string_result_word [OF 1(1) [OF True u(1)] True _ u(2,3)]) (simp add: access_spec_def)
  next
    case False
    show ?thesis
    proof (cases "nb = 0")
      case True
      then show ?thesis using 1(2) by (subst (asm) do_lsw.simps) (simp add: no_code_def string_result_def)
    next
      case ne: False
      then obtain u where u: "lsw_bytes nb 24 addr reg bus u = Runs t" "calls u = calls s" "accesses u = accesses s"
        using 1(2) False
        by (subst (asm) do_lsw.simps) (auto simp: tcg_gen_movi_def split: emitted.splits)
      show ?thesis using lsw_bytes_runs [OF u(1)] u(2,3) False ne by (auto simp: string_result_def)
    qed
  qed
qed

lemma helper_stsw_runs: "helper_stsw addr nb reg bus s = Runs t \<Longrightarrow> string_result nb s t"
proof (induction addr nb reg arbitrary: s rule: helper_stsw.induct)
  case (1 addr nb reg)
  show ?case
  proof (cases "3 < nb")
    case True
    obtain u v where u: "helper_stsw (addr + 4) (nb - 4) ((reg + 1) mod 32) bus u = Runs t"
      "calls u = calls s @ [Trace (P_Store addr 4) addr]" "accesses u = accesses s @ [St addr 4 v]"
      using 1(2) True
      by (subst (asm) helper_stsw.simps)
        (auto simp: cpu_st_def on_bus_def gen_call_def ppc_op_addr_def access_spec_def
          split: option.splits emitted.splits)
    show ?thesis
      by (rule string_result_word [OF 1(1) [OF True u(1)] True _ u(2,3)]) (simp add: access_spec_def)
  next
    case False
    then show ?thesis
      using 1(2) stsw_bytes_runs [of nb 24 addr reg bus s t]
      by (subst (asm) helper_stsw.simps) (auto simp: no_code_def string_result_def split: if_splits)
  qed
qed

lemma string_exact: "string_result n s t \<Longrightarrow> traced_exactly s (Runs t) \<longleftrightarrow> n mod 4 = 0"
  by (auto simp: string_result_def traced_exactly_def exactly_def calls_from_def accesses_from_def)

lemma string_result_temps: "string_result n (s\<lparr>temps := f\<rparr>) t = string_result n s t"
  by (simp add: string_result_def)

text \<open>
  C26. A string instruction with an immediate count that runs to its end is traced exactly if and
  only if the count is a multiple of four: the bytes after the last word are accessed one by one, but
  each is recorded with size 4.
\<close>

theorem ppc_string_exact_iff:
  "(gen_lswi ctx bus s = Runs t \<longrightarrow> (traced_exactly s (Runs t) \<longleftrightarrow> NB (opcode ctx) mod 4 = 0)) \<and>
   (gen_stswi ctx bus s = Runs u \<longrightarrow> (traced_exactly s (Runs u) \<longleftrightarrow> NB (opcode ctx) mod 4 = 0))"
proof (intro conjI impI)
  let ?nb = "if NB (opcode ctx) = 0 then 32 else NB (opcode ctx)"
  have nb: "?nb mod 4 = 0 \<longleftrightarrow> NB (opcode ctx) mod 4 = 0" by simp
  show "traced_exactly s (Runs t) \<longleftrightarrow> NB (opcode ctx) mod 4 = 0" if lswi: "gen_lswi ctx bus s = Runs t"
  proof -
    obtain f a r where "do_lsw a ?nb r bus (s\<lparr>temps := f\<rparr>) = Runs t"
      using lswi unfolding gen_lswi_def Let_def with_addr_def helper_lsw_def
      by (auto simp: raise_exception_def split: if_splits emitted.splits)
    from string_exact [OF do_lsw_runs [OF this, unfolded string_result_temps]] nb show ?thesis by (simp only:)
  qed
  show "traced_exactly s (Runs u) \<longleftrightarrow> NB (opcode ctx) mod 4 = 0" if stswi: "gen_stswi ctx bus s = Runs u"
  proof -
    obtain g b q where "helper_stsw b ?nb q bus (s\<lparr>temps := g\<rparr>) = Runs u"
      using stswi unfolding gen_stswi_def Let_def with_addr_def
      by (auto simp: raise_exception_def split: if_splits emitted.splits)
    from string_exact [OF helper_stsw_runs [OF this, unfolded string_result_temps]] nb show ?thesis by (simp only:)
  qed
qed

theorem ppc_string_exact_iff_witness:
  "\<exists>t u. gen_lswi \<lparr>opcode = 0x7CC42CAA, dis_pr = False, le_mode = False\<rparr> (\<lambda>_. Some 7) demo_tcg = Runs t \<and>
     gen_stswi \<lparr>opcode = 0x7CC42CAA, dis_pr = False, le_mode = False\<rparr> (\<lambda>_. Some 7) demo_tcg = Runs u \<and>
     \<not> traced_exactly demo_tcg (Runs t) \<and> \<not> traced_exactly demo_tcg (Runs u)"
proof -
  let ?ctx = "\<lparr>opcode = 0x7CC42CAA, dis_pr = False, le_mode = False\<rparr>"
  have f: "NB 0x7CC42CAA = 5" "rD 0x7CC42CAA = 6" "rA 0x7CC42CAA = 4" by code_simp+
  have "(case gen_lswi ?ctx (\<lambda>_. Some 7) demo_tcg of Runs _ \<Rightarrow> True | _ \<Rightarrow> False)"
    "(case gen_stswi ?ctx (\<lambda>_. Some 7) demo_tcg of Runs _ \<Rightarrow> True | _ \<Rightarrow> False)"
    by (simp_all add: gen_lswi_def gen_stswi_def f lsw_reg_in_range_def with_addr_def helper_lsw_def do_lsw.simps
        helper_stsw.simps cpu_ld_def cpu_st_def on_bus_def gen_call_def tcg_gen_movi_def no_code_def)
  then obtain t u where r: "gen_lswi ?ctx (\<lambda>_. Some 7) demo_tcg = Runs t"
    "gen_stswi ?ctx (\<lambda>_. Some 7) demo_tcg = Runs u"
    by (auto split: emitted.splits)
  show ?thesis using r ppc_string_exact_iff [of ?ctx "\<lambda>_. Some 7" demo_tcg t u] by (auto simp: f)
qed

section \<open>Reservations\<close>

text \<open>The effective address of the instructions with two registers, and the sum that their helpers take.\<close>

definition indexed_addr :: "u32 \<Rightarrow> u32 list \<Rightarrow> u32" where
  "indexed_addr opc rs = (if rA opc = 0 then 0 else rs ! rA opc) + rs ! rB opc"

definition register_sum :: "u32 \<Rightarrow> u32 list \<Rightarrow> u32" where
  "register_sum opc rs = rs ! rA opc + rs ! rB opc"

text \<open>
  C27. Load-and-reserve and store-conditional against their traces. A load that succeeds makes
  one record, an exclusive load of its size at the sum of the registers rA and rB after the load:
  exact if and only if that is the effective address, so not when the target is one of the two
  and changes, or when rA is 0 and register 0 is not. A load that faults makes none. A
  store-conditional whose address is not the reserved one makes no access and no record. One
  whose address is reserved and whose exchange does not fault makes one record, an exclusive
  store of its size at the sum of rA and rB, also when the exchange fails its comparison and
  writes nothing; one whose exchange faults makes none. When it runs it ends the reservation.
\<close>

theorem ppc_reserve_traced:
  fixes s :: tcg_state and ctx :: disas and n :: int and bus :: "nat \<Rightarrow> u32 option"
  assumes "length (gpr (cpu s)) = 32"
  defines "opc \<equiv> opcode ctx" and "rs \<equiv> gpr (cpu s)" and "ld \<equiv> gen_load_locked n ctx bus s"
    and "st \<equiv> gen_conditional_store n ctx bus s" and "b \<equiv> bus (length (accesses s))"
  shows "accesses_from s ld = (if b = None then [] else [Ld (indexed_addr opc rs) n]) \<and>
    calls_from s ld = (if b = None then []
      else [Trace (P_LoadExIdx (rA opc) (rB opc) n) (register_sum opc (rs[rD opc := the b]))]) \<and>
    (reserved_exactly s ld \<longleftrightarrow> b = None \<or> register_sum opc (rs[rD opc := the b]) = indexed_addr opc rs) \<and>
    accesses_from s st = (if reserve_addr s \<noteq> indexed_addr opc rs \<or> b = None then []
      else [Cas (indexed_addr opc rs) n (reserve_val s) (rs ! rS opc)]) \<and>
    calls_from s st = (if reserve_addr s \<noteq> indexed_addr opc rs \<or> b = None then []
      else [Trace (P_StoreExIdx (rA opc) (rB opc) n) (register_sum opc rs)]) \<and>
    (reserved_exactly s st \<longleftrightarrow> reserve_addr s \<noteq> indexed_addr opc rs \<or> b = None \<or> rA opc \<noteq> 0 \<or> rs ! 0 = 0) \<and>
    (st = Runs (after st) \<longrightarrow> reserve_addr (after st) = - 1)"
proof -
  have ld: "accesses_from s ld = (if b = None then [] else [Ld (indexed_addr opc rs) n])"
    "calls_from s ld = (if b = None then []
      else [Trace (P_LoadExIdx (rA opc) (rB opc) n) (register_sum opc (rs[rD opc := the b]))])"
    unfolding ld_def opc_def rs_def b_def
    by (auto simp: gen_load_locked_def code_defs calls_from_def accesses_from_def indexed_addr_def register_sum_def
        gen_qem_datald_ex_trace_trad_def ppc_op_addr_def access_spec_def)
  have st: "accesses_from s st = (if reserve_addr s \<noteq> indexed_addr opc rs \<or> b = None then []
      else [Cas (indexed_addr opc rs) n (reserve_val s) (rs ! rS opc)])"
    "calls_from s st = (if reserve_addr s \<noteq> indexed_addr opc rs \<or> b = None then []
      else [Trace (P_StoreExIdx (rA opc) (rB opc) n) (register_sum opc rs)])"
    "st = Runs (after st) \<Longrightarrow> reserve_addr (after st) = - 1"
    unfolding st_def opc_def rs_def b_def
    by (auto simp: gen_conditional_store_def code_defs calls_from_def accesses_from_def indexed_addr_def
        register_sum_def gen_qem_datast_ex_trace_trad_def code_if_def set_cr0_def tcg_gen_atomic_cmpxchg_def
        tcg_gen_movi_def ppc_op_addr_def access_spec_def split: option.splits)
  have "register_sum opc rs = indexed_addr opc rs \<longleftrightarrow> rA opc \<noteq> 0 \<or> rs ! 0 = 0"
    by (auto simp: register_sum_def indexed_addr_def)
  then show ?thesis
    using st(3) by (cases b) (simp_all add: reserved_exactly_def exactly_def ld st(1,2))
qed

theorem ppc_reserve_traced_witness:
  "\<not> reserved_exactly demo_tcg (gen_load_locked 4 \<lparr>opcode = 0x7C842828, dis_pr = False, le_mode = False\<rparr>
       (\<lambda>_. Some 7) demo_tcg) \<and>
   accesses_from demo_tcg (gen_conditional_store 4 \<lparr>opcode = 0x7C64292D, dis_pr = False, le_mode = False\<rparr>
       (\<lambda>_. Some 7) demo_tcg) = [Cas 0 4 0 0] \<and>
   reserved_exactly demo_tcg (gen_conditional_store 4 \<lparr>opcode = 0x7C64292D, dis_pr = False, le_mode = False\<rparr>
       (\<lambda>_. Some 7) demo_tcg)"
proof -
  have len: "length (gpr (cpu demo_tcg)) = 32" by (simp add: demo_tcg_def demo_ppc_def)
  have regs: "gpr (cpu demo_tcg) ! r = 0" if "r < 32" for r using that by (simp add: demo_tcg_def demo_ppc_def)
  have res: "reserve_addr demo_tcg = 0" "reserve_val demo_tcg = 0" by (simp_all add: demo_tcg_def)
  have fields: "rA 0x7C842828 = 4" "rD 0x7C842828 = 4" "rB 0x7C842828 = 5" "rA 0x7C64292D = 4" "rB 0x7C64292D = 5"
    "rS 0x7C64292D = 3"
    by code_simp+
  show ?thesis
    using ppc_reserve_traced [OF len, of 4 "\<lparr>opcode = 0x7C842828, dis_pr = False, le_mode = False\<rparr>" "\<lambda>_. Some 7"]
      ppc_reserve_traced [OF len, of 4 "\<lparr>opcode = 0x7C64292D, dis_pr = False, le_mode = False\<rparr>" "\<lambda>_. Some 7"]
    by (simp add: fields regs res len indexed_addr_def register_sum_def)
qed

section \<open>Cache instructions\<close>

datatype cache_insn =
    I_dcbf | I_dcbfep | I_dcbi | I_dcbst | I_dcbstep | I_dcbt | I_dcbtep | I_dcbtst | I_dcbtstep
  | I_dcbtls | I_dcbtstls | I_dcblc | I_icbtls | I_icblc | I_dcbz | I_dcbzep | I_icbi | I_icbiep
  | I_dcba | I_clf | I_cli | I_dclst | I_dccci | I_dcread | I_icbt_40x | I_iccci | I_icread | I_icbt_440

fun gen_cache_insn :: "cache_insn \<Rightarrow> disas \<Rightarrow> ppc_code" where
  "gen_cache_insn I_dcbf = gen_dcbf" | "gen_cache_insn I_dcbfep = gen_dcbfep"
| "gen_cache_insn I_dcbi = gen_dcbi" | "gen_cache_insn I_dcbst = gen_dcbst"
| "gen_cache_insn I_dcbstep = gen_dcbstep" | "gen_cache_insn I_dcbt = gen_dcbt"
| "gen_cache_insn I_dcbtep = gen_dcbtep" | "gen_cache_insn I_dcbtst = gen_dcbtst"
| "gen_cache_insn I_dcbtstep = gen_dcbtstep" | "gen_cache_insn I_dcbtls = gen_dcbtls"
| "gen_cache_insn I_dcbtstls = gen_dcbtstls" | "gen_cache_insn I_dcblc = gen_dcblc"
| "gen_cache_insn I_icbtls = gen_icbtls" | "gen_cache_insn I_icblc = gen_icblc"
| "gen_cache_insn I_dcbz = gen_dcbz" | "gen_cache_insn I_dcbzep = gen_dcbzep"
| "gen_cache_insn I_icbi = gen_icbi" | "gen_cache_insn I_icbiep = gen_icbiep"
| "gen_cache_insn I_dcba = gen_dcba" | "gen_cache_insn I_clf = gen_clf"
| "gen_cache_insn I_cli = gen_cli" | "gen_cache_insn I_dclst = gen_dclst"
| "gen_cache_insn I_dccci = gen_dccci" | "gen_cache_insn I_dcread = gen_dcread"
| "gen_cache_insn I_icread = gen_icread" | "gen_cache_insn I_icbt_40x = gen_icbt_40x" | "gen_cache_insn I_iccci = gen_iccci"
| "gen_cache_insn I_icbt_440 = gen_icbt_440"

text \<open>
  The events the trace format has for an instruction: on the data cache or on the instruction
  cache, the event, the granularity, the level, whether the line is wanted for writing, the
  direction and the size. Allocating or storing a line is a store of a byte, reading a word of
  the data cache a load; every other event is marked as a read of a byte, zeroing a line too.
\<close>

record cache_event =
  ce_inst :: bool
  ce_event :: trace_event
  ce_gran :: QEM_TRACE_GRANULARITY_E
  ce_level :: QEM_TRACE_CACHE_LEVEL_E
  ce_excl :: bool
  ce_write :: bool
  ce_size :: int

definition line_event :: "bool \<Rightarrow> trace_event \<Rightarrow> QEM_TRACE_CACHE_LEVEL_E \<Rightarrow> bool \<Rightarrow> cache_event" where
  "line_event inst e l x = \<lparr>ce_inst = inst, ce_event = e, ce_gran = QEM_TRACE_GRANULARITY_LINE, ce_level = l,
     ce_excl = x, ce_write = False, ce_size = 1\<rparr>"

definition access_event :: "bool \<Rightarrow> int \<Rightarrow> cache_event" where
  "access_event w n = \<lparr>ce_inst = False, ce_event = Ev_Access, ce_gran = QEM_TRACE_GRANULARITY_LINE,
     ce_level = QEM_TRACE_CACHE_LEVEL_1, ce_excl = False, ce_write = w, ce_size = n\<rparr>"

fun cache_events :: "cache_insn \<Rightarrow> u32 \<Rightarrow> cache_event list" where
  "cache_events I_dcbf opc = [line_event False Ev_FlushInval (level_switch (int (rS opc))) False]"
| "cache_events I_dcbfep opc = [line_event False Ev_FlushInval (level_switch (int (rS opc))) False]"
| "cache_events I_dcbi opc = [line_event False Ev_Invalidate (level_switch (int (rS opc))) False]"
| "cache_events I_dcbst opc = [line_event False Ev_FlushInval (level_switch (int (rS opc))) False]"
| "cache_events I_dcbstep opc = [line_event False Ev_FlushInval (level_switch (int (rS opc))) False]"
| "cache_events I_dcbt opc = [line_event False Ev_Prefetch QEM_TRACE_CACHE_LEVEL_1 False]"
| "cache_events I_dcbtep opc = [line_event False Ev_Prefetch QEM_TRACE_CACHE_LEVEL_1 False]"
| "cache_events I_dcbtst opc = [line_event False Ev_Prefetch QEM_TRACE_CACHE_LEVEL_1 True]"
| "cache_events I_dcbtstep opc = [line_event False Ev_Prefetch QEM_TRACE_CACHE_LEVEL_1 True]"
| "cache_events I_dcbtls opc = [line_event False Ev_Lock (level_switch (int (rS opc))) False]"
| "cache_events I_dcbtstls opc = [line_event False Ev_Lock (level_switch (int (rS opc))) True]"
| "cache_events I_dcblc opc = [line_event False Ev_Unlock (level_switch (int (rS opc))) False]"
| "cache_events I_icbtls opc = [line_event True Ev_Lock (level_switch (int (rS opc))) False]"
| "cache_events I_icblc opc = [line_event True Ev_Unlock (level_switch (int (rS opc))) False]"
| "cache_events I_dcbz opc = [line_event False Ev_Dcbz QEM_TRACE_CACHE_LEVEL_1 False]"
| "cache_events I_dcbzep opc = [line_event False Ev_Dcbz QEM_TRACE_CACHE_LEVEL_1 False]"
| "cache_events I_icbi opc = [line_event True Ev_Invalidate (level_switch (int (rS opc))) False]"
| "cache_events I_icbiep opc = [line_event True Ev_Invalidate (level_switch (int (rS opc))) False]"
| "cache_events I_dcba opc = [access_event True 1]"
| "cache_events I_clf opc = [line_event False Ev_Flush (level_switch (int (rS opc))) False, line_event True Ev_Flush (level_switch (int (rS opc))) False]"
| "cache_events I_cli opc = [line_event False Ev_Invalidate (level_switch (int (rS opc))) False, line_event True Ev_Invalidate (level_switch (int (rS opc))) False]"
| "cache_events I_dclst opc = [access_event True 1]"
| "cache_events I_dccci opc = []"
| "cache_events I_dcread opc = [access_event False 4]"
| "cache_events I_icread opc = []"
| "cache_events I_icbt_40x opc = (if rS opc = 1 then [line_event True Ev_Prefetch QEM_TRACE_CACHE_LEVEL_2 False] else [])"
| "cache_events I_iccci opc =
     [(line_event False Ev_Invalidate (level_switch (int (rS opc))) False)\<lparr>ce_gran := QEM_TRACE_GRANULARITY_SET\<rparr>,
      (line_event True Ev_Invalidate (level_switch (int (rS opc))) False)\<lparr>ce_gran := QEM_TRACE_GRANULARITY_SET\<rparr>]"
| "cache_events I_icbt_440 opc = (if rS opc = 1 then [line_event True Ev_Prefetch QEM_TRACE_CACHE_LEVEL_2 False] else [])"

definition call_event :: "ppc_call \<Rightarrow> (cache_event \<times> u32) option" where
  "call_event c = (case c of
     Trace op a \<Rightarrow> Some (let p = ppc_op_spec op in
       (\<lparr>ce_inst = (ps_class p = QEM_TRACE_ITRACE), ce_event = ps_event p, ce_gran = ps_gran p,
         ce_level = ps_level p, ce_excl = (ps_excl p = QEM_TRACE_EVENT_EXCLUSIVE),
         ce_write = (ps_access p = QEM_TRACE_ACCESS_TYPE_WRITE), ce_size = ps_size p\<rparr>, a))
   | _ \<Rightarrow> None)"

text \<open>The address of the records: the sum of rA and rB, for dcread rA and the low half of the opcode.\<close>

definition cache_addr :: "cache_insn \<Rightarrow> u32 \<Rightarrow> u32 list \<Rightarrow> u32" where
  "cache_addr i opc rs = (if i = I_dcread then rs ! rA opc + SIMM opc else register_sum opc rs)"

text \<open>
  The accesses of an instruction, where \<open>v\<close> is the value its load delivers: a byte at the
  effective address, read for the permission check or read and written back, a word of the line,
  or the line itself.
\<close>

definition line_stores :: "u32 \<Rightarrow> nat \<Rightarrow> guest_access list" where
  "line_stores line n = map (\<lambda>k. St (line + of_nat (8 * k)) 8 0) [0..<n]"

definition line_clear :: "u32 \<Rightarrow> tcg_state \<Rightarrow> guest_access list" where
  "line_clear line s =
     (if host_ram s line then [Zero line (int (unat (dcache_line_size s)))]
      else line_stores line ((unat (dcache_line_size s) + 7) div 8))"

definition cache_accesses :: "cache_insn \<Rightarrow> u32 \<Rightarrow> u32 \<Rightarrow> tcg_state \<Rightarrow> guest_access list" where
  "cache_accesses i opc v s =
     (let ea = indexed_addr opc (gpr (cpu s)); line = ea AND NOT (dcache_line_size s - 1)
      in if i \<in> {I_dcbf, I_dcbfep, I_dcbst, I_dcbstep} then [Ld ea 1]
         else if i = I_dcbi then [Ld ea 1, St ea 1 v]
         else if i \<in> {I_dcbz, I_dcbzep} then line_clear line s
         else if i \<in> {I_icbi, I_icbiep} then [Ld line 4]
         else if i = I_dcread then [Ld ea 4]
         else [])"

lemmas cache_defs = gen_dcbf_def gen_dcbfep_def gen_dcbi_def gen_dcbst_def gen_dcbstep_def gen_dcbt_def
  gen_dcbtep_def gen_dcbtst_def gen_dcbtstep_def gen_dcbtls_def gen_dcbtstls_def gen_dcblc_def
  gen_icbtls_def gen_icblc_def gen_dcbz_def gen_dcbzep_def gen_icbi_def gen_icbiep_def gen_dcba_def
  gen_clf_def gen_cli_def gen_dclst_def gen_icbt_40x_def gen_iccci_def gen_icbt_440_def
  gen_dccci_def gen_dcread_def gen_icread_def

text \<open>
  Code that calls the helpers for \<open>ops\<close> when it runs and none when it raises, and leaves the
  general registers alone.
\<close>

definition emits :: "ppc_code \<Rightarrow> ppc_op list \<Rightarrow> bool" where
  "emits c ops \<longleftrightarrow> (\<forall>bus s. case c bus s of
     Runs t \<Rightarrow> calls t = calls s @ map (\<lambda>op. Trace op (ppc_op_addr op (cpu s))) ops \<and> gpr (cpu t) = gpr (cpu s)
   | Raises t \<Rightarrow> calls t = calls s)"

lemma ppc_op_addr_gpr: "gpr env = gpr env' \<Longrightarrow> ppc_op_addr op env = ppc_op_addr op env'"
  by (simp add: ppc_op_addr_def)

lemma emits_Cons:
  assumes "emits c []" and "emits (code_list cs) ops"
  shows "emits (code_list (c # cs)) ops"
  unfolding emits_def
proof (intro allI)
  fix bus s
  show "case code_list (c # cs) bus s of
      Runs t \<Rightarrow> calls t = calls s @ map (\<lambda>op. Trace op (ppc_op_addr op (cpu s))) ops \<and> gpr (cpu t) = gpr (cpu s)
    | Raises t \<Rightarrow> calls t = calls s"
  proof (cases "c bus s")
    case (Runs t)
    then have "calls t = calls s" "gpr (cpu t) = gpr (cpu s)"
      using assms(1) [unfolded emits_def, THEN spec [of _ bus], THEN spec [of _ s]] by simp_all
    then show ?thesis
      using assms(2) [unfolded emits_def, THEN spec [of _ bus], THEN spec [of _ t]] ppc_op_addr_gpr [of "cpu t" "cpu s"] Runs
      by (simp split: emitted.splits)
  next
    case (Raises t)
    then show ?thesis using assms(1) [unfolded emits_def, THEN spec [of _ bus], THEN spec [of _ s]] by simp
  qed
qed

lemma emits_calls:
  "emits (code_list [gen_call op]) [op]"
  "emits (code_list [gen_call op, gen_call op']) [op, op']"
  "emits (gen_call op) [op]"
  "emits no_code []"
  by (simp_all add: emits_def gen_call_def no_code_def)

lemma dcbz_slow_result:
  "case dcbz_slow addr n bus s of
     Runs t \<Rightarrow> t = s\<lparr>accesses := accesses s @ line_stores addr n\<rparr>
   | Raises t \<Rightarrow> \<exists>k < n. t = s\<lparr>accesses := accesses s @ take k (line_stores addr n)\<rparr>"
proof (induction addr n arbitrary: s rule: dcbz_slow.induct)
  case (1 addr)
  then show ?case by (simp add: no_code_def line_stores_def)
next
  case (2 addr n)
  have ls: "line_stores addr (Suc n) = St addr 8 0 # line_stores (addr + 8) n"
    by (simp add: line_stores_def upt_conv_Cons map_Suc_upt [symmetric] algebra_simps del: upt_Suc)
  show ?case
  proof (cases "bus (length (accesses s))")
    case None
    then show ?thesis by (simp add: on_bus_def) (rule exI [of _ 0], simp)
  next
    case (Some v)
    let ?s = "s\<lparr>accesses := accesses s @ [St addr 8 0]\<rparr>"
    have run: "dcbz_slow addr (Suc n) bus s = dcbz_slow (addr + 8) n bus ?s"
      using Some by (simp add: on_bus_def split: emitted.split)
    show ?thesis
    proof (cases "dcbz_slow (addr + 8) n bus ?s")
      case (Runs t)
      then show ?thesis using "2.IH" [of ?s] unfolding run ls by simp
    next
      case (Raises t)
      then obtain k where "k < n" "t = ?s\<lparr>accesses := accesses ?s @ take k (line_stores (addr + 8) n)\<rparr>"
        using "2.IH" [of ?s] by auto
      then show ?thesis using Raises unfolding run ls by (auto intro!: exI [of _ "Suc k"])
    qed
  qed
qed

text \<open>Zeroing a line: neither calls nor registers change, and the accesses are those of the line.\<close>

lemma dcbz_common_result:
  assumes "line = addr AND NOT (dcache_line_size s - 1)"
  shows "case dcbz_common addr bus s of
     Runs t \<Rightarrow> calls t = calls s \<and> cpu t = cpu s \<and> accesses t = accesses s @ line_clear line s
   | Raises t \<Rightarrow> calls t = calls s \<and> (\<exists>k. accesses t = accesses s @ take k (line_clear line s))"
proof -
  let ?s = "if reserve_addr s AND NOT (dcache_line_size s - 1) = line AND NOT (dcache_line_size s - 1)
    then s\<lparr>reserve_addr := - 1\<rparr> else s"
  have same: "calls ?s = calls s" "cpu ?s = cpu s" "accesses ?s = accesses s" "host_ram ?s = host_ram s"
    "dcache_line_size ?s = dcache_line_size s"
    by simp_all
  have run: "dcbz_common addr bus s = (if host_ram ?s line
      then Runs (?s\<lparr>accesses := accesses ?s @ [Zero line (int (unat (dcache_line_size ?s)))]\<rparr>)
      else dcbz_slow line ((unat (dcache_line_size ?s) + 7) div 8) bus ?s)"
    unfolding dcbz_common_def Let_def assms ..
  show ?thesis
    using dcbz_slow_result [where addr = line and n = "(unat (dcache_line_size ?s) + 7) div 8" and bus = bus and s = ?s]
    unfolding run line_clear_def by (auto simp: same split: emitted.splits)
qed

lemma emits_nothing:
  "emits (gen_addr_reg_index ctx (Tmp k)) []"
  "emits (tcg_gen_qemu_ld (Tmp k) v n) []"
  "emits (tcg_gen_qemu_st w v n) []"
  "emits (with_addr v helper_icbi) []"
  "emits (\<lambda>bus s. Runs (s\<lparr>cpu := (cpu s)\<lparr>spr := f s\<rparr>\<rparr>)) []"
  by (simp_all add: emits_def tcg_gen_qemu_ld_def tcg_gen_qemu_st_def with_addr_def helper_icbi_def
      on_bus_def Let_def split: option.split)

lemma emits_dcbz: "emits (with_addr v dcbz_common) []"
  unfolding emits_def with_addr_def
proof (intro allI)
  fix bus s
  show "case dcbz_common (tcg_get v s) bus s of
      Runs t \<Rightarrow> calls t = calls s @ map (\<lambda>op. Trace op (ppc_op_addr op (cpu s))) [] \<and> gpr (cpu t) = gpr (cpu s)
    | Raises t \<Rightarrow> calls t = calls s"
    using dcbz_common_result [where addr = "tcg_get v s" and bus = bus and s = s, OF refl] by (simp split: emitted.splits)
qed

lemma emits_CHK_SV: "emits c ops \<Longrightarrow> emits (CHK_SV ctx c) ops"
  by (simp add: CHK_SV_def emits_def raise_exception_def)

lemmas emits_rules = emits_CHK_SV emits_Cons emits_calls emits_nothing emits_dcbz

fun cache_ops :: "cache_insn \<Rightarrow> nat \<Rightarrow> nat \<Rightarrow> int \<Rightarrow> ppc_op list" where
  "cache_ops I_dcbf r q l = [P_DFlushInval r q l QEM_TRACE_GRANULARITY_LINE]"
| "cache_ops I_dcbfep r q l = [P_DFlushInval r q l QEM_TRACE_GRANULARITY_LINE]"
| "cache_ops I_dcbi r q l = [P_DInval r q l QEM_TRACE_GRANULARITY_LINE]"
| "cache_ops I_dcbst r q l = [P_DFlushInval r q l QEM_TRACE_GRANULARITY_LINE]"
| "cache_ops I_dcbstep r q l = [P_DFlushInval r q l QEM_TRACE_GRANULARITY_LINE]"
| "cache_ops I_dcbt r q l = [P_DPrefetch r q l QEM_TRACE_GRANULARITY_LINE 0]"
| "cache_ops I_dcbtep r q l = [P_DPrefetch r q l QEM_TRACE_GRANULARITY_LINE 0]"
| "cache_ops I_dcbtst r q l = [P_DPrefetch r q l QEM_TRACE_GRANULARITY_LINE 1]"
| "cache_ops I_dcbtstep r q l = [P_DPrefetch r q l QEM_TRACE_GRANULARITY_LINE 1]"
| "cache_ops I_dcbtls r q l = [P_DLock r q l QEM_TRACE_GRANULARITY_LINE 0]"
| "cache_ops I_dcbtstls r q l = [P_DLock r q l QEM_TRACE_GRANULARITY_LINE 1]"
| "cache_ops I_dcblc r q l = [P_DUnlock r q l QEM_TRACE_GRANULARITY_LINE]"
| "cache_ops I_icbtls r q l = [P_ILock r q l QEM_TRACE_GRANULARITY_LINE 0]"
| "cache_ops I_icblc r q l = [P_IUnlock r q l QEM_TRACE_GRANULARITY_LINE]"
| "cache_ops I_dcbz r q l = [P_Dcbz r q 1]"
| "cache_ops I_dcbzep r q l = [P_Dcbz r q 1]"
| "cache_ops I_icbi r q l = [P_IInval r q l QEM_TRACE_GRANULARITY_LINE]"
| "cache_ops I_icbiep r q l = [P_IInval r q l QEM_TRACE_GRANULARITY_LINE]"
| "cache_ops I_dcba r q l = [P_StoreIdx r q 1]"
| "cache_ops I_clf r q l = [P_DFlush r q l QEM_TRACE_GRANULARITY_LINE 0, P_IFlush r q l QEM_TRACE_GRANULARITY_LINE]"
| "cache_ops I_cli r q l = [P_DInval r q l QEM_TRACE_GRANULARITY_LINE, P_IInval r q l QEM_TRACE_GRANULARITY_LINE]"
| "cache_ops I_dclst r q l = [P_StoreIdx r q 1]"
| "cache_ops I_dccci r q l = []"
| "cache_ops I_dcread r q l = []"
| "cache_ops I_icread r q l = []"
| "cache_ops I_icbt_40x r q l = (if l = 1 then [P_Icbt r q] else [])"
| "cache_ops I_iccci r q l = [P_DInval r q l QEM_TRACE_GRANULARITY_SET, P_IInval r q l QEM_TRACE_GRANULARITY_SET]"
| "cache_ops I_icbt_440 r q l = (if l = 1 then [P_Icbt r q] else [])"

lemma cache_insn_emits:
  "i \<noteq> I_cli \<Longrightarrow> i \<noteq> I_dcread \<Longrightarrow>
   emits (gen_cache_insn i ctx) (cache_ops i (rA (opcode ctx)) (rB (opcode ctx)) (int (rS (opcode ctx))))"
  by (cases i; cases "rS (opcode ctx) = 1")
    (simp_all only: gen_cache_insn.simps cache_ops.simps cache_defs cache_call_def gen_qem_dcbz_trace_trad_def
      gen_qem_datast_trace_trad_def gen_qemu_qem_notrace_ld8u_def gen_qemu_qem_notrace_st8_def emits_rules
      of_nat_eq_1_iff if_True if_False simp_thms cache_insn.distinct)

lemma cache_ops_events:
  "i \<noteq> I_dcread \<Longrightarrow>
   map (\<lambda>op. call_event (Trace op (ppc_op_addr op env))) (cache_ops i (rA opc) (rB opc) (int (rS opc))) =
   map (\<lambda>e. Some (e, cache_addr i opc (gpr env))) (cache_events i opc)"
  by (cases i) (simp_all add: call_event_def line_event_def access_event_def cache_addr_def register_sum_def
      ppc_op_addr_def access_spec_def cache_spec_def excl_of_def)

text \<open>The accesses of the instructions that do more than call a helper.\<close>

lemma dcbz_accesses:
  assumes "i = I_dcbz \<or> i = I_dcbzep"
  shows "case gen_cache_insn i ctx bus s of
     Runs t \<Rightarrow> accesses_from s (Runs t) = cache_accesses i (opcode ctx) v s
   | Raises t \<Rightarrow> \<exists>k. accesses_from s (Raises t) = take k (cache_accesses i (opcode ctx) v s)"
proof -
  let ?ea = "indexed_addr (opcode ctx) (gpr (cpu s))"
  let ?s = "s\<lparr>temps := (temps s)(0 := ?ea)\<rparr>"
  have addr: "gen_addr_reg_index ctx (Tmp 0) bus s = Runs ?s" by (simp add: indexed_addr_def)
  have run: "gen_cache_insn i ctx bus s =
      code_list [with_addr (Tmp 0) dcbz_common, gen_call (P_Dcbz (rA (opcode ctx)) (rB (opcode ctx)) 1)] bus ?s"
    using assms
    by (elim disjE) (simp_all only: gen_cache_insn.simps gen_dcbz_def gen_dcbzep_def gen_qem_dcbz_trace_trad_def
        code_list_Runs [where c = "gen_addr_reg_index ctx (Tmp 0)" and bus = bus and s = s, OF addr])
  have acc: "cache_accesses i (opcode ctx) v s = line_clear (?ea AND NOT (dcache_line_size ?s - 1)) ?s"
    using assms by (auto simp: cache_accesses_def line_clear_def)
  show ?thesis
    using dcbz_common_result [where addr = ?ea and bus = bus and s = ?s, OF refl]
    unfolding run acc by (auto simp: with_addr_def gen_call_def accesses_from_def split: emitted.splits)
qed

lemma dcbi_accesses:
  "case gen_dcbi ctx bus s of
     Runs t \<Rightarrow> accesses_from s (Runs t) = cache_accesses I_dcbi (opcode ctx) (the (bus (length (accesses s)))) s
   | Raises t \<Rightarrow> \<exists>k. accesses_from s (Raises t) =
       take k (cache_accesses I_dcbi (opcode ctx) (the (bus (length (accesses s)))) s)"
proof -
  let ?ea = "indexed_addr (opcode ctx) (gpr (cpu s))"
  have "accesses_from s (gen_dcbi ctx bus s) =
      (if dis_pr ctx \<or> bus (length (accesses s)) = None then []
       else Ld ?ea 1 # (if bus (Suc (length (accesses s))) = None then [] else [St ?ea 1 (the (bus (length (accesses s))))]))"
    "(\<exists>t. gen_dcbi ctx bus s = Runs t) \<longleftrightarrow>
      \<not> (dis_pr ctx \<or> bus (length (accesses s)) = None \<or> bus (Suc (length (accesses s))) = None)"
    by (auto simp: gen_dcbi_def gen_qemu_qem_notrace_ld8u_def gen_qemu_qem_notrace_st8_def cache_call_def CHK_SV_def
        code_defs accesses_from_def indexed_addr_def split: option.splits)
  moreover have "[] = take 0 xs" "[a] = take 1 [a, b]" for xs a and b :: guest_access by simp_all
  ultimately show ?thesis
    by (cases "gen_dcbi ctx bus s") (auto simp: cache_accesses_def Let_def split: if_splits intro: exI [of _ 0] exI [of _ 1])
qed

lemma cache_insn_accesses:
  "case gen_cache_insn i ctx bus s of
     Runs t \<Rightarrow> accesses_from s (Runs t) = cache_accesses i (opcode ctx) (the (bus (length (accesses s)))) s
   | Raises t \<Rightarrow> \<exists>k. accesses_from s (Raises t) =
       take k (cache_accesses i (opcode ctx) (the (bus (length (accesses s)))) s)"
proof (cases "i = I_dcbz \<or> i = I_dcbzep \<or> i = I_dcbi")
  case True
  then show ?thesis using dcbz_accesses [of i] dcbi_accesses by auto
next
  case False
  then show ?thesis
    by (cases i) (auto simp: cache_defs cache_call_def gen_qem_datast_trace_trad_def gen_qemu_qem_notrace_ld8u_def
      gen_qemu_qem_notrace_st8_def CHK_SV_def no_code_def with_addr_def helper_icbi_def code_defs accesses_from_def
      cache_accesses_def indexed_addr_def intro!: exI [of _ 0] split: option.splits)
qed

text \<open>The instruction that reads the data cache is traced like an indexed load.\<close>

lemma dcread_calls:
  "calls_from s (gen_dcread ctx bus s) =
     (if dis_pr ctx \<or> bus (length (accesses s)) = None then []
      else [Trace (P_LoadImm (SIMM (opcode ctx)) (rA (opcode ctx)) 4) (gpr (cpu s) ! rA (opcode ctx) + SIMM (opcode ctx))])"
  "(\<exists>t. gen_dcread ctx bus s = Runs t) \<longleftrightarrow> \<not> (dis_pr ctx \<or> bus (length (accesses s)) = None)"
  by (auto simp: gen_dcread_def CHK_SV_def calls_from_def code_defs ppc_op_addr_def access_spec_def split: option.splits)

text \<open>
  C28. The accesses and the records of the cache instructions. An instruction that runs makes
  exactly the accesses of the table \<open>cache_accesses\<close>, none of which is recorded as an access but
  that of dcread, and the events of the table \<open>cache_events\<close> with their level, granularity,
  direction and size, at the sum of the registers rA and rB; this is the effective address unless
  rA is 0 and register 0 is not. dcread is recorded at rA plus the low half of the opcode. An
  instruction that raises an exception makes only an initial part of its accesses and leaves no record,
  except that cli in user mode is recorded although it does not execute.
\<close>

theorem ppc_cache_traced:
  "map call_event (calls_from s (gen_cache_insn i ctx bus s)) =
     (case gen_cache_insn i ctx bus s of
        Runs t \<Rightarrow> map (\<lambda>e. Some (e, cache_addr i (opcode ctx) (gpr (cpu s)))) (cache_events i (opcode ctx))
      | Raises t \<Rightarrow>
          (if i = I_cli then map (\<lambda>e. Some (e, cache_addr i (opcode ctx) (gpr (cpu s)))) (cache_events i (opcode ctx))
           else [])) \<and>
   (case gen_cache_insn i ctx bus s of
      Runs t \<Rightarrow> accesses_from s (Runs t) = cache_accesses i (opcode ctx) (the (bus (length (accesses s)))) s
    | Raises t \<Rightarrow> \<exists>k. accesses_from s (Raises t) =
        take k (cache_accesses i (opcode ctx) (the (bus (length (accesses s)))) s))"
proof (intro conjI cache_insn_accesses)
  consider "i = I_cli" | "i = I_dcread" | "i \<noteq> I_cli" "i \<noteq> I_dcread" by blast
  then show "map call_event (calls_from s (gen_cache_insn i ctx bus s)) =
     (case gen_cache_insn i ctx bus s of
        Runs t \<Rightarrow> map (\<lambda>e. Some (e, cache_addr i (opcode ctx) (gpr (cpu s)))) (cache_events i (opcode ctx))
      | Raises t \<Rightarrow>
          (if i = I_cli then map (\<lambda>e. Some (e, cache_addr i (opcode ctx) (gpr (cpu s)))) (cache_events i (opcode ctx))
           else []))"
  proof cases
    case 1
    have "calls (after (gen_cli ctx bus s)) = calls s @ map (\<lambda>op. Trace op (ppc_op_addr op (cpu s)))
        (cache_ops I_cli (rA (opcode ctx)) (rB (opcode ctx)) (int (rS (opcode ctx))))"
      by (simp add: gen_cli_def cache_call_def gen_call_def CHK_SV_def raise_exception_def no_code_def)
    then show ?thesis
      using cache_ops_events [of i "cpu s" "opcode ctx"] 1
      by (simp add: calls_from_def o_def split: emitted.split)
  next
    case 2
    then show ?thesis
      using dcread_calls [where s = s and ctx = ctx and bus = bus]
      by (cases "gen_dcread ctx bus s")
        (auto simp: call_event_def cache_addr_def access_event_def access_spec_def excl_of_def)
  next
    case 3
    then show ?thesis
      using cache_insn_emits [OF 3, where ctx = ctx, unfolded emits_def, THEN spec [of _ bus], THEN spec [of _ s]]
        cache_ops_events [of i "cpu s" "opcode ctx"]
      by (cases "gen_cache_insn i ctx bus s") (simp_all add: calls_from_def o_def)
  qed
qed

section \<open>Commands\<close>

text \<open>The opcodes of the tracer and what each is for.\<close>

definition trace_commands :: "(u32 \<times> ppc_call) list" where
  "trace_commands =
     [(QEM_TRACE_START_OP, Start_trace 3), (QEM_TRACE_STOP_OP, Stop_trace 3),
      (QEM_TRACE_DSTART_OP, Start_trace 1), (QEM_TRACE_DSTOP_OP, Stop_trace 1),
      (QEM_TRACE_ISTART_OP, Start_trace 2), (QEM_TRACE_ISTOP_OP, Stop_trace 2),
      (QEM_TRACE_START_TIMER_OP, Start_timer), (QEM_TRACE_GET_TIMER_OP, Get_timer),
      (QEM_TRACE_FLASH_INV_INST_OP, Trace P_FlashI 0), (QEM_TRACE_FLASH_INV_DATA_OP, Trace P_FlashD 0)]"

lemmas opcode_defs = QEM_TRACE_START_OP_def QEM_TRACE_STOP_OP_def QEM_TRACE_DSTART_OP_def
  QEM_TRACE_DSTOP_OP_def QEM_TRACE_ISTART_OP_def QEM_TRACE_ISTOP_OP_def QEM_TRACE_START_TIMER_OP_def
  QEM_TRACE_GET_TIMER_OP_def QEM_TRACE_FLASH_INV_INST_OP_def QEM_TRACE_FLASH_INV_DATA_OP_def

text \<open>
  C23. The opcodes of the tracer do exactly what they are for: they start and stop the named
  classes, read the timers or report the invalidation of a whole cache. The instruction is
  traced as fetched first, makes no access, changes no register and never reaches the table of
  instructions; every other opcode does.
\<close>

theorem ppc_commands_decoded:
  "list_all (\<lambda>(opc, c). ppc_tr_translate_insn opcodes pc (ctx\<lparr>opcode := opc\<rparr>) bus s =
       Runs (s\<lparr>calls := calls s @ [Trace (P_Fetch pc 4) pc, c]\<rparr>)) trace_commands \<and>
   (custom_inst opc = None \<longleftrightarrow> opc \<notin> set (map fst trace_commands))"
  by (simp add: trace_commands_def opcode_defs ppc_tr_translate_insn_def custom_inst_def gen_command_def gen_call_def
      ppc_gen_qem_instld_trace_def ppc_op_addr_def access_spec_def cache_spec_def)

end
