(* ===== verification/QEM_ARM_MMU.thy ===== *)
theory QEM_ARM_MMU
  imports QEM_Arch
begin

text \<open>
  The translation functions of QEMU's ARM target that the tracer calls
  (\<^verbatim>\<open>Qemu/target/arm/helper.c\<close>, \<^verbatim>\<open>internals.h\<close> and \<^verbatim>\<open>cpu.h\<close>): the properties of a
  translation regime, the short-descriptor walks of ARMv5 and ARMv6, the protection unit of
  ARMv5 and the dispatch \<open>get_phys_addr\<close>. The long-descriptor walk and the protection units of
  ARMv7 and ARMv8 are arguments of the dispatch. A failed assertion ends the process
  (status 134). Reads of guest memory do not fail.
\<close>

section \<open>State\<close>

datatype ARMMMUIdx =
    ARMMMUIdx_S12NSE0 | ARMMMUIdx_S12NSE1 | ARMMMUIdx_S1E2 | ARMMMUIdx_S1E3 | ARMMMUIdx_S1SE0
  | ARMMMUIdx_S1SE1 | ARMMMUIdx_S2NS | ARMMMUIdx_MUser | ARMMMUIdx_MPriv | ARMMMUIdx_MUserNegPri
  | ARMMMUIdx_MPrivNegPri | ARMMMUIdx_MSUser | ARMMMUIdx_MSPriv | ARMMMUIdx_MSUserNegPri
  | ARMMMUIdx_MSPrivNegPri | ARMMMUIdx_S1NSE0 | ARMMMUIdx_S1NSE1

datatype MMUAccessType = MMU_DATA_LOAD | MMU_DATA_STORE | MMU_INST_FETCH

datatype ARMFaultType =
    ARMFault_None | ARMFault_AccessFlag | ARMFault_Alignment | ARMFault_Background
  | ARMFault_Domain | ARMFault_Permission | ARMFault_Translation | ARMFault_AddressSize
  | ARMFault_SyncExternal | ARMFault_SyncExternalOnWalk | ARMFault_SyncParity
  | ARMFault_SyncParityOnWalk | ARMFault_AsyncParity | ARMFault_AsyncExternal | ARMFault_Debug
  | ARMFault_TLBConflict | ARMFault_Lockdown | ARMFault_Exclusive | ARMFault_ICacheMaint
  | ARMFault_QEMU_NSCExec | ARMFault_QEMU_SFault

record TCR =
  raw_tcr :: u64
  tcr_mask :: u32
  tcr_base_mask :: u32

record ARMCacheAttrs =
  attrs :: u8
  shareability :: u8

text \<open>
  Features, coprocessor registers by exception level, the status register, and the physical
  addresses at which the address space answers a load with an error.
\<close>

record arm_env =
  feature_M :: bool
  feature_V6 :: bool
  feature_V6K :: bool
  feature_V7 :: bool
  feature_V8 :: bool
  feature_XSCALE :: bool
  feature_PXN :: bool
  feature_EL2 :: bool
  feature_EL3 :: bool
  feature_LPAE :: bool
  feature_PMSA :: bool
  feature_AARCH64 :: bool
  uncached_cpsr :: u32
  scr_el3 :: u64
  hcr_el2 :: u64
  sctlr_el :: "nat \<Rightarrow> u64"
  tcr_el :: "nat \<Rightarrow> TCR"
  vtcr_el2 :: TCR
  ttbr0_el :: "nat \<Rightarrow> u64"
  ttbr1_el :: "nat \<Rightarrow> u64"
  vttbr_el2 :: u64
  dacr_ns :: u32
  dacr_s :: u32
  fcseidr_ns :: u32
  fcseidr_s :: u32
  mpu_ctrl :: "bool \<Rightarrow> u32"
  c6_region :: "nat \<Rightarrow> u32"
  pmsav5_insn_ap :: u32
  pmsav5_data_ap :: u32
  arm_cpu_index :: u32
  bus_error :: "u64 \<Rightarrow> bool"

text \<open>\<open>g_assert_not_reached\<close> is \<open>None\<close>.\<close>

section \<open>Translation regimes\<close>

definition arm_is_secure_below_el3 :: "arm_env \<Rightarrow> bool" where
  "arm_is_secure_below_el3 env = (feature_EL3 env \<and> scr_el3 env AND 1 = 0)"

definition arm_el_is_aa64 :: "arm_env \<Rightarrow> nat \<Rightarrow> bool" where
  "arm_el_is_aa64 env el =
     (if el = 3 then feature_AARCH64 env
      else
        let aa64 = (if feature_EL3 env then feature_AARCH64 env \<and> scr_el3 env AND push_bit 10 1 \<noteq> 0
                    else feature_AARCH64 env)
        in if el = 2 then aa64
           else if feature_EL2 env \<and> \<not> arm_is_secure_below_el3 env
           then aa64 \<and> hcr_el2 env AND push_bit 31 1 \<noteq> 0
           else aa64)"

fun regime_el :: "arm_env \<Rightarrow> ARMMMUIdx \<Rightarrow> nat option" where
  "regime_el env ARMMMUIdx_S2NS = Some 2"
| "regime_el env ARMMMUIdx_S1E2 = Some 2"
| "regime_el env ARMMMUIdx_S1E3 = Some 3"
| "regime_el env ARMMMUIdx_S1SE0 = Some (if arm_el_is_aa64 env 3 then 1 else 3)"
| "regime_el env ARMMMUIdx_S12NSE0 = None"
| "regime_el env ARMMMUIdx_S12NSE1 = None"
| "regime_el env _ = Some 1"

fun regime_is_secure :: "ARMMMUIdx \<Rightarrow> bool" where
  "regime_is_secure ARMMMUIdx_S1E3 = True"
| "regime_is_secure ARMMMUIdx_S1SE0 = True"
| "regime_is_secure ARMMMUIdx_S1SE1 = True"
| "regime_is_secure ARMMMUIdx_MSPrivNegPri = True"
| "regime_is_secure ARMMMUIdx_MSUserNegPri = True"
| "regime_is_secure ARMMMUIdx_MSPriv = True"
| "regime_is_secure ARMMMUIdx_MSUser = True"
| "regime_is_secure _ = False"

definition regime_sctlr :: "arm_env \<Rightarrow> ARMMMUIdx \<Rightarrow> u32 option" where
  "regime_sctlr env mmu_idx = map_option (\<lambda>el. ucast (sctlr_el env el)) (regime_el env mmu_idx)"

text \<open>The bit \<open>ARM_MMU_IDX_M_NEGPRI\<close> of an index.\<close>

fun idx_negpri :: "ARMMMUIdx \<Rightarrow> bool" where
  "idx_negpri ARMMMUIdx_S1E2 = True"
| "idx_negpri ARMMMUIdx_S1E3 = True"
| "idx_negpri ARMMMUIdx_S2NS = True"
| "idx_negpri ARMMMUIdx_MUserNegPri = True"
| "idx_negpri ARMMMUIdx_MPrivNegPri = True"
| "idx_negpri ARMMMUIdx_MSUserNegPri = True"
| "idx_negpri ARMMMUIdx_MSPrivNegPri = True"
| "idx_negpri _ = False"

definition HCR_VM :: u64 where "HCR_VM = 1"
definition HCR_PTW :: u64 where "HCR_PTW = push_bit 2 1"
definition HCR_DC :: u64 where "HCR_DC = push_bit 12 1"
definition HCR_TGE :: u64 where "HCR_TGE = push_bit 27 1"

definition regime_translation_disabled :: "arm_env \<Rightarrow> ARMMMUIdx \<Rightarrow> bool option" where
  "regime_translation_disabled env mmu_idx =
     (if feature_M env then
        let c = mpu_ctrl env (regime_is_secure mmu_idx) AND 3
        in Some (if c = 1 then idx_negpri mmu_idx else c \<noteq> 3)
      else if mmu_idx = ARMMMUIdx_S2NS then Some (hcr_el2 env AND (HCR_DC OR HCR_VM) = 0)
      else if hcr_el2 env AND HCR_TGE \<noteq> 0 \<and> \<not> regime_is_secure mmu_idx \<and> regime_el env mmu_idx = None
      then None
      else if hcr_el2 env AND HCR_TGE \<noteq> 0 \<and> \<not> regime_is_secure mmu_idx \<and> regime_el env mmu_idx = Some 1
      then Some True
      else if hcr_el2 env AND HCR_DC \<noteq> 0 \<and> (mmu_idx = ARMMMUIdx_S1NSE0 \<or> mmu_idx = ARMMMUIdx_S1NSE1)
      then Some True
      else map_option (\<lambda>s. s AND 1 = 0) (regime_sctlr env mmu_idx))"

definition regime_translation_big_endian :: "arm_env \<Rightarrow> ARMMMUIdx \<Rightarrow> bool option" where
  "regime_translation_big_endian env mmu_idx =
     map_option (\<lambda>s. s AND push_bit 25 1 \<noteq> 0) (regime_sctlr env mmu_idx)"

definition regime_tcr :: "arm_env \<Rightarrow> ARMMMUIdx \<Rightarrow> TCR option" where
  "regime_tcr env mmu_idx =
     (if mmu_idx = ARMMMUIdx_S2NS then Some (vtcr_el2 env)
      else map_option (tcr_el env) (regime_el env mmu_idx))"

fun stage_1_mmu_idx :: "ARMMMUIdx \<Rightarrow> ARMMMUIdx" where
  "stage_1_mmu_idx ARMMMUIdx_S12NSE0 = ARMMMUIdx_S1NSE0"
| "stage_1_mmu_idx ARMMMUIdx_S12NSE1 = ARMMMUIdx_S1NSE1"
| "stage_1_mmu_idx i = i"

definition regime_ttbr :: "arm_env \<Rightarrow> ARMMMUIdx \<Rightarrow> nat \<Rightarrow> u64 option" where
  "regime_ttbr env mmu_idx ttbrn =
     (if mmu_idx = ARMMMUIdx_S2NS then Some (vttbr_el2 env)
      else if ttbrn = 0 then map_option (ttbr0_el env) (regime_el env mmu_idx)
      else map_option (ttbr1_el env) (regime_el env mmu_idx))"

definition regime_using_lpae_format :: "arm_env \<Rightarrow> ARMMMUIdx \<Rightarrow> bool option" where
  "regime_using_lpae_format env mmu_idx =
     (case regime_el env mmu_idx of None \<Rightarrow> None
      | Some el \<Rightarrow>
          if el = 2 \<or> arm_el_is_aa64 env el then Some True
          else if feature_LPAE env
          then map_option (\<lambda>t. raw_tcr t AND push_bit 31 1 \<noteq> 0) (regime_tcr env mmu_idx)
          else Some False)"

fun regime_is_user :: "ARMMMUIdx \<Rightarrow> bool option" where
  "regime_is_user ARMMMUIdx_S1SE0 = Some True"
| "regime_is_user ARMMMUIdx_S1NSE0 = Some True"
| "regime_is_user ARMMMUIdx_MUser = Some True"
| "regime_is_user ARMMMUIdx_MSUser = Some True"
| "regime_is_user ARMMMUIdx_MUserNegPri = Some True"
| "regime_is_user ARMMMUIdx_MSUserNegPri = Some True"
| "regime_is_user ARMMMUIdx_S12NSE0 = None"
| "regime_is_user ARMMMUIdx_S12NSE1 = None"
| "regime_is_user _ = Some False"

section \<open>Access permissions\<close>

definition ap_to_rw_prot :: "arm_env \<Rightarrow> ARMMMUIdx \<Rightarrow> u32 \<Rightarrow> u32 \<Rightarrow> u32 option" where
  "ap_to_rw_prot env mmu_idx ap domain_prot =
     (case regime_is_user mmu_idx of None \<Rightarrow> None
      | Some is_user \<Rightarrow>
          if domain_prot = 3 then Some 3
          else if ap = 0 then
            if feature_V7 env then Some 0
            else
              (case regime_sctlr env mmu_idx of None \<Rightarrow> None
               | Some s \<Rightarrow>
                   let b = s AND 0x300
                   in Some (if b = 0x100 then (if is_user then 0 else 1)
                            else if b = 0x200 then 1 else 0))
          else if ap = 1 then Some (if is_user then 0 else 3)
          else if ap = 2 then Some (if is_user then 1 else 3)
          else if ap = 3 then Some 3
          else if ap = 4 then Some 0
          else if ap = 5 then Some (if is_user then 0 else 1)
          else if ap = 6 then Some 1
          else if ap = 7 then Some (if feature_V6K env then 1 else 0)
          else None)"

definition simple_ap_to_rw_prot_is_user :: "u32 \<Rightarrow> bool \<Rightarrow> u32 option" where
  "simple_ap_to_rw_prot_is_user ap is_user =
     (if ap = 0 then Some (if is_user then 0 else 3)
      else if ap = 1 then Some 3
      else if ap = 2 then Some (if is_user then 0 else 1)
      else if ap = 3 then Some 1
      else None)"

definition simple_ap_to_rw_prot :: "ARMMMUIdx \<Rightarrow> u32 \<Rightarrow> u32 option" where
  "simple_ap_to_rw_prot mmu_idx ap =
     Option.bind (regime_is_user mmu_idx) (simple_ap_to_rw_prot_is_user ap)"

text \<open>The protection bit an access needs.\<close>

fun access_bit :: "MMUAccessType \<Rightarrow> u32" where
  "access_bit MMU_DATA_LOAD = 1"
| "access_bit MMU_DATA_STORE = 2"
| "access_bit MMU_INST_FETCH = 4"

section \<open>Walks\<close>

text \<open>
  The outcome of a walk: a fault with its level and domain and what it had already stored in
  \<open>*phys_ptr\<close>, or a physical address with protection, page size and whether the page
  downgrades the access to non-secure.
\<close>

datatype walk =
    Walk_Fault ARMFaultType nat nat "u64 option"
  | Walk_Ok u64 u32 u64 bool

fun walk_failed :: "walk \<Rightarrow> bool" where
  "walk_failed (Walk_Fault f l d wr) = True"
| "walk_failed (Walk_Ok p pr sz ns) = False"

fun walk_written :: "walk \<Rightarrow> u64 option" where
  "walk_written (Walk_Fault f l d wr) = wr"
| "walk_written (Walk_Ok p pr sz ns) = Some p"

definition get_level1_table_address :: "arm_env \<Rightarrow> ARMMMUIdx \<Rightarrow> u32 \<Rightarrow> u32 option option" where
  "get_level1_table_address env mmu_idx address =
     (case (regime_tcr env mmu_idx, regime_ttbr env mmu_idx 0, regime_ttbr env mmu_idx 1) of
        (Some tcr, Some t0, Some t1) \<Rightarrow>
          Some (if address AND tcr_mask tcr \<noteq> 0 then
                  (if raw_tcr tcr AND push_bit 5 1 \<noteq> 0 then None
                   else Some ((ucast t1 AND 0xffffc000) OR (drop_bit 18 address AND 0x3ffc)))
                else
                  (if raw_tcr tcr AND push_bit 4 1 \<noteq> 0 then None
                   else Some ((ucast t0 AND tcr_base_mask tcr) OR (drop_bit 18 address AND 0x3ffc))))
      | _ \<Rightarrow> None)"

text \<open>
  Loads of the walk. A stage 1 walk of the non-secure regimes goes through stage 2 when that is
  enabled, by the long-descriptor walk \<open>lpae\<close>; its failure is a fault of the stage 1 walk.
\<close>

type_synonym lpae_walk = "arm_env \<Rightarrow> u64 \<Rightarrow> MMUAccessType \<Rightarrow> ARMMMUIdx \<Rightarrow> (walk \<times> ARMCacheAttrs) option"

definition S1_ptw_translate :: "lpae_walk \<Rightarrow> arm_env \<Rightarrow> ARMMMUIdx \<Rightarrow> u64 \<Rightarrow> (ARMFaultType + u64) option" where
  "S1_ptw_translate lpae env mmu_idx addr =
     (if mmu_idx = ARMMMUIdx_S1NSE0 \<or> mmu_idx = ARMMMUIdx_S1NSE1 then
        (case regime_translation_disabled env ARMMMUIdx_S2NS of None \<Rightarrow> None
         | Some True \<Rightarrow> Some (Inr addr)
         | Some False \<Rightarrow>
             (case lpae env addr MMU_DATA_LOAD ARMMMUIdx_S2NS of None \<Rightarrow> None
              | Some (Walk_Fault f l d wr, _) \<Rightarrow> Some (Inl f)
              | Some (Walk_Ok s2pa p sz ns, ca) \<Rightarrow>
                  if hcr_el2 env AND HCR_PTW \<noteq> 0 \<and> attrs ca AND 0xf0 = 0
                  then Some (Inl ARMFault_Permission) else Some (Inr s2pa)))
      else Some (Inr addr))"

definition arm_ldl_ptw ::
    "lpae_walk \<Rightarrow> phys_mem \<Rightarrow> arm_env \<Rightarrow> ARMMMUIdx \<Rightarrow> u32 \<Rightarrow> (ARMFaultType + u32) option" where
  "arm_ldl_ptw lpae mem env mmu_idx addr =
     (case S1_ptw_translate lpae env mmu_idx (ucast addr) of None \<Rightarrow> None
      | Some (Inl f) \<Rightarrow> Some (Inl f)
      | Some (Inr a) \<Rightarrow>
          map_option (\<lambda>be. if bus_error env a then Inl ARMFault_SyncExternalOnWalk
              else Inr (if be then le_word (rev (phys_bytes mem a 4)) else ldl_phys mem a))
            (regime_translation_big_endian env mmu_idx))"

text \<open>Continue a walk with the descriptor that a load gives, or stop at its fault.\<close>

definition with_desc ::
    "(ARMFaultType + u32) option \<Rightarrow> nat \<Rightarrow> nat \<Rightarrow> (u32 \<Rightarrow> walk option) \<Rightarrow> walk option" where
  "with_desc r level domain f =
     (case r of None \<Rightarrow> None | Some (Inl e) \<Rightarrow> Some (Walk_Fault e level domain None) | Some (Inr d) \<Rightarrow> f d)"

definition walk_dacr :: "arm_env \<Rightarrow> ARMMMUIdx \<Rightarrow> nat \<Rightarrow> u32 option" where
  "walk_dacr env mmu_idx domain =
     map_option (\<lambda>el. drop_bit (domain * 2) (if el = 1 then dacr_ns env else dacr_s env) AND 3)
       (regime_el env mmu_idx)"

text \<open>
  The second level of the ARMv5 walk: physical address, access permissions and page size, or
  a translation fault. The argument \<open>coarse\<close> says that the first-level type was 1.
\<close>

definition v5_level2 :: "arm_env \<Rightarrow> bool \<Rightarrow> u32 \<Rightarrow> u32 \<Rightarrow> (u32 \<times> u32 \<times> u64) option" where
  "v5_level2 env coarse desc address =
     (if desc AND 3 = 0 then None
      else if desc AND 3 = 1 then
        Some ((desc AND 0xffff0000) OR (address AND 0xffff),
              drop_bit (4 + unat (drop_bit 13 address AND 6)) desc AND 3, 0x10000)
      else if desc AND 3 = 2 then
        Some ((desc AND 0xfffff000) OR (address AND 0xfff),
              drop_bit (4 + unat (drop_bit 9 address AND 6)) desc AND 3, 0x1000)
      else if coarse then
        if feature_XSCALE env \<or> feature_V6 env then
          Some ((desc AND 0xfffff000) OR (address AND 0xfff), drop_bit 4 desc AND 3, 0x1000)
        else None
      else Some ((desc AND 0xfffffc00) OR (address AND 0x3ff), drop_bit 4 desc AND 3, 0x400))"

text \<open>The permission check that ends the ARMv5 walk.\<close>

definition v5_finish ::
    "arm_env \<Rightarrow> ARMMMUIdx \<Rightarrow> MMUAccessType \<Rightarrow> nat \<Rightarrow> nat \<Rightarrow> u32 \<Rightarrow> u32 \<times> u32 \<times> u64 \<Rightarrow> walk option" where
  "v5_finish env mmu_idx access_type level domain domain_prot = (\<lambda>(phys, ap, sz).
     map_option (\<lambda>p.
       let prot = (if p \<noteq> 0 then p OR 4 else p)
       in if prot AND access_bit access_type = 0 then Walk_Fault ARMFault_Permission level domain None
          else Walk_Ok (ucast phys) prot sz False)
     (ap_to_rw_prot env mmu_idx ap domain_prot))"

definition get_phys_addr_v5 ::
    "lpae_walk \<Rightarrow> phys_mem \<Rightarrow> arm_env \<Rightarrow> u32 \<Rightarrow> MMUAccessType \<Rightarrow> ARMMMUIdx \<Rightarrow> walk option" where
  "get_phys_addr_v5 lpae mem env address access_type mmu_idx =
     (case get_level1_table_address env mmu_idx address of
        None \<Rightarrow> None
      | Some None \<Rightarrow> Some (Walk_Fault ARMFault_Translation 1 0 None)
      | Some (Some table) \<Rightarrow>
          with_desc (arm_ldl_ptw lpae mem env mmu_idx table) 1 0 (\<lambda>desc.
            let type = desc AND 3;
                domain = unat (drop_bit 5 desc AND 0x0f)
            in case walk_dacr env mmu_idx domain of None \<Rightarrow> None
               | Some domain_prot \<Rightarrow>
                   if type = 0 then Some (Walk_Fault ARMFault_Translation 1 domain None)
                   else
                     let level = (if type \<noteq> 2 then 2 else 1)
                     in if domain_prot = 0 \<or> domain_prot = 2
                        then Some (Walk_Fault ARMFault_Domain level domain None)
                        else if type = 2 then
                          v5_finish env mmu_idx access_type level domain domain_prot
                            ((desc AND 0xfff00000) OR (address AND 0x000fffff),
                             drop_bit 10 desc AND 3, 1024 * 1024)
                        else
                          let table2 = (if type = 1
                                then (desc AND 0xfffffc00) OR (drop_bit 10 address AND 0x3fc)
                                else (desc AND 0xfffff000) OR (drop_bit 8 address AND 0xffc))
                          in with_desc (arm_ldl_ptw lpae mem env mmu_idx table2) level domain (\<lambda>desc2.
                               case v5_level2 env (type = 1) desc2 address of
                                 None \<Rightarrow> Some (Walk_Fault ARMFault_Translation level domain None)
                               | Some r \<Rightarrow> v5_finish env mmu_idx access_type level domain domain_prot r)))"

text \<open>
  The permission check that ends the ARMv6 walk, on physical address, page size, access
  permissions, the two execute-never bits and the non-secure bit.
\<close>

definition v6_finish ::
    "arm_env \<Rightarrow> ARMMMUIdx \<Rightarrow> MMUAccessType \<Rightarrow> nat \<Rightarrow> nat \<Rightarrow> u32 \<Rightarrow>
     u64 \<times> u64 \<times> u32 \<times> bool \<times> bool \<times> bool \<Rightarrow> walk option" where
  "v6_finish env mmu_idx access_type level domain domain_prot = (\<lambda>(phys, sz, ap, xn, pxn, ns).
     if domain_prot = 3 then Some (Walk_Ok phys 7 sz ns)
     else
       case (regime_is_user mmu_idx, regime_sctlr env mmu_idx) of
         (Some user, Some sctlr) \<Rightarrow>
           let xn = (xn \<or> (pxn \<and> \<not> user))
           in if xn \<and> access_type = MMU_INST_FETCH
              then Some (Walk_Fault ARMFault_Permission level domain None)
              else
                let afe = (feature_V6K env \<and> sctlr AND push_bit 29 1 \<noteq> 0)
                in if afe \<and> ap AND 1 = 0 then Some (Walk_Fault ARMFault_AccessFlag level domain None)
                   else map_option (\<lambda>p.
                     let prot = (if p \<noteq> 0 \<and> \<not> xn then p OR 4 else p)
                     in if prot AND access_bit access_type = 0
                        then Walk_Fault ARMFault_Permission level domain None
                        else Walk_Ok phys prot sz ns)
                     (if afe then simple_ap_to_rw_prot mmu_idx (drop_bit 1 ap)
                      else ap_to_rw_prot env mmu_idx ap domain_prot)
       | _ \<Rightarrow> None)"

text \<open>A section or supersection descriptor.\<close>

definition v6_section :: "u32 \<Rightarrow> u32 \<Rightarrow> u64 \<times> u64 \<times> u32 \<times> bool \<times> bool \<times> bool" where
  "v6_section desc address =
     (let (phys, sz) =
        (if desc AND push_bit 18 1 \<noteq> 0 then
           (ucast ((desc AND 0xff000000) OR (address AND 0x00ffffff)) OR
              push_bit 32 (ucast (drop_bit 20 desc AND 0xf)) OR
              push_bit 36 (ucast (drop_bit 5 desc AND 0xf)), 0x1000000)
         else (ucast ((desc AND 0xfff00000) OR (address AND 0x000fffff)), 0x100000))
      in (phys, sz, (drop_bit 10 desc AND 3) OR (drop_bit 13 desc AND 4),
          desc AND push_bit 4 1 \<noteq> 0, desc AND 1 \<noteq> 0, drop_bit 19 desc AND 1 \<noteq> 0))"

definition v6_page :: "u32 \<Rightarrow> u32 \<Rightarrow> bool \<Rightarrow> bool \<Rightarrow> (u64 \<times> u64 \<times> u32 \<times> bool \<times> bool \<times> bool) option" where
  "v6_page desc address pxn ns =
     (let ap = (drop_bit 4 desc AND 3) OR (drop_bit 7 desc AND 4)
      in if desc AND 3 = 0 then None
         else if desc AND 3 = 1 then
           Some (ucast ((desc AND 0xffff0000) OR (address AND 0xffff)), 0x10000, ap,
                 desc AND push_bit 15 1 \<noteq> 0, pxn, ns)
         else
           Some (ucast ((desc AND 0xfffff000) OR (address AND 0xfff)), 0x1000, ap,
                 desc AND 1 \<noteq> 0, pxn, ns))"

definition get_phys_addr_v6 ::
    "lpae_walk \<Rightarrow> phys_mem \<Rightarrow> arm_env \<Rightarrow> u32 \<Rightarrow> MMUAccessType \<Rightarrow> ARMMMUIdx \<Rightarrow> walk option" where
  "get_phys_addr_v6 lpae mem env address access_type mmu_idx =
     (case get_level1_table_address env mmu_idx address of
        None \<Rightarrow> None
      | Some None \<Rightarrow> Some (Walk_Fault ARMFault_Translation 1 0 None)
      | Some (Some table) \<Rightarrow>
          with_desc (arm_ldl_ptw lpae mem env mmu_idx table) 1 0 (\<lambda>desc.
            let type = desc AND 3
            in if type = 0 \<or> (type = 3 \<and> \<not> feature_PXN env)
               then Some (Walk_Fault ARMFault_Translation 1 0 None)
               else
                 let domain = (if type = 1 \<or> desc AND push_bit 18 1 = 0
                               then unat (drop_bit 5 desc AND 0x0f) else 0);
                     level = (if type = 1 then 2 else 1)
                 in case walk_dacr env mmu_idx domain of None \<Rightarrow> None
                    | Some domain_prot \<Rightarrow>
                        if domain_prot = 0 \<or> domain_prot = 2
                        then Some (Walk_Fault ARMFault_Domain level domain None)
                        else if type \<noteq> 1 then
                          v6_finish env mmu_idx access_type level domain domain_prot (v6_section desc address)
                        else
                          with_desc (arm_ldl_ptw lpae mem env mmu_idx
                              ((desc AND 0xfffffc00) OR (drop_bit 10 address AND 0x3fc))) level domain (\<lambda>desc2.
                            case v6_page desc2 address (feature_PXN env \<and> drop_bit 2 desc AND 1 \<noteq> 0)
                                   (drop_bit 3 desc AND 1 \<noteq> 0) of
                              None \<Rightarrow> Some (Walk_Fault ARMFault_Translation level domain None)
                            | Some r \<Rightarrow> v6_finish env mmu_idx access_type level domain domain_prot r)))"

section \<open>Protection unit of ARMv5\<close>

text \<open>The region that matches, from 7 down to 0.\<close>

fun pmsav5_region :: "arm_env \<Rightarrow> u32 \<Rightarrow> nat \<Rightarrow> nat option" where
  "pmsav5_region env address 0 = None"
| "pmsav5_region env address (Suc n) =
     (let base = c6_region env n;
          msk = push_bit 1 (push_bit (unat (drop_bit 1 base AND 0x1f)) 1) - 1
      in if base AND 1 \<noteq> 0 \<and> (base XOR address) AND NOT msk = 0 then Some n
         else pmsav5_region env address n)"

definition get_phys_addr_pmsav5 :: "arm_env \<Rightarrow> u32 \<Rightarrow> MMUAccessType \<Rightarrow> ARMMMUIdx \<Rightarrow> walk option" where
  "get_phys_addr_pmsav5 env address access_type mmu_idx =
     (case (regime_is_user mmu_idx, regime_translation_disabled env mmu_idx) of
        (Some is_user, Some off) \<Rightarrow>
          if off then Some (Walk_Ok (ucast address) 7 0x1000 False)
          else
            (case pmsav5_region env address 8 of
               None \<Rightarrow> Some (Walk_Fault ARMFault_Background 0 0 (Some (ucast address)))
             | Some n \<Rightarrow>
                 let m = drop_bit (n * 4) (if access_type = MMU_INST_FETCH then pmsav5_insn_ap env
                                           else pmsav5_data_ap env) AND 0xf;
                     deny = Some (Walk_Fault ARMFault_Permission 1 0 (Some (ucast address)));
                     grant = (\<lambda>p. Some (Walk_Ok (ucast address) (p OR 4) 0x1000 False))
                 in if m = 1 then (if is_user then deny else grant 3)
                    else if m = 2 then grant (if is_user then 1 else 3)
                    else if m = 3 then grant 3
                    else if m = 5 then (if is_user then deny else grant 1)
                    else if m = 6 then grant 1
                    else deny)
      | _ \<Rightarrow> None)"

section \<open>Cache attributes of two stages\<close>

definition combine_cacheattr_nibble :: "u8 \<Rightarrow> u8 \<Rightarrow> u8" where
  "combine_cacheattr_nibble s1 s2 =
     (if s1 = 4 \<or> s2 = 4 then 4
      else if drop_bit 2 s1 AND 3 = 0 \<or> drop_bit 2 s1 AND 3 = 2 then s1
      else if drop_bit 2 s2 AND 3 = 2 then push_bit 2 2 OR (s1 AND 3)
      else s1)"

definition combine_cacheattrs :: "ARMCacheAttrs \<Rightarrow> ARMCacheAttrs \<Rightarrow> ARMCacheAttrs" where
  "combine_cacheattrs s1 s2 =
     (let s1lo = attrs s1 AND 0xF; s2lo = attrs s2 AND 0xF;
          s1hi = drop_bit 4 (attrs s1) AND 0xF; s2hi = drop_bit 4 (attrs s2) AND 0xF;
          sh = (if shareability s1 = 2 \<or> shareability s2 = 2 then 2
                else if shareability s1 = 3 \<or> shareability s2 = 3 then 3 else 0)
      in if s1hi = 0 \<or> s2hi = 0 then
           \<lparr>attrs = (if s1lo = 0 \<or> s2lo = 0 then 0 else if s1lo = 4 \<or> s2lo = 4 then 4
                     else if s1lo = 8 \<or> s2lo = 8 then 8 else 0xc), shareability = 2\<rparr>
         else
           let a = push_bit 4 (combine_cacheattr_nibble s1hi s2hi) OR combine_cacheattr_nibble s1lo s2lo
           in \<lparr>attrs = a, shareability = (if a = 0x44 then 2 else sh)\<rparr>)"

section \<open>Dispatch\<close>

text \<open>
  The walks outside the model: the long-descriptor walk and the protection units of ARMv7 and
  ARMv8.
\<close>

record arm_walks =
  w_lpae :: lpae_walk
  w_pmsav7 :: "arm_env \<Rightarrow> u32 \<Rightarrow> MMUAccessType \<Rightarrow> ARMMMUIdx \<Rightarrow> walk option"
  w_pmsav8 :: "arm_env \<Rightarrow> u32 \<Rightarrow> MMUAccessType \<Rightarrow> ARMMMUIdx \<Rightarrow> walk option"

text \<open>The single-stage part; cache attributes are written by the long-descriptor walk alone.\<close>

definition get_phys_addr_s1 ::
    "arm_walks \<Rightarrow> phys_mem \<Rightarrow> arm_env \<Rightarrow> u32 \<Rightarrow> MMUAccessType \<Rightarrow> ARMMMUIdx \<Rightarrow> ARMCacheAttrs \<Rightarrow>
     (walk \<times> ARMCacheAttrs) option" where
  "get_phys_addr_s1 w mem env address access_type mmu_idx ca =
     (case (regime_is_user mmu_idx, regime_el env mmu_idx) of
        (Some user, Some el) \<Rightarrow>
          let address = (if address < 0x02000000 \<and> mmu_idx \<noteq> ARMMMUIdx_S2NS \<and> \<not> feature_V8 env
                         then address + (if el = 3 then fcseidr_s env else fcseidr_ns env)
                         else address);
              plain = map_option (\<lambda>r. (r, ca))
          in if feature_PMSA env then
               plain (if feature_V8 env then w_pmsav8 w env address access_type mmu_idx
                      else if feature_V7 env then w_pmsav7 w env address access_type mmu_idx
                      else get_phys_addr_pmsav5 env address access_type mmu_idx)
             else
               (case (regime_translation_disabled env mmu_idx, regime_using_lpae_format env mmu_idx,
                      regime_sctlr env mmu_idx) of
                  (Some off, Some lpae, Some sctlr) \<Rightarrow>
                    if off then Some (Walk_Ok (ucast address) 7 0x1000 False, ca)
                    else if lpae then w_lpae w env (ucast address) access_type mmu_idx
                    else if sctlr AND push_bit 23 1 \<noteq> 0
                    then plain (get_phys_addr_v6 (w_lpae w) mem env address access_type mmu_idx)
                    else plain (get_phys_addr_v5 (w_lpae w) mem env address access_type mmu_idx)
                | _ \<Rightarrow> None)
      | _ \<Rightarrow> None)"

text \<open>
  The whole dispatch: the value written to \<open>*phys_ptr\<close> (if any), whether it failed, and the
  cache attributes. When stage 1 fails on a core with EL2, the uninitialised \<open>ipa\<close> is
  written, which the argument \<open>junk\<close> stands for.
\<close>

definition get_phys_addr ::
    "arm_walks \<Rightarrow> phys_mem \<Rightarrow> arm_env \<Rightarrow> u64 \<Rightarrow> u32 \<Rightarrow> MMUAccessType \<Rightarrow> ARMMMUIdx \<Rightarrow> ARMCacheAttrs \<Rightarrow>
     (bool \<times> u64 option \<times> ARMCacheAttrs) option" where
  "get_phys_addr w mem env junk address access_type mmu_idx ca =
     (if (mmu_idx = ARMMMUIdx_S12NSE0 \<or> mmu_idx = ARMMMUIdx_S12NSE1) \<and> feature_EL2 env then
        (case (get_phys_addr_s1 w mem env address access_type (stage_1_mmu_idx mmu_idx) ca,
               regime_translation_disabled env ARMMMUIdx_S2NS) of
           (Some (Walk_Fault f l d wr, ca1), _) \<Rightarrow> Some (True, Some (case wr of None \<Rightarrow> junk | Some x \<Rightarrow> x), ca1)
         | (Some (Walk_Ok ipa p sz ns, ca1), Some True) \<Rightarrow> Some (False, Some ipa, ca1)
         | (Some (Walk_Ok ipa p sz ns, ca1), Some False) \<Rightarrow>
             (case w_lpae w env ipa access_type ARMMMUIdx_S2NS of
                None \<Rightarrow> None
              | Some (Walk_Fault f l d wr, ca2) \<Rightarrow> Some (True, wr, ca1)
              | Some (Walk_Ok pa p2 sz2 ns2, ca2) \<Rightarrow>
                  let ca1 = (if hcr_el2 env AND HCR_DC \<noteq> 0 then \<lparr>attrs = 0xff, shareability = 0\<rparr> else ca1)
                  in Some (False, Some pa, combine_cacheattrs ca1 ca2))
         | _ \<Rightarrow> None)
      else
        map_option (\<lambda>(r, ca'). (walk_failed r, walk_written r, ca'))
          (get_phys_addr_s1 w mem env address access_type (stage_1_mmu_idx mmu_idx) ca))"

end
