(* ===== verification/QEM_Arch_ARM.thy ===== *)
theory QEM_Arch_ARM
  imports QEM_ARM_MMU
begin

text \<open>
  The ARM guest: \<^verbatim>\<open>QEMTrace/arch/arm/qem_trace_engine.c\<close> and
  \<^verbatim>\<open>QEMTrace/arch/arm/helper.c\<close>. The tracer passes a pointer to a \<open>target_ulong\<close> where
  \<open>get_phys_addr\<close> stores a 64-bit address. On a 32-bit target and a little-endian host the variable
  gets the low word and the four bytes behind it the high word; the other locals of the helpers
  are all assigned after the store, so the record is the one with the low word.
\<close>

section \<open>Translation for a trace event\<close>

text \<open>\<open>ai_spill\<close> is the word stored behind the address variable, when there is one.\<close>

record arm_info =
  ai_phys :: u64
  ai_spill :: "u32 option"
  ai_wt :: bool
  ai_inhibit :: bool
  ai_coherency :: bool
  ai_mode :: bool

definition arm_privileged :: "arm_env \<Rightarrow> bool" where
  "arm_privileged env = (uncached_cpsr env AND 0x1F \<noteq> 0x10)"

text \<open>\<open>sctlr_s\<close> is the control register of level 3, \<open>sctlr_ns\<close> that of level 1.\<close>

definition arm_trace_sctlr :: "arm_env \<Rightarrow> u64" where
  "arm_trace_sctlr env = (if arm_privileged env then sctlr_el env 3 else sctlr_el env 1)"

text \<open>The enable bit of the data cache (bit 2) or of the instruction cache (bit 12).\<close>

definition arm_cache_off :: "u64 \<Rightarrow> MMUAccessType \<Rightarrow> bool" where
  "arm_cache_off reg ty =
     (if ty = MMU_DATA_LOAD \<or> ty = MMU_DATA_STORE then drop_bit 2 (reg AND 0x4) = 0
      else drop_bit 12 (reg AND 0x1000) = 0)"

text \<open>What the store of a physical address leaves in the \<open>target_ulong\<close>, and behind it.\<close>

definition arm_stored :: "qem_config \<Rightarrow> u64 \<Rightarrow> u64" where
  "arm_stored cfg p = (if QEM_TRACE_TARGET_64 cfg then p else p AND 0xffffffff)"

definition arm_spilled :: "qem_config \<Rightarrow> u64 option \<Rightarrow> u32 option" where
  "arm_spilled cfg written =
     (if QEM_TRACE_TARGET_64 cfg then None else map_option (\<lambda>p. ucast (drop_bit 32 p)) written)"

definition qem_arm_get_info_addr_mem_trace ::
    "qem_config \<Rightarrow> arm_walks \<Rightarrow> phys_mem \<Rightarrow> u64 \<Rightarrow> u32 \<Rightarrow> MMUAccessType \<Rightarrow> ARMMMUIdx \<Rightarrow> arm_env \<Rightarrow>
     (arm_info, arm_env) run" where
  "qem_arm_get_info_addr_mem_trace cfg w mem junk addr real_access_type mmu_idx env =
     (let reg = arm_trace_sctlr env
      in case get_phys_addr w mem env junk addr real_access_type mmu_idx \<lparr>attrs = 0, shareability = 0\<rparr> of
           None \<Rightarrow> Exited 134 env
         | Some (failed, written, ca) \<Rightarrow>
             (case regime_translation_disabled env mmu_idx of
                None \<Rightarrow> Exited 134 env
              | Some off \<Rightarrow>
                  Done \<lparr>ai_phys = (if QEM_TRACE_PHYSICAL_ADDRESS cfg
                                   then (case written of None \<Rightarrow> 0 | Some p \<Rightarrow> arm_stored cfg p) else ucast addr),
                        ai_spill = arm_spilled cfg written,
                        ai_wt = (if \<not> off then attrs ca AND 0x7 < 4 else True),
                        ai_inhibit = ((if \<not> off then attrs ca AND 0xF = 0x4 else False) \<or>
                                      arm_cache_off reg real_access_type),
                        ai_coherency = True,
                        ai_mode = arm_privileged env\<rparr> env))"

section \<open>Helpers\<close>

definition arm_GET_ENV_FLAGS :: "bool \<Rightarrow> arm_info \<Rightarrow> int \<Rightarrow> u32 \<Rightarrow> u32" where
  "arm_GET_ENV_FLAGS meta info sz flags =
     (let flags = flags OR (if ai_mode info then pl_val meta QEM_TRACE_PL_KERNEL
                            else pl_val meta QEM_TRACE_PL_USER);
          flags = flags OR data_size_val meta (size_of_log sz);
          flags = flags OR (if ai_coherency info then coherency_val meta QEM_TRACE_COHERENCY_REQ
                            else coherency_val meta QEM_TRACE_COHERENCY_NON_REQ);
          flags = flags OR (if ai_inhibit info then cache_inhibit_val meta QEM_TRACE_CACHE_INHIBIT_ON
                            else cache_inhibit_val meta QEM_TRACE_CACHE_INHIBIT_OFF)
      in flags OR (if ai_wt info then cache_wt_val meta QEM_TRACE_CACHE_WT_ON
                   else cache_wt_val meta QEM_TRACE_CACHE_WT_OFF))"

text \<open>What a helper finds around it: configuration, walks, memory, junk and the counter.\<close>

record arm_frame =
  af_cfg :: qem_config
  af_walks :: arm_walks
  af_mem :: phys_mem
  af_junk :: u64
  af_tsc :: "u32 \<times> u32"

definition arm_event_args ::
    "arm_frame \<Rightarrow> u32 \<Rightarrow> MMUAccessType \<Rightarrow> ARMMMUIdx \<Rightarrow> int \<Rightarrow> u32 \<Rightarrow> arm_env \<Rightarrow> (out_args, arm_env) run" where
  "arm_event_args fr addr ty mmu_idx sz flags env =
     bind_run (qem_arm_get_info_addr_mem_trace (af_cfg fr) (af_walks fr) (af_mem fr) (af_junk fr)
                 addr ty mmu_idx env)
       (\<lambda>info env. Done (mk_out (ucast addr) (ai_phys info) (arm_cpu_index env) (tsc_time (af_tsc fr))
          (arm_GET_ENV_FLAGS (QEM_TRACE_GATHER_META (af_cfg fr)) info sz flags)) env)"

type_synonym 'z arm_helper =
  "(out_args \<Rightarrow> 'z tracer_scheme \<Rightarrow> (unit, 'z tracer_scheme) run) \<Rightarrow> arm_frame \<Rightarrow>
   'z tracer_scheme \<times> arm_env \<Rightarrow> (unit, 'z tracer_scheme \<times> arm_env) run"

definition arm_traced ::
    "QEM_TRACE_TTYPE_E \<Rightarrow> (out_args \<Rightarrow> 'z tracer_scheme \<Rightarrow> (unit, 'z tracer_scheme) run) \<Rightarrow>
     (arm_env \<Rightarrow> (out_args, arm_env) run) \<Rightarrow> 'z tracer_scheme \<times> arm_env \<Rightarrow>
     (unit, 'z tracer_scheme \<times> arm_env) run" where
  "arm_traced k emit args st =
     (if traced k (fst st) then emit_args emit (args (snd st)) (fst st) else Done () st)"

definition arm_helper_qem_instld_trace :: "u32 \<Rightarrow> int \<Rightarrow> ARMMMUIdx \<Rightarrow> 'z arm_helper" where
  "arm_helper_qem_instld_trace current_eip sz mmu_idx emit fr st =
     (let m = QEM_TRACE_GATHER_META (af_cfg fr)
      in arm_traced QEM_TRACE_ITRACE emit (arm_event_args fr current_eip MMU_INST_FETCH mmu_idx sz
           (event_val m QEM_TRACE_EVENT_ACCESS OR access_type_val m QEM_TRACE_ACCESS_TYPE_READ OR
            data_type_val m QEM_TRACE_DATA_TYPE_INST)) st)"

definition arm_helper_qem_datald_trace :: "u32 \<Rightarrow> int \<Rightarrow> ARMMMUIdx \<Rightarrow> bool \<Rightarrow> 'z arm_helper" where
  "arm_helper_qem_datald_trace addr sz mmu_idx exclusive emit fr st =
     (let m = QEM_TRACE_GATHER_META (af_cfg fr);
          flags = event_val m QEM_TRACE_EVENT_ACCESS OR access_type_val m QEM_TRACE_ACCESS_TYPE_READ OR
                  data_type_val m QEM_TRACE_DATA_TYPE_DATA;
          flags = (if exclusive then flags OR exclusive_val m QEM_TRACE_EVENT_EXCLUSIVE else flags)
      in arm_traced QEM_TRACE_DTRACE emit (arm_event_args fr addr MMU_DATA_LOAD mmu_idx sz flags) st)"

definition arm_helper_qem_datast_trace :: "u32 \<Rightarrow> int \<Rightarrow> ARMMMUIdx \<Rightarrow> bool \<Rightarrow> 'z arm_helper" where
  "arm_helper_qem_datast_trace addr sz mmu_idx exclusive emit fr st =
     (let m = QEM_TRACE_GATHER_META (af_cfg fr);
          flags = event_val m QEM_TRACE_EVENT_ACCESS OR access_type_val m QEM_TRACE_ACCESS_TYPE_WRITE OR
                  data_type_val m QEM_TRACE_DATA_TYPE_DATA;
          flags = (if exclusive then flags OR exclusive_val m QEM_TRACE_EVENT_EXCLUSIVE else flags)
      in arm_traced QEM_TRACE_DTRACE emit (arm_event_args fr addr MMU_DATA_STORE mmu_idx sz flags) st)"

definition arm_helper_qem_start_trace :: "(u8 \<Rightarrow> 's \<Rightarrow> (unit, 's) run) \<Rightarrow> u32 \<Rightarrow> 's \<Rightarrow> (unit, 's) run" where
  "arm_helper_qem_start_trace qem_trace_enable type s = qem_trace_enable (ucast type) s"

definition arm_helper_qem_stop_trace :: "(u8 \<Rightarrow> 's \<Rightarrow> (unit, 's) run) \<Rightarrow> u32 \<Rightarrow> 's \<Rightarrow> (unit, 's) run" where
  "arm_helper_qem_stop_trace qem_trace_disable type s = qem_trace_disable (ucast type) s"

section \<open>Page offsets of the walks\<close>

lemma frame_offset:
  fixes desc address :: u32
  shows "ucast ((desc AND push_bit k (mask (32 - k))) OR (address AND mask k)) AND (mask k :: u64) =
    ucast address AND mask k"
  by (rule bit_word_eqI)
     (auto simp: bit_and_iff bit_or_iff bit_unsigned_iff bit_push_bit_iff bit_mask_iff dest: bit_imp_le_length)

text \<open>The frame and offset masks of the page sizes.\<close>

lemma page_consts:
  "(0xffff0000 :: u32) = push_bit 16 (mask (32 - 16))" "(0xffff :: u32) = mask 16"
  "(0xfffff000 :: u32) = push_bit 12 (mask (32 - 12))" "(0xfff :: u32) = mask 12"
  "(0xfffffc00 :: u32) = push_bit 10 (mask (32 - 10))" "(0x3ff :: u32) = mask 10"
  "(0xfff00000 :: u32) = push_bit 20 (mask (32 - 20))" "(0x000fffff :: u32) = mask 20"
  "(0xff000000 :: u32) = push_bit 24 (mask (32 - 24))" "(0x00ffffff :: u32) = mask 24"
  "(0x10000 - 1 :: u64) = mask 16" "(0x1000 - 1 :: u64) = mask 12" "(0x400 - 1 :: u64) = mask 10"
  "(1024 * 1024 - 1 :: u64) = mask 20" "(0x100000 - 1 :: u64) = mask 20" "(0x1000000 - 1 :: u64) = mask 24"
  by (simp_all add: mask_eq_exp_minus_1 push_bit_eq_mult)

definition same_offset :: "u32 \<Rightarrow> u64 \<Rightarrow> u64 \<Rightarrow> bool" where
  "same_offset address sz phys = (phys AND (sz - 1) = ucast address AND (sz - 1))"

lemma v5_level2_offset:
  "v5_level2 env coarse desc address = Some (phys, ap, sz) \<Longrightarrow> same_offset address sz (ucast phys)"
  unfolding v5_level2_def same_offset_def
  by (auto simp only: option.inject prod.inject option.distinct page_consts frame_offset split: if_splits)

lemma v5_section_offset:
  "same_offset address (1024 * 1024) (ucast ((desc AND 0xfff00000) OR (address AND 0x000fffff)))"
  unfolding same_offset_def page_consts by (rule frame_offset)

lemma v6_page_offset:
  "v6_page desc address pxn ns = Some (phys, sz, r) \<Longrightarrow> same_offset address sz phys"
  unfolding v6_page_def same_offset_def Let_def
  by (auto simp only: option.inject prod.inject option.distinct page_consts frame_offset split: if_splits)

lemma supersection_offset:
  fixes desc address :: u32
  shows "(ucast ((desc AND push_bit 24 (mask (32 - 24))) OR (address AND mask 24)) OR push_bit 32 a OR push_bit 36 b)
    AND (mask 24 :: u64) = ucast address AND mask 24"
  by (rule bit_word_eqI)
     (auto simp: bit_and_iff bit_or_iff bit_unsigned_iff bit_push_bit_iff bit_mask_iff dest: bit_imp_le_length)

lemma v6_section_offset:
  "v6_section desc address = (phys, sz, r) \<Longrightarrow> same_offset address sz phys"
  unfolding v6_section_def same_offset_def Let_def
  by (auto simp only: prod.inject prod.case page_consts frame_offset supersection_offset split: if_splits)

lemma v5_finish_ok:
  assumes "v5_finish env mmu_idx ty level domain dp (phys, ap, sz) = Some (Walk_Ok pa prot sz' ns)"
  shows "pa = ucast phys \<and> sz' = sz \<and> prot AND access_bit ty \<noteq> 0"
  using assms by (auto simp: v5_finish_def Let_def split: if_splits)

lemma v6_finish_ok:
  assumes "v6_finish env mmu_idx ty level domain dp (phys, sz, r) = Some (Walk_Ok pa prot sz' ns)"
  shows "pa = phys \<and> sz' = sz \<and> prot AND access_bit ty \<noteq> 0"
proof -
  have "(7 :: u32) AND access_bit ty \<noteq> 0" by (cases ty) simp_all
  then show ?thesis
    using assms
    by (cases r) (auto simp: v6_finish_def Let_def split: if_splits option.splits prod.splits)
qed

lemma with_desc_ok:
  "with_desc r l d f = Some (Walk_Ok a b c e) \<longleftrightarrow> (\<exists>x. r = Some (Inr x) \<and> f x = Some (Walk_Ok a b c e))"
  by (auto simp: with_desc_def split: option.splits sum.splits)

lemma v5_finish_section_ok:
  "v5_finish env mmu_idx ty level domain dp
      ((desc AND 0xfff00000) OR (address AND 0x000fffff), ap, 1024 * 1024) = Some (Walk_Ok pa prot sz ns) \<Longrightarrow>
     same_offset address sz pa \<and> prot AND access_bit ty \<noteq> 0"
  using v5_section_offset [of address desc] by (auto dest: v5_finish_ok)

lemma v5_finish_level2_ok:
  "v5_level2 env coarse desc address = Some r \<Longrightarrow>
     v5_finish env mmu_idx ty level domain dp r = Some (Walk_Ok pa prot sz ns) \<Longrightarrow>
     same_offset address sz pa \<and> prot AND access_bit ty \<noteq> 0"
  by (cases r) (auto dest: v5_level2_offset v5_finish_ok)

lemma get_phys_addr_v5_ok:
  assumes "get_phys_addr_v5 lpae mem env address ty mmu_idx = Some (Walk_Ok phys prot sz ns)"
  shows "same_offset address sz phys \<and> prot AND access_bit ty \<noteq> 0"
proof -
  from assms obtain table where t: "get_level1_table_address env mmu_idx address = Some (Some table)"
    by (cases "get_level1_table_address env mmu_idx address"; cases "the (get_level1_table_address env mmu_idx address)")
       (auto simp: get_phys_addr_v5_def)
  note w = assms [unfolded get_phys_addr_v5_def t option.case with_desc_ok Let_def]
  then obtain desc where d: "arm_ldl_ptw lpae mem env mmu_idx table = Some (Inr desc)" by blast
  then obtain dp where dp: "walk_dacr env mmu_idx (unat (drop_bit 5 desc AND 0x0f)) = Some dp"
    using w by (cases "walk_dacr env mmu_idx (unat (drop_bit 5 desc AND 0x0f))") auto
  show ?thesis
  proof (cases "desc AND 3 = 2")
    case True
    with w d dp show ?thesis by (auto dest: v5_finish_section_ok [simplified] split: if_splits)
  next
    case False
    define table2 where "table2 = (if desc AND 3 = 1 then (desc AND 0xfffffc00) OR (drop_bit 10 address AND 0x3fc)
      else (desc AND 0xfffff000) OR (drop_bit 8 address AND 0xffc))"
    from w d dp False have "with_desc (arm_ldl_ptw lpae mem env mmu_idx table2) 2 (unat (drop_bit 5 desc AND 0x0f)) (\<lambda>desc2.
        case v5_level2 env (desc AND 3 = 1) desc2 address of
          None \<Rightarrow> Some (Walk_Fault ARMFault_Translation 2 (unat (drop_bit 5 desc AND 0x0f)) None)
        | Some r \<Rightarrow> v5_finish env mmu_idx ty 2 (unat (drop_bit 5 desc AND 0x0f)) dp r) = Some (Walk_Ok phys prot sz ns)"
      unfolding table2_def by (auto split: if_splits)
    then obtain desc2 where "(case v5_level2 env (desc AND 3 = 1) desc2 address of
          None \<Rightarrow> Some (Walk_Fault ARMFault_Translation 2 (unat (drop_bit 5 desc AND 0x0f)) None)
        | Some r \<Rightarrow> v5_finish env mmu_idx ty 2 (unat (drop_bit 5 desc AND 0x0f)) dp r) = Some (Walk_Ok phys prot sz ns)"
      unfolding with_desc_ok by blast
    then show ?thesis
      by (cases "v5_level2 env (desc AND 3 = 1) desc2 address") (auto dest: v5_finish_level2_ok)
  qed
qed

lemma v6_finish_section_ok:
  "v6_finish env mmu_idx ty level domain dp (v6_section desc address) = Some (Walk_Ok pa prot sz ns) \<Longrightarrow>
     same_offset address sz pa \<and> prot AND access_bit ty \<noteq> 0"
  by (cases "v6_section desc address") (auto dest: v6_section_offset v6_finish_ok)

lemma v6_finish_page_ok:
  "v6_page desc address pxn ns' = Some r \<Longrightarrow>
     v6_finish env mmu_idx ty level domain dp r = Some (Walk_Ok pa prot sz ns) \<Longrightarrow>
     same_offset address sz pa \<and> prot AND access_bit ty \<noteq> 0"
  by (cases r) (auto dest: v6_page_offset v6_finish_ok)

lemma get_phys_addr_v6_ok:
  assumes "get_phys_addr_v6 lpae mem env address ty mmu_idx = Some (Walk_Ok phys prot sz ns)"
  shows "same_offset address sz phys \<and> prot AND access_bit ty \<noteq> 0"
  using assms
  by (auto simp: get_phys_addr_v6_def with_desc_ok Let_def dest: v6_finish_section_ok v6_finish_page_ok
      split: option.splits if_splits)

section \<open>Properties\<close>

text \<open>
  C19. A short-descriptor walk that succeeds, in the ARMv5 or in the ARMv6 format and for every
  page size from 1 KiB to 16 MiB, grants the access it was made for and keeps the offset of
  the address in the page.
\<close>

theorem arm_walk_sound:
  assumes "get_phys_addr_v5 lpae mem env address ty mmu_idx = Some (Walk_Ok phys prot sz ns) \<or>
    get_phys_addr_v6 lpae mem env address ty mmu_idx = Some (Walk_Ok phys prot sz ns)"
  shows "phys AND (sz - 1) = ucast address AND (sz - 1) \<and> prot AND access_bit ty \<noteq> 0"
  using assms get_phys_addr_v5_ok get_phys_addr_v6_ok unfolding same_offset_def by blast

text \<open>
  A secure ARMv7 core with short descriptors: table at 0x4000, the first megabyte a section at
  0x30000000 that any mode may read and write.
\<close>

definition demo_arm :: arm_env where
  "demo_arm = \<lparr>feature_M = False, feature_V6 = True, feature_V6K = True, feature_V7 = True,
     feature_V8 = False, feature_XSCALE = False, feature_PXN = False, feature_EL2 = False,
     feature_EL3 = True, feature_LPAE = False, feature_PMSA = False, feature_AARCH64 = False,
     uncached_cpsr = 0x13, scr_el3 = 0, hcr_el2 = 0, sctlr_el = (\<lambda>_. 0x801005),
     tcr_el = (\<lambda>_. \<lparr>raw_tcr = 0, tcr_mask = 0, tcr_base_mask = 0xffffc000\<rparr>),
     vtcr_el2 = \<lparr>raw_tcr = 0, tcr_mask = 0, tcr_base_mask = 0\<rparr>, ttbr0_el = (\<lambda>_. 0x4000),
     ttbr1_el = (\<lambda>_. 0), vttbr_el2 = 0, dacr_ns = 1, dacr_s = 1, fcseidr_ns = 0, fcseidr_s = 0,
     mpu_ctrl = (\<lambda>_. 0), c6_region = (\<lambda>_. 0), pmsav5_insn_ap = 0, pmsav5_data_ap = 0,
     arm_cpu_index = 0, bus_error = (\<lambda>_. False)\<rparr>"

definition demo_arm_mem :: phys_mem where
  "demo_arm_mem = mem_of_words [(0x4000, 0x30000C02)]"

definition demo_walks :: arm_walks where
  "demo_walks = \<lparr>w_lpae = (\<lambda>_ _ _ _. None), w_pmsav7 = (\<lambda>_ _ _ _. None), w_pmsav8 = (\<lambda>_ _ _ _. None)\<rparr>"

lemma demo_arm_walk:
  "get_phys_addr_v6 (w_lpae demo_walks) demo_arm_mem demo_arm 0x12345 MMU_DATA_LOAD ARMMMUIdx_S1SE1 =
     Some (Walk_Ok 0x30012345 7 0x100000 False)"
  by code_simp

theorem arm_walk_sound_witness: "(0x30012345 :: u64) AND (0x100000 - 1) = 0x12345"
  using arm_walk_sound [OF disjI2 [OF demo_arm_walk]] by simp

lemma stage12_not_answered:
  assumes "mmu_idx = ARMMMUIdx_S12NSE0 \<or> mmu_idx = ARMMMUIdx_S12NSE1" and "\<not> feature_M env"
  shows "regime_translation_disabled env mmu_idx = None"
  using assms by (auto simp: regime_translation_disabled_def regime_sctlr_def)

text \<open>
  C37. On a core that is not M profile, tracing any access of the non-secure user or kernel
  regime ends the process: the tracer asks \<open>regime_translation_disabled\<close> about the combined
  stage 1 and 2 index, for which \<open>regime_el\<close> has no answer and asserts.
\<close>

theorem arm_nonsecure_trace_aborts:
  assumes "mmu_idx = ARMMMUIdx_S12NSE0 \<or> mmu_idx = ARMMMUIdx_S12NSE1" and "\<not> feature_M env"
  shows "qem_arm_get_info_addr_mem_trace cfg w mem junk addr ty mmu_idx env = Exited 134 env"
  using stage12_not_answered [OF assms]
  by (auto simp: qem_arm_get_info_addr_mem_trace_def Let_def split: option.split)

theorem arm_nonsecure_trace_aborts_witness:
  "qem_arm_get_info_addr_mem_trace default_config demo_walks demo_arm_mem 0 0x12345 MMU_DATA_LOAD ARMMMUIdx_S12NSE1 demo_arm
     = Exited 134 demo_arm"
  using arm_nonsecure_trace_aborts [of ARMMMUIdx_S12NSE1 demo_arm default_config]
  by (simp add: demo_arm_def default_config_def)

text \<open>The single-stage dispatch leaves the cache attributes alone unless it uses long descriptors.\<close>

lemma s1_attrs:
  assumes "get_phys_addr_s1 w mem env a ty mmu_idx ca = Some (r, ca')"
    and "regime_using_lpae_format env mmu_idx = Some False"
  shows "ca' = ca"
  using assms by (auto simp: get_phys_addr_s1_def Let_def split: option.splits if_splits)

text \<open>
  C38. With short descriptors the memory attributes of a page never reach the trace: every
  access that is traced is marked write-through and coherent, and the cache-inhibit flag is
  the cache enable bit of the bank of \<open>SCTLR\<close> that the processor mode selects, secure for
  privileged modes and non-secure for user mode.
\<close>

theorem arm_short_descriptor_attributes:
  assumes "mmu_idx \<noteq> ARMMMUIdx_S12NSE0" and "mmu_idx \<noteq> ARMMMUIdx_S12NSE1"
    and "regime_using_lpae_format env mmu_idx = Some False"
    and "qem_arm_get_info_addr_mem_trace cfg w mem junk addr ty mmu_idx env = Done info env'"
  shows "ai_wt info \<and> ai_coherency info \<and> (ai_mode info \<longleftrightarrow> uncached_cpsr env AND 0x1F \<noteq> 0x10) \<and>
    (ai_inhibit info \<longleftrightarrow>
      arm_cache_off (if ai_mode info then sctlr_el env 3 else sctlr_el env 1) ty)"
proof -
  have i: "stage_1_mmu_idx mmu_idx = mmu_idx" using assms(1,2) by (cases mmu_idx) auto
  from assms(4) obtain failed wr ca where g:
    "get_phys_addr w mem env junk addr ty mmu_idx \<lparr>attrs = 0, shareability = 0\<rparr> = Some (failed, wr, ca)"
    by (auto simp: qem_arm_get_info_addr_mem_trace_def split: option.splits)
  with assms(1,2) i obtain r where
    "get_phys_addr_s1 w mem env addr ty mmu_idx \<lparr>attrs = 0, shareability = 0\<rparr> = Some (r, ca)"
    by (auto simp: get_phys_addr_def)
  from s1_attrs [OF this assms(3)] assms(4) g show ?thesis
    by (auto simp: qem_arm_get_info_addr_mem_trace_def arm_trace_sctlr_def arm_privileged_def Let_def
        split: option.splits if_splits)
qed

lemma demo_arm_info:
  "run_value (qem_arm_get_info_addr_mem_trace default_config demo_walks demo_arm_mem 0 0x12345 MMU_DATA_LOAD ARMMMUIdx_S1SE1 demo_arm) =
     Some \<lparr>ai_phys = 0x30012345, ai_spill = Some 0, ai_wt = True, ai_inhibit = False, ai_coherency = True, ai_mode = True\<rparr>"
  by code_simp

theorem arm_short_descriptor_attributes_witness:
  "\<exists>info env'. qem_arm_get_info_addr_mem_trace default_config demo_walks demo_arm_mem 0 0x12345 MMU_DATA_LOAD ARMMMUIdx_S1SE1 demo_arm =
     Done info env' \<and> ai_phys info = 0x30012345 \<and> ai_wt info"
proof -
  let ?r = "qem_arm_get_info_addr_mem_trace default_config demo_walks demo_arm_mem 0 0x12345 MMU_DATA_LOAD ARMMMUIdx_S1SE1 demo_arm"
  from demo_arm_info obtain info env' where d: "?r = Done info env'" "ai_phys info = 0x30012345"
    by (cases ?r) auto
  have "regime_using_lpae_format demo_arm ARMMMUIdx_S1SE1 = Some False" by code_simp
  from arm_short_descriptor_attributes [OF _ _ this d(1)] d show ?thesis by auto
qed

text \<open>The classification of a traced access, from what the translation found.\<close>

definition arm_meta ::
    "QEM_TRACE_ACCESS_TYPE_E \<Rightarrow> QEM_TRACE_DATA_TYPE_E \<Rightarrow> QEM_TRACE_DATA_SIZE_E \<Rightarrow> bool \<Rightarrow> arm_info \<Rightarrow> trace_meta" where
  "arm_meta a d z ex info =
     access_meta a d (if ai_mode info then QEM_TRACE_PL_KERNEL else QEM_TRACE_PL_USER) Ev_Access
       QEM_TRACE_GRANULARITY_LINE z
       (if ai_coherency info then QEM_TRACE_COHERENCY_REQ else QEM_TRACE_COHERENCY_NON_REQ)
       QEM_TRACE_CACHE_LEVEL_1
       (if ai_inhibit info then QEM_TRACE_CACHE_INHIBIT_ON else QEM_TRACE_CACHE_INHIBIT_OFF)
       (if ai_wt info then QEM_TRACE_CACHE_WT_ON else QEM_TRACE_CACHE_WT_OFF)
       (if ex then QEM_TRACE_EVENT_EXCLUSIVE else QEM_TRACE_EVENT_NON_EXCLUSIVE)"

definition arm_record ::
    "arm_frame \<Rightarrow> u32 \<Rightarrow> QEM_TRACE_ACCESS_TYPE_E \<Rightarrow> QEM_TRACE_DATA_TYPE_E \<Rightarrow> nat \<Rightarrow> bool \<Rightarrow> arm_info \<Rightarrow> arm_env \<Rightarrow> out_args" where
  "arm_record fr addr a d k ex info env =
     mk_out (ucast addr) (ai_phys info) (arm_cpu_index env) (tsc_time (af_tsc fr))
       (flags_of (QEM_TRACE_GATHER_META (af_cfg fr)) (arm_meta a d (size_of_bytes (2 ^ k)) ex info))"

lemma arm_event_args_record:
  assumes "k \<le> 3"
    and "qem_arm_get_info_addr_mem_trace (af_cfg fr) (af_walks fr) (af_mem fr) (af_junk fr) addr ty mmu_idx env = Done info env'"
    and "fl = access_type_val m a OR data_type_val m d OR event_val m QEM_TRACE_EVENT_ACCESS OR
       exclusive_val m (if ex then QEM_TRACE_EVENT_EXCLUSIVE else QEM_TRACE_EVENT_NON_EXCLUSIVE)"
    and "m = QEM_TRACE_GATHER_META (af_cfg fr)"
  shows "arm_event_args fr addr ty mmu_idx (int k) fl env = Done (arm_record fr addr a d k ex info env') env'"
  using assms size_switches_agree [OF assms(1)]
  by (simp add: arm_event_args_def arm_record_def arm_meta_def arm_GET_ENV_FLAGS_def flags_of_def Let_def or_rules)

text \<open>The translation a helper makes for an access.\<close>

definition arm_translation ::
    "arm_frame \<Rightarrow> u32 \<Rightarrow> MMUAccessType \<Rightarrow> ARMMMUIdx \<Rightarrow> arm_env \<Rightarrow> (arm_info, arm_env) run" where
  "arm_translation fr addr ty mmu_idx env =
     qem_arm_get_info_addr_mem_trace (af_cfg fr) (af_walks fr) (af_mem fr) (af_junk fr) addr ty mmu_idx env"

lemma arm_datald_record:
  assumes "k \<le> 3" and "traced QEM_TRACE_DTRACE s"
    and "arm_translation fr addr MMU_DATA_LOAD mmu_idx env = Done info env'"
  shows "arm_helper_qem_datald_trace addr (int k) mmu_idx ex emit fr (s, env) =
    with_state (emit (arm_record fr addr QEM_TRACE_ACCESS_TYPE_READ QEM_TRACE_DATA_TYPE_DATA k ex info env') s) env'"
  using assms(2) unfolding arm_helper_qem_datald_trace_def arm_traced_def Let_def fst_conv snd_conv
  by (subst arm_event_args_record [OF assms(1) assms(3) [unfolded arm_translation_def] _ refl,
        where a = QEM_TRACE_ACCESS_TYPE_READ and d = QEM_TRACE_DATA_TYPE_DATA and ex = ex])
     (auto simp: or_rules)

lemma arm_datast_record:
  assumes "k \<le> 3" and "traced QEM_TRACE_DTRACE s"
    and "arm_translation fr addr MMU_DATA_STORE mmu_idx env = Done info env'"
  shows "arm_helper_qem_datast_trace addr (int k) mmu_idx ex emit fr (s, env) =
    with_state (emit (arm_record fr addr QEM_TRACE_ACCESS_TYPE_WRITE QEM_TRACE_DATA_TYPE_DATA k ex info env') s) env'"
  using assms(2) unfolding arm_helper_qem_datast_trace_def arm_traced_def Let_def fst_conv snd_conv
  by (subst arm_event_args_record [OF assms(1) assms(3) [unfolded arm_translation_def] _ refl,
        where a = QEM_TRACE_ACCESS_TYPE_WRITE and d = QEM_TRACE_DATA_TYPE_DATA and ex = ex])
     (auto simp: or_rules)

lemma arm_instld_record:
  assumes "k \<le> 3" and "traced QEM_TRACE_ITRACE s"
    and "arm_translation fr addr MMU_INST_FETCH mmu_idx env = Done info env'"
  shows "arm_helper_qem_instld_trace addr (int k) mmu_idx emit fr (s, env) =
    with_state (emit (arm_record fr addr QEM_TRACE_ACCESS_TYPE_READ QEM_TRACE_DATA_TYPE_INST k False info env') s) env'"
  using assms(2) unfolding arm_helper_qem_instld_trace_def arm_traced_def Let_def fst_conv snd_conv
  by (subst arm_event_args_record [OF assms(1) assms(3) [unfolded arm_translation_def] _ refl,
        where a = QEM_TRACE_ACCESS_TYPE_READ and d = QEM_TRACE_DATA_TYPE_INST and ex = False])
     (auto simp: or_rules)

lemma arm_untraced:
  "\<not> traced QEM_TRACE_DTRACE s \<Longrightarrow> arm_helper_qem_datald_trace addr sz mmu_idx ex emit fr (s, env) = Done () (s, env)"
  "\<not> traced QEM_TRACE_DTRACE s \<Longrightarrow> arm_helper_qem_datast_trace addr sz mmu_idx ex emit fr (s, env) = Done () (s, env)"
  "\<not> traced QEM_TRACE_ITRACE s \<Longrightarrow> arm_helper_qem_instld_trace addr sz mmu_idx emit fr (s, env) = Done () (s, env)"
  by (simp_all add: arm_helper_qem_datald_trace_def arm_helper_qem_datast_trace_def
      arm_helper_qem_instld_trace_def arm_traced_def Let_def)

text \<open>
  C20. When its own class is enabled and its own translation returns, a load, a store or an
  instruction fetch hands the back end one record: the address, the translated address, the
  core, the time stamp and the flag word of the access, with the size, the exclusive mark and
  the attributes the translation found. When its class is not enabled it does nothing.
\<close>

theorem arm_helper_records:
  assumes "k \<le> 3"
  shows "(traced QEM_TRACE_DTRACE s \<and> arm_translation fr addr MMU_DATA_LOAD mmu_idx env = Done info env' \<longrightarrow>
       arm_helper_qem_datald_trace addr (int k) mmu_idx ex emit fr (s, env) =
         with_state (emit (arm_record fr addr QEM_TRACE_ACCESS_TYPE_READ QEM_TRACE_DATA_TYPE_DATA k ex info env') s) env') \<and>
    (traced QEM_TRACE_DTRACE s \<and> arm_translation fr addr MMU_DATA_STORE mmu_idx env = Done info env' \<longrightarrow>
       arm_helper_qem_datast_trace addr (int k) mmu_idx ex emit fr (s, env) =
         with_state (emit (arm_record fr addr QEM_TRACE_ACCESS_TYPE_WRITE QEM_TRACE_DATA_TYPE_DATA k ex info env') s) env') \<and>
    (traced QEM_TRACE_ITRACE s \<and> arm_translation fr addr MMU_INST_FETCH mmu_idx env = Done info env' \<longrightarrow>
       arm_helper_qem_instld_trace addr (int k) mmu_idx emit fr (s, env) =
         with_state (emit (arm_record fr addr QEM_TRACE_ACCESS_TYPE_READ QEM_TRACE_DATA_TYPE_INST k False info env') s) env') \<and>
    (\<not> traced QEM_TRACE_DTRACE s \<longrightarrow>
       arm_helper_qem_datald_trace addr (int k) mmu_idx ex emit fr (s, env) = Done () (s, env) \<and>
       arm_helper_qem_datast_trace addr (int k) mmu_idx ex emit fr (s, env) = Done () (s, env)) \<and>
    (\<not> traced QEM_TRACE_ITRACE s \<longrightarrow>
       arm_helper_qem_instld_trace addr (int k) mmu_idx emit fr (s, env) = Done () (s, env))"
  by (simp_all add: arm_untraced arm_datald_record [OF assms, where info = info and env' = env']
      arm_datast_record [OF assms, where info = info and env' = env']
      arm_instld_record [OF assms, where info = info and env' = env'])

definition demo_arm_frame :: arm_frame where
  "demo_arm_frame = \<lparr>af_cfg = default_config, af_walks = demo_walks, af_mem = demo_arm_mem, af_junk = 0, af_tsc = (7, 0)\<rparr>"

definition demo_arm_tracer :: tracer where
  "demo_arm_tracer = \<lparr>console = [], qem_tracing_state = 1, qem_time_start = 0\<rparr>"

text \<open>A 32-bit target with only data tracing on.\<close>

theorem arm_helper_records_witness:
  "\<exists>env'. arm_helper_qem_datald_trace 0x12345 (int 2) ARMMMUIdx_S1SE1 False (\<lambda>a s. Done () (s\<lparr>qem_time_start := oa_phys_addr a\<rparr>))
     demo_arm_frame (demo_arm_tracer, demo_arm) = Done () (demo_arm_tracer\<lparr>qem_time_start := 0x30012345\<rparr>, env') \<and>
   arm_helper_qem_instld_trace 0x12345 (int 2) ARMMMUIdx_S1SE1 (\<lambda>a s. Done () (s\<lparr>qem_time_start := oa_phys_addr a\<rparr>))
     demo_arm_frame (demo_arm_tracer, demo_arm) = Done () (demo_arm_tracer, demo_arm)"
proof -
  let ?r = "arm_translation demo_arm_frame 0x12345 MMU_DATA_LOAD ARMMMUIdx_S1SE1 demo_arm"
  let ?q = "qem_arm_get_info_addr_mem_trace default_config demo_walks demo_arm_mem 0 0x12345 MMU_DATA_LOAD ARMMMUIdx_S1SE1 demo_arm"
  have "?r = ?q" by (simp add: arm_translation_def demo_arm_frame_def)
  moreover from demo_arm_info obtain info env' where "?q = Done info env'" "ai_phys info = 0x30012345"
    by (cases ?q) auto
  ultimately have d: "?r = Done info env'" "ai_phys info = 0x30012345" by simp_all
  have t: "traced QEM_TRACE_DTRACE demo_arm_tracer" "\<not> traced QEM_TRACE_ITRACE demo_arm_tracer"
    by (simp_all add: traced_def demo_arm_tracer_def)
  from arm_helper_records [of 2 demo_arm_tracer demo_arm_frame "0x12345" ARMMMUIdx_S1SE1 demo_arm info env'] d t
  show ?thesis by (auto simp: arm_record_def)
qed

end
