(* ===== verification/QEM_ARM_Translate.thy ===== *)
theory QEM_ARM_Translate
  imports QEM_Arch_ARM QEM_TCG
begin

text \<open>
  The tracing code in QEMU's translator for 32-bit ARM (\<^verbatim>\<open>target/arm/translate.c\<close>), as
  generated code: the functions that make the accesses, the exclusive accesses, the
  instructions for a byte or a word, SWP, and the opcodes of the tracer. An MMU index is the
  constructor of \<open>ARMMMUIdx\<close>; the core index of an access is its low part.
\<close>

section \<open>Code\<close>

text \<open>
  Accesses and calls have an address, a size as binary logarithm and the translation regime; a
  store has the value of its source besides, of which as many bytes as the size says are
  written. \<open>A_Cas\<close> is an atomic exchange with its new value, or a compare-and-exchange with
  the value that memory must hold too.
\<close>

datatype arm_access =
    A_Ld u32 int ARMMMUIdx | A_St u32 int ARMMMUIdx u64 | A_Cas u32 int ARMMMUIdx "u64 option" u64

datatype arm_call =
    A_Fetch u32 int ARMMMUIdx | A_Load u32 int ARMMMUIdx bool | A_Store u32 int ARMMMUIdx bool
  | A_Start u8 | A_Stop u8

record arm_tcg = "(arm_access, arm_call) tcg_log" +
  aregs :: "u32 list"
  atemps :: "nat \<Rightarrow> u32"
  t64 :: u64
  exclusive_addr :: u64
  exclusive_value :: u64
  thumb :: bool
  cf :: u32

type_synonym arm_code = "(u64, arm_tcg) code"

datatype armv = R nat | T nat

fun arm_get :: "armv \<Rightarrow> arm_tcg \<Rightarrow> u32" where
  "arm_get (R r) s = aregs s ! r"
| "arm_get (T k) s = atemps s k"

fun arm_set :: "armv \<Rightarrow> u32 \<Rightarrow> arm_tcg \<Rightarrow> arm_tcg" where
  "arm_set (R r) v s = s\<lparr>aregs := (aregs s)[r := v]\<rparr>"
| "arm_set (T k) v s = s\<lparr>atemps := (atemps s)(k := v)\<rparr>"

text \<open>Code that does not touch memory, and the loads and stores.\<close>

definition arm_do :: "(arm_tcg \<Rightarrow> arm_tcg) \<Rightarrow> arm_code" where
  "arm_do f bus s = Runs (f s)"

definition arm_qemu_ld_i32 :: "armv \<Rightarrow> armv \<Rightarrow> ARMMMUIdx \<Rightarrow> int \<Rightarrow> arm_code" where
  "arm_qemu_ld_i32 v addr index sz bus s =
     on_bus (A_Ld (arm_get addr s) sz index) (\<lambda>x. arm_set v (ucast x)) bus s"

definition arm_qemu_st :: "(arm_tcg \<Rightarrow> u64) \<Rightarrow> armv \<Rightarrow> ARMMMUIdx \<Rightarrow> int \<Rightarrow> arm_code" where
  "arm_qemu_st v addr index sz bus s = on_bus (A_St (arm_get addr s) sz index (v s)) (\<lambda>_. id) bus s"

definition arm_qemu_ld_i64 :: "armv \<Rightarrow> ARMMMUIdx \<Rightarrow> arm_code" where
  "arm_qemu_ld_i64 addr index bus s = on_bus (A_Ld (arm_get addr s) 3 index) (\<lambda>x s. s\<lparr>t64 := x\<rparr>) bus s"

text \<open>An atomic access, after which \<open>f\<close> gets the value that memory held.\<close>

definition arm_atomic ::
    "armv \<Rightarrow> ARMMMUIdx \<Rightarrow> int \<Rightarrow> (arm_tcg \<Rightarrow> u64 option) \<Rightarrow> (arm_tcg \<Rightarrow> u64) \<Rightarrow>
     (u64 \<Rightarrow> arm_tcg \<Rightarrow> arm_tcg) \<Rightarrow> arm_code" where
  "arm_atomic addr index sz expected new f bus s =
     on_bus (A_Cas (arm_get addr s) sz index (expected s) (new s)) f bus s"

section \<open>Calls of the helpers\<close>

definition arm_gen_qem_instld_trace :: "u32 \<Rightarrow> int \<Rightarrow> ARMMMUIdx \<Rightarrow> arm_code" where
  "arm_gen_qem_instld_trace cur_eip sz idx = gen_command (A_Fetch cur_eip sz idx)"

definition arm_gen_qem_datald_trace :: "armv \<Rightarrow> int \<Rightarrow> ARMMMUIdx \<Rightarrow> arm_code" where
  "arm_gen_qem_datald_trace addr sz idx bus s = gen_command (A_Load (arm_get addr s) sz idx False) bus s"

definition arm_gen_qem_datald_ex_trace :: "armv \<Rightarrow> int \<Rightarrow> ARMMMUIdx \<Rightarrow> arm_code" where
  "arm_gen_qem_datald_ex_trace addr sz idx bus s = gen_command (A_Load (arm_get addr s) sz idx True) bus s"

definition arm_gen_qem_datast_trace :: "armv \<Rightarrow> int \<Rightarrow> ARMMMUIdx \<Rightarrow> arm_code" where
  "arm_gen_qem_datast_trace addr sz idx bus s = gen_command (A_Store (arm_get addr s) sz idx False) bus s"

definition arm_gen_qem_datast_ex_trace :: "armv \<Rightarrow> int \<Rightarrow> ARMMMUIdx \<Rightarrow> arm_code" where
  "arm_gen_qem_datast_ex_trace addr sz idx bus s = gen_command (A_Store (arm_get addr s) sz idx True) bus s"

section \<open>Accesses\<close>

text \<open>The part of \<open>DisasContext\<close> the functions below use; \<open>dc_pc\<close> is the address of the next instruction.\<close>

record arm_disas =
  mmu_idx :: ARMMMUIdx
  sctlr_b :: bool
  be_data :: bool
  dc_thumb :: bool
  dc_pc :: u32
  arch_5 :: bool

definition get_mem_index :: "arm_disas \<Rightarrow> ARMMMUIdx" where
  "get_mem_index s = mmu_idx s"

text \<open>The regime of the unprivileged accesses; None where the emulator aborts.\<close>

fun user_mem_index :: "ARMMMUIdx \<Rightarrow> ARMMMUIdx option" where
  "user_mem_index ARMMMUIdx_S1E2 = Some ARMMMUIdx_S12NSE0"
| "user_mem_index ARMMMUIdx_S12NSE0 = Some ARMMMUIdx_S12NSE0"
| "user_mem_index ARMMMUIdx_S12NSE1 = Some ARMMMUIdx_S12NSE0"
| "user_mem_index ARMMMUIdx_S1E3 = Some ARMMMUIdx_S1SE0"
| "user_mem_index ARMMMUIdx_S1SE0 = Some ARMMMUIdx_S1SE0"
| "user_mem_index ARMMMUIdx_S1SE1 = Some ARMMMUIdx_S1SE0"
| "user_mem_index ARMMMUIdx_MUser = Some ARMMMUIdx_MUser"
| "user_mem_index ARMMMUIdx_MPriv = Some ARMMMUIdx_MUser"
| "user_mem_index ARMMMUIdx_MUserNegPri = Some ARMMMUIdx_MUserNegPri"
| "user_mem_index ARMMMUIdx_MPrivNegPri = Some ARMMMUIdx_MUserNegPri"
| "user_mem_index ARMMMUIdx_MSUser = Some ARMMMUIdx_MSUser"
| "user_mem_index ARMMMUIdx_MSPriv = Some ARMMMUIdx_MSUser"
| "user_mem_index ARMMMUIdx_MSUserNegPri = Some ARMMMUIdx_MSUserNegPri"
| "user_mem_index ARMMMUIdx_MSPrivNegPri = Some ARMMMUIdx_MSUserNegPri"
| "user_mem_index _ = None"

definition get_a32_user_mem_index :: "arm_disas \<Rightarrow> ARMMMUIdx option" where
  "get_a32_user_mem_index s = user_mem_index (mmu_idx s)"

text \<open>In big-endian 32-bit mode the address of a byte or half-word is changed within its word.\<close>

definition aa32_addr :: "arm_disas \<Rightarrow> u32 \<Rightarrow> int \<Rightarrow> u32" where
  "aa32_addr s a sz = (if sctlr_b s \<and> sz < 2 then a XOR (4 - push_bit (nat sz) 1) else a)"

definition gen_aa32_addr :: "arm_disas \<Rightarrow> armv \<Rightarrow> armv \<Rightarrow> int \<Rightarrow> arm_code" where
  "gen_aa32_addr s addr a32 sz = arm_do (\<lambda>st. arm_set addr (aa32_addr s (arm_get a32 st) sz) st)"

definition gen_aa32_ld_i32 :: "arm_disas \<Rightarrow> armv \<Rightarrow> armv \<Rightarrow> ARMMMUIdx \<Rightarrow> int \<Rightarrow> arm_code" where
  "gen_aa32_ld_i32 s v a32 index opc = code_list
     [gen_aa32_addr s (T 9) a32 opc,
      arm_gen_qem_datald_trace (T 9) opc (mmu_idx s),
      arm_qemu_ld_i32 v (T 9) index opc]"

definition gen_aa32_ld_nt_i32 :: "arm_disas \<Rightarrow> armv \<Rightarrow> armv \<Rightarrow> ARMMMUIdx \<Rightarrow> int \<Rightarrow> arm_code" where
  "gen_aa32_ld_nt_i32 s v a32 index opc = code_list
     [gen_aa32_addr s (T 9) a32 opc,
      arm_qemu_ld_i32 v (T 9) index opc]"

definition gen_aa32_st_i32 :: "arm_disas \<Rightarrow> armv \<Rightarrow> armv \<Rightarrow> ARMMMUIdx \<Rightarrow> int \<Rightarrow> arm_code" where
  "gen_aa32_st_i32 s v a32 index opc = code_list
     [gen_aa32_addr s (T 9) a32 opc,
      arm_gen_qem_datast_trace (T 9) opc (mmu_idx s),
      arm_qemu_st (\<lambda>st. ucast (arm_get v st)) (T 9) index opc]"

definition gen_aa32_frob64 :: "arm_disas \<Rightarrow> arm_code" where
  "gen_aa32_frob64 s = arm_do (\<lambda>st. if sctlr_b s then st\<lparr>t64 := word_rotr 32 (t64 st)\<rparr> else st)"

definition gen_aa32_ld_i64 :: "arm_disas \<Rightarrow> armv \<Rightarrow> ARMMMUIdx \<Rightarrow> arm_code" where
  "gen_aa32_ld_i64 s a32 index = code_list
     [gen_aa32_addr s (T 9) a32 3,
      arm_gen_qem_datald_trace (T 9) 3 (mmu_idx s),
      arm_qemu_ld_i64 (T 9) index,
      gen_aa32_frob64 s]"

definition gen_aa32_st_i64 :: "arm_disas \<Rightarrow> armv \<Rightarrow> ARMMMUIdx \<Rightarrow> arm_code" where
  "gen_aa32_st_i64 s a32 index = code_list
     [gen_aa32_addr s (T 9) a32 3,
      arm_gen_qem_datast_trace (T 9) 3 (mmu_idx s),
      arm_qemu_st (\<lambda>st. if sctlr_b s then word_rotr 32 (t64 st) else t64 st) (T 9) index 3]"

section \<open>Registers\<close>

definition load_reg :: "arm_disas \<Rightarrow> armv \<Rightarrow> nat \<Rightarrow> arm_code" where
  "load_reg s v reg = arm_do (\<lambda>st. arm_set v
     (if reg = 15 then dc_pc s + (if dc_thumb s then 2 else 4) else arm_get (R reg) st) st)"

definition store_reg :: "arm_disas \<Rightarrow> nat \<Rightarrow> armv \<Rightarrow> arm_code" where
  "store_reg s reg v = arm_do (\<lambda>st. arm_set (R reg)
     (if reg = 15 then arm_get v st AND (if dc_thumb s then NOT 1 else NOT 3) else arm_get v st) st)"

definition gen_bx :: "armv \<Rightarrow> arm_code" where
  "gen_bx v = arm_do (\<lambda>st. (arm_set (R 15) (arm_get v st AND NOT 1) st)\<lparr>thumb := odd (arm_get v st)\<rparr>)"

definition store_reg_from_load :: "arm_disas \<Rightarrow> nat \<Rightarrow> armv \<Rightarrow> arm_code" where
  "store_reg_from_load s reg v = (if reg = 15 \<and> arch_5 s then gen_bx v else store_reg s reg v)"

definition arm_shift_im :: "u32 \<Rightarrow> u32 \<Rightarrow> nat \<Rightarrow> nat \<Rightarrow> u32" where
  "arm_shift_im carry v shiftop shift =
     (if shiftop = 0 then (if shift \<noteq> 0 then push_bit shift v else v)
      else if shiftop = 1 then (if shift = 0 then 0 else drop_bit shift v)
      else if shiftop = 2 then signed_drop_bit (if shift = 0 then 31 else shift) v
      else if shift \<noteq> 0 then word_rotr shift v
      else drop_bit 1 v OR push_bit 31 carry)"

definition gen_add_data_offset :: "arm_disas \<Rightarrow> u32 \<Rightarrow> armv \<Rightarrow> arm_code" where
  "gen_add_data_offset s insn v =
     (if \<not> bit insn 25 then
        let val = (if bit insn 23 then insn AND 0xfff else - (insn AND 0xfff))
        in if val \<noteq> 0 then arm_do (\<lambda>st. arm_set v (arm_get v st + val) st) else no_code
      else code_list
        [load_reg s (T 8) (unat (insn AND 0xf)),
         arm_do (\<lambda>st. arm_set (T 8) (arm_shift_im (cf st) (arm_get (T 8) st)
           (unat (drop_bit 5 insn AND 3)) (unat (drop_bit 7 insn AND 0x1f))) st),
         arm_do (\<lambda>st. arm_set v (if bit insn 23 then arm_get v st + arm_get (T 8) st
           else arm_get v st - arm_get (T 8) st) st)])"

section \<open>Instructions\<close>

text \<open>
  Load and store of a byte or a word, with \<open>T 2\<close> for the address and \<open>T 1\<close> for the value: the
  code behind the test of the condition field. None is the assertion in
  \<open>get_a32_user_mem_index\<close>, which ends the emulator during translation.
\<close>

definition arm_ldst :: "arm_disas \<Rightarrow> u32 \<Rightarrow> arm_code option" where
  "arm_ldst s insn =
     (let rn = unat (drop_bit 16 insn AND 0xf); rd = unat (drop_bit 12 insn AND 0xf);
          opc = (if bit insn 22 then 0 else 2)
      in if drop_bit 24 insn AND 0xf = 7 \<and> insn AND 0xf000f0 = 0xf000f0 then Some raise_exception
         else map_option (\<lambda>i. code_list
             [load_reg s (T 2) rn,
              (if bit insn 24 then gen_add_data_offset s insn (T 2) else no_code),
              (if bit insn 20 then gen_aa32_ld_i32 s (T 1) (T 2) i opc
               else code_list [load_reg s (T 1) rd, gen_aa32_st_i32 s (T 1) (T 2) i opc]),
              (if \<not> bit insn 24 then code_list [gen_add_data_offset s insn (T 2), store_reg s rn (T 2)]
               else if bit insn 21 then store_reg s rn (T 2) else no_code),
              (if bit insn 20 then store_reg_from_load s rd (T 1) else no_code)])
           (if insn AND 0x01200000 = 0x00200000 then get_a32_user_mem_index s else Some (get_mem_index s)))"

definition gen_load_exclusive :: "arm_disas \<Rightarrow> nat \<Rightarrow> nat \<Rightarrow> armv \<Rightarrow> int \<Rightarrow> arm_code" where
  "gen_load_exclusive s rt rt2 addr sz = code_list
     [if sz = 3 then code_list
        [gen_aa32_addr s (T 7) addr sz,
         arm_gen_qem_datald_ex_trace (T 7) sz (mmu_idx s),
         arm_qemu_ld_i64 (T 7) (get_mem_index s),
         arm_do (\<lambda>st. st\<lparr>exclusive_value := t64 st\<rparr>),
         arm_do (\<lambda>st. let lo = ucast (t64 st); hi = ucast (drop_bit 32 (t64 st))
           in if be_data s then arm_set (T 1) hi (arm_set (T 3) lo st) else arm_set (T 1) lo (arm_set (T 3) hi st)),
         store_reg s rt2 (T 3)]
      else code_list
        [gen_aa32_ld_nt_i32 s (T 1) addr (get_mem_index s) sz,
         arm_gen_qem_datald_ex_trace addr sz (mmu_idx s),
         arm_do (\<lambda>st. st\<lparr>exclusive_value := ucast (arm_get (T 1) st)\<rparr>)],
      store_reg s rt (T 1),
      arm_do (\<lambda>st. st\<lparr>exclusive_addr := ucast (arm_get addr st)\<rparr>)]"

definition concat64 :: "u32 \<Rightarrow> u32 \<Rightarrow> u64" where
  "concat64 lo hi = ucast lo OR push_bit 32 (ucast hi)"

definition gen_store_exclusive :: "arm_disas \<Rightarrow> nat \<Rightarrow> nat \<Rightarrow> nat \<Rightarrow> armv \<Rightarrow> int \<Rightarrow> arm_code" where
  "gen_store_exclusive s rd rt rt2 addr sz = code_list
     [code_if (\<lambda>st. ucast (arm_get addr st) \<noteq> exclusive_addr st)
        (arm_do (\<lambda>st. arm_set (R rd) 1 st))
        (code_list
          [gen_aa32_addr s (T 7) addr sz,
           load_reg s (T 1) rt,
           (if sz = 3 then load_reg s (T 3) rt2 else no_code),
           arm_gen_qem_datast_ex_trace (T 7) sz (mmu_idx s),
           arm_atomic (T 7) (get_mem_index s) sz
             (\<lambda>st. Some (if sz = 3 then exclusive_value st else ucast (ucast (exclusive_value st) :: u32)))
             (\<lambda>st. if sz \<noteq> 3 then ucast (arm_get (T 1) st)
                else if be_data s then concat64 (arm_get (T 3) st) (arm_get (T 1) st)
                else concat64 (arm_get (T 1) st) (arm_get (T 3) st))
             (\<lambda>x st. arm_set (R rd) (if (if sz = 3 then x \<noteq> exclusive_value st
                else (ucast x :: u32) \<noteq> ucast (exclusive_value st)) then 1 else 0) st)]),
      arm_do (\<lambda>st. st\<lparr>exclusive_addr := - 1\<rparr>)]"

definition gen_swp :: "arm_disas \<Rightarrow> u32 \<Rightarrow> arm_code" where
  "gen_swp s insn =
     (let rn = unat (drop_bit 16 insn AND 0xf); rd = unat (drop_bit 12 insn AND 0xf);
          rm = unat (insn AND 0xf); opc = (if bit insn 22 then 0 else 2)
      in code_list
        [load_reg s (T 2) rn, gen_aa32_addr s (T 7) (T 2) opc, load_reg s (T 1) rm,
         arm_gen_qem_datald_ex_trace (T 7) opc (mmu_idx s),
         arm_gen_qem_datast_ex_trace (T 7) opc (mmu_idx s),
         arm_atomic (T 7) (get_mem_index s) opc (\<lambda>_. None) (\<lambda>st. ucast (arm_get (T 1) st)) (\<lambda>x. arm_set (T 1) (ucast x)),
         store_reg s rd (T 1)])"

text \<open>The opcodes of the tracer, and the translation of an instruction, with the rest of the decoder as an argument.\<close>

definition arm_custom_inst :: "u32 \<Rightarrow> arm_code option" where
  "arm_custom_inst insn =
     (if insn = QEM_TRACE_START_OP then Some (gen_command (A_Start (ttype_val QEM_TRACE_ALLTRACE)))
      else if insn = QEM_TRACE_DSTART_OP then Some (gen_command (A_Start (ttype_val QEM_TRACE_DTRACE)))
      else if insn = QEM_TRACE_ISTART_OP then Some (gen_command (A_Start (ttype_val QEM_TRACE_ITRACE)))
      else if insn = QEM_TRACE_STOP_OP then Some (gen_command (A_Stop (ttype_val QEM_TRACE_ALLTRACE)))
      else if insn = QEM_TRACE_DSTOP_OP then Some (gen_command (A_Stop (ttype_val QEM_TRACE_DTRACE)))
      else if insn = QEM_TRACE_ISTOP_OP then Some (gen_command (A_Stop (ttype_val QEM_TRACE_ITRACE)))
      else None)"

definition arm_tr_translate_insn ::
    "(arm_disas \<Rightarrow> u32 \<Rightarrow> arm_code) \<Rightarrow> bool \<Rightarrow> arm_disas \<Rightarrow> u32 \<Rightarrow> arm_code" where
  "arm_tr_translate_insn disas step_pending s insn =
     (if step_pending then raise_exception
      else code_list
        [arm_gen_qem_instld_trace (dc_pc s) 2 (mmu_idx s),
         (case arm_custom_inst insn of
            Some c \<Rightarrow> c
          | None \<Rightarrow> disas (s\<lparr>dc_pc := dc_pc s + 4\<rparr>) insn)])"

section \<open>The trace and the accesses\<close>

text \<open>
  A call describes an access: same address, size, direction and translation regime, and the mark
  \<open>ex\<close>, which tells whether the accesses are exclusive ones.
\<close>

fun arm_matches :: "bool \<Rightarrow> arm_call \<Rightarrow> arm_access \<Rightarrow> bool" where
  "arm_matches ex (A_Load a n i x) (A_Ld b m j) \<longleftrightarrow> a = b \<and> n = m \<and> i = j \<and> x = ex"
| "arm_matches ex (A_Store a n i x) (A_St b m j v) \<longleftrightarrow> a = b \<and> n = m \<and> i = j \<and> x = ex"
| "arm_matches ex (A_Store a n i x) (A_Cas b m j e v) \<longleftrightarrow> a = b \<and> n = m \<and> i = j \<and> x = ex"
| "arm_matches _ _ _ \<longleftrightarrow> False"

lemmas arm_code_defs = arm_do_def on_bus_def gen_command_def arm_qemu_ld_i32_def arm_qemu_st_def arm_qemu_ld_i64_def
  arm_atomic_def arm_gen_qem_datald_trace_def arm_gen_qem_datast_trace_def arm_gen_qem_datald_ex_trace_def
  arm_gen_qem_datast_ex_trace_def gen_aa32_addr_def gen_aa32_ld_i32_def gen_aa32_ld_nt_i32_def gen_aa32_st_i32_def
  raise_exception_def no_code_def

text \<open>The code around an access: it changes registers, but neither history.\<close>

definition quiet :: "arm_code \<Rightarrow> bool" where
  "quiet c \<longleftrightarrow> (\<forall>bus s. \<exists>t. c bus s = Runs t \<and> calls t = calls s \<and> accesses t = accesses s)"

lemma arm_set_log [simp]: "calls (arm_set v x s) = calls s" "accesses (arm_set v x s) = accesses s"
  by (cases v; simp)+

lemma quiet_do: "(\<And>s. calls (f s) = calls s \<and> accesses (f s) = accesses s) \<Longrightarrow> quiet (arm_do f)"
  by (simp add: quiet_def arm_do_def)

lemma quiet_Cons: "quiet c \<Longrightarrow> quiet (code_list cs) \<Longrightarrow> quiet (code_list (c # cs))"
  unfolding quiet_def code_list_simps by (metis emitted.simps(5))

lemma quiet_simple: "quiet (code_list [])" "quiet no_code"
  by (simp_all add: quiet_def no_code_def)

lemma quiet_regs:
  "quiet (load_reg s v r)" "quiet (store_reg s r v)" "quiet (store_reg_from_load s r v)"
  "quiet (gen_add_data_offset s insn v)"
  unfolding load_reg_def store_reg_def store_reg_from_load_def gen_bx_def gen_add_data_offset_def Let_def
  by (auto intro!: quiet_do quiet_Cons quiet_simple)

lemmas quiet_rules = quiet_regs quiet_simple quiet_Cons

text \<open>The value of a register as an operand.\<close>

definition arm_operand :: "arm_disas \<Rightarrow> nat \<Rightarrow> arm_tcg \<Rightarrow> u32" where
  "arm_operand s reg st = (if reg = 15 then dc_pc s + (if dc_thumb s then 2 else 4) else aregs st ! reg)"

lemma load_reg_run: "load_reg s v reg bus st = Runs (arm_set v (arm_operand s reg st) st)"
  by (simp add: load_reg_def arm_do_def arm_operand_def)

text \<open>The effective address of a load or store of a byte or a word.\<close>

definition arm_offset :: "arm_disas \<Rightarrow> u32 \<Rightarrow> arm_tcg \<Rightarrow> u32" where
  "arm_offset s insn st =
     (let off = (if bit insn 25
                 then arm_shift_im (cf st)
                   (arm_operand s (unat (insn AND 0xf)) st) (unat (drop_bit 5 insn AND 3)) (unat (drop_bit 7 insn AND 0x1f))
                 else insn AND 0xfff)
      in if bit insn 23 then off else - off)"

definition arm_ldst_addr :: "arm_disas \<Rightarrow> u32 \<Rightarrow> arm_tcg \<Rightarrow> u32" where
  "arm_ldst_addr s insn st =
     aa32_addr s
       (arm_operand s (unat (drop_bit 16 insn AND 0xf)) st +
        (if bit insn 24 then arm_offset s insn st else 0))
       (if bit insn 22 then 0 else 2)"

lemma add_data_offset_effect:
  "\<exists>t. gen_add_data_offset s insn (T 2) bus st = Runs t \<and> calls t = calls st \<and> accesses t = accesses st \<and>
     aregs t = aregs st \<and> atemps t 2 = atemps st 2 + arm_offset s insn st"
  unfolding gen_add_data_offset_def arm_offset_def Let_def load_reg_run arm_do_def no_code_def code_list_simps
  by (simp add: arm_operand_def; auto)

text \<open>A quiet tail does not change what has been called and accessed.\<close>

lemma quiet_tail:
  assumes "quiet (code_list cs)"
  shows "calls (after (code_list (c # cs) bus s)) = calls (after (c bus s))"
    and "accesses (after (code_list (c # cs) bus s)) = accesses (after (c bus s))"
proof -
  have "calls (after (code_list cs bus t)) = calls t \<and> accesses (after (code_list cs bus t)) = accesses t" for t
    using assms unfolding quiet_def by (metis after.simps(1))
  then show "calls (after (code_list (c # cs) bus s)) = calls (after (c bus s))"
    "accesses (after (code_list (c # cs) bus s)) = accesses (after (c bus s))"
    by (cases "c bus s"; simp)+
qed

lemma arm_access_effect:
  assumes "atemps st 2 = a"
  shows "calls (after (gen_aa32_ld_i32 s (T 1) (T 2) i opc bus st)) =
      calls st @ [A_Load (aa32_addr s a opc) opc (mmu_idx s) False]"
    and "accesses (after (gen_aa32_ld_i32 s (T 1) (T 2) i opc bus st)) =
      accesses st @ (if bus (length (accesses st)) = None then [] else [A_Ld (aa32_addr s a opc) opc i])"
    and "calls (after (code_list [load_reg s (T 1) rd, gen_aa32_st_i32 s (T 1) (T 2) i opc] bus st)) =
      calls st @ [A_Store (aa32_addr s a opc) opc (mmu_idx s) False]"
    and "accesses (after (code_list [load_reg s (T 1) rd, gen_aa32_st_i32 s (T 1) (T 2) i opc] bus st)) =
      accesses st @ (if bus (length (accesses st)) = None then [] else [A_St (aa32_addr s a opc) opc i
        (ucast (arm_operand s rd st))])"
  using assms by (simp_all add: arm_code_defs load_reg_run split: option.splits)

definition arm_ldst_illegal :: "u32 \<Rightarrow> bool" where
  "arm_ldst_illegal insn \<longleftrightarrow> drop_bit 24 insn AND 0xf = 7 \<and> insn AND 0xf000f0 = 0xf000f0"

definition arm_ldst_index :: "arm_disas \<Rightarrow> u32 \<Rightarrow> ARMMMUIdx option" where
  "arm_ldst_index s insn =
     (if insn AND 0x01200000 = 0x00200000 then get_a32_user_mem_index s else Some (get_mem_index s))"

definition arm_ldst_access :: "arm_disas \<Rightarrow> u32 \<Rightarrow> ARMMMUIdx \<Rightarrow> arm_tcg \<Rightarrow> arm_access" where
  "arm_ldst_access s insn i st =
     (let a = arm_ldst_addr s insn st; sz = (if bit insn 22 then 0 else 2)
      in if bit insn 20 then A_Ld a sz i
         else A_St a sz i (ucast (arm_operand s (unat (drop_bit 12 insn AND 0xf)) st)))"

lemma arm_ldst_result:
  assumes legal: "\<not> arm_ldst_illegal insn" and idx: "arm_ldst_index s insn = Some i"
  shows "\<exists>c. arm_ldst s insn = Some c \<and> calls_from st (c bus st) =
      [(if bit insn 20 then A_Load else A_Store) (arm_ldst_addr s insn st) (if bit insn 22 then 0 else 2) (mmu_idx s) False] \<and>
    accesses_from st (c bus st) =
      (if bus (length (accesses st)) = None then []
       else [arm_ldst_access s insn i st])"
proof -
  let ?rn = "unat (drop_bit 16 insn AND 0xf)" and ?rd = "unat (drop_bit 12 insn AND 0xf)"
  let ?opc = "if bit insn 22 then 0 else 2 :: int"
  let ?base = "arm_operand s ?rn st"
  let ?acc = "if bit insn 20 then gen_aa32_ld_i32 s (T 1) (T 2) i ?opc
    else code_list [load_reg s (T 1) ?rd, gen_aa32_st_i32 s (T 1) (T 2) i ?opc]"
  let ?tail = "[if \<not> bit insn 24 then code_list [gen_add_data_offset s insn (T 2), store_reg s ?rn (T 2)]
      else if bit insn 21 then store_reg s ?rn (T 2) else no_code,
    if bit insn 20 then store_reg_from_load s ?rd (T 1) else no_code]"
  let ?st1 = "arm_set (T 2) ?base st"
  have off: "arm_offset s insn ?st1 = arm_offset s insn st" by (simp add: arm_offset_def arm_operand_def)
  obtain u where u: "(if bit insn 24 then gen_add_data_offset s insn (T 2) else no_code) bus ?st1 = Runs u"
    "calls u = calls st" "accesses u = accesses st" "aregs u = aregs st"
    "atemps u 2 = ?base + (if bit insn 24 then arm_offset s insn st else 0)"
    using add_data_offset_effect [of s insn bus ?st1] off by (cases "bit insn 24") (auto simp: no_code_def)
  let ?c = "code_list ([load_reg s (T 2) ?rn, if bit insn 24 then gen_add_data_offset s insn (T 2) else no_code, ?acc] @ ?tail)"
  have c: "arm_ldst s insn = Some ?c"
    using legal idx unfolding arm_ldst_def Let_def arm_ldst_illegal_def arm_ldst_index_def
    by (simp only: if_False option.map append.simps)
  have run: "?c bus st = code_list (?acc # ?tail) bus u"
    using u(1) by (simp only: code_list_Runs append.simps load_reg_run)
  have tail: "quiet (code_list ?tail)" by (simp add: quiet_rules)
  have op: "arm_operand s ?rd u = arm_operand s ?rd st" by (simp add: arm_operand_def u(4))
  have "calls (after (?acc bus u)) = calls u @
      [(if bit insn 20 then A_Load else A_Store) (arm_ldst_addr s insn st) ?opc (mmu_idx s) False]"
    "accesses (after (?acc bus u)) = accesses u @ (if bus (length (accesses u)) = None then []
      else [arm_ldst_access s insn i st])"
    using arm_access_effect(1,2) [OF u(5), where s = s and i = i and opc = ?opc and bus = bus]
      arm_access_effect(3,4) [OF u(5), where s = s and i = i and opc = ?opc and bus = bus and rd = ?rd]
    unfolding arm_ldst_addr_def arm_ldst_access_def Let_def op by (cases "bit insn 20"; simp)+
  then have "calls_from st (?c bus st) =
      [(if bit insn 20 then A_Load else A_Store) (arm_ldst_addr s insn st) ?opc (mmu_idx s) False]"
    "accesses_from st (?c bus st) = (if bus (length (accesses st)) = None then []
      else [arm_ldst_access s insn i st])"
    unfolding run calls_from_def accesses_from_def quiet_tail [OF tail] by (simp_all add: u(2,3))
  with c show ?thesis by blast
qed

text \<open>
  C13. An ARM load or store of a byte or a word whose condition holds, in every addressing mode,
  makes exactly one call, without the exclusive mark and with the address the access uses,
  whatever the registers. The call comes before the
  access, so the record is made also when the access faults and is made again when the
  instruction is repeated after the fault; and it is translated in the regime of the
  processor's mode also for LDRT and STRT, which access memory as unprivileged. The trace is
  exact if and only if the access succeeds and its regime is that of the mode.
\<close>

theorem arm_ldst_traced:
  assumes "\<not> arm_ldst_illegal insn" and "arm_ldst_index s insn = Some i"
  shows "\<exists>c. arm_ldst s insn = Some c \<and>
    calls_from st (c bus st) =
      [(if bit insn 20 then A_Load else A_Store) (arm_ldst_addr s insn st) (if bit insn 22 then 0 else 2) (mmu_idx s) False] \<and>
    (exactly (arm_matches False) st (c bus st) \<longleftrightarrow> bus (length (accesses st)) \<noteq> None \<and> i = mmu_idx s)"
proof -
  obtain c where c: "arm_ldst s insn = Some c"
    "calls_from st (c bus st) =
      [(if bit insn 20 then A_Load else A_Store) (arm_ldst_addr s insn st) (if bit insn 22 then 0 else 2) (mmu_idx s) False]"
    "accesses_from st (c bus st) =
      (if bus (length (accesses st)) = None then [] else [arm_ldst_access s insn i st])"
    using arm_ldst_result [OF assms] by blast
  then show ?thesis unfolding exactly_def by (auto simp: arm_ldst_access_def)
qed

text \<open>A guest in secure state 1 with all registers 0, and an LDRT: the call names the privileged regime.\<close>

definition demo_arm_tcg :: arm_tcg where
  "demo_arm_tcg = \<lparr>accesses = [], calls = [], aregs = replicate 16 0, atemps = (\<lambda>_. 0), t64 = 0,
     exclusive_addr = - 1, exclusive_value = 0, thumb = False, cf = 0\<rparr>"

definition demo_arm_disas :: arm_disas where
  "demo_arm_disas = \<lparr>mmu_idx = ARMMMUIdx_S1SE1, sctlr_b = False, be_data = False, dc_thumb = False,
     dc_pc = 0x8004, arch_5 = True\<rparr>"

theorem arm_ldst_traced_witness:
  "\<exists>c d. arm_ldst demo_arm_disas 0xE5912004 = Some c \<and> arm_ldst demo_arm_disas 0xE4B12004 = Some d \<and>
     exactly (arm_matches False) demo_arm_tcg (c (\<lambda>_. Some 7) demo_arm_tcg) \<and>
     \<not> exactly (arm_matches False) demo_arm_tcg (d (\<lambda>_. Some 7) demo_arm_tcg)"
proof -
  have i: "\<not> arm_ldst_illegal 0xE5912004" "\<not> arm_ldst_illegal 0xE4B12004"
    "arm_ldst_index demo_arm_disas 0xE5912004 = Some ARMMMUIdx_S1SE1"
    "arm_ldst_index demo_arm_disas 0xE4B12004 = Some ARMMMUIdx_S1SE0"
    by code_simp+
  have "mmu_idx demo_arm_disas = ARMMMUIdx_S1SE1" by (simp add: demo_arm_disas_def)
  with arm_ldst_traced [OF i(1,3), of demo_arm_tcg "\<lambda>_. Some 7"] arm_ldst_traced [OF i(2,4), of demo_arm_tcg "\<lambda>_. Some 7"]
  show ?thesis by auto
qed

lemma be32_moves: "0 \<le> sz \<Longrightarrow> aa32_addr s a sz = a \<longleftrightarrow> \<not> (sctlr_b s \<and> sz < 2)"
proof -
  have "a XOR b = a \<longleftrightarrow> b = 0" for b :: u32
  proof
    assume "a XOR b = a"
    then have "a XOR (a XOR b) = 0" by simp
    then show "b = 0" by (simp only: xor.assoc [symmetric] xor_self_eq xor.left_neutral)
  qed simp
  moreover have "0 \<le> sz \<Longrightarrow> sz < 2 \<Longrightarrow> sz = 0 \<or> sz = 1" by linarith
  ultimately show "0 \<le> sz \<Longrightarrow> ?thesis" by (auto simp: aa32_addr_def)
qed

text \<open>The code of an exclusive access up to the tail that only changes registers.\<close>

lemma quiet_exclusive_tail:
  "quiet (code_list [store_reg s rt (T 1), arm_do (\<lambda>st. st\<lparr>exclusive_addr := ucast (arm_get addr st)\<rparr>)])"
  "quiet (code_list [arm_do (\<lambda>st. st\<lparr>exclusive_addr := - 1\<rparr>)])"
  by (auto intro!: quiet_rules quiet_do)

lemma load_exclusive_result:
  fixes s sz st bus
  defines "a \<equiv> aa32_addr s (atemps st 2) sz"
  shows "calls_from st (gen_load_exclusive s rt rt2 (T 2) sz bus st) =
      (if sz = 3 then [A_Load a sz (mmu_idx s) True]
       else if bus (length (accesses st)) = None then [] else [A_Load (atemps st 2) sz (mmu_idx s) True])"
    and "accesses_from st (gen_load_exclusive s rt rt2 (T 2) sz bus st) =
      (if bus (length (accesses st)) = None then [] else [A_Ld a sz (mmu_idx s)])"
  unfolding gen_load_exclusive_def calls_from_def accesses_from_def quiet_tail [OF quiet_exclusive_tail(1)] a_def
  by (auto simp: arm_code_defs store_reg_def get_mem_index_def Let_def split: option.splits)

lemma store_exclusive_result:
  fixes s sz st bus
  defines "a \<equiv> aa32_addr s (atemps st 2) sz" and "b \<equiv> ucast (atemps st 2) = exclusive_addr st"
  shows "calls_from st (gen_store_exclusive s rd rt rt2 (T 2) sz bus st) =
      (if b then [A_Store a sz (mmu_idx s) True] else [])"
    and "\<exists>e v. accesses_from st (gen_store_exclusive s rd rt rt2 (T 2) sz bus st) =
      (if \<not> b \<or> bus (length (accesses st)) = None then [] else [A_Cas a sz (mmu_idx s) (Some e) v])"
  unfolding gen_store_exclusive_def calls_from_def accesses_from_def quiet_tail [OF quiet_exclusive_tail(2)] a_def b_def
  by (auto simp: arm_code_defs load_reg_run code_if_def get_mem_index_def split: option.splits)

lemma swp_result:
  fixes s st insn
  defines "a \<equiv> aa32_addr s (arm_operand s (unat (drop_bit 16 insn AND 0xf)) st) (if bit insn 22 then 0 else 2)"
    and "sz \<equiv> (if bit insn 22 then 0 else 2)"
  shows "calls_from st (gen_swp s insn bus st) = [A_Load a sz (mmu_idx s) True, A_Store a sz (mmu_idx s) True]"
    and "accesses_from st (gen_swp s insn bus st) = (if bus (length (accesses st)) = None then []
      else [A_Cas a sz (mmu_idx s) None (ucast (arm_operand s (unat (insn AND 0xf)) st))])"
  unfolding gen_swp_def Let_def calls_from_def accesses_from_def a_def sz_def
  by (auto simp: arm_code_defs load_reg_run store_reg_def get_mem_index_def arm_operand_def split: option.splits)

text \<open>The accesses of a double word, which the instructions for two registers and the VFP use.\<close>

lemma arm_double_traced:
  "exactly (arm_matches False) st (gen_aa32_ld_i64 s (T 2) i bus st) \<longleftrightarrow>
     bus (length (accesses st)) \<noteq> None \<and> i = mmu_idx s"
  "exactly (arm_matches False) st (gen_aa32_st_i64 s (T 2) i bus st) \<longleftrightarrow>
     bus (length (accesses st)) \<noteq> None \<and> i = mmu_idx s"
  unfolding exactly_def calls_from_def accesses_from_def gen_aa32_ld_i64_def gen_aa32_st_i64_def gen_aa32_frob64_def
  by (auto simp: arm_code_defs split: option.splits)

text \<open>
  C29. The exclusive instructions; every record of theirs has the exclusive mark. A load of a
  byte, half-word or word is traced after it, with the address before the change for big-endian
  32-bit mode: exactly unless that mode is on, the access is smaller than a word and it succeeds.
  A load of a double word is traced before it, so that a fault leaves a record without an access.
  A store whose address is not the reserved one makes no access and no record; otherwise it is
  traced before the exchange, and exactly unless that faults. An exchange counts as a store
  whether or not memory holds the value it compares with: one that fails its comparison and
  writes nothing is recorded as a store. SWP and SWPB make one access, an exchange, and two
  records before it, a load and a store, at the address of the exchange.
\<close>

theorem arm_exclusive_traced:
  fixes st :: arm_tcg and s :: arm_disas and sz :: int and bus :: "nat \<Rightarrow> u64 option"
  assumes "0 \<le> sz"
  defines "a \<equiv> aa32_addr s (atemps st 2) sz" and "ok \<equiv> bus (length (accesses st)) \<noteq> None"
  shows "calls_from st (gen_load_exclusive s rt rt2 (T 2) sz bus st) =
      (if sz = 3 then [A_Load a sz (mmu_idx s) True]
       else if ok then [A_Load (atemps st 2) sz (mmu_idx s) True] else []) \<and>
    accesses_from st (gen_load_exclusive s rt rt2 (T 2) sz bus st) =
      (if ok then [A_Ld a sz (mmu_idx s)] else []) \<and>
    (exactly (arm_matches True) st (gen_load_exclusive s rt rt2 (T 2) sz bus st) \<longleftrightarrow>
      (if sz = 3 then ok else \<not> ok \<or> sz \<ge> 2 \<or> \<not> sctlr_b s)) \<and>
    calls_from st (gen_store_exclusive s rd rt rt2 (T 2) sz bus st) =
      (if ucast (atemps st 2) = exclusive_addr st then [A_Store a sz (mmu_idx s) True] else []) \<and>
    (exactly (arm_matches True) st (gen_store_exclusive s rd rt rt2 (T 2) sz bus st) \<longleftrightarrow>
      ucast (atemps st 2) \<noteq> exclusive_addr st \<or> ok) \<and>
    (\<exists>b n v. calls_from st (gen_swp s insn bus st) = [A_Load b n (mmu_idx s) True, A_Store b n (mmu_idx s) True] \<and>
      accesses_from st (gen_swp s insn bus st) = (if ok then [A_Cas b n (mmu_idx s) None v] else []))"
proof -
  obtain e v where "accesses_from st (gen_store_exclusive s rd rt rt2 (T 2) sz bus st) =
      (if ucast (atemps st 2) \<noteq> exclusive_addr st \<or> bus (length (accesses st)) = None then []
       else [A_Cas (aa32_addr s (atemps st 2) sz) sz (mmu_idx s) (Some e) v])"
    using store_exclusive_result(2) by blast
  then show ?thesis
    using be32_moves [OF assms(1), of s "atemps st 2"]
    unfolding exactly_def load_exclusive_result store_exclusive_result(1) swp_result a_def ok_def
    by (auto simp: aa32_addr_def)
qed

theorem arm_exclusive_traced_witness:
  "\<not> exactly (arm_matches True) demo_arm_tcg
      (gen_load_exclusive (demo_arm_disas\<lparr>sctlr_b := True\<rparr>) 1 0 (T 2) 0 (\<lambda>_. Some 7) demo_arm_tcg) \<and>
   exactly (arm_matches True) demo_arm_tcg
      (gen_store_exclusive (demo_arm_disas\<lparr>sctlr_b := True\<rparr>) 1 2 0 (T 2) 0 (\<lambda>_. None) demo_arm_tcg)"
  by (simp add: arm_exclusive_traced; simp add: demo_arm_tcg_def)

text \<open>The opcodes of the tracer that ARM has, and the calls they stand for.\<close>

definition arm_trace_commands :: "(u32 \<times> arm_call) list" where
  "arm_trace_commands =
     [(QEM_TRACE_START_OP, A_Start 3), (QEM_TRACE_STOP_OP, A_Stop 3),
      (QEM_TRACE_DSTART_OP, A_Start 1), (QEM_TRACE_DSTOP_OP, A_Stop 1),
      (QEM_TRACE_ISTART_OP, A_Start 2), (QEM_TRACE_ISTOP_OP, A_Stop 2)]"

text \<open>
  C24. In ARM state the fetch of every instruction is traced before anything else, as a word at
  its address in the regime of the mode. Each of the six opcodes of the tracer then makes the call
  it stands for and changes nothing else, and no other opcode is taken for one of them: those run
  the code of the ordinary decoder after the fetch, with the program counter moved on.
\<close>

theorem arm_commands_decoded:
  "arm_tr_translate_insn disas False s opc bus st =
     (let st = st\<lparr>calls := calls st @ [A_Fetch (dc_pc s) 2 (mmu_idx s)]\<rparr>
      in case map_of arm_trace_commands opc of
        Some c \<Rightarrow> Runs (st\<lparr>calls := calls st @ [c]\<rparr>)
      | None \<Rightarrow> disas (s\<lparr>dc_pc := dc_pc s + 4\<rparr>) opc bus st)"
  by (simp add: arm_tr_translate_insn_def arm_trace_commands_def arm_custom_inst_def gen_command_def Let_def
      arm_gen_qem_instld_trace_def QEM_TRACE_START_OP_def QEM_TRACE_STOP_OP_def QEM_TRACE_DSTART_OP_def
      QEM_TRACE_DSTOP_OP_def QEM_TRACE_ISTART_OP_def QEM_TRACE_ISTOP_OP_def split: emitted.splits)

end
