(* ===== verification/Spec2Isabelle.thy ===== *)
theory Spec2Isabelle
  imports QEM_Trace_Print QEM_Trace_File QEM_SMI_Receiver QEM_Trace_SMI
    QEM_Trace_File_MT QEM_SMI_Live QEM_i386_Translate QEM_PPC_Hooks QEM_ARM_Translate
begin

text \<open>
  \<^bold>\<open>QEMTrace\<close> adds tracing of memory accesses to QEMU. The translated code of a guest
  instruction calls a helper of the guest's architecture; the helper translates the virtual
  address, collects attributes and hands one record to a back end, which prints it, writes
  it to a file or sends it to another process through shared memory. This development models
  these parts and proves what a user of the traces relies on.

  \<^bold>\<open>Parts and theories.\<close>

  \<^item> Data format (\<^verbatim>\<open>QEMTrace/qem_trace_def.h\<close>, \<^verbatim>\<open>qem_trace_config.h\<close>):
    \<^verbatim>\<open>QEM_Trace_Def\<close> has the enumerations, the packed record in the four build
    configurations, the file header and their bytes. Logging macros
    (\<^verbatim>\<open>qem_trace_logger.h\<close>): \<^verbatim>\<open>QEM_Logger\<close>.
  \<^item> Interface of the back ends (\<^verbatim>\<open>qem_trace_engine.h\<close>): the locale \<open>trace_backend\<close> of
    \<^verbatim>\<open>QEM_Backend\<close>, with the lemmas about guests and sessions that hold for each of them. It
    is interpreted on the printing, the file and the shared memory back end; \<open>quiet_backend\<close>, for
    back ends whose start and stop commands leave no entry, on the first two.
  \<^item> Printing (\<^verbatim>\<open>qem_trace_print.c\<close>): \<^verbatim>\<open>QEM_Trace_Print\<close>. Files
    (\<^verbatim>\<open>qem_trace_file.c\<close>): \<^verbatim>\<open>QEM_Trace_File\<close> over the streams of \<^verbatim>\<open>QEM_Stdio\<close>. Files with
    two buffers and writer threads (\<^verbatim>\<open>qem_trace_file_mt_buff.c\<close>): \<^verbatim>\<open>QEM_Trace_File_MT\<close>.
  \<^item> Shared Memory Interface: layout of the region and its abstract ring in \<^verbatim>\<open>QEM_SMI_Shm\<close>;
    static variables and POSIX calls in \<^verbatim>\<open>QEM_SMI_Posix\<close>; the sending side
    (\<^verbatim>\<open>qem_trace_smi_engine.c\<close>) in \<^verbatim>\<open>QEM_SMI_Engine\<close> with its proofs in
    \<^verbatim>\<open>QEM_SMI_Sender\<close>; the reading side (\<^verbatim>\<open>SMILib/src/qem_posix_smi.c\<close>) in \<^verbatim>\<open>QEM_SMI_Lib\<close>
    with its proofs in \<^verbatim>\<open>QEM_SMI_Receiver\<close>; the back end (\<^verbatim>\<open>qem_trace_smi.c\<close>) in
    \<^verbatim>\<open>QEM_Trace_SMI\<close>. \<^verbatim>\<open>QEM_SMI_Protocol\<close> runs both sides at the same time, cut into the
    steps between which the other process can run, and \<^verbatim>\<open>QEM_SMI_Live\<close> has the results.
  \<^item> Helpers: \<^verbatim>\<open>QEM_Arch\<close> has what the three architectures share. i386
    (\<^verbatim>\<open>arch/i386\<close>): \<^verbatim>\<open>QEM_Arch_i386\<close>, with QEMU's own page walk as reference. PowerPC
    (\<^verbatim>\<open>arch/ppc\<close>): \<^verbatim>\<open>QEM_Arch_PPC\<close> and \<^verbatim>\<open>QEM_PPC_Events\<close>, over the MMU models of QEMU in
    \<^verbatim>\<open>QEM_PPC_MMU\<close>. ARM (\<^verbatim>\<open>arch/arm\<close>): \<^verbatim>\<open>QEM_Arch_ARM\<close>, over \<^verbatim>\<open>QEM_ARM_MMU\<close>.
  \<^item> Hooks in QEMU's translators (\<^verbatim>\<open>Qemu/target/*/translate.c\<close> and the helpers they use), which
    decide when a helper is called and with which arguments. \<^verbatim>\<open>QEM_TCG\<close> models generated code
    by what it does when it runs, with the history of the guest's accesses and of the calls.
    \<^verbatim>\<open>QEM_i386_Translate\<close> has the stack, string and arithmetic instructions and the decoder up to
    the tracer's opcodes; \<^verbatim>\<open>QEM_PPC_Translate\<close> the integer loads and stores, multiple and string
    accesses, reservations, cache instructions and the tracer's opcodes, with the results in
    \<^verbatim>\<open>QEM_PPC_Hooks\<close>; \<^verbatim>\<open>QEM_ARM_Translate\<close> the access functions, loads and stores of bytes and
    words, exclusive accesses, SWP and the tracer's opcodes.
  \<^item> This theory has the results that span parts: the sender against the ring, the path of a
    trace from the executed instructions to the bytes of the file, and what the printing and the
    file back end record under every sequence of commands.

  \<^bold>\<open>Conventions.\<close> A C function is a function of the state of its file (a record of its
  static variables, extended by what the environment sees: console, files, log of system
  calls) and returns a \<open>run\<close>: it returns (\<open>Done\<close>), ends the process (\<open>Exited\<close>), waits for
  another process (\<open>Blocked\<close>), accesses memory out of bounds (\<open>Fault\<close>) or does not return
  (\<open>Hangs\<close>). Machine integers are words, byte buffers are lists whose accesses are checked.
  What code outside the sources answers (C library, POSIX, clock, physical memory, the
  contents of uninitialised variables) is an argument of the definitions. The build options
  are the record \<open>qem_config\<close>. A definition has the name of the function it translates, with
  the prefix of its part where several files declare the same name.

  \<^bold>\<open>What is shown.\<close>

  \<^item> Format: records read back from their bytes; with metadata the flag word determines the
    classification.
  \<^item> Back ends: a session leaves exactly the records of the enabled events, in order, in one
    file; with two buffers the file is the same in every interleaving of the emulator and its
    threads, every run of a session is bounded and none is stuck.
  \<^item> Shared memory: sending refines an abstract ring of blocks. In every interleaving of the
    sender and the reader the received bytes are a prefix of the offered ones, the copies
    made outside the mutex work on different blocks, no wake-up is lost, and the calls in
    progress end under every scheduler.
  \<^item> Helpers: the page walks of the tracer agree with those of QEMU, and each helper of an
    enabled class gives one record with the fields of its operation; where they do not, the
    exact difference is stated.
  \<^item> Hooks: for each modelled instruction the exact condition under which the calls describe
    the guest's accesses one by one. On i386 this is so except for atomic operations; PowerPC
    traces indexed forms and register 0 at wrong addresses; ARM traces before the access and in
    the regime of the processor mode. The tracer's opcodes do what they stand for.
  \<^item> Composition: a session on an i386 guest leaves a file with one record per fetch and per
    access, in the order the guest made them, with the fields of each.

  \<^bold>\<open>Fuel and bounds.\<close> \<open>send_loop\<close> and \<open>receive_loop\<close>, the loops of the sender and the reader, have
  a first argument that counts turns; the functions call them with the size of the transfer plus
  2, which is proved to be enough for a block size above 0, and running out is \<open>Hangs\<close>. \<open>run_again\<close>,
  which repeats a string instruction, is bounded by its counter plus one, which is proved to be
  enough too. The wait that repeats while it is interrupted is a partial function, and never
  ending is \<open>Hangs\<close>. The prefix loop of the i386 decoder ends at byte 15 of an instruction. The
  other loops are structural or have a termination proof. The sizes below $2^{31}$ in the hypotheses are
  those for which the 32-bit sums of the code do not wrap; $10^8$ is the number of files after
  which the name buffer overflows.

  \<^bold>\<open>Not modelled.\<close> The rest of the emulator: of QEMU the address translation that the tracer
  calls or is compared with and the translation of the instructions above are modelled; the
  other instructions make no call of a helper, or make it through the access functions that are
  modelled. The 64-bit targets, floating-point and vector accesses, Thumb, which has no hooks of
  its own, and the computation of the i386 flags are left out; the remaining decoders are
  arguments. The long-descriptor walk and the newer protection units of ARM are arguments.
  The test of the condition field of ARM instructions comes before the modelled code. The steps
  of the protocol are those of sending, flushing and receiving; \<open>qem_smi_post_server_flush\<close>,
  connecting and disconnecting are modelled only as sequential functions. The buffer of a stdio
  stream is not modelled, so results about files assume that \<open>fclose\<close> succeeds.
  The programs under \<^verbatim>\<open>Tests\<close> are inputs of the system, not parts of it.
\<close>

section \<open>A connected link, as a concrete state\<close>

text \<open>Two blocks of four bytes, as the set-up and the handshake leave them.\<close>

definition demo_link :: smi_tracer where
  "demo_link = (smi_start 2 4)\<lparr>error_code := QEM_SMI_CONNECTED, shared_buffer := Mapped,
     shared_buffer_data := (Mapped, 8), shared_buffer_size := 16, shm := fresh_region 2 4,
     local_buffer := Some [0, 0, 0, 0], connected := 1\<rparr>"

lemma demo_link_ok: "link_mem demo_link" "error_code demo_link = QEM_SMI_CONNECTED"
  "block_size demo_link = 4" "link_ok demo_link"
proof -
  show lm: "link_mem demo_link" and "error_code demo_link = QEM_SMI_CONNECTED" "block_size demo_link = 4"
    using fresh_region_ok(2) [of 2 4]
    by (simp_all add: demo_link_def smi_start_def link_mem_def buffer_of_size_def smi_config_ok_def)
  then show "link_ok demo_link"
    using link_ok_fresh [OF lm] region_fresh_empty [OF fresh_region_ok(1) fresh_region_ok(2), of 2 4]
    by (simp add: demo_link_def smi_start_def smi_config_ok_def)
qed

lemma demo_link_ring: "ring_of demo_link = \<lparr>slots = [None, None], next_slot = 0, pending = []\<rparr>"
  using region_fresh_empty [OF fresh_region_ok(1) fresh_region_ok(2), of 2 4]
  by (simp add: demo_link_def smi_start_def ring_of_def slot_list_def smi_config_ok_def upt_rec)

section \<open>The Shared Memory Interface\<close>

text \<open>
  C4. Sending on a connected link implements the abstract ring: the bytes of the caller are
  appended to the pending ones, full blocks go to the next free slot, and the call returns 0
  or waits for the reader. In particular it stays within the local buffer and the shared
  region, and its loop ends.
\<close>

theorem smi_send_refines_ring:
  assumes "link_mem s" and "error_code s = QEM_SMI_CONNECTED" and "sz \<le> length data"
    and "sz < 2 ^ 31"
  shows "ring_run (qem_smi_client_send (Some data) sz s) =
    ring_send (block_size s) (take sz data) (ring_of s)"
  using send_refines(1) [OF assms] .

theorem smi_send_refines_ring_witness:
  "ring_run (qem_smi_client_send (Some [1, 2, 3, 4, 5]) 5 demo_link) =
     Done () \<lparr>slots = [Some [1, 2, 3, 4], None], next_slot = 1, pending = [5]\<rparr>"
  using smi_send_refines_ring [OF demo_link_ok(1,2), of 5 "[1, 2, 3, 4, 5]"]
  by (simp add: demo_link_ok demo_link_ring ring_send.simps ring_push_def)

section \<open>From a guest instruction to the file\<close>

text \<open>
  The helper that a call of the generated code reaches, with the context it finds, and the
  record that an access of the guest should leave.
\<close>

fun helper_call :: "i386_ctx \<Rightarrow> x86_call \<Rightarrow> i386_access list" where
  "helper_call c (X_Fetch a n) = [I386_Fetch c a (int n)]"
| "helper_call c (X_Load a n) = [I386_Load c a (of_nat n)]"
| "helper_call c (X_Store a n) = [I386_Store c a (of_nat n)]"
| "helper_call c _ = []"

fun access_record :: "qem_config \<Rightarrow> i386_ctx \<Rightarrow> x86_access \<Rightarrow> u8 list" where
  "access_record cfg c (X_Ld a n) = record_bytes cfg
     (i386_data_args cfg (ic_mem c) (ic_env c) (ic_junk c) (ic_tsc c) QEM_TRACE_ACCESS_TYPE_READ a (of_nat n))"
| "access_record cfg c (X_St a n v) = record_bytes cfg
     (i386_data_args cfg (ic_mem c) (ic_env c) (ic_junk c) (ic_tsc c) QEM_TRACE_ACCESS_TYPE_WRITE a (of_nat n))"
| "access_record cfg c (X_Rmw a n op v) = []"

text \<open>
  The guest as the processor executes it: one step per instruction, and one per turn of a
  repeated instruction, which starts again at its first byte after every turn. A step has the
  address of the instruction, that of the next one, the context of the decoder and the
  instruction, or None for an opcode of the tracer, which makes no access. The code of a step
  starts with the call for the fetch.
\<close>

record x86_step =
  xs_pc :: u32
  xs_next :: u32
  xs_ctx :: x86_disas
  xs_insn :: "x86_insn option"

definition x86_step_code :: "(x86_tcg \<Rightarrow> u32) \<Rightarrow> (u32 \<Rightarrow> u32) \<Rightarrow> x86_step \<Rightarrow> x86_code" where
  "x86_step_code carry port st = code_list
     [gen_qem_instld_trace (xs_pc st) 0,
      (case xs_insn st of
         None \<Rightarrow> no_code
       | Some i \<Rightarrow> gen_x86 carry port (xs_ctx st) (xs_pc st) (xs_next st) i)]"

definition x86_program :: "(x86_tcg \<Rightarrow> u32) \<Rightarrow> (u32 \<Rightarrow> u32) \<Rightarrow> x86_step list \<Rightarrow> x86_code" where
  "x86_program carry port sts = code_list (map (x86_step_code carry port) sts)"

text \<open>
  What happens in the guest, up to the first access that faults: each step is the fetch of its
  instruction followed by the accesses it makes.
\<close>

datatype x86_history = H_Fetch u32 | H_Access x86_access

fun guest_history ::
    "(x86_tcg \<Rightarrow> u32) \<Rightarrow> (u32 \<Rightarrow> u32) \<Rightarrow> (nat \<Rightarrow> u32 option) \<Rightarrow> x86_step list \<Rightarrow> x86_tcg \<Rightarrow> x86_history list" where
  "guest_history carry port bus [] g = []"
| "guest_history carry port bus (st # sts) g =
     (let r = x86_step_code carry port st bus g
      in H_Fetch (xs_pc st) # map H_Access (accesses_from g r) @
         (case r of Runs g' \<Rightarrow> guest_history carry port bus sts g' | Raises g' \<Rightarrow> []))"

fun history_record :: "qem_config \<Rightarrow> i386_ctx \<Rightarrow> x86_history \<Rightarrow> u8 list" where
  "history_record cfg c (H_Fetch a) = record_bytes cfg (i386_instld_args cfg (ic_mem c) (ic_env c) (ic_tsc c) a 0)"
| "history_record cfg c (H_Access x) = access_record cfg c x"

fun history_matches :: "x86_call \<Rightarrow> x86_history \<Rightarrow> bool" where
  "history_matches c (H_Fetch a) \<longleftrightarrow> c = X_Fetch a 0"
| "history_matches c (H_Access x) \<longleftrightarrow> x86_matches c x"

definition step_traced :: "x86_step \<Rightarrow> bool" where
  "step_traced st \<longleftrightarrow> (case xs_insn st of None \<Rightarrow> True | Some i \<Rightarrow> \<not> is_atomic (xs_ctx st) i)"

lemma step_calls:
  assumes "step_traced st"
  shows "\<exists>cl. calls (after (x86_step_code carry port st bus g)) = calls g @ X_Fetch (xs_pc st) 0 # cl \<and>
    list_all2 history_matches cl (map H_Access (accesses_from g (x86_step_code carry port st bus g)))"
proof -
  define c where "c = (case xs_insn st of None \<Rightarrow> no_code
    | Some i \<Rightarrow> gen_x86 carry port (xs_ctx st) (xs_pc st) (xs_next st) i)"
  let ?g = "g\<lparr>calls := calls g @ [X_Fetch (xs_pc st) 0]\<rparr>"
  have "exact_code x86_matches c"
    using assms by (auto simp: c_def step_traced_def simp del: gen_x86.simps split: option.splits intro: exact_x86)
  then obtain cl al where r: "calls (after (c bus ?g)) = calls ?g @ cl"
    "accesses (after (c bus ?g)) = accesses ?g @ al" "list_all2 x86_matches cl al"
    unfolding exact_code_def by blast
  have run: "x86_step_code carry port st bus g = c bus ?g"
    unfolding x86_step_code_def c_def [symmetric]
    by (simp add: gen_qem_instld_trace_def gen_command_def split: emitted.split)
  from r(3) have "list_all2 history_matches cl (map H_Access al)" by (simp add: list_all2_map2)
  then show ?thesis using r(1,2) by (simp add: run accesses_from_def)
qed

lemma program_calls:
  assumes "list_all step_traced sts"
  shows "\<exists>cl. calls (after (x86_program carry port sts bus g)) = calls g @ cl \<and>
    list_all2 history_matches cl (guest_history carry port bus sts g)"
  using assms
proof (induction sts arbitrary: g)
  case Nil
  then show ?case by (simp add: x86_program_def)
next
  case (Cons st sts)
  let ?r = "x86_step_code carry port st bus g"
  obtain cl where cl: "calls (after ?r) = calls g @ X_Fetch (xs_pc st) 0 # cl"
    "list_all2 history_matches cl (map H_Access (accesses_from g ?r))"
    using step_calls [of st carry port bus g] Cons(2) by auto
  show ?case
  proof (cases ?r)
    case (Runs g')
    obtain cl' where "calls (after (x86_program carry port sts bus g')) = calls g' @ cl'"
      "list_all2 history_matches cl' (guest_history carry port bus sts g')"
      using Cons(1) [of g'] Cons(2) by auto
    then show ?thesis
      using cl Runs by (intro exI [of _ "X_Fetch (xs_pc st) 0 # cl @ cl'"])
        (simp add: x86_program_def list_all2_appendI)
  next
    case (Raises g')
    then show ?thesis
      using cl by (intro exI [of _ "X_Fetch (xs_pc st) 0 # cl"]) (simp add: x86_program_def)
  qed
qed

lemma matched_records:
  assumes "list_all2 history_matches cl hs" and "length hs \<le> length cs"
  shows "map (record_bytes cfg) (enabled_events 3 (map (i386_event cfg) (concat (map2 helper_call cs cl)))) =
      map2 (history_record cfg) cs hs"
  using assms
proof (induction arbitrary: cs rule: list_all2_induct)
  case Nil
  then show ?case by (simp add: enabled_events_def)
next
  case (Cons c cl h hs)
  then obtain k ks where k: "cs = k # ks" by (cases cs) auto
  show ?case
  proof (cases h)
    case (H_Fetch a)
    then show ?thesis using Cons k by (simp add: enabled_events_def)
  next
    case (H_Access x)
    then show ?thesis using Cons k by (cases c; cases x) (simp_all add: enabled_events_def)
  qed
qed

text \<open>
  C5. The whole path of a trace. The start opcode of the i386 guest turns the tracing of fetches
  and of data on, with files as the back end; then the guest executes any steps whose
  instructions are among the modelled ones and have no LOCK, each in its own context, with any
  memory, until the steps end or an access faults; then the stop opcode ends the session. The
  calls in the generated code reach the helpers, each with the processor and the memory it finds.
  Then the file has a header with its size, and one record for every fetch and every access, in
  the order in which the guest made them, and each record is that of the fetch or the access: its
  address and size, the direction and the translation at the time of the call.
\<close>

theorem i386_guest_to_file:
  assumes "io_reliable io" and "file_inv cfg s" and "qem_tracing_state s = 0"
    and "unat (qem_file_index s) < 10 ^ 8" and "list_all step_traced sts"
    and "length cs = length (guest_history carry port bus sts g)"
  shows "\<exists>s'. bind_run (i386_helper_qem_start_trace (file_qem_trace_enable cfg io) 3 s) (\<lambda>_ s1.
      bind_run (i386_steps cfg (file_qem_trace_output cfg io)
        (concat (map2 helper_call cs (calls_from g (x86_program carry port sts bus g)))) s1) (\<lambda>_.
      i386_helper_qem_stop_trace (file_qem_trace_disable cfg io) 3)) = Done () s' \<and>
    fs s' (trace_file_name (qem_file_index s)) =
      Some (file_header (of_nat ((1 + length cs) * sizeof_qem_trace cfg)) (of_nat (sizeof_qem_trace cfg)) 1 @
            concat (map2 (history_record cfg) cs (guest_history carry port bus sts g)))"
proof -
  let ?hs = "guest_history carry port bus sts g"
  let ?cl = "calls_from g (x86_program carry port sts bus g)"
  let ?es = "map (i386_event cfg) (concat (map2 helper_call cs ?cl))"
  have "list_all2 history_matches ?cl ?hs"
    using program_calls [OF assms(5), of carry port bus g] by (auto simp: calls_from_def)
  then have rec: "map (record_bytes cfg) (enabled_events 3 ?es) = map2 (history_record cfg) cs ?hs"
    using matched_records assms(6) by simp
  then have len: "length (enabled_events 3 ?es) = length cs"
    using assms(6) by (metis length_map length_zip min.idem)
  show ?thesis
    using file_session_result [OF assms(1-4), of 3 3 ?es]
    unfolding session_def i386_steps_events rec len i386_helper_qem_start_trace_def i386_helper_qem_stop_trace_def
    by (simp add: add_mult_distrib)
qed

text \<open>A guest that pushes a register and then stops: two fetches and a store.\<close>

theorem i386_guest_to_file_witness:
  "\<exists>s'. bind_run (i386_helper_qem_start_trace (file_qem_trace_enable default_config good_io) 3 (file_start default_config (\<lambda>_. None))) (\<lambda>_ s1.
      bind_run (i386_steps default_config (file_qem_trace_output default_config good_io)
        (concat (map2 helper_call (replicate 3 \<lparr>ic_mem = demo_i386_mem, ic_env = demo_i386, ic_junk = 0, ic_tsc = (0, 9)\<rparr>)
          [X_Fetch 0x402000 0, X_Store 0x402AB8 2, X_Fetch 0x402001 0])) s1) (\<lambda>_.
      i386_helper_qem_stop_trace (file_qem_trace_disable default_config good_io) 3)) = Done () s' \<and>
    fs s' ''qem_trace_00000000.out'' =
      Some (file_header 64 16 1 @
        concat (map (history_record default_config \<lparr>ic_mem = demo_i386_mem, ic_env = demo_i386, ic_junk = 0, ic_tsc = (0, 9)\<rparr>)
          [H_Fetch 0x402000, H_Access (X_St 0x402AB8 2 7), H_Fetch 0x402001]))"
proof -
  let ?ctx = "\<lparr>aflag = MO_32, dflag = MO_32, override = None, lock_prefix = False, addseg = False, ss32 = True,
    code32 = True, vm86 = False, repz_opt = False\<rparr>"
  let ?g = "\<lparr>accesses = [], calls = [], xregs = [7, 0, 0, 0, 0x402ABC, 0, 0, 0], xtemps = (\<lambda>_. 0), cc_op = CC_ADD MO_8,
    seg_base = (\<lambda>_. 0), df = 1, eip = 0x402000\<rparr> :: x86_tcg"
  let ?s = "file_start default_config (\<lambda>_. None)"
  let ?sts = "[\<lparr>xs_pc = 0x402000, xs_next = 0x402001, xs_ctx = ?ctx, xs_insn = Some (I_push (Reg 0))\<rparr>,
    \<lparr>xs_pc = 0x402001, xs_next = 0x402005, xs_ctx = ?ctx, xs_insn = None\<rparr>]"
  note defs = x86_step_code_def gen_qem_instld_trace_def calls_from_def accesses_from_def gen_push_v_def
    gen_lea_v_seg_def gen_op_st_v_def mo_stacksize_def mo_bytes_def x86_let_def xget_def xset_def R_ESP_def
    on_bus_def gen_command_def no_code_def gen_op_mov_reg_v_def
  have r: "calls_from ?g (x86_program (\<lambda>_. 0) (\<lambda>_. 0) ?sts (\<lambda>_. Some 0) ?g) =
      [X_Fetch 0x402000 0, X_Store 0x402AB8 2, X_Fetch 0x402001 0]"
    "guest_history (\<lambda>_. 0) (\<lambda>_. 0) (\<lambda>_. Some 0) ?sts ?g =
      [H_Fetch 0x402000, H_Access (X_St 0x402AB8 2 7), H_Fetch 0x402001]"
    by (simp_all add: x86_program_def defs)
  have s: "file_inv default_config ?s" "qem_tracing_state ?s = 0" "qem_file_index ?s = 0"
    by (rule file_inv_start, simp_all add: default_config_def file_start_def)
  have n: "trace_file_name 0 = ''qem_trace_00000000.out''"
    by (rule demo_file)
  have z: "sizeof_qem_trace default_config = 16" by code_simp
  have t: "list_all step_traced ?sts" by (simp add: step_traced_def)
  show ?thesis
    using i386_guest_to_file [OF io_reliable_good_io s(1,2) _ t, of
        "replicate 3 \<lparr>ic_mem = demo_i386_mem, ic_env = demo_i386, ic_junk = 0, ic_tsc = (0, 9)\<rparr>"
        "\<lambda>_. 0" "\<lambda>_. 0" "\<lambda>_. Some 0" ?g]
    unfolding r s(3) n z by (simp add: numeral_3_eq_3)
qed

section \<open>Any sequence of commands\<close>

text \<open>
  C21. The printing and the file back end under any sequence of start and stop commands and
  memory events, several sessions, changes of the traced classes and partial stops included. With
  the library calls succeeding and names left for the files, every sequence returns; the tracing
  state is the one the commands ask for; and what has been printed, or written to the files of the
  sessions and kept in the buffer, is what was there before followed by exactly the records of the
  events whose class was enabled when they happened, in order. The file back end ends in a
  well-formed state.
\<close>

theorem commands_recorded:
  assumes "io_reliable io" and "file_inv cfg f" and "Cmd_Start 0 \<notin> set cs"
    and "unat (qem_file_index f) + length cs \<le> 10 ^ 8"
  shows "(\<exists>p'. run_commands print_qem_trace_enable print_qem_trace_disable qem_tracing_state
        (print_qem_trace_output cfg) cs p = Done () p' \<and>
      qem_tracing_state p' = commands_state cs (qem_tracing_state p) \<and>
      console p' = console p @ concat (map (print_trace_line (QEM_TRACE_GATHER_META cfg)) (accepted cs (qem_tracing_state p)))) \<and>
    (\<exists>f'. run_commands (file_qem_trace_enable cfg io) (file_qem_trace_disable cfg io) qem_tracing_state
        (file_qem_trace_output cfg io) cs f = Done () f' \<and>
      file_inv cfg f' \<and> qem_tracing_state f' = commands_state cs (qem_tracing_state f) \<and>
      file_log cfg f' = file_log cfg f @ concat (map (record_bytes cfg) (accepted cs (qem_tracing_state f))))"
proof -
  obtain p' where p: "run_commands print_qem_trace_enable print_qem_trace_disable qem_tracing_state
      (print_qem_trace_output cfg) cs p = Done () p'"
    using print_commands_return by blast
  obtain f' where f: "run_commands (file_qem_trace_enable cfg io) (file_qem_trace_disable cfg io) qem_tracing_state
      (file_qem_trace_output cfg io) cs f = Done () f'"
    using file_commands_return [OF assms] by blast
  show ?thesis
    using p f print_quiet.commands_exact [OF TrueI assms(3) p] file_quiet.commands_exact [OF assms(2,3) f] by blast
qed

text \<open>Data tracing, then fetches too, then only fetches, then nothing.\<close>

theorem commands_recorded_witness:
  "\<exists>f'. run_commands (file_qem_trace_enable default_config good_io) (file_qem_trace_disable default_config good_io)
        qem_tracing_state (file_qem_trace_output default_config good_io)
        [Cmd_Start 1, Cmd_Event (1, snd (hd demo_events)), Cmd_Event (2, snd (hd demo_events)), Cmd_Start 3, Cmd_Stop 1,
         Cmd_Event (2, snd (hd demo_events)), Cmd_Stop 2]
        (file_start default_config (\<lambda>_. None)) = Done () f' \<and>
      file_inv default_config f' \<and> qem_tracing_state f' = 0 \<and>
      file_log default_config f' =
        record_bytes default_config (snd (hd demo_events)) @ record_bytes default_config (snd (hd demo_events))"
proof -
  let ?f = "file_start default_config (\<lambda>_. None)"
  let ?cs = "[Cmd_Start 1, Cmd_Event (1, snd (hd demo_events)), Cmd_Event (2, snd (hd demo_events)), Cmd_Start 3, Cmd_Stop 1,
    Cmd_Event (2, snd (hd demo_events)), Cmd_Stop 2]"
  have f: "file_inv default_config ?f"
    by (rule file_inv_start) (simp_all add: default_config_def)
  have s: "qem_tracing_state ?f = 0" "qem_file_index ?f = 0" "file_log default_config ?f = []"
    by (simp_all add: file_start_def file_log_def files_payload_def file_buffered_def)
  have "Cmd_Start 0 \<notin> set ?cs" "unat (qem_file_index ?f) + length ?cs \<le> 10 ^ 8" by (simp_all add: s)
  from conjunct2 [OF commands_recorded [OF io_reliable_good_io f this]] show ?thesis
    by (simp add: s del: run_commands.simps)
qed

end
